(* ===== verification/GoPrelude.thy ===== *)
theory GoPrelude
  imports Main "HOL-Library.Word" "HOL-Library.State_Monad" "HOL-Library.AList"
begin

text \<open>
  The vocabulary every other theory uses: Go's strings, maps, 32-bit counters and instants,
  and the state monad in which the controllers' calls to the outside world are written.

  \<^item> A Go \<open>string\<close> is a byte sequence, here \<open>string\<close> (a list of 8-bit characters). The
    operations of package \<open>strings\<close> are modelled on ASCII text: letters outside ASCII are
    left alone by \<open>go_ToLower\<close>, and \<open>go_TrimSpace\<close> trims the six ASCII space characters.
    The values the program applies them to (MAC addresses, UUIDs, object names, datastore
    paths, tool output) are ASCII.
  \<^item> A \<open>map[string]string\<close> is an association list; reading an absent key gives the empty
    string, as in Go, and a nil map is the empty list.
  \<^item> An \<open>int32\<close> is a \<open>32 word\<close> read with \<open>sint\<close>; \<open>+\<close> and \<open>-\<close> wrap around.
  \<^item> A \<open>time.Time\<close> is an integer number of nanoseconds, 0 being Go's zero time.
  \<^item> \<open>wp m Q s\<close> says that running the monadic action \<open>m\<close> in the state \<open>s\<close> ends in a
    result and a state satisfying \<open>Q\<close>; its equations compute it by simplification.
  \<^item> \<open>trace_ok P tr\<close> says that every event of the trace \<open>tr\<close> satisfies \<open>P\<close> together with
    the events before it: the form in which ordering properties are stated.
\<close>

named_theorems wp_simps \<open>equations that compute weakest preconditions\<close>
named_theorems go_simps \<open>definitions of the Go string and map operations\<close>

type_synonym strmap = "(string \<times> string) list"
type_synonym int32 = "32 word"
type_synonym int64 = int
type_synonym gotime = int
type_synonym duration = int

section \<open>Strings\<close>

definition lower_char :: "char \<Rightarrow> char" where
  "lower_char c = (let n = (of_char c :: nat) in if 65 \<le> n \<and> n \<le> 90 then char_of (n + 32) else c)"

definition go_ToLower :: "string \<Rightarrow> string" where
  "go_ToLower s = map lower_char s"

definition go_EqualFold :: "string \<Rightarrow> string \<Rightarrow> bool" where
  "go_EqualFold s t \<longleftrightarrow> go_ToLower s = go_ToLower t"

definition is_space :: "char \<Rightarrow> bool" where
  "is_space c \<longleftrightarrow> (let n = (of_char c :: nat) in n = 32 \<or> (9 \<le> n \<and> n \<le> 13))"

definition trim_while :: "(char \<Rightarrow> bool) \<Rightarrow> string \<Rightarrow> string" where
  "trim_while p s = rev (dropWhile p (rev (dropWhile p s)))"

definition go_TrimSpace :: "string \<Rightarrow> string" where
  "go_TrimSpace s = trim_while is_space s"

definition go_Trim :: "string \<Rightarrow> char list \<Rightarrow> string" where
  "go_Trim s cutset = trim_while (\<lambda>c. c \<in> set cutset) s"

definition go_HasPrefix :: "string \<Rightarrow> string \<Rightarrow> bool" where
  "go_HasPrefix s p \<longleftrightarrow> take (length p) s = p"

definition go_HasSuffix :: "string \<Rightarrow> string \<Rightarrow> bool" where
  "go_HasSuffix s p \<longleftrightarrow> go_HasPrefix (rev s) (rev p)"

definition go_TrimPrefix :: "string \<Rightarrow> string \<Rightarrow> string" where
  "go_TrimPrefix s p = (if go_HasPrefix s p then drop (length p) s else s)"

definition go_TrimSuffix :: "string \<Rightarrow> string \<Rightarrow> string" where
  "go_TrimSuffix s p = (if go_HasSuffix s p then take (length s - length p) s else s)"

fun go_Contains :: "string \<Rightarrow> string \<Rightarrow> bool" where
  "go_Contains [] p \<longleftrightarrow> p = []"
| "go_Contains (c # s) p \<longleftrightarrow> go_HasPrefix (c # s) p \<or> go_Contains s p"

text \<open>\<open>strings.Split(s, sep)\<close> for a one-character separator: never the empty list.\<close>

fun go_Split :: "char \<Rightarrow> string \<Rightarrow> string list" where
  "go_Split sep [] = [[]]"
| "go_Split sep (c # s) =
     (if c = sep then [] # go_Split sep s
      else case go_Split sep s of [] \<Rightarrow> [[c]] | w # ws \<Rightarrow> (c # w) # ws)"

fun go_Join :: "string list \<Rightarrow> string \<Rightarrow> string" where
  "go_Join [] sep = []"
| "go_Join [w] sep = w"
| "go_Join (w # v # ws) sep = w @ sep @ go_Join (v # ws) sep"

definition replace_char :: "char \<Rightarrow> char \<Rightarrow> string \<Rightarrow> string" where
  "replace_char a b s = map (\<lambda>c. if c = a then b else c) s"

definition is_hex :: "char \<Rightarrow> bool" where
  "is_hex c \<longleftrightarrow> (let n = (of_char c :: nat) in
     (48 \<le> n \<and> n \<le> 57) \<or> (65 \<le> n \<and> n \<le> 70) \<or> (97 \<le> n \<and> n \<le> 102))"

definition is_digit :: "char \<Rightarrow> bool" where
  "is_digit c \<longleftrightarrow> (let n = (of_char c :: nat) in 48 \<le> n \<and> n \<le> 57)"

text \<open>The \<open>%d\<close> verb of package \<open>fmt\<close>.\<close>

fun nat_str :: "nat \<Rightarrow> string" where
  "nat_str n = (if n < 10 then [char_of (48 + n)] else nat_str (n div 10) @ [char_of (48 + n mod 10)])"

declare nat_str.simps [simp del]

definition int_str :: "int \<Rightarrow> string" where
  "int_str i = (if i < 0 then ''-'' @ nat_str (nat (- i)) else nat_str (nat i))"

text \<open>The \<open>%q\<close> verb, for text without characters that need escaping.\<close>

definition quoted :: "string \<Rightarrow> string" where
  "quoted s = [CHR 0x22] @ s @ [CHR 0x22]"

section \<open>Maps\<close>

definition mget :: "strmap \<Rightarrow> string \<Rightarrow> string" where
  "mget m k = (case map_of m k of None \<Rightarrow> [] | Some v \<Rightarrow> v)"

definition mput :: "strmap \<Rightarrow> string \<Rightarrow> string \<Rightarrow> strmap" where
  "mput m k v = AList.update k v m"

definition mdel :: "strmap \<Rightarrow> string \<Rightarrow> strmap" where
  "mdel m k = AList.delete k m"

text \<open>Indexing a slice by a key while looping over it: later entries win.\<close>

definition index_by :: "('a \<Rightarrow> string) \<Rightarrow> 'a list \<Rightarrow> (string \<rightharpoonup> 'a)" where
  "index_by key xs = fold (\<lambda>x m. m(key x \<mapsto> x)) xs Map.empty"

section \<open>Counters\<close>

definition incr_if :: "bool \<Rightarrow> int32 \<Rightarrow> int32" where
  "incr_if b n = (if b then n + 1 else n)"

definition count_if :: "('a \<Rightarrow> bool) \<Rightarrow> 'a list \<Rightarrow> int32" where
  "count_if p xs = fold (\<lambda>x n. incr_if (p x) n) xs 0"

section \<open>The state of a reconciliation and its trace\<close>

text \<open>
  \<open>world\<close> is whatever lies outside the program (the API server, vCenter, OpenStack, the
  clock); its type is a parameter. \<open>trace\<close> records every call made to it, with the answer,
  oldest first. The program never reads the trace.
\<close>

record ('w, 'e) sys =
  world :: 'w
  trace :: "'e list"

definition ask :: "('w \<Rightarrow> 'r \<times> 'w) \<Rightarrow> ('r \<Rightarrow> 'e) \<Rightarrow> (('w, 'e) sys, 'r) state" where
  "ask f ev = State (\<lambda>s. case f (world s) of (r, w') \<Rightarrow> (r, \<lparr>world = w', trace = trace s @ [ev r]\<rparr>))"

definition ret :: "'a \<Rightarrow> ('s, 'a) state" where
  "ret x = State_Monad.return x"

definition wp :: "('s, 'a) state \<Rightarrow> ('a \<Rightarrow> 's \<Rightarrow> bool) \<Rightarrow> 's \<Rightarrow> bool" where
  "wp m Q s = (case run_state m s of (a, s') \<Rightarrow> Q a s')"

text \<open>
  \<open>attempt m f\<close> is the code's \<open>if err != nil { return err }\<close>: it runs \<open>m\<close> and stops at an error.
  \<open>for_each f xs\<close> runs \<open>f\<close> on the elements in turn and stops at the first error. \<open>emit\<close> logs an event
  that asks nothing of the world.
\<close>

definition attempt :: "('s, 'e + 'a) state \<Rightarrow> ('a \<Rightarrow> ('s, 'e + 'b) state) \<Rightarrow> ('s, 'e + 'b) state" where
  "attempt m f = State_Monad.bind m (\<lambda>r. case r of Inl e \<Rightarrow> ret (Inl e) | Inr x \<Rightarrow> f x)"

text \<open>\<open>handle m h f\<close> runs \<open>m\<close> and continues with \<open>h\<close> on an error and with \<open>f\<close> on a value.\<close>

definition handle :: "('s, 'e + 'a) state \<Rightarrow> ('e \<Rightarrow> ('s, 'b) state) \<Rightarrow> ('a \<Rightarrow> ('s, 'b) state) \<Rightarrow> ('s, 'b) state" where
  "handle m h f = State_Monad.bind m (\<lambda>r. case r of Inl e \<Rightarrow> h e | Inr x \<Rightarrow> f x)"

fun for_each :: "('a \<Rightarrow> ('s, 'e + unit) state) \<Rightarrow> 'a list \<Rightarrow> ('s, 'e + unit) state" where
  "for_each f [] = ret (Inr ())"
| "for_each f (x # xs) = attempt (f x) (\<lambda>_. for_each f xs)"

definition emit :: "'e \<Rightarrow> (('w, 'e) sys, unit) state" where
  "emit ev = State (\<lambda>s. ((), s\<lparr>trace := trace s @ [ev]\<rparr>))"

text \<open>
  \<open>yields m R\<close>: whatever the state and whatever the world answers, running \<open>m\<close> only appends to the trace,
  and its result and the events it appended satisfy \<open>R\<close>. This is the form in which the behaviour of the
  controllers is specified.
\<close>

definition yields :: "(('w, 'e) sys, 'a) state \<Rightarrow> ('a \<Rightarrow> 'e list \<Rightarrow> bool) \<Rightarrow> bool" where
  "yields m R \<longleftrightarrow> (\<forall>s. wp m (\<lambda>r s'. \<exists>new. trace s' = trace s @ new \<and> R r new) s)"

definition trace_ok :: "('e list \<Rightarrow> 'e \<Rightarrow> bool) \<Rightarrow> 'e list \<Rightarrow> bool" where
  "trace_ok P tr = (\<forall>i < length tr. P (take i tr) (tr ! i))"

text \<open>
  \<open>hist P tr m R\<close>: started after the history \<open>tr\<close>, every event of \<open>m\<close> satisfies \<open>P\<close> together with the
  history up to it, whatever the world answers, and the result and the whole history satisfy \<open>R\<close>.
\<close>

definition hist ::
  "('e list \<Rightarrow> 'e \<Rightarrow> bool) \<Rightarrow> 'e list \<Rightarrow> (('w, 'e) sys, 'a) state \<Rightarrow> ('a \<Rightarrow> 'e list \<Rightarrow> bool) \<Rightarrow> bool" where
  "hist P tr m R \<longleftrightarrow> yields m (\<lambda>r new. trace_ok (\<lambda>pre. P (tr @ pre)) new \<and> R r (tr @ new))"

section \<open>Lemmas on strings, maps and counters\<close>

lemma go_HasPrefix_append [simp]: "go_HasPrefix (p @ s) p"
  by (simp add: go_HasPrefix_def)

lemma go_HasPrefix_iff: "go_HasPrefix s p \<longleftrightarrow> (\<exists>t. s = p @ t)"
  unfolding go_HasPrefix_def by (metis append_take_drop_id append_eq_conv_conj)

lemma go_TrimPrefix_append [simp]: "go_TrimPrefix (p @ s) p = s"
  by (simp add: go_TrimPrefix_def)

lemma go_HasSuffix_append [simp]: "go_HasSuffix (s @ p) p"
  by (simp add: go_HasSuffix_def)

lemma go_HasSuffix_iff: "go_HasSuffix s p \<longleftrightarrow> (\<exists>t. s = t @ p)"
  unfolding go_HasSuffix_def go_HasPrefix_iff by (metis rev_append rev_rev_ident)

lemma go_TrimSuffix_append [simp]: "go_TrimSuffix (s @ p) p = s"
  by (simp add: go_TrimSuffix_def)

lemma go_Split_ne [simp]: "go_Split sep s \<noteq> []"
  by (induction s) (auto split: list.splits)

lemma go_Join_Split: "go_Join (go_Split sep s) [sep] = s"
proof (induction s)
  case (Cons c s)
  then show ?case
    by (cases "go_Split sep s"; cases "tl (go_Split sep s)") auto
qed simp

lemma mget_mput [simp]: "mget (mput m k v) k' = (if k' = k then v else mget m k')"
  by (simp add: mget_def mput_def update_conv)

lemma mget_mdel [simp]: "mget (mdel m k) k' = (if k' = k then [] else mget m k')"
  by (simp add: mget_def mdel_def delete_conv)

lemma index_by_fold:
  "fold (\<lambda>x m. m(key x \<mapsto> x)) xs m k =
     (case find (\<lambda>x. key x = k) (rev xs) of None \<Rightarrow> m k | Some x \<Rightarrow> Some x)"
proof (induction xs rule: rev_induct)
  case (snoc x xs)
  then show ?case by auto
qed simp

lemma index_by_find: "index_by key xs k = find (\<lambda>x. key x = k) (rev xs)"
  by (simp add: index_by_def index_by_fold split: option.split)

lemma index_by_Some: "index_by key xs k = Some x \<Longrightarrow> x \<in> set xs \<and> key x = k"
  by (auto simp: index_by_find find_Some_iff) (metis nth_mem length_rev set_rev)

lemma index_by_None: "index_by key xs k = None \<longleftrightarrow> k \<notin> key ` set xs"
  by (auto simp: index_by_find find_None_iff)

lemma count_if_fold: "fold (\<lambda>x n. incr_if (p x) n) xs a = a + of_nat (length (filter p xs))"
  by (induction xs arbitrary: a) (auto simp: incr_if_def)

lemma count_if_eq: "count_if p xs = of_nat (length (filter p xs))"
  by (simp add: count_if_def count_if_fold)

lemma count_if_True: "count_if (\<lambda>_. True) xs = of_nat (length xs)"
  by (simp add: count_if_eq)

lemma sint_of_nat_small: "n < 2147483648 \<Longrightarrow> sint (of_nat n :: int32) = int n"
  by (simp add: signed_of_nat signed_take_bit_int_eq_self)

section \<open>Lemmas on the monad\<close>

lemma wp_ret [wp_simps]: "wp (ret x) Q s = Q x s"
  by (simp add: wp_def ret_def)

lemma wp_return [wp_simps]: "wp (State_Monad.return x) Q s = Q x s"
  by (simp add: wp_def)

lemma wp_bind [wp_simps]: "wp (State_Monad.bind m f) Q s = wp m (\<lambda>a. wp (f a) Q) s"
  by (simp add: wp_def split: prod.split)

lemma wp_ask [wp_simps]:
  "wp (ask f ev) Q s =
     (case f (world s) of (r, w') \<Rightarrow> Q r \<lparr>world = w', trace = trace s @ [ev r]\<rparr>)"
  by (simp add: wp_def ask_def split: prod.split)

lemma wp_emit [wp_simps]: "wp (emit ev) Q s = Q () (s\<lparr>trace := trace s @ [ev]\<rparr>)"
  by (simp add: wp_def emit_def)

lemma wp_attempt [wp_simps]:
  "wp (attempt m f) Q s = wp m (\<lambda>r s'. case r of Inl e \<Rightarrow> Q (Inl e) s' | Inr x \<Rightarrow> wp (f x) Q s') s"
  by (simp add: wp_def attempt_def ret_def split: prod.split sum.split)

lemma wp_if [wp_simps]: "wp (if b then m else n) Q s = (if b then wp m Q s else wp n Q s)"
  by simp

lemma wp_mono: "wp m Q s \<Longrightarrow> (\<And>a s'. Q a s' \<Longrightarrow> R a s') \<Longrightarrow> wp m R s"
  by (auto simp: wp_def)

text \<open>A loop keeps an invariant that every iteration keeps; an error must establish the postcondition.\<close>

lemma wp_for_each:
  assumes "I [] xs s"
    and "\<And>done x todo s. xs = done @ x # todo \<Longrightarrow> I done (x # todo) s \<Longrightarrow>
       wp (f x) (\<lambda>r s'. case r of Inl e \<Rightarrow> Q (Inl e) s' | Inr _ \<Rightarrow> I (done @ [x]) todo s') s"
    and "\<And>s. I xs [] s \<Longrightarrow> Q (Inr ()) s"
  shows "wp (for_each f xs) Q s"
proof -
  have "wp (for_each f todo) Q s" if "xs = done @ todo" "I done todo s" for "done" todo s
    using that
  proof (induction todo arbitrary: "done" s)
    case Nil
    then show ?case using assms(3) by (simp add: wp_ret)
  next
    case (Cons x todo)
    then have "wp (f x) (\<lambda>r s'. case r of Inl e \<Rightarrow> Q (Inl e) s' | Inr _ \<Rightarrow> I (done @ [x]) todo s') s"
      using assms(2) by blast
    then have "wp (f x) (\<lambda>r s'. case r of Inl e \<Rightarrow> Q (Inl e) s' | Inr _ \<Rightarrow> wp (for_each f todo) Q s') s"
      by (rule wp_mono) (use Cons.IH [of "done @ [x]"] Cons.prems(1) in \<open>auto split: sum.splits\<close>)
    then show ?case by (simp add: wp_attempt)
  qed
  then show ?thesis using assms(1) by simp
qed

lemma yieldsD: "yields m R \<Longrightarrow> wp m (\<lambda>r s'. \<exists>new. trace s' = trace s @ new \<and> R r new) s"
  by (simp add: yields_def)

lemma yields_mono: "yields m Q \<Longrightarrow> (\<And>r new. Q r new \<Longrightarrow> R r new) \<Longrightarrow> yields m R"
  unfolding yields_def by (blast intro: wp_mono)

lemma yields_conj: "yields m Q \<Longrightarrow> yields m R \<Longrightarrow> yields m (\<lambda>r new. Q r new \<and> R r new)"
  unfolding yields_def wp_def by (fastforce split: prod.splits)

lemma yields_ret: "R x [] \<Longrightarrow> yields (ret x) R"
  by (simp add: yields_def wp_simps)

lemma yields_ask: "(\<And>r. R r [ev r]) \<Longrightarrow> yields (ask f ev) R"
  by (simp add: yields_def wp_simps split: prod.split)

lemma yields_emit: "R () [ev] \<Longrightarrow> yields (emit ev) R"
  by (simp add: yields_def wp_simps)

lemma yields_bind:
  fixes m :: "(('w, 'e) sys, 'a) state"
  assumes "yields m (\<lambda>a n1. yields (f a) (\<lambda>b n2. R b (n1 @ n2)))"
  shows "yields (State_Monad.bind m f) R"
proof -
  have "wp m (\<lambda>a. wp (f a) (\<lambda>r s'. \<exists>new. trace s' = trace s @ new \<and> R r new)) s" for s
  proof (rule wp_mono [OF yieldsD [OF assms, of s]], elim exE conjE)
    fix a and s' :: "('w, 'e) sys" and n1
    assume tr: "trace s' = trace s @ n1" and "yields (f a) (\<lambda>b n2. R b (n1 @ n2))"
    then have "wp (f a) (\<lambda>r t. \<exists>new. trace t = trace s' @ new \<and> R r (n1 @ new)) s'"
      by (intro yieldsD)
    then show "wp (f a) (\<lambda>r s'. \<exists>new. trace s' = trace s @ new \<and> R r new) s'"
      by (rule wp_mono) (auto simp: tr)
  qed
  then show ?thesis by (simp add: yields_def wp_bind)
qed

lemma yields_attempt:
  assumes "yields m (\<lambda>r n1. case r of Inl e \<Rightarrow> R (Inl e) n1 | Inr x \<Rightarrow> yields (f x) (\<lambda>b n2. R b (n1 @ n2)))"
  shows "yields (attempt m f) R"
  unfolding attempt_def
  by (rule yields_bind, rule yields_mono [OF assms]) (auto split: sum.splits intro: yields_ret)

lemma yields_handle:
  assumes "yields m (\<lambda>r n1. case r of Inl e \<Rightarrow> yields (h e) (\<lambda>b n2. R b (n1 @ n2))
    | Inr x \<Rightarrow> yields (f x) (\<lambda>b n2. R b (n1 @ n2)))"
  shows "yields (handle m h f) R"
  unfolding handle_def
  by (rule yields_bind, rule yields_mono [OF assms]) (auto split: sum.splits)

lemma yields_if: "(b \<Longrightarrow> yields m R) \<Longrightarrow> (\<not> b \<Longrightarrow> yields n R) \<Longrightarrow> yields (if b then m else n) R"
  by simp

text \<open>
  A loop: when every iteration satisfies \<open>did\<close> on success and \<open>safe\<close> of each event it adds, then so does
  the loop, and on success every element was dealt with. \<open>did\<close> must survive further events.
\<close>

lemma yields_for_each:
  assumes step: "\<And>x. x \<in> set xs \<Longrightarrow> yields (f x) (\<lambda>r new. list_all safe new \<and> (case r of Inl _ \<Rightarrow> True | Inr _ \<Rightarrow> did x new))"
    and mono: "\<And>x ys zs. did x ys \<Longrightarrow> did x (zs @ ys) \<and> did x (ys @ zs)"
  shows "yields (for_each f xs) (\<lambda>r new. list_all safe new \<and>
    (case r of Inl _ \<Rightarrow> True | Inr _ \<Rightarrow> list_all (\<lambda>x. did x new) xs))"
  using step
proof (induction xs)
  case Nil
  show ?case by (simp add: yields_ret)
next
  case (Cons x xs)
  have rest: "yields (for_each f xs) (\<lambda>r new. list_all safe new \<and> (case r of Inl _ \<Rightarrow> True | Inr _ \<Rightarrow> list_all (\<lambda>x. did x new) xs))"
    using Cons by simp
  have here: "yields (f x) (\<lambda>r new. list_all safe new \<and> (case r of Inl _ \<Rightarrow> True | Inr _ \<Rightarrow> did x new))"
    using Cons.prems by simp
  have ext: "yields (for_each f xs) (\<lambda>r new. list_all safe (n1 @ new) \<and>
      (case r of Inl _ \<Rightarrow> True | Inr _ \<Rightarrow> list_all (\<lambda>x. did x (n1 @ new)) (x # xs)))" if "list_all safe n1" "did x n1" for n1
    by (rule yields_mono [OF rest]) (use that mono in \<open>auto simp: list_all_iff split: sum.splits\<close>)
  show ?case
    unfolding for_each.simps
  proof (rule yields_attempt, rule yields_mono [OF here])
    fix r new
    assume "list_all safe new \<and> (case r of Inl _ \<Rightarrow> True | Inr _ \<Rightarrow> did x new)"
    then show "case r of Inl e \<Rightarrow> list_all safe new \<and> (case Inl e of Inl _ \<Rightarrow> True | Inr _ \<Rightarrow> list_all (\<lambda>x. did x new) (x # xs))
      | Inr _ \<Rightarrow> yields (for_each f xs) (\<lambda>r n2. list_all safe (new @ n2) \<and>
          (case r of Inl _ \<Rightarrow> True | Inr _ \<Rightarrow> list_all (\<lambda>x. did x (new @ n2)) (x # xs)))"
      using ext [of new] by (cases r) simp_all
  qed
qed

lemmas yields_intros = yields_ret yields_emit yields_ask yields_bind yields_attempt yields_handle

lemma wp_conj: "wp m (\<lambda>a s'. Q a s' \<and> R a s') s \<longleftrightarrow> wp m Q s \<and> wp m R s"
  by (auto simp: wp_def)

lemma trace_ok_Nil [simp]: "trace_ok P []"
  by (simp add: trace_ok_def)

lemma trace_ok_snoc [simp]: "trace_ok P (xs @ [e]) \<longleftrightarrow> trace_ok P xs \<and> P xs e"
  by (auto simp: trace_ok_def nth_append less_Suc_eq)

lemma trace_ok_append: "trace_ok P (xs @ ys) \<longleftrightarrow> trace_ok P xs \<and> trace_ok (\<lambda>pre. P (xs @ pre)) ys"
proof (induction ys rule: rev_induct)
  case (snoc y ys)
  have "trace_ok P (xs @ ys @ [y]) \<longleftrightarrow> trace_ok P (xs @ ys) \<and> P (xs @ ys) y"
    using trace_ok_snoc [of P "xs @ ys" y] by simp
  then show ?case using snoc.IH by auto
qed simp

lemma trace_ok_Cons [simp]: "trace_ok P (e # ys) \<longleftrightarrow> P [] e \<and> trace_ok (\<lambda>pre. P (e # pre)) ys"
  using trace_ok_append [of P "[e]" ys] trace_ok_snoc [of P "[]" e] by simp

lemma trace_ok_mono: "trace_ok P tr \<Longrightarrow> (\<And>pre e. P pre e \<Longrightarrow> Q pre e) \<Longrightarrow> trace_ok Q tr"
  by (auto simp: trace_ok_def)

lemma trace_ok_all: "list_all p tr \<Longrightarrow> trace_ok (\<lambda>pre. p) tr"
  by (simp add: trace_ok_def list_all_length)

lemma trace_okD: "trace_ok P (xs @ e # ys) \<Longrightarrow> P xs e"
  by (auto simp: trace_ok_def dest: spec [where x = "length xs"])

text \<open>Rules for \<open>hist\<close>: one per construct, with the history as it has grown.\<close>

lemma hist_ret: "R x tr \<Longrightarrow> hist P tr (ret x) R"
  by (simp add: hist_def yields_ret)

lemma hist_ask: "(\<And>r. P tr (ev r) \<and> R r (tr @ [ev r])) \<Longrightarrow> hist P tr (ask f ev) R"
  by (simp add: hist_def yields_ask)

lemma hist_emit: "P tr ev \<Longrightarrow> R () (tr @ [ev]) \<Longrightarrow> hist P tr (emit ev) R"
  by (simp add: hist_def yields_emit)

lemma hist_mono: "hist P tr m Q \<Longrightarrow> (\<And>r n. Q r (tr @ n) \<Longrightarrow> R r (tr @ n)) \<Longrightarrow> hist P tr m R"
  unfolding hist_def by (erule yields_mono) simp

lemma hist_weaken: "hist P tr m R \<Longrightarrow> (\<And>n e. P (tr @ n) e \<Longrightarrow> P' (tr @ n) e) \<Longrightarrow> hist P' tr m R"
  unfolding hist_def by (erule yields_mono) (auto elim: trace_ok_mono)

lemma hist_bind:
  assumes "hist P tr m (\<lambda>a tr'. hist P tr' (f a) R)"
  shows "hist P tr (State_Monad.bind m f) R"
  unfolding hist_def
  by (rule yields_bind, rule yields_mono [OF assms [unfolded hist_def]])
    (auto simp: trace_ok_append elim!: yields_mono)

lemma hist_attempt:
  assumes "hist P tr m (\<lambda>r tr'. case r of Inl e \<Rightarrow> R (Inl e) tr' | Inr x \<Rightarrow> hist P tr' (f x) R)"
  shows "hist P tr (attempt m f) R"
  unfolding attempt_def
  by (rule hist_bind, rule hist_mono [OF assms]) (auto split: sum.splits intro: hist_ret)

lemma hist_handle:
  assumes "hist P tr m (\<lambda>r tr'. case r of Inl e \<Rightarrow> hist P tr' (h e) R | Inr x \<Rightarrow> hist P tr' (f x) R)"
  shows "hist P tr (handle m h f) R"
  unfolding handle_def
  by (rule hist_bind, rule hist_mono [OF assms]) (auto split: sum.splits)

text \<open>The same with the specification of the first part given apart.\<close>

lemma hist_bind_seq:
  "hist P tr m Q \<Longrightarrow> (\<And>x n. Q x (tr @ n) \<Longrightarrow> hist P (tr @ n) (f x) R) \<Longrightarrow> hist P tr (State_Monad.bind m f) R"
  by (rule hist_bind, erule hist_mono) blast

lemma hist_attempt_seq:
  "hist P tr m Q \<Longrightarrow> (\<And>e n. Q (Inl e) (tr @ n) \<Longrightarrow> R (Inl e) (tr @ n)) \<Longrightarrow>
   (\<And>x n. Q (Inr x) (tr @ n) \<Longrightarrow> hist P (tr @ n) (f x) R) \<Longrightarrow> hist P tr (attempt m f) R"
  by (rule hist_attempt, erule hist_mono) (auto split: sum.split)

lemma hist_handle_seq:
  "hist P tr m Q \<Longrightarrow> (\<And>e n. Q (Inl e) (tr @ n) \<Longrightarrow> hist P (tr @ n) (h e) R) \<Longrightarrow>
   (\<And>x n. Q (Inr x) (tr @ n) \<Longrightarrow> hist P (tr @ n) (f x) R) \<Longrightarrow> hist P tr (handle m h f) R"
  by (rule hist_handle, erule hist_mono) (auto split: sum.split)

lemma hist_conj: "hist P tr m Q \<Longrightarrow> hist P tr m R \<Longrightarrow> hist P tr m (\<lambda>r tr'. Q r tr' \<and> R r tr')"
  unfolding hist_def by (drule (1) yields_conj) (erule yields_mono, simp)

text \<open>Events that all satisfy a predicate.\<close>

lemma hist_all:
  assumes "hist (\<lambda>t e. P t e \<and> q e) tr m R"
  shows "hist P tr m (\<lambda>r tr'. R r tr' \<and> (\<exists>n. tr' = tr @ n \<and> list_all q n))"
proof -
  have "list_all q n" if "trace_ok (\<lambda>pre e. P (tr @ pre) e \<and> q e) n" for n
    using that by (simp add: trace_ok_def list_all_length)
  then show ?thesis
    using assms unfolding hist_def by (elim yields_mono) (auto elim: trace_ok_mono)
qed

lemma hist_if: "(b \<Longrightarrow> hist P tr m R) \<Longrightarrow> (\<not> b \<Longrightarrow> hist P tr n R) \<Longrightarrow> hist P tr (if b then m else n) R"
  by simp

lemma hist_True: "hist P tr m R \<Longrightarrow> hist P tr m (\<lambda>_ _. True)"
  by (erule hist_mono) simp

lemma hist_yields:
  "yields m (\<lambda>r new. list_all p new \<and> Q r new) \<Longrightarrow> (\<And>n e. p e \<Longrightarrow> P (tr @ n) e) \<Longrightarrow>
   (\<And>r n. list_all p n \<Longrightarrow> Q r n \<Longrightarrow> R r (tr @ n)) \<Longrightarrow> hist P tr m R"
  unfolding hist_def by (erule yields_mono) (auto intro!: trace_ok_mono [OF trace_ok_all])

text \<open>
  A loop with an invariant that survives further history: it holds at every iteration.
\<close>

lemma hist_for_each:
  assumes step: "\<And>x n. x \<in> set xs \<Longrightarrow> hist P (tr @ n) (f x) (\<lambda>r tr'. True)"
  shows "hist P tr (for_each f xs) (\<lambda>r tr'. True)"
proof -
  have "hist P (tr @ n) (for_each f ys) (\<lambda>r tr'. True)" if "set ys \<subseteq> set xs" for ys n
    using that
  proof (induction ys arbitrary: n)
    case Nil
    show ?case by (simp add: hist_ret)
  next
    case (Cons y ys)
    have rest: "hist P (tr @ n @ n2) (for_each f ys) (\<lambda>r tr'. True)" for n2
      using Cons by simp
    show ?case
      unfolding for_each.simps
      by (rule hist_attempt, rule hist_mono [OF step]) (use Cons.prems rest in \<open>auto split: sum.split\<close>)
  qed
  from this [of xs "[]"] show ?thesis by simp
qed

lemmas hist_intros = hist_ret hist_emit hist_ask hist_bind hist_attempt hist_handle

end
