(* ===== verification/ApiTypes.thy ===== *)
theory ApiTypes
  imports GoPrelude
begin

text \<open>
  The data the controllers work on: the custom resources of \<open>api/v1alpha1\<close> as records with one
  field per Go field (prefixed by the struct's initials), and the objects of other API groups
  that the code reads as unstructured JSON.

  An unstructured object is represented by the values that the accessors used in the code
  return for it: \<open>NestedString\<close> with its error and found flags dropped is a string (empty when
  the path is missing or not a string), a slice of maps is a list with \<open>None\<close> for an element
  that is not a map, and \<open>nestedSpecOK\<close> records whether \<open>SetNestedField(obj, v, "spec", ...)\<close>
  succeeds (it fails when \<open>spec\<close> is present and not a map).
\<close>

section \<open>Kubernetes metadata\<close>

record ObjectReference =
  ref_APIVersion :: string
  ref_Kind :: string
  ref_Namespace :: string
  ref_Name :: string
  ref_UID :: string

record OwnerReference =
  own_APIVersion :: string
  own_Kind :: string
  own_Name :: string
  own_UID :: string

record ObjectMeta =
  om_Namespace :: string
  om_Name :: string
  om_UID :: string
  om_ResourceVersion :: string
  om_Generation :: int64
  om_Labels :: strmap
  om_Annotations :: strmap
  om_Finalizers :: "string list"
  om_OwnerReferences :: "OwnerReference list"
  om_DeletionTimestamp :: "gotime option"

definition emptyMeta :: ObjectMeta where
  "emptyMeta = \<lparr>om_Namespace = [], om_Name = [], om_UID = [], om_ResourceVersion = [], om_Generation = 0,
     om_Labels = [], om_Annotations = [], om_Finalizers = [], om_OwnerReferences = [],
     om_DeletionTimestamp = None\<rparr>"

record Condition =
  co_Type :: string
  co_Status :: string
  co_ObservedGeneration :: int64
  co_Reason :: string
  co_Message :: string
  co_LastTransitionTime :: gotime

type_synonym objkey = "string \<times> string"

section \<open>VsphereAgentPool\<close>

record LocalObjectReference =
  lor_Name :: string

record SecretReference =
  sr_Name :: string
  sr_Namespace :: string

record VspherePlacementSpec =
  vp_CredentialsSecretRef :: SecretReference
  vp_Datacenter :: string
  vp_DatastoreCluster :: string
  vp_ISODatastore :: string
  vp_ResourcePool :: string
  vp_Folder :: string
  vp_Network :: string
  vp_VMTags :: "string list"
  vp_GuestID :: string
  vp_SCSIType :: string
  vp_Firmware :: string
  vp_NetworkAdapterType :: string
  vp_DiskEagerlyScrub :: bool

record VMTemplateSpec =
  vt_NamePrefix :: string
  vt_NumCPUs :: int32
  vt_MemoryMiB :: int32
  vt_DiskGiB :: int32

record AgentBindingSpec =
  ab_Role :: string
  ab_Labels :: strmap
  ab_Approve :: "bool option"

record ISOCacheSpec =
  is_EjectAfterInstall :: bool
  is_CheckInterval :: duration
  is_RetainVersions :: int32
  is_PathPrefix :: string

abbreviation CleanupPolicyDelete :: string where "CleanupPolicyDelete \<equiv> ''Delete''"
abbreviation CleanupPolicyRetain :: string where "CleanupPolicyRetain \<equiv> ''Retain''"

record VsphereAgentPoolSpec =
  ps_HostedClusterRef :: LocalObjectReference
  ps_NodePoolRef :: LocalObjectReference
  ps_InfraEnvRef :: LocalObjectReference
  ps_ControlPlaneNamespace :: string
  ps_VSphere :: VspherePlacementSpec
  ps_Template :: VMTemplateSpec
  ps_Agent :: AgentBindingSpec
  ps_ISO :: ISOCacheSpec
  ps_CleanupPolicy :: string

record OwnedVMStatus =
  vm_Name :: string
  vm_OwnerUID :: string
  vm_Source :: string
  vm_BIOSUUID :: string
  vm_MACAddress :: string
  vm_AgentRef :: "ObjectReference option"
  vm_MachineRef :: "ObjectReference option"
  vm_Phase :: string
  vm_Reason :: string
  vm_LastTransitionTime :: gotime

definition emptyOwnedVMStatus :: OwnedVMStatus where
  "emptyOwnedVMStatus = \<lparr>vm_Name = [], vm_OwnerUID = [], vm_Source = [], vm_BIOSUUID = [], vm_MACAddress = [],
     vm_AgentRef = None, vm_MachineRef = None, vm_Phase = [], vm_Reason = [], vm_LastTransitionTime = 0\<rparr>"

record PlannedActionStatus =
  pa_Type :: string
  pa_Name :: string
  pa_Reason :: string

record ISOCacheHistoryEntry =
  ih_Path :: string
  ih_SHA256 :: string
  ih_SizeBytes :: int64
  ih_UploadedAt :: gotime

record ISOCacheStatus =
  ic_URL :: string
  ic_URLHash :: string
  ic_Path :: string
  ic_SHA256 :: string
  ic_SizeBytes :: int64
  ic_LastModified :: string
  ic_CheckedAt :: gotime
  ic_UploadedAt :: gotime
  ic_ForceRefreshToken :: string
  ic_History :: "ISOCacheHistoryEntry list"

record VsphereAgentPoolStatus =
  pst_ObservedGeneration :: int64
  pst_DesiredReplicas :: int32
  pst_AgentMachines :: int32
  pst_WaitingAgentMachines :: int32
  pst_UnreadyAgentMachines :: int32
  pst_AgentMachinesWithoutAgent :: int32
  pst_MatchingAgents :: int32
  pst_BoundAgents :: int32
  pst_AvailableAgents :: int32
  pst_OwnedVMs :: "OwnedVMStatus list"
  pst_PlannedActions :: "PlannedActionStatus list"
  pst_ISO :: ISOCacheStatus
  pst_Conditions :: "Condition list"

record VsphereAgentPool =
  pool_Meta :: ObjectMeta
  pool_Spec :: VsphereAgentPoolSpec
  pool_Status :: VsphereAgentPoolStatus

section \<open>VsphereAgent\<close>

record VsphereAgentSpec =
  vas_PoolRef :: LocalObjectReference

record ISOEjectionStatus =
  ej_VMName :: string
  ej_BIOSUUID :: string
  ej_OwnerUID :: string
  ej_Datacenter :: string
  ej_DeviceKey :: int
  ej_ISOPath :: string
  ej_StartedAt :: gotime
  ej_DisconnectStarted :: bool
  ej_QuestionID :: string

record VsphereAgentStatus =
  vast_ObservedGeneration :: int64
  vast_VM :: OwnedVMStatus
  vast_ISOEjection :: "ISOEjectionStatus option"
  vast_Conditions :: "Condition list"

record VsphereAgent =
  va_Meta :: ObjectMeta
  va_Spec :: VsphereAgentSpec
  va_Status :: VsphereAgentStatus

section \<open>OpenStackAgentPool and OpenStackAgent\<close>

record OpenStackPlacementSpec =
  op_CredentialsSecretRef :: LocalObjectReference
  op_Region :: string
  op_NetworkID :: string
  op_NetworkName :: string
  op_FlavorID :: string
  op_FlavorName :: string
  op_SubnetID :: string
  op_DHCPEnabled :: "bool option"
  op_PortSecurityEnabled :: "bool option"
  op_SecurityGroupIDs :: "string list"
  op_PortTags :: "string list"
  op_AvailabilityZone :: string
  op_APITimeoutSeconds :: int32

record OpenStackTemplateSpec =
  ot_DiskGiB :: int32
  ot_VolumeType :: string
  ot_VolumeAvailabilityZone :: string
  ot_VolumeMetadata :: strmap
  ot_DiscoveryVolumeMinGiB :: int32
  ot_DiscoveryVolumeType :: string
  ot_OSDiskBus :: string
  ot_DiscoveryDiskBus :: string
  ot_InstallationDisk :: string
  ot_OSVolumePolicy :: string

record OpenStackAgentPoolSpec =
  os_HostedClusterRef :: LocalObjectReference
  os_NodePoolRef :: LocalObjectReference
  os_InfraEnvRef :: LocalObjectReference
  os_ControlPlaneNamespace :: string
  os_OpenStack :: OpenStackPlacementSpec
  os_Template :: OpenStackTemplateSpec
  os_Agent :: AgentBindingSpec
  os_CleanupPolicy :: string
  os_DiscoveryTimeoutSeconds :: int32

record OpenStackAgentPoolStatus =
  ost_ObservedGeneration :: int64
  ost_DesiredReplicas :: int32
  ost_ReadyReplicas :: int32
  ost_Conditions :: "Condition list"

record OpenStackAgentPool =
  op_Meta :: ObjectMeta
  op_Spec :: OpenStackAgentPoolSpec
  op_Status :: OpenStackAgentPoolStatus

record OpenStackAgentSpec =
  oas_PoolRef :: LocalObjectReference
  oas_PoolUID :: string
  oas_AgentMachineRef :: ObjectReference
  oas_MachineRef :: "ObjectReference option"
  oas_Configuration :: OpenStackAgentPoolSpec
  oas_FixedIPAddress :: string

record OpenStackAgentStatus =
  oast_ObservedGeneration :: int64
  oast_Phase :: string
  oast_ScopeHash :: string
  oast_PendingCreate :: string
  oast_PortID :: string
  oast_MACAddress :: string
  oast_OSVolumeID :: string
  oast_DiscoveryVolumeID :: string
  oast_ImageID :: string
  oast_ImageCacheName :: string
  oast_ISOSHA256 :: string
  oast_ISOSizeBytes :: int64
  oast_InfraEnvUID :: string
  oast_ServerID :: string
  oast_AgentRef :: "ObjectReference option"
  oast_InstanceCreatedAt :: "gotime option"
  oast_Conditions :: "Condition list"

record OpenStackAgent =
  oa_Meta :: ObjectMeta
  oa_Spec :: OpenStackAgentSpec
  oa_Status :: OpenStackAgentStatus

section \<open>Objects of other API groups\<close>

record UCondition =
  uc_Type :: "string option"
  uc_Status :: string
  uc_Reason :: string
  uc_Message :: string

record UInterface =
  if_macAddress :: "string option"
  if_mac :: "string option"

record UDisk =
  di_path :: string
  di_serial :: string
  di_id :: string
  di_driveType :: string
  di_eligible :: bool

text \<open>An Assisted Installer \<open>Agent\<close> (a discovered host).\<close>

record AgentObj =
  ao_Meta :: ObjectMeta
  ao_APIVersion :: string
  ao_Kind :: string
  ao_nestedSpecOK :: bool
  ao_approved :: bool
  ao_role :: string
  ao_hostname :: string
  ao_installationDiskID :: string
  ao_clusterDeploymentName :: string
  ao_conditions :: "UCondition option list option"
  ao_inventoryHostname :: string
  ao_serialNumber :: string
  ao_productUUID :: string
  ao_interfaces :: "UInterface option list option"
  ao_disks :: "UDisk option list"

text \<open>
  A CAPI \<open>AgentMachine\<close>. \<open>am_matchLabels\<close> is the value of
  \<open>spec.agentLabelSelector.matchLabels\<close>: \<open>None\<close> when it is not a map of strings, in which case
  \<open>NestedStringMap\<close> reports an error.
\<close>

record AgentMachineObj =
  am_Meta :: ObjectMeta
  am_APIVersion :: string
  am_Kind :: string
  am_nestedSpecOK :: bool
  am_matchLabels :: "strmap option"
  am_agentRefName :: string
  am_providerID :: string
  am_conditions :: "UCondition option list option"

record MachineObj =
  mo_Meta :: ObjectMeta
  mo_phase :: string

record InfraEnvObj =
  ie_Meta :: ObjectMeta
  ie_conditions :: "UCondition option list"
  ie_isoDownloadURL :: string
  ie_osImageVersion :: string
  ie_rootfs :: string
  ie_initrd :: string

record ConfigMap =
  cm_Meta :: ObjectMeta
  cm_Data :: strmap

record Secret =
  se_Meta :: ObjectMeta
  se_Data :: strmap

section \<open>Planner data\<close>

record AgentInfo =
  ag_Name :: string
  ag_Bound :: bool
  ag_Deleting :: bool
  ag_MachineName :: string
  ag_Approved :: bool
  ag_SpecRole :: string
  ag_RoleLabel :: string
  ag_PoolLabel :: string
  ag_SelectionLabel :: string
  ag_Hostname :: string
  ag_InventoryHostname :: string
  ag_MAC :: string
  ag_BIOSUUID :: string

definition emptyAgentInfo :: AgentInfo where
  "emptyAgentInfo = \<lparr>ag_Name = [], ag_Bound = False, ag_Deleting = False, ag_MachineName = [], ag_Approved = False,
     ag_SpecRole = [], ag_RoleLabel = [], ag_PoolLabel = [], ag_SelectionLabel = [], ag_Hostname = [],
     ag_InventoryHostname = [], ag_MAC = [], ag_BIOSUUID = []\<rparr>"

record MachineInfo =
  mi_Name :: string
  mi_Deleting :: bool

end
