(* ===== verification/Samples.thy ===== *)
theory Samples
  imports VMIdentity
begin

text \<open>
  Concrete objects for the witnesses: a pool with the operator's defaults, one VM it created, the
  Agent that VM booted into, and the surrounding metadata. Nothing in the model depends on them.
\<close>

definition sampleMeta :: "string \<Rightarrow> ObjectMeta" where
  "sampleMeta n = emptyMeta\<lparr>om_Namespace := ''clusters'', om_Name := n, om_UID := ''uid-'' @ n,
     om_ResourceVersion := ''1''\<rparr>"

definition samplePool :: VsphereAgentPool where
  "samplePool = \<lparr>pool_Meta = sampleMeta ''pool'',
     pool_Spec = \<lparr>
       ps_HostedClusterRef = \<lparr>lor_Name = ''demo''\<rparr>,
       ps_NodePoolRef = \<lparr>lor_Name = ''np''\<rparr>,
       ps_InfraEnvRef = \<lparr>lor_Name = ''infra''\<rparr>,
       ps_ControlPlaneNamespace = ''clusters-demo'',
       ps_VSphere = \<lparr>vp_CredentialsSecretRef = \<lparr>sr_Name = ''vsphere'', sr_Namespace = []\<rparr>,
         vp_Datacenter = ''dc1'', vp_DatastoreCluster = ''dsc'', vp_ISODatastore = ''iso'',
         vp_ResourcePool = ''rp'', vp_Folder = [], vp_Network = ''net'', vp_VMTags = [],
         vp_GuestID = ''rhel9_64Guest'', vp_SCSIType = ''pvscsi'', vp_Firmware = ''efi'',
         vp_NetworkAdapterType = ''vmxnet3'', vp_DiskEagerlyScrub = False\<rparr>,
       ps_Template = \<lparr>vt_NamePrefix = [], vt_NumCPUs = 4, vt_MemoryMiB = 16384, vt_DiskGiB = 100\<rparr>,
       ps_Agent = \<lparr>ab_Role = ''worker'', ab_Labels = [(poolLabelKey, ''np'')], ab_Approve = None\<rparr>,
       ps_ISO = \<lparr>is_EjectAfterInstall = True, is_CheckInterval = 600000000000, is_RetainVersions = 2,
         is_PathPrefix = ''iso''\<rparr>,
       ps_CleanupPolicy = CleanupPolicyDelete\<rparr>,
     pool_Status = \<lparr>pst_ObservedGeneration = 0, pst_DesiredReplicas = 0, pst_AgentMachines = 0,
       pst_WaitingAgentMachines = 0, pst_UnreadyAgentMachines = 0, pst_AgentMachinesWithoutAgent = 0,
       pst_MatchingAgents = 0, pst_BoundAgents = 0, pst_AvailableAgents = 0, pst_OwnedVMs = [],
       pst_PlannedActions = [],
       pst_ISO = \<lparr>ic_URL = [], ic_URLHash = [], ic_Path = [], ic_SHA256 = [], ic_SizeBytes = 0,
         ic_LastModified = [], ic_CheckedAt = 0, ic_UploadedAt = 0, ic_ForceRefreshToken = [], ic_History = []\<rparr>,
       pst_Conditions = []\<rparr>\<rparr>"

definition sampleAgentRef :: "string \<Rightarrow> ObjectReference" where
  "sampleAgentRef n = \<lparr>ref_APIVersion = ''agent-install.openshift.io/v1beta1'', ref_Kind = ''Agent'',
     ref_Namespace = ''clusters'', ref_Name = n, ref_UID = []\<rparr>"

definition sampleVM :: "string \<Rightarrow> string \<Rightarrow> string \<Rightarrow> OwnedVMStatus" where
  "sampleVM n phase reason = emptyOwnedVMStatus\<lparr>vm_Name := n, vm_OwnerUID := ''owner'',
     vm_Source := vmSourceVsphereAgent, vm_MACAddress := ''00-01'', vm_AgentRef := Some (sampleAgentRef ''host''),
     vm_Phase := phase, vm_Reason := reason, vm_LastTransitionTime := 5\<rparr>"

definition sampleAgent :: AgentInfo where
  "sampleAgent = emptyAgentInfo\<lparr>ag_Name := ''host'', ag_Hostname := ''vm1'', ag_MAC := ''00-01''\<rparr>"

definition sampleAgentObj :: AgentObj where
  "sampleAgentObj = \<lparr>ao_Meta = sampleMeta ''host'', ao_APIVersion = agentAPIVersion, ao_Kind = ''Agent'',
     ao_nestedSpecOK = True, ao_approved = False, ao_role = [], ao_hostname = [], ao_installationDiskID = [],
     ao_clusterDeploymentName = [], ao_conditions = None, ao_inventoryHostname = ''vm1'', ao_serialNumber = [],
     ao_productUUID = [], ao_interfaces = None, ao_disks = []\<rparr>"

definition sampleAgentMachine :: AgentMachineObj where
  "sampleAgentMachine = \<lparr>am_Meta = (sampleMeta ''am'')\<lparr>om_Namespace := ''clusters-demo'', om_Annotations := [(nodePoolAnnotation, ''clusters/np'')]\<rparr>,
     am_APIVersion = [], am_Kind = ''AgentMachine'', am_nestedSpecOK = True, am_matchLabels = Some [],
     am_agentRefName = [], am_providerID = [], am_conditions = None\<rparr>"

lemmas sample_defs = samplePool_def sampleMeta_def emptyMeta_def sampleVM_def emptyOwnedVMStatus_def
  sampleAgentRef_def sampleAgent_def emptyAgentInfo_def

end
