(* ===== verification/Planner.thy ===== *)
theory Planner
  imports Samples
begin

text \<open>
  \<open>internal/controller/planner.go\<close>: the pure planner of the vSphere pool. \<open>buildPlan\<close> turns a
  \<open>PoolSnapshot\<close> and the pool's spec into a \<open>PoolPlan\<close>: how many workers are missing, which
  discovered Agents to patch, and which VMs and Agents may be deleted. Each Go function is one
  definition; \<open>time.Now()\<close> is the argument \<open>now\<close>, and Go's \<open>map[string]struct{}\<close> sets are lists.

  The lemmas describe each selection loop as a filter; the properties at the end state what the
  whole plan guarantees: deletion is confined to eligible VMs and never exceeds the surplus, the
  counts are exact as long as they fit in 31 bits, and the reported actions are the plan.
\<close>

record PoolSnapshot =
  sn_AgentMachines :: int32
  sn_WaitingAgentMachines :: int32
  sn_UnreadyAgentMachines :: int32
  sn_AgentMachinesWithoutAgent :: int32
  sn_MatchingAgents :: "AgentInfo list"
  sn_OwnedVMs :: "OwnedVMStatus list"

record PoolPlan =
  pl_AgentMachines :: int32
  pl_WaitingAgentMachines :: int32
  pl_UnreadyAgentMachines :: int32
  pl_AgentMachinesWithoutAgent :: int32
  pl_DesiredReplicas :: int32
  pl_MatchingAgents :: int32
  pl_BoundAgents :: int32
  pl_AvailableAgents :: int32
  pl_PendingOwnedVMs :: int32
  pl_DemandDeficit :: int32
  pl_VMsToDelete :: "OwnedVMStatus list"
  pl_AgentsToDelete :: "AgentInfo list"
  pl_AgentsToPatch :: "AgentInfo list"
  pl_Actions :: "PlannedActionStatus list"

section \<open>Selection of Agents to patch\<close>

definition agentNeedsPatch :: "VsphereAgentPool \<Rightarrow> AgentInfo \<Rightarrow> bool" where
  "agentNeedsPatch pool agent =
     (let binding = ps_Agent (pool_Spec pool)
      in case map_of (ab_Labels binding) poolLabelKey of
           Some desiredPoolLabel \<Rightarrow>
             (if ag_PoolLabel agent \<noteq> desiredPoolLabel then True
              else approveAgents pool \<and> \<not> ag_Approved agent \<or> ag_SpecRole agent \<noteq> ab_Role binding \<or>
                   ag_RoleLabel agent \<noteq> ab_Role binding \<or> ag_Hostname agent = [])
         | None \<Rightarrow> approveAgents pool \<and> \<not> ag_Approved agent \<or> ag_SpecRole agent \<noteq> ab_Role binding \<or>
                   ag_RoleLabel agent \<noteq> ab_Role binding \<or> ag_Hostname agent = [])"

definition agentNeedsSelectionLabelPatch :: "AgentInfo \<Rightarrow> bool" where
  "agentNeedsSelectionLabelPatch agent \<longleftrightarrow>
     ag_Hostname agent \<noteq> [] \<and> ag_SelectionLabel agent \<noteq> ag_Hostname agent"

fun agentAssociatedWithActiveOwnedVM :: "OwnedVMStatus list \<Rightarrow> AgentInfo \<Rightarrow> bool" where
  "agentAssociatedWithActiveOwnedVM [] agent = False"
| "agentAssociatedWithActiveOwnedVM (vm # vms) agent =
     (if vm_Name vm = [] \<or> vm_Phase vm = phaseReleased \<or> vm_Phase vm = phaseOrphaned
      then agentAssociatedWithActiveOwnedVM vms agent
      else if vmMatchesAgentIdentity vm agent \<or> vmMatchesAgentRef vm agent then True
      else if agentObservedHostname agent \<noteq> [] \<and> vm_Name vm = agentObservedHostname agent \<and>
              \<not> vmIdentityConflictsAgent vm agent then True
      else agentAssociatedWithActiveOwnedVM vms agent)"

fun agentAssociatedWithOwnedVM :: "OwnedVMStatus list \<Rightarrow> AgentInfo \<Rightarrow> bool" where
  "agentAssociatedWithOwnedVM [] agent = False"
| "agentAssociatedWithOwnedVM (vm # vms) agent =
     (if vm_Name vm = [] then agentAssociatedWithOwnedVM vms agent
      else if vmMatchesAgentIdentity vm agent \<or> vmMatchesAgentRef vm agent then True
      else if agentObservedHostname agent \<noteq> [] \<and> vm_Name vm = agentObservedHostname agent \<and>
              \<not> vmIdentityConflictsAgent vm agent then True
      else agentAssociatedWithOwnedVM vms agent)"

definition countPendingOwnedVMs :: "OwnedVMStatus list \<Rightarrow> int32" where
  "countPendingOwnedVMs vms =
     count_if (\<lambda>vm. \<not> (vm_Name vm = [] \<or> vm_Phase vm \<noteq> phaseProvisioning)) vms"

section \<open>Selection of VMs to delete\<close>

definition vmEligibleForCleanup :: "OwnedVMStatus \<Rightarrow> bool" where
  "vmEligibleForCleanup vm \<longleftrightarrow> vm_Source vm \<noteq> vmSourceDiscoveredAgent"

definition selectedVMNames :: "OwnedVMStatus list \<Rightarrow> string list" where
  "selectedVMNames vms = filter (\<lambda>n. n \<noteq> []) (map vm_Name vms)"

definition orphanedVMCleanupDue :: "OwnedVMStatus \<Rightarrow> gotime \<Rightarrow> bool" where
  "orphanedVMCleanupDue vm now =
     (if vm_LastTransitionTime vm = 0 then True
      else \<not> now < vm_LastTransitionTime vm + orphanedOwnedVMGracePeriod)"

fun deletedMachineTargets_loop ::
  "(string \<rightharpoonup> AgentInfo) \<Rightarrow> OwnedVMStatus list \<Rightarrow> OwnedVMStatus list \<times> AgentInfo list" where
  "deletedMachineTargets_loop byName [] = ([], [])"
| "deletedMachineTargets_loop byName (vm # vms) =
     (case deletedMachineTargets_loop byName vms of (selectedVMs, selectedAgents) \<Rightarrow>
        if vm_Name vm = [] \<or> \<not> vmEligibleForCleanup vm \<or> vm_Phase vm \<noteq> phaseReleased \<or>
           vm_Reason vm \<noteq> reasonMachineDeleted
        then (selectedVMs, selectedAgents)
        else (vm # selectedVMs,
              if vm_AgentRef vm = None \<or> ownedVMAgentName vm = [] then selectedAgents
              else case byName (ownedVMAgentName vm) of
                     None \<Rightarrow> selectedAgents | Some agent \<Rightarrow> agent # selectedAgents))"

definition deletedMachineTargets ::
  "OwnedVMStatus list \<Rightarrow> AgentInfo list \<Rightarrow> OwnedVMStatus list \<times> AgentInfo list" where
  "deletedMachineTargets vms agents = deletedMachineTargets_loop (index_by ag_Name agents) vms"

fun surplusAvailable_loop ::
  "(string \<rightharpoonup> AgentInfo) \<Rightarrow> string list \<Rightarrow> int32 \<Rightarrow> OwnedVMStatus list \<Rightarrow>
   OwnedVMStatus list \<Rightarrow> AgentInfo list \<Rightarrow> OwnedVMStatus list \<times> AgentInfo list" where
  "surplusAvailable_loop unbound selected surplus [] selectedVMs selectedAgents = (selectedVMs, selectedAgents)"
| "surplusAvailable_loop unbound selected surplus (vm # vms) selectedVMs selectedAgents =
     (if surplus \<le>s (of_nat (length selectedVMs) :: int32) then (selectedVMs, selectedAgents)
      else
        let released = vm_Phase vm = phaseReleased \<and> vm_Reason vm = reasonAgentReleased;
            continue = surplusAvailable_loop unbound selected surplus vms
        in if vm_Name vm = [] \<or> \<not> vmEligibleForCleanup vm \<or> (vm_Phase vm \<noteq> phaseAvailable \<and> \<not> released)
           then continue selectedVMs selectedAgents
           else if vm_Name vm \<in> set selected then continue selectedVMs selectedAgents
           else if ownedVMAgentName vm = [] then continue selectedVMs selectedAgents
           else case unbound (ownedVMAgentName vm) of
                  None \<Rightarrow> continue selectedVMs selectedAgents
                | Some agent \<Rightarrow> continue (selectedVMs @ [vm]) (selectedAgents @ [agent]))"

definition surplusAvailableDeletionTargets ::
  "OwnedVMStatus list \<Rightarrow> AgentInfo list \<Rightarrow> OwnedVMStatus list \<Rightarrow> int32 \<Rightarrow>
   OwnedVMStatus list \<times> AgentInfo list" where
  "surplusAvailableDeletionTargets vms agents alreadySelected surplus =
     (if surplus \<le>s 0 then ([], [])
      else surplusAvailable_loop
             (index_by ag_Name (filter (\<lambda>a. \<not> (ag_Name a = [] \<or> ag_Bound a)) agents))
             (selectedVMNames alreadySelected) surplus vms [] [])"

definition orphanedDeletionTargets ::
  "gotime \<Rightarrow> OwnedVMStatus list \<Rightarrow> OwnedVMStatus list \<Rightarrow> OwnedVMStatus list" where
  "orphanedDeletionTargets now vms alreadySelected =
     filter (\<lambda>vm. \<not> (vm_Name vm = [] \<or> \<not> vmEligibleForCleanup vm \<or> vm_Phase vm \<noteq> phaseOrphaned) \<and>
                  orphanedVMCleanupDue vm now \<and>
                  vm_Name vm \<notin> set (selectedVMNames alreadySelected)) vms"

definition agentDeletionReason :: "OwnedVMStatus \<Rightarrow> string" where
  "agentDeletionReason vm =
     (if vm_Phase vm = phaseAvailable then ''Owned available Agent exceeds current AgentMachine demand''
      else if vm_Phase vm = phaseReleased then
        (if vm_Reason vm = reasonAgentReleased then ''Owned released Agent exceeds current AgentMachine demand''
         else reasonMachineDeletedPolicy)
      else reasonMachineDeletedPolicy)"

definition agentDeletionReasonsByName :: "OwnedVMStatus list \<Rightarrow> (string \<rightharpoonup> string)" where
  "agentDeletionReasonsByName vms =
     fold (\<lambda>vm m. if ownedVMAgentName vm = [] then m
                  else m(ownedVMAgentName vm \<mapsto> agentDeletionReason vm)) vms Map.empty"

section \<open>The plan\<close>

definition deficitReason :: "int32 \<Rightarrow> int32 \<Rightarrow> int32 \<Rightarrow> string" where
  "deficitReason waiting availableAgents pendingOwnedVMs =
     int_str (sint waiting) @ '' AgentMachines are waiting for suitable Agents, with '' @
     int_str (sint availableAgents) @ '' available Agents and '' @
     int_str (sint pendingOwnedVMs) @ '' owned provisioning VMs''"

definition vmDeletionReason :: "OwnedVMStatus \<Rightarrow> string" where
  "vmDeletionReason vm =
     (if vm_Phase vm = phaseAvailable then ''Owned available Agent exceeds current AgentMachine demand''
      else if vm_Phase vm = phaseReleased then
        (if vm_Reason vm \<noteq> reasonMachineDeleted then ''Owned released Agent exceeds current AgentMachine demand''
         else reasonMachineDeletedPolicy)
      else if vm_Phase vm = phaseOrphaned then
        ''Owned VM no longer has a matching Agent and is eligible for cleanup''
      else reasonMachineDeletedPolicy)"

definition planDeletions ::
  "gotime \<Rightarrow> VsphereAgentPool \<Rightarrow> PoolSnapshot \<Rightarrow> int32 \<Rightarrow> OwnedVMStatus list \<times> AgentInfo list" where
  "planDeletions now pool snapshot availableAgents =
     (if cleanupEnabled pool then
        (case deletedMachineTargets (sn_OwnedVMs snapshot) (sn_MatchingAgents snapshot) of
           (vmsToDelete, agentsToDelete) \<Rightarrow>
             let (vmsToDelete, agentsToDelete) =
                   (if sn_WaitingAgentMachines snapshot = 0 \<and> sn_AgentMachinesWithoutAgent snapshot = 0 \<and>
                       0 <s availableAgents
                    then case surplusAvailableDeletionTargets (sn_OwnedVMs snapshot) (sn_MatchingAgents snapshot)
                                vmsToDelete availableAgents of
                           (surplusVMs, surplusAgents) \<Rightarrow> (vmsToDelete @ surplusVMs, agentsToDelete @ surplusAgents)
                    else (vmsToDelete, agentsToDelete))
             in (vmsToDelete @ orphanedDeletionTargets now (sn_OwnedVMs snapshot) vmsToDelete, agentsToDelete))
      else ([], []))"

definition buildPlan :: "gotime \<Rightarrow> VsphereAgentPool \<Rightarrow> PoolSnapshot \<Rightarrow> PoolPlan" where
  "buildPlan now pool snapshot =
    (let agents = sn_MatchingAgents snapshot;
         vms = sn_OwnedVMs snapshot;
         waiting = sn_WaitingAgentMachines snapshot;
         boundAgents = count_if ag_Bound agents;
         availableAgents = count_if (\<lambda>a. \<not> ag_Bound a) agents;
         matchingAgents = (of_nat (length agents) :: int32);
         pendingOwnedVMs = countPendingOwnedVMs vms;
         deficit = waiting - availableAgents - pendingOwnedVMs;
         deficit = (if deficit <s 0 then 0 else deficit);
         deficitActions = replicate (nat (sint deficit))
           \<lparr>pa_Type = actionDemandDeficit, pa_Name = [],
            pa_Reason = deficitReason waiting availableAgents pendingOwnedVMs\<rparr>;
         agentsToPatch = filter (\<lambda>agent.
             \<not> (ag_Bound agent \<or> ag_Deleting agent) \<and>
             (agentNeedsPatch pool agent \<or>
              (0 <s waiting \<and> agentNeedsSelectionLabelPatch agent \<and> agentAssociatedWithActiveOwnedVM vms agent)) \<and>
             agentAssociatedWithOwnedVM vms agent) agents;
         patchActions = map (\<lambda>agent. \<lparr>pa_Type = actionPatchAgent, pa_Name = ag_Name agent,
             pa_Reason = ''Candidate Agent metadata does not match the pool''\<rparr>) agentsToPatch;
         (vmsToDelete, agentsToDelete) = planDeletions now pool snapshot availableAgents;
         vmActions = map (\<lambda>vm. \<lparr>pa_Type = actionDeleteVM, pa_Name = vm_Name vm,
             pa_Reason = vmDeletionReason vm\<rparr>) vmsToDelete;
         agentDeleteReasons = agentDeletionReasonsByName vmsToDelete;
         agentActions = map (\<lambda>agent. \<lparr>pa_Type = actionDeleteAgent, pa_Name = ag_Name agent,
             pa_Reason = (case agentDeleteReasons (ag_Name agent) of
                            None \<Rightarrow> reasonMachineDeletedPolicy
                          | Some reason \<Rightarrow> (if reason = [] then reasonMachineDeletedPolicy else reason))\<rparr>)
           agentsToDelete;
         actions = deficitActions @ patchActions @ vmActions @ agentActions;
         actions = (if actions = [] then
             [\<lparr>pa_Type = actionNoop, pa_Name = [],
               pa_Reason = ''Agent capacity satisfies current AgentMachine demand''\<rparr>]
           else actions)
     in \<lparr>pl_AgentMachines = sn_AgentMachines snapshot,
         pl_WaitingAgentMachines = waiting,
         pl_UnreadyAgentMachines = sn_UnreadyAgentMachines snapshot,
         pl_AgentMachinesWithoutAgent = sn_AgentMachinesWithoutAgent snapshot,
         pl_DesiredReplicas = sn_AgentMachines snapshot,
         pl_MatchingAgents = matchingAgents,
         pl_BoundAgents = boundAgents,
         pl_AvailableAgents = availableAgents,
         pl_PendingOwnedVMs = pendingOwnedVMs,
         pl_DemandDeficit = deficit,
         pl_VMsToDelete = vmsToDelete,
         pl_AgentsToDelete = agentsToDelete,
         pl_AgentsToPatch = agentsToPatch,
         pl_Actions = actions\<rparr>)"

section \<open>What the loops select\<close>

definition associatedVM :: "OwnedVMStatus \<Rightarrow> AgentInfo \<Rightarrow> bool" where
  "associatedVM vm agent \<longleftrightarrow> vm_Name vm \<noteq> [] \<and>
     (vmMatchesAgentIdentity vm agent \<or> vmMatchesAgentRef vm agent \<or>
      (agentObservedHostname agent \<noteq> [] \<and> vm_Name vm = agentObservedHostname agent \<and>
       \<not> vmIdentityConflictsAgent vm agent))"

definition machineDeletedTarget :: "OwnedVMStatus \<Rightarrow> bool" where
  "machineDeletedTarget vm \<longleftrightarrow> vm_Name vm \<noteq> [] \<and> vmEligibleForCleanup vm \<and>
     vm_Phase vm = phaseReleased \<and> vm_Reason vm = reasonMachineDeleted"

definition surplusTarget :: "OwnedVMStatus \<Rightarrow> bool" where
  "surplusTarget vm \<longleftrightarrow> vm_Name vm \<noteq> [] \<and> vmEligibleForCleanup vm \<and>
     (vm_Phase vm = phaseAvailable \<or> vm_Phase vm = phaseReleased \<and> vm_Reason vm = reasonAgentReleased)"

definition orphanTarget :: "gotime \<Rightarrow> OwnedVMStatus \<Rightarrow> bool" where
  "orphanTarget now vm \<longleftrightarrow> vm_Name vm \<noteq> [] \<and> vmEligibleForCleanup vm \<and>
     vm_Phase vm = phaseOrphaned \<and> orphanedVMCleanupDue vm now"

definition surplusPick ::
  "(string \<rightharpoonup> AgentInfo) \<Rightarrow> string list \<Rightarrow> OwnedVMStatus \<Rightarrow> bool" where
  "surplusPick unbound selected vm \<longleftrightarrow>
     surplusTarget vm \<and> vm_Name vm \<notin> set selected \<and> ownedVMAgentName vm \<noteq> [] \<and>
     unbound (ownedVMAgentName vm) \<noteq> None"

definition unboundAgents :: "AgentInfo list \<Rightarrow> AgentInfo list" where
  "unboundAgents agents = filter (\<lambda>a. \<not> (ag_Name a = [] \<or> ag_Bound a)) agents"

text \<open>
  The surplus VMs a plan deletes: none unless all demand is met, then as many of the candidates
  as there are available Agents.
\<close>

definition planSurplus :: "PoolSnapshot \<Rightarrow> int32 \<Rightarrow> OwnedVMStatus list" where
  "planSurplus sn avail =
     (if sn_WaitingAgentMachines sn = 0 \<and> sn_AgentMachinesWithoutAgent sn = 0
      then take (nat (sint avail))
             (filter (surplusPick (index_by ag_Name (unboundAgents (sn_MatchingAgents sn)))
                       (selectedVMNames (filter machineDeletedTarget (sn_OwnedVMs sn)))) (sn_OwnedVMs sn))
      else [])"

section \<open>A concrete snapshot\<close>

definition sampleSnapshot :: PoolSnapshot where
  "sampleSnapshot = \<lparr>sn_AgentMachines = 0, sn_WaitingAgentMachines = 0, sn_UnreadyAgentMachines = 0,
     sn_AgentMachinesWithoutAgent = 0, sn_MatchingAgents = [sampleAgent],
     sn_OwnedVMs = [sampleVM ''vm1'' phaseAvailable ''AgentAvailable'',
                    sampleVM ''vm2'' phaseReleased reasonMachineDeleted]\<rparr>"

section \<open>Lemmas on the selection loops\<close>

lemma agentAssociatedWithOwnedVM_iff:
  "agentAssociatedWithOwnedVM vms agent \<longleftrightarrow> (\<exists>vm \<in> set vms. associatedVM vm agent)"
  by (induction vms) (auto simp: associatedVM_def)

lemma agentAssociatedWithActiveOwnedVM_iff:
  "agentAssociatedWithActiveOwnedVM vms agent \<longleftrightarrow>
     (\<exists>vm \<in> set vms. associatedVM vm agent \<and> vm_Phase vm \<noteq> phaseReleased \<and> vm_Phase vm \<noteq> phaseOrphaned)"
  by (induction vms) (auto simp: associatedVM_def)

lemma deletedMachineTargets_vms:
  "fst (deletedMachineTargets vms agents) = filter machineDeletedTarget vms"
proof -
  have "fst (deletedMachineTargets_loop m vms) = filter machineDeletedTarget vms" for m
    by (induction vms) (auto simp: machineDeletedTarget_def split: prod.splits)
  then show ?thesis by (simp add: deletedMachineTargets_def)
qed

lemma deletedMachineTargets_agents:
  assumes "a \<in> set (snd (deletedMachineTargets vms agents))"
  shows "a \<in> set agents \<and> (\<exists>vm \<in> set vms. machineDeletedTarget vm \<and> ownedVMAgentName vm = ag_Name a)"
proof -
  let ?m = "index_by ag_Name agents"
  have "a \<in> set (snd (deletedMachineTargets_loop ?m vms)) \<Longrightarrow>
     \<exists>vm \<in> set vms. machineDeletedTarget vm \<and> ?m (ownedVMAgentName vm) = Some a"
    by (induction vms) (auto simp: machineDeletedTarget_def split: prod.splits if_splits option.splits)
  with assms show ?thesis
    by (auto simp: deletedMachineTargets_def dest!: index_by_Some)
qed

lemma surplusAvailable_loop_Cons:
  "surplusAvailable_loop unbound selected surplus (vm # vms) selectedVMs selectedAgents =
     (if surplus \<le>s (of_nat (length selectedVMs) :: int32) then (selectedVMs, selectedAgents)
      else if surplusPick unbound selected vm
      then surplusAvailable_loop unbound selected surplus vms (selectedVMs @ [vm])
             (selectedAgents @ [the (unbound (ownedVMAgentName vm))])
      else surplusAvailable_loop unbound selected surplus vms selectedVMs selectedAgents)"
  by (auto simp: surplusPick_def surplusTarget_def Let_def split: option.splits)

declare surplusAvailable_loop.simps(2) [simp del]

lemma surplusAvailable_loop_eq:
  assumes "length selectedVMs \<le> nat (sint surplus)"
  shows "surplusAvailable_loop unbound selected surplus vms selectedVMs selectedAgents =
     (let picked = take (nat (sint surplus) - length selectedVMs) (filter (surplusPick unbound selected) vms)
      in (selectedVMs @ picked, selectedAgents @ map (\<lambda>vm. the (unbound (ownedVMAgentName vm))) picked))"
  using assms
proof (induction vms arbitrary: selectedVMs selectedAgents)
  case Nil
  then show ?case by simp
next
  case (Cons vm vms)
  have "sint surplus < 2147483648" using sint_lt [of surplus] by simp
  with Cons.prems have "sint (of_nat (length selectedVMs) :: int32) = int (length selectedVMs)"
    by (intro sint_of_nat_small) linarith
  then have "surplus \<le>s (of_nat (length selectedVMs) :: int32) \<longleftrightarrow> nat (sint surplus) \<le> length selectedVMs"
    by (simp add: word_sle_eq nat_le_iff)
  with Cons show ?case
    by (simp add: surplusAvailable_loop_Cons Let_def take_Cons split: nat.split)
      (auto simp: Suc_diff_Suc [symmetric])
qed

lemma surplusAvailableDeletionTargets_eq:
  "surplusAvailableDeletionTargets vms agents already surplus =
     (let m = index_by ag_Name (unboundAgents agents);
          picked = take (nat (sint surplus)) (filter (surplusPick m (selectedVMNames already)) vms)
      in (picked, map (\<lambda>vm. the (m (ownedVMAgentName vm))) picked))"
  by (simp add: surplusAvailableDeletionTargets_def surplusAvailable_loop_eq unboundAgents_def
      word_sle_eq Let_def)

lemma orphanedDeletionTargets_eq:
  "orphanedDeletionTargets now vms already =
     filter (\<lambda>vm. orphanTarget now vm \<and> vm_Name vm \<notin> set (selectedVMNames already)) vms"
  unfolding orphanedDeletionTargets_def orphanTarget_def by (rule filter_cong) auto

section \<open>The deletion part of a plan\<close>

lemma planDeletions_eq:
  assumes "cleanupEnabled pool"
  shows "planDeletions now pool sn avail =
    (let deleted = filter machineDeletedTarget (sn_OwnedVMs sn); surplus = planSurplus sn avail
     in (deleted @ surplus @ orphanedDeletionTargets now (sn_OwnedVMs sn) (deleted @ surplus),
         snd (deletedMachineTargets (sn_OwnedVMs sn) (sn_MatchingAgents sn)) @
         map (\<lambda>vm. the (index_by ag_Name (unboundAgents (sn_MatchingAgents sn)) (ownedVMAgentName vm))) surplus))"
proof -
  obtain dv da where d: "deletedMachineTargets (sn_OwnedVMs sn) (sn_MatchingAgents sn) = (dv, da)"
    by fastforce
  then have "dv = filter machineDeletedTarget (sn_OwnedVMs sn)"
    using deletedMachineTargets_vms by (metis fst_conv)
  with assms d show ?thesis
    by (simp add: planDeletions_def planSurplus_def surplusAvailableDeletionTargets_eq Let_def word_sless_alt)
qed

lemma buildPlan_vms:
  "pl_VMsToDelete (buildPlan now pool sn) =
     fst (planDeletions now pool sn (count_if (\<lambda>a. \<not> ag_Bound a) (sn_MatchingAgents sn)))"
  by (simp add: buildPlan_def Let_def split: prod.split)

lemma buildPlan_agents:
  "pl_AgentsToDelete (buildPlan now pool sn) =
     snd (planDeletions now pool sn (count_if (\<lambda>a. \<not> ag_Bound a) (sn_MatchingAgents sn)))"
  by (simp add: buildPlan_def Let_def split: prod.split)

lemma planDeletions_disabled: "\<not> cleanupEnabled pool \<Longrightarrow> planDeletions now pool sn avail = ([], [])"
  by (simp add: planDeletions_def)

lemma index_by_unbound:
  assumes "index_by ag_Name (unboundAgents agents) k = Some a"
  shows "a \<in> set agents" and "ag_Name a = k" and "\<not> ag_Bound a"
  using index_by_Some [OF assms] by (auto simp: unboundAgents_def)

lemma planSurplus_member:
  assumes "vm \<in> set (planSurplus sn avail)"
  shows "sn_WaitingAgentMachines sn = 0" and "sn_AgentMachinesWithoutAgent sn = 0"
    and "vm \<in> set (sn_OwnedVMs sn)" and "surplusTarget vm"
    and "vm_Name vm \<notin> set (selectedVMNames (filter machineDeletedTarget (sn_OwnedVMs sn)))"
    and "\<exists>a. index_by ag_Name (unboundAgents (sn_MatchingAgents sn)) (ownedVMAgentName vm) = Some a"
  using assms
  by (auto simp: planSurplus_def surplusPick_def split: if_splits dest!: in_set_takeD)

lemma planSurplus_agent:
  assumes "vm \<in> set (planSurplus sn avail)"
  obtains a where "a \<in> set (sn_MatchingAgents sn)" "ag_Name a = ownedVMAgentName vm" "\<not> ag_Bound a"
    "index_by ag_Name (unboundAgents (sn_MatchingAgents sn)) (ownedVMAgentName vm) = Some a"
proof -
  from planSurplus_member(6) [OF assms] obtain a where
    a: "index_by ag_Name (unboundAgents (sn_MatchingAgents sn)) (ownedVMAgentName vm) = Some a" ..
  from index_by_unbound [OF a] a show thesis by (intro that)
qed

lemma sint_of_nat_le: "sint (of_nat n :: int32) \<le> int n"
proof (cases "n < 2147483648")
  case False
  then show ?thesis using sint_lt [of "of_nat n :: int32"] by simp
qed (simp add: sint_of_nat_small)

lemma planSurplus_length: "length (planSurplus sn avail) \<le> nat (sint avail)"
  by (simp add: planSurplus_def)

lemma surplusTarget_disjoint:
  "machineDeletedTarget vm \<Longrightarrow> \<not> surplusTarget vm" "orphanTarget now vm \<Longrightarrow> \<not> surplusTarget vm"
  by (auto simp: machineDeletedTarget_def surplusTarget_def orphanTarget_def)

lemma selectedVMNames_iff: "n \<in> set (selectedVMNames vms) \<longleftrightarrow> n \<noteq> [] \<and> n \<in> vm_Name ` set vms"
  by (auto simp: selectedVMNames_def)

lemma planSurplus_not_deleted:
  assumes "vm \<in> set (planSurplus sn avail)"
  shows "vm_Name vm \<notin> vm_Name ` set (filter machineDeletedTarget (sn_OwnedVMs sn))"
  using planSurplus_member(4,5) [OF assms] by (auto simp: selectedVMNames_iff surplusTarget_def)

lemma filter_surplus:
  assumes "cleanupEnabled pool"
  shows "filter surplusTarget (pl_VMsToDelete (buildPlan now pool sn)) =
    planSurplus sn (count_if (\<lambda>a. \<not> ag_Bound a) (sn_MatchingAgents sn))"
proof -
  have "filter surplusTarget (filter machineDeletedTarget vms) = []" for vms
    using surplusTarget_disjoint(1) by (auto simp: filter_empty_conv)
  moreover have "filter surplusTarget (orphanedDeletionTargets now vms sel) = []" for vms sel
    using surplusTarget_disjoint(2) by (auto simp: filter_empty_conv orphanedDeletionTargets_eq)
  moreover have "filter surplusTarget (planSurplus sn n) = planSurplus sn n" for n
    by (rule filter_True) (use planSurplus_member(4) in blast)
  ultimately show ?thesis
    by (simp add: buildPlan_vms planDeletions_eq [OF assms] Let_def)
qed

lemma surplusTarget_phase:
  "surplusTarget vm \<Longrightarrow> vm_Phase vm = phaseAvailable \<or> vm_Phase vm = phaseReleased \<and> vm_Reason vm = reasonAgentReleased"
  by (simp add: surplusTarget_def)

text \<open>Two subtractions of small naturals from a non-negative 32-bit value do not overflow.\<close>

lemma sint_minus_two:
  fixes w :: int32
  assumes "0 \<le> sint w" and "a < 1073741824" and "b < 1073741824"
  shows "sint (w - of_nat a - of_nat b) = sint w - int a - int b"
proof -
  have "sint w < 2147483648" using sint_lt [of w] by simp
  then have "signed_take_bit 31 (sint w - int a - int b) = sint w - int a - int b"
    using assms by (intro signed_take_bit_int_eq_self) auto
  moreover have "w - of_nat a - of_nat b = word_of_int (sint w - int a - int b)"
    by simp
  moreover have "sint (word_of_int k :: int32) = signed_take_bit 31 k" for k
    by (simp add: signed_of_int)
  ultimately show ?thesis by metis
qed

lemma planned_vm_owned:
  assumes "vm \<in> set (pl_VMsToDelete (buildPlan now pool sn))"
  shows "cleanupEnabled pool" "vm \<in> set (sn_OwnedVMs sn)" "vm_Name vm \<noteq> []" "vm_Source vm \<noteq> vmSourceDiscoveredAgent"
proof -
  show clean: "cleanupEnabled pool"
    using assms by (auto simp: buildPlan_vms planDeletions_disabled intro: ccontr)
  from assms consider "machineDeletedTarget vm" "vm \<in> set (sn_OwnedVMs sn)"
    | avail where "vm \<in> set (planSurplus sn avail)" | "orphanTarget now vm" "vm \<in> set (sn_OwnedVMs sn)"
    by (auto simp: buildPlan_vms planDeletions_eq [OF clean] orphanedDeletionTargets_eq Let_def)
  then have "vm \<in> set (sn_OwnedVMs sn) \<and> vm_Name vm \<noteq> [] \<and> vm_Source vm \<noteq> vmSourceDiscoveredAgent"
    by cases (auto simp: surplusTarget_def machineDeletedTarget_def orphanTarget_def vmEligibleForCleanup_def
        dest: planSurplus_member)
  then show "vm \<in> set (sn_OwnedVMs sn)" "vm_Name vm \<noteq> []" "vm_Source vm \<noteq> vmSourceDiscoveredAgent"
    by simp_all
qed

section \<open>Properties of the plan\<close>

text \<open>C5: Deletion is confined. A VM that the plan deletes is one of the pool's owned VMs, has a
  name, was created by the operator (a VM only observed through a discovered Agent is never
  touched), the pool's cleanup policy allows deletion, and either its Machine was deleted, or it
  is an orphan past the grace period, or all demand is met and its Agent is a matching unbound
  one.\<close>

theorem plan_deletes_only_eligible:
  assumes "vm \<in> set (pl_VMsToDelete (buildPlan now pool sn))"
  shows "cleanupEnabled pool \<and> vm \<in> set (sn_OwnedVMs sn) \<and> vm_Name vm \<noteq> [] \<and>
    vm_Source vm \<noteq> vmSourceDiscoveredAgent \<and>
    (vm_Phase vm = phaseReleased \<and> vm_Reason vm = reasonMachineDeleted \<or>
     vm_Phase vm = phaseOrphaned \<and>
       (vm_LastTransitionTime vm = 0 \<or> vm_LastTransitionTime vm + orphanedOwnedVMGracePeriod \<le> now) \<or>
     sn_WaitingAgentMachines sn = 0 \<and> sn_AgentMachinesWithoutAgent sn = 0 \<and>
       (vm_Phase vm = phaseAvailable \<or> vm_Phase vm = phaseReleased \<and> vm_Reason vm = reasonAgentReleased) \<and>
       (\<exists>a \<in> set (sn_MatchingAgents sn). ag_Name a = ownedVMAgentName vm \<and> \<not> ag_Bound a))"
proof -
  from assms have clean: "cleanupEnabled pool"
    by (auto simp: buildPlan_vms planDeletions_disabled intro: ccontr)
  from assms consider "machineDeletedTarget vm" "vm \<in> set (sn_OwnedVMs sn)"
    | avail where "vm \<in> set (planSurplus sn avail)" | "orphanTarget now vm" "vm \<in> set (sn_OwnedVMs sn)"
    by (auto simp: buildPlan_vms planDeletions_eq [OF clean] orphanedDeletionTargets_eq Let_def)
  then show ?thesis
  proof cases
    case 2
    obtain a where "a \<in> set (sn_MatchingAgents sn)" "ag_Name a = ownedVMAgentName vm" "\<not> ag_Bound a"
      by (rule planSurplus_agent [OF 2])
    then show ?thesis using clean planSurplus_member(1-4) [OF 2]
      by (auto simp: surplusTarget_def vmEligibleForCleanup_def)
  qed (use clean in \<open>auto simp: machineDeletedTarget_def orphanTarget_def vmEligibleForCleanup_def
        orphanedVMCleanupDue_def split: if_splits\<close>)
qed

theorem plan_deletes_only_eligible_witness:
  "sampleVM ''vm2'' phaseReleased reasonMachineDeleted \<in> set (pl_VMsToDelete (buildPlan 100 samplePool sampleSnapshot)) \<and>
   cleanupEnabled samplePool"
proof -
  have "sampleVM ''vm2'' phaseReleased reasonMachineDeleted \<in> set (pl_VMsToDelete (buildPlan 100 samplePool sampleSnapshot))"
    by code_simp
  then show ?thesis using plan_deletes_only_eligible by blast
qed

text \<open>C28: Scale-down never exceeds the surplus: the plan deletes at most as many VMs of available
  or returned Agents as there are unbound matching Agents.\<close>

theorem plan_surplus_bounded:
  "length (filter (\<lambda>vm. vm_Phase vm = phaseAvailable \<or> vm_Phase vm = phaseReleased \<and> vm_Reason vm = reasonAgentReleased)
     (pl_VMsToDelete (buildPlan now pool sn)))
   \<le> length (filter (\<lambda>a. \<not> ag_Bound a) (sn_MatchingAgents sn))"
proof (cases "cleanupEnabled pool")
  case True
  let ?avail = "count_if (\<lambda>a. \<not> ag_Bound a) (sn_MatchingAgents sn)"
  let ?p = "\<lambda>vm. vm_Phase vm = phaseAvailable \<or> vm_Phase vm = phaseReleased \<and> vm_Reason vm = reasonAgentReleased"
  have "filter ?p (filter machineDeletedTarget vms) = []" for vms
    by (auto simp: filter_empty_conv machineDeletedTarget_def)
  moreover have "filter ?p (orphanedDeletionTargets now vms sel) = []" for vms sel
    by (auto simp: filter_empty_conv orphanedDeletionTargets_eq orphanTarget_def)
  ultimately have "length (filter ?p (pl_VMsToDelete (buildPlan now pool sn))) \<le> length (planSurplus sn ?avail)"
    by (simp add: buildPlan_vms planDeletions_eq [OF True] Let_def)
  also have "\<dots> \<le> nat (sint ?avail)" by (rule planSurplus_length)
  also have "\<dots> \<le> length (filter (\<lambda>a. \<not> ag_Bound a) (sn_MatchingAgents sn))"
    using sint_of_nat_le by (simp add: count_if_eq nat_le_iff)
  finally show ?thesis .
qed (simp add: buildPlan_vms planDeletions_disabled)

text \<open>C29: No VM is deleted twice by one plan: when the owned VMs have distinct names, so have the
  VMs to delete.\<close>

theorem plan_no_double_delete:
  assumes "distinct (map vm_Name (filter (\<lambda>vm. vm_Name vm \<noteq> []) (sn_OwnedVMs sn)))"
  shows "distinct (map vm_Name (pl_VMsToDelete (buildPlan now pool sn)))"
proof (cases "cleanupEnabled pool")
  case True
  let ?del = "filter machineDeletedTarget (sn_OwnedVMs sn)"
  let ?sur = "planSurplus sn (count_if (\<lambda>a. \<not> ag_Bound a) (sn_MatchingAgents sn))"
  have part: "distinct (map vm_Name (filter P (sn_OwnedVMs sn)))" if "\<And>vm. P vm \<Longrightarrow> vm_Name vm \<noteq> []" for P
  proof -
    have "filter P (sn_OwnedVMs sn) = filter P (filter (\<lambda>vm. vm_Name vm \<noteq> []) (sn_OwnedVMs sn))"
      using that by (induction "sn_OwnedVMs sn" rule: list.induct) (auto intro: filter_cong)
    then show ?thesis using assms by (simp only: distinct_map_filter)
  qed
  have "distinct (map vm_Name ?del)"
    by (rule part) (simp add: machineDeletedTarget_def)
  moreover have "distinct (map vm_Name ?sur)"
  proof -
    have "distinct (map vm_Name (filter (surplusPick m sel) (sn_OwnedVMs sn)))" for m sel
      by (rule part) (simp add: surplusPick_def surplusTarget_def)
    then show ?thesis by (auto simp: planSurplus_def take_map [symmetric] distinct_take)
  qed
  moreover have "distinct (map vm_Name (orphanedDeletionTargets now (sn_OwnedVMs sn) (?del @ ?sur)))"
    unfolding orphanedDeletionTargets_eq by (rule part) (simp add: orphanTarget_def)
  moreover have "vm_Name ` set ?sur \<inter> vm_Name ` set ?del = {}"
    using planSurplus_not_deleted by blast
  moreover have "vm_Name ` set (orphanedDeletionTargets now (sn_OwnedVMs sn) (?del @ ?sur)) \<inter>
      vm_Name ` set (?del @ ?sur) = {}"
    by (auto simp: orphanedDeletionTargets_eq selectedVMNames_iff orphanTarget_def)
  ultimately show ?thesis
    by (simp add: buildPlan_vms planDeletions_eq [OF True] Let_def) blast
qed (simp add: buildPlan_vms planDeletions_disabled)

theorem plan_no_double_delete_witness:
  "distinct (map vm_Name (pl_VMsToDelete (buildPlan 100 samplePool sampleSnapshot))) \<and>
   length (pl_VMsToDelete (buildPlan 100 samplePool sampleSnapshot)) = 2"
proof -
  have "distinct (map vm_Name (filter (\<lambda>vm. vm_Name vm \<noteq> []) (sn_OwnedVMs sampleSnapshot)))"
    by code_simp
  moreover have "length (pl_VMsToDelete (buildPlan 100 samplePool sampleSnapshot)) = 2"
    by code_simp
  ultimately show ?thesis using plan_no_double_delete by blast
qed

text \<open>C27: The plan is complete. With cleanup enabled it deletes every operator-created VM whose
  Machine was deleted and every such orphan past its grace period, and once all demand is met it
  deletes as many surplus VMs as there are available Agents, or all the candidates if there are
  fewer.\<close>

theorem plan_deletion_complete:
  assumes "cleanupEnabled pool" and "length (sn_MatchingAgents sn) < 2147483648"
  shows "(\<forall>vm \<in> set (sn_OwnedVMs sn). machineDeletedTarget vm \<longrightarrow>
           vm \<in> set (pl_VMsToDelete (buildPlan now pool sn))) \<and>
    (\<forall>vm \<in> set (sn_OwnedVMs sn). orphanTarget now vm \<longrightarrow>
           vm_Name vm \<in> vm_Name ` set (pl_VMsToDelete (buildPlan now pool sn))) \<and>
    (sn_WaitingAgentMachines sn = 0 \<and> sn_AgentMachinesWithoutAgent sn = 0 \<longrightarrow>
           length (filter surplusTarget (pl_VMsToDelete (buildPlan now pool sn))) =
             min (length (filter (\<lambda>a. \<not> ag_Bound a) (sn_MatchingAgents sn)))
               (length (filter (surplusPick (index_by ag_Name (unboundAgents (sn_MatchingAgents sn)))
                  (selectedVMNames (filter machineDeletedTarget (sn_OwnedVMs sn)))) (sn_OwnedVMs sn))))"
proof (intro conjI)
  let ?avail = "count_if (\<lambda>a. \<not> ag_Bound a) (sn_MatchingAgents sn)"
  note plan = buildPlan_vms planDeletions_eq [OF assms(1)] Let_def
  show "\<forall>vm \<in> set (sn_OwnedVMs sn). machineDeletedTarget vm \<longrightarrow>
      vm \<in> set (pl_VMsToDelete (buildPlan now pool sn))"
    by (simp add: plan)
  show "\<forall>vm \<in> set (sn_OwnedVMs sn). orphanTarget now vm \<longrightarrow>
      vm_Name vm \<in> vm_Name ` set (pl_VMsToDelete (buildPlan now pool sn))"
    by (auto simp: plan orphanedDeletionTargets_eq selectedVMNames_iff image_Un)
  have "length (filter (\<lambda>a. \<not> ag_Bound a) (sn_MatchingAgents sn)) < 2147483648"
    using assms(2) by (rule le_less_trans [OF length_filter_le])
  then have "nat (sint ?avail) = length (filter (\<lambda>a. \<not> ag_Bound a) (sn_MatchingAgents sn))"
    by (simp add: count_if_eq sint_of_nat_small)
  moreover have "filter surplusTarget (pl_VMsToDelete (buildPlan now pool sn)) = planSurplus sn ?avail"
    by (rule filter_surplus [OF assms(1)])
  ultimately show "sn_WaitingAgentMachines sn = 0 \<and> sn_AgentMachinesWithoutAgent sn = 0 \<longrightarrow>
      length (filter surplusTarget (pl_VMsToDelete (buildPlan now pool sn))) =
        min (length (filter (\<lambda>a. \<not> ag_Bound a) (sn_MatchingAgents sn)))
          (length (filter (surplusPick (index_by ag_Name (unboundAgents (sn_MatchingAgents sn)))
             (selectedVMNames (filter machineDeletedTarget (sn_OwnedVMs sn)))) (sn_OwnedVMs sn)))"
    by (simp add: planSurplus_def min.commute)
qed

theorem plan_deletion_complete_witness:
  "sampleVM ''vm2'' phaseReleased reasonMachineDeleted \<in> set (pl_VMsToDelete (buildPlan 100 samplePool sampleSnapshot))"
proof -
  have "cleanupEnabled samplePool" and "length (sn_MatchingAgents sampleSnapshot) < 2147483648"
    by (simp_all add: cleanupEnabled_def sample_defs sampleSnapshot_def)
  moreover have "sampleVM ''vm2'' phaseReleased reasonMachineDeleted \<in> set (sn_OwnedVMs sampleSnapshot)"
    and "machineDeletedTarget (sampleVM ''vm2'' phaseReleased reasonMachineDeleted)"
    by (simp_all add: sample_defs sampleSnapshot_def machineDeletedTarget_def vmEligibleForCleanup_def)
  ultimately show ?thesis using plan_deletion_complete [of samplePool sampleSnapshot 100] by blast
qed

text \<open>The capacity arithmetic is exact. While the numbers of Agents and VMs fit in 30 bits and
  the waiting count is not negative, no 32-bit operation of the planner overflows: bound and
  available Agents add up to the matching ones, and the deficit is the number of waiting
  AgentMachines that neither an available Agent nor a provisioning VM can serve.\<close>

theorem plan_counts_exact:
  assumes "length (sn_MatchingAgents sn) < 1073741824" and "length (sn_OwnedVMs sn) < 1073741824"
    and "0 \<le> sint (sn_WaitingAgentMachines sn)"
  shows "sint (pl_MatchingAgents (buildPlan now pool sn)) = int (length (sn_MatchingAgents sn)) \<and>
    sint (pl_BoundAgents (buildPlan now pool sn)) + sint (pl_AvailableAgents (buildPlan now pool sn)) =
      sint (pl_MatchingAgents (buildPlan now pool sn)) \<and>
    sint (pl_DemandDeficit (buildPlan now pool sn)) =
      max 0 (sint (sn_WaitingAgentMachines sn)
        - int (length (filter (\<lambda>a. \<not> ag_Bound a) (sn_MatchingAgents sn)))
        - int (length (filter (\<lambda>vm. vm_Name vm \<noteq> [] \<and> vm_Phase vm = phaseProvisioning) (sn_OwnedVMs sn))))"
proof -
  let ?b = "length (filter ag_Bound (sn_MatchingAgents sn))"
  let ?a = "length (filter (\<lambda>a. \<not> ag_Bound a) (sn_MatchingAgents sn))"
  let ?p = "length (filter (\<lambda>vm. vm_Name vm \<noteq> [] \<and> vm_Phase vm = phaseProvisioning) (sn_OwnedVMs sn))"
  let ?w = "sn_WaitingAgentMachines sn"
  have sum: "?b + ?a = length (sn_MatchingAgents sn)" by (rule sum_length_filter_compl)
  have p: "?p < 1073741824" using assms(2) by (rule le_less_trans [OF length_filter_le])
  have a: "?a < 1073741824" and b: "?b < 1073741824" using sum assms(1) by linarith+
  have w: "sint ?w < 2147483648" using sint_lt [of ?w] by simp
  have "sint (?w - of_nat ?a - of_nat ?p) = sint ?w - int ?a - int ?p"
    by (rule sint_minus_two) (use a p w assms(3) in simp_all)
  then have deficit: "sint (if ?w - of_nat ?a - of_nat ?p <s 0 then 0 else ?w - of_nat ?a - of_nat ?p)
      = max 0 (sint ?w - int ?a - int ?p)"
    by (simp add: word_sless_alt max_def)
  have pending: "countPendingOwnedVMs (sn_OwnedVMs sn) = of_nat ?p"
    by (simp add: countPendingOwnedVMs_def count_if_eq)
  have "pl_DemandDeficit (buildPlan now pool sn) =
      (if ?w - of_nat ?a - of_nat ?p <s 0 then 0 else ?w - of_nat ?a - of_nat ?p)"
    by (simp add: buildPlan_def Let_def count_if_eq pending split: prod.split)
  with deficit have "sint (pl_DemandDeficit (buildPlan now pool sn)) = max 0 (sint ?w - int ?a - int ?p)"
    by simp
  moreover have "pl_BoundAgents (buildPlan now pool sn) = of_nat ?b"
    and "pl_AvailableAgents (buildPlan now pool sn) = of_nat ?a"
    and "pl_MatchingAgents (buildPlan now pool sn) = of_nat (length (sn_MatchingAgents sn))"
    by (simp_all add: buildPlan_def Let_def count_if_eq split: prod.split)
  ultimately show ?thesis
    using sum a b assms(1) by (simp add: sint_of_nat_small flip: of_nat_add)
qed

theorem plan_counts_exact_witness:
  "sint (pl_MatchingAgents (buildPlan 100 samplePool sampleSnapshot)) = 1"
proof -
  have "length (sn_MatchingAgents sampleSnapshot) < 1073741824"
    and "length (sn_OwnedVMs sampleSnapshot) < 1073741824"
    and "0 \<le> sint (sn_WaitingAgentMachines sampleSnapshot)"
    and "length (sn_MatchingAgents sampleSnapshot) = 1"
    by (simp_all add: sampleSnapshot_def)
  then show ?thesis using plan_counts_exact [of sampleSnapshot 100 samplePool] by simp
qed

text \<open>The published actions are the plan: reading them by type gives back the deficit, the
  Agents to patch, the VMs to delete and the Agents to delete, in order, and \<open>Noop\<close> is published
  exactly when there is nothing to do.\<close>

theorem plan_actions_report:
  "(let plan = buildPlan now pool sn;
        named = (\<lambda>t. map pa_Name (filter (\<lambda>a. pa_Type a = t) (pl_Actions plan)))
    in length (named actionDemandDeficit) = nat (sint (pl_DemandDeficit plan)) \<and>
       named actionPatchAgent = map ag_Name (pl_AgentsToPatch plan) \<and>
       named actionDeleteVM = map vm_Name (pl_VMsToDelete plan) \<and>
       named actionDeleteAgent = map ag_Name (pl_AgentsToDelete plan) \<and>
       (named actionNoop \<noteq> [] \<longleftrightarrow>
          nat (sint (pl_DemandDeficit plan)) = 0 \<and> pl_AgentsToPatch plan = [] \<and>
          pl_VMsToDelete plan = [] \<and> pl_AgentsToDelete plan = []))"
  by (auto simp: buildPlan_def Let_def filter_map o_def filter_replicate split: prod.split)

end
