(* ===== verification/OwnedVMs.thy ===== *)
theory OwnedVMs
  imports Planner
begin

text \<open>
  The pool controller's bookkeeping of the VMs it owns (\<open>vsphereagentpool_controller.go\<close>): merging
  the recorded VMs with the ones the \<open>VsphereAgent\<close> objects report, matching VMs with discovered
  Agents, moving each VM through its phases, deciding which Agents belong to the pool, and choosing
  the host name each patched Agent gets.

  A Go pointer argument that is written through (\<open>vm *OwnedVMStatus\<close>) becomes an argument and a
  result. The clock readings of one pass over the VMs are the single argument \<open>now\<close>. A
  \<open>map[string]struct{}\<close> used as a set is a set.

  The lemmas show that the indexes are sound (what they return is a member with the looked-up key and
  never contradicts the VM's hardware), that refreshing keeps names, owners and distinctness, that a VM
  is marked \<open>MachineDeleted\<close> only when its Machine is gone, and that no two Agents get the same VM.
\<close>

section \<open>Merging recorded and reported VMs\<close>

record ownedVMLookup =
  vl_byName :: "string \<rightharpoonup> OwnedVMStatus"
  vl_byBIOSUUID :: "string \<rightharpoonup> OwnedVMStatus"
  vl_byMAC :: "string \<rightharpoonup> OwnedVMStatus"

definition newOwnedVMLookup :: "OwnedVMStatus list \<Rightarrow> ownedVMLookup" where
  "newOwnedVMLookup vms =
     \<lparr>vl_byName = index_by vm_Name (filter (\<lambda>vm. vm_Name vm \<noteq> []) vms),
      vl_byBIOSUUID = index_by vm_BIOSUUID (filter (\<lambda>vm. vm_BIOSUUID vm \<noteq> []) vms),
      vl_byMAC = index_by vm_MACAddress (filter (\<lambda>vm. vm_MACAddress vm \<noteq> []) vms)\<rparr>"

definition ownedVMLookup_match :: "ownedVMLookup \<Rightarrow> OwnedVMStatus \<Rightarrow> OwnedVMStatus option" where
  "ownedVMLookup_match l vm =
     (case (if vm_Name vm \<noteq> [] then vl_byName l (vm_Name vm) else None) of Some previous \<Rightarrow> Some previous
      | None \<Rightarrow>
     (case (if vm_BIOSUUID vm \<noteq> [] then vl_byBIOSUUID l (vm_BIOSUUID vm) else None) of Some previous \<Rightarrow> Some previous
      | None \<Rightarrow> (if vm_MACAddress vm \<noteq> [] then vl_byMAC l (vm_MACAddress vm) else None)))"

text \<open>The test in the loop of \<open>mergeOwnedVMStatuses\<close> that refuses a record of another VM.\<close>

definition previousVMDiffers :: "OwnedVMStatus \<Rightarrow> OwnedVMStatus \<Rightarrow> bool" where
  "previousVMDiffers vm previousVM \<longleftrightarrow>
     (vm_OwnerUID vm \<noteq> [] \<and> vm_OwnerUID previousVM \<noteq> [] \<and> vm_OwnerUID vm \<noteq> vm_OwnerUID previousVM)
     \<or> (vm_BIOSUUID vm \<noteq> [] \<and> vm_BIOSUUID previousVM \<noteq> [] \<and> vm_BIOSUUID vm \<noteq> vm_BIOSUUID previousVM)"

definition mergeOwnedVM :: "ownedVMLookup \<Rightarrow> OwnedVMStatus \<Rightarrow> OwnedVMStatus" where
  "mergeOwnedVM lookup vm =
     (case ownedVMLookup_match lookup vm of
        None \<Rightarrow> vm
      | Some previousVM \<Rightarrow>
          if previousVMDiffers vm previousVM then vm
          else vm\<lparr>vm_Phase := vm_Phase previousVM,
                  vm_Reason := vm_Reason previousVM,
                  vm_LastTransitionTime := vm_LastTransitionTime previousVM,
                  vm_AgentRef := vm_AgentRef previousVM,
                  vm_MachineRef := vm_MachineRef previousVM,
                  vm_BIOSUUID := (if vm_BIOSUUID vm = [] then vm_BIOSUUID previousVM else vm_BIOSUUID vm),
                  vm_OwnerUID := (if vm_OwnerUID vm = [] then vm_OwnerUID previousVM else vm_OwnerUID vm),
                  vm_Source := (if vm_Source vm = [] then vm_Source previousVM else vm_Source vm),
                  vm_MACAddress := (if vm_MACAddress vm = [] then vm_MACAddress previousVM else vm_MACAddress vm)\<rparr>)"

definition mergeOwnedVMStatuses :: "OwnedVMStatus list \<Rightarrow> OwnedVMStatus list \<Rightarrow> OwnedVMStatus list" where
  "mergeOwnedVMStatuses previous current =
     (if previous = [] \<or> current = [] then current
      else map (mergeOwnedVM (newOwnedVMLookup previous)) current)"

section \<open>Matching a VM with a discovered Agent\<close>

record agentIdentityLookup =
  al_byHostname :: "string \<rightharpoonup> AgentInfo"
  al_byName :: "string \<rightharpoonup> AgentInfo"
  al_byBIOSUUID :: "string \<rightharpoonup> AgentInfo"
  al_byMAC :: "string \<rightharpoonup> AgentInfo"
  al_ambiguousHostname :: "string set"
  al_ambiguousBIOSUUID :: "string set"
  al_ambiguousMAC :: "string set"

type_synonym identity_index = "(string \<rightharpoonup> AgentInfo) \<times> string set"

definition addUniqueAgentIdentity :: "identity_index \<Rightarrow> string \<Rightarrow> AgentInfo \<Rightarrow> identity_index" where
  "addUniqueAgentIdentity ia key agent =
     (case ia of (index, ambiguous) \<Rightarrow>
        if key \<in> ambiguous then (index, ambiguous)
        else case index key of
               Some existing \<Rightarrow> if ag_Name existing \<noteq> ag_Name agent then (index(key := None), insert key ambiguous)
                                else (index(key \<mapsto> agent), ambiguous)
             | None \<Rightarrow> (index(key \<mapsto> agent), ambiguous))"

text \<open>
  The loop of \<open>newAgentIdentityLookup\<close> touches its four index pairs independently, so each is built by
  its own fold over the agents, entering an agent when its key is not empty.
\<close>

definition unique_index :: "(AgentInfo \<Rightarrow> string) \<Rightarrow> AgentInfo list \<Rightarrow> identity_index" where
  "unique_index key agents =
     fold (\<lambda>agent ia. if key agent \<noteq> [] then addUniqueAgentIdentity ia (key agent) agent else ia)
       agents (Map.empty, {})"

definition newAgentIdentityLookup :: "AgentInfo list \<Rightarrow> agentIdentityLookup" where
  "newAgentIdentityLookup agents =
     (case unique_index agentObservedHostname agents of (byHostname, ambiguousHostname) \<Rightarrow>
      case unique_index ag_BIOSUUID agents of (byBIOSUUID, ambiguousBIOSUUID) \<Rightarrow>
      case unique_index ag_MAC agents of (byMAC, ambiguousMAC) \<Rightarrow>
        \<lparr>al_byHostname = byHostname, al_byName = index_by ag_Name agents,
         al_byBIOSUUID = byBIOSUUID, al_byMAC = byMAC,
         al_ambiguousHostname = ambiguousHostname, al_ambiguousBIOSUUID = ambiguousBIOSUUID,
         al_ambiguousMAC = ambiguousMAC\<rparr>)"

definition matchHostname :: "agentIdentityLookup \<Rightarrow> OwnedVMStatus \<Rightarrow> AgentInfo option" where
  "matchHostname l vm =
     (if vm_Name vm \<in> al_ambiguousHostname l then None
      else case al_byHostname l (vm_Name vm) of
             Some candidate \<Rightarrow> if \<not> vmIdentityConflictsAgent vm candidate then Some candidate else None
           | None \<Rightarrow> None)"

definition matchAgentRef :: "agentIdentityLookup \<Rightarrow> OwnedVMStatus \<Rightarrow> AgentInfo option" where
  "matchAgentRef l vm =
     (case vm_AgentRef vm of None \<Rightarrow> None
      | Some ref \<Rightarrow>
          if ref_Name ref = [] then None
          else case al_byName l (ref_Name ref) of
                 Some candidate \<Rightarrow> if \<not> vmIdentityConflictsAgent vm candidate then Some candidate else None
               | None \<Rightarrow> None)"

definition agentIdentityLookup_match :: "agentIdentityLookup \<Rightarrow> OwnedVMStatus \<Rightarrow> AgentInfo option" where
  "agentIdentityLookup_match l vm =
     (case (if vm_BIOSUUID vm \<noteq> [] \<and> vm_BIOSUUID vm \<notin> al_ambiguousBIOSUUID l
            then al_byBIOSUUID l (vm_BIOSUUID vm) else None) of Some agent \<Rightarrow> Some agent
      | None \<Rightarrow>
     (case (if vm_MACAddress vm \<noteq> [] \<and> vm_MACAddress vm \<notin> al_ambiguousMAC l
            then al_byMAC l (vm_MACAddress vm) else None) of Some agent \<Rightarrow> Some agent
      | None \<Rightarrow>
     (case matchHostname l vm of Some agent \<Rightarrow> Some agent
      | None \<Rightarrow> matchAgentRef l vm)))"

section \<open>The phases of an owned VM\<close>

definition setOwnedVMPhase :: "gotime \<Rightarrow> string \<Rightarrow> string \<Rightarrow> OwnedVMStatus \<Rightarrow> OwnedVMStatus" where
  "setOwnedVMPhase now phase reason vm =
     (if vm_Phase vm = phase \<and> vm_Reason vm = reason then vm
      else vm\<lparr>vm_Phase := phase, vm_Reason := reason, vm_LastTransitionTime := now\<rparr>)"

definition agentObjectReference :: "VsphereAgentPool \<Rightarrow> string \<Rightarrow> ObjectReference" where
  "agentObjectReference pool name =
     \<lparr>ref_APIVersion = agentAPIVersion, ref_Kind = ''Agent'', ref_Namespace = om_Namespace (pool_Meta pool),
      ref_Name = name, ref_UID = []\<rparr>"

definition machineObjectReference :: "VsphereAgentPool \<Rightarrow> string \<Rightarrow> ObjectReference" where
  "machineObjectReference pool name =
     \<lparr>ref_APIVersion = machineAPIVersion, ref_Kind = ''Machine'',
      ref_Namespace = ps_ControlPlaneNamespace (pool_Spec pool), ref_Name = name, ref_UID = []\<rparr>"

definition applyAgentToOwnedVMStatus ::
  "gotime \<Rightarrow> VsphereAgentPool \<Rightarrow> AgentInfo \<Rightarrow> OwnedVMStatus \<Rightarrow> OwnedVMStatus" where
  "applyAgentToOwnedVMStatus now pool agent vm =
     (let vm = vm\<lparr>vm_AgentRef := Some (agentObjectReference pool (ag_Name agent))\<rparr>;
          vm = (if ag_MAC agent \<noteq> [] then vm\<lparr>vm_MACAddress := ag_MAC agent\<rparr> else vm);
          vm = (if ag_BIOSUUID agent \<noteq> [] then vm\<lparr>vm_BIOSUUID := ag_BIOSUUID agent\<rparr> else vm);
          vm = vm\<lparr>vm_MachineRef := (if ag_MachineName agent \<noteq> []
                                     then Some (machineObjectReference pool (ag_MachineName agent)) else None)\<rparr>
      in if ag_Bound agent then setOwnedVMPhase now phaseBound ''AgentBound'' vm
         else if vm_Phase vm = phaseBound \<or> vm_Phase vm = phaseReleased
         then setOwnedVMPhase now phaseReleased reasonAgentReleased vm
         else setOwnedVMPhase now phaseAvailable ''AgentAvailable'' vm)"

definition agentOwnedVMStatus :: "gotime \<Rightarrow> VsphereAgentPool \<Rightarrow> AgentInfo \<Rightarrow> string \<Rightarrow> OwnedVMStatus" where
  "agentOwnedVMStatus now pool agent hostname =
     applyAgentToOwnedVMStatus now pool agent
       (emptyOwnedVMStatus\<lparr>vm_Name := hostname, vm_Source := vmSourceDiscoveredAgent,
          vm_MACAddress := ag_MAC agent, vm_LastTransitionTime := now\<rparr>)"

definition applyMachineStateToOwnedVMStatus ::
  "gotime \<Rightarrow> (string \<rightharpoonup> MachineInfo) \<Rightarrow> OwnedVMStatus \<Rightarrow> OwnedVMStatus" where
  "applyMachineStateToOwnedVMStatus now machines vm =
     (if objectReferenceName (vm_MachineRef vm) = [] then
        (if vm_Phase vm = phaseReleased \<and> vm_Reason vm = reasonMachineDeleting
         then setOwnedVMPhase now phaseReleased reasonMachineDeleted vm else vm)
      else case machines (objectReferenceName (vm_MachineRef vm)) of
             None \<Rightarrow> (if vm_Phase vm = phaseReleased \<and>
                        (vm_Reason vm = reasonMachineDeleting \<or> vm_Reason vm = reasonAgentReleased)
                     then setOwnedVMPhase now phaseReleased reasonMachineDeleted vm else vm)
           | Some machine \<Rightarrow> (if mi_Deleting machine
                              then setOwnedVMPhase now phaseReleased reasonMachineDeleting vm else vm))"

definition vmHadDiscoveredAgent :: "OwnedVMStatus \<Rightarrow> bool" where
  "vmHadDiscoveredAgent vm \<longleftrightarrow>
     (if (case vm_AgentRef vm of None \<Rightarrow> False | Some ref \<Rightarrow> ref_Name ref \<noteq> []) then True
      else vm_Phase vm = phaseAvailable \<or> vm_Phase vm = phaseBound \<or> vm_Phase vm = phaseReleased)"

definition ownedVMDiscoveryExpired :: "OwnedVMStatus \<Rightarrow> gotime \<Rightarrow> bool" where
  "ownedVMDiscoveryExpired vm now \<longleftrightarrow>
     (if vm_Phase vm = phaseOrphaned then True
      else if vm_Phase vm \<noteq> phaseProvisioning \<or> vm_Reason vm \<noteq> reasonAgentNotDiscovered
              \<or> vm_LastTransitionTime vm = 0 then False
      else \<not> now < vm_LastTransitionTime vm + orphanedOwnedVMGracePeriod)"

definition markOwnedVMWithoutMatchingAgent :: "gotime \<Rightarrow> OwnedVMStatus \<Rightarrow> OwnedVMStatus" where
  "markOwnedVMWithoutMatchingAgent now vm =
     (let previousTransitionTime = vm_LastTransitionTime vm
      in if vm_Phase vm = phaseOrphaned then vm
         else if vmHadDiscoveredAgent vm then setOwnedVMPhase now phaseOrphaned ''AgentMissing'' vm
         else if ownedVMDiscoveryExpired vm now then
           (let vm = setOwnedVMPhase now phaseOrphaned ''AgentDiscoveryExpired'' vm
            in if previousTransitionTime \<noteq> 0 then vm\<lparr>vm_LastTransitionTime := previousTransitionTime\<rparr> else vm)
         else setOwnedVMPhase now phaseProvisioning reasonAgentNotDiscovered vm)"

fun markOwnedVMAvailable ::
  "gotime \<Rightarrow> VsphereAgentPool \<Rightarrow> OwnedVMStatus list \<Rightarrow> string \<Rightarrow> string \<Rightarrow> OwnedVMStatus list" where
  "markOwnedVMAvailable now pool [] hostname agentName = []"
| "markOwnedVMAvailable now pool (vm # vms) hostname agentName =
     (if vm_Name vm \<noteq> hostname then vm # markOwnedVMAvailable now pool vms hostname agentName
      else setOwnedVMPhase now phaseAvailable ''AgentPrepared''
             (vm\<lparr>vm_AgentRef := Some (agentObjectReference pool agentName), vm_MachineRef := None\<rparr>) # vms)"

section \<open>Refreshing the owned VMs\<close>

text \<open>The part of the first loop of \<open>refreshOwnedVMStatuses\<close> for a VM whose Agent was found.\<close>

definition applyAgentKeepingMachine ::
  "gotime \<Rightarrow> VsphereAgentPool \<Rightarrow> AgentInfo \<Rightarrow> OwnedVMStatus \<Rightarrow> OwnedVMStatus" where
  "applyAgentKeepingMachine now pool agent vm =
     (let wasMachineDeleting = (vm_Phase vm = phaseReleased \<and> vm_Reason vm = reasonMachineDeleting);
          previousMachineRef = vm_MachineRef vm;
          vm = applyAgentToOwnedVMStatus now pool agent vm;
          vm = (if \<not> ag_Bound agent \<and> vm_MachineRef vm = None \<and> previousMachineRef \<noteq> None
                then vm\<lparr>vm_MachineRef := previousMachineRef\<rparr> else vm)
      in if wasMachineDeleting then
           (let vm = (if objectReferenceName (vm_MachineRef vm) = [] \<and>
                         objectReferenceName previousMachineRef \<noteq> []
                      then vm\<lparr>vm_MachineRef := previousMachineRef\<rparr> else vm)
            in setOwnedVMPhase now phaseReleased reasonMachineDeleting vm)
         else vm)"

definition refreshMatchedVM ::
  "gotime \<Rightarrow> VsphereAgentPool \<Rightarrow> (string \<rightharpoonup> MachineInfo) \<Rightarrow> AgentInfo \<Rightarrow> OwnedVMStatus \<Rightarrow> OwnedVMStatus" where
  "refreshMatchedVM now pool machineStates agent vm =
     applyMachineStateToOwnedVMStatus now machineStates (applyAgentKeepingMachine now pool agent vm)"

definition refreshUnmatchedVM ::
  "gotime \<Rightarrow> (string \<rightharpoonup> MachineInfo) \<Rightarrow> OwnedVMStatus \<Rightarrow> OwnedVMStatus" where
  "refreshUnmatchedVM now machineStates vm =
     (case machineStates (objectReferenceName (vm_MachineRef vm)) of
        Some machine \<Rightarrow> (if mi_Deleting machine then setOwnedVMPhase now phaseReleased reasonMachineDeleting vm
                         else vm)
      | None \<Rightarrow> markOwnedVMWithoutMatchingAgent now vm)"

definition refreshKnownVM ::
  "(OwnedVMStatus \<Rightarrow> AgentInfo option) \<Rightarrow> gotime \<Rightarrow> VsphereAgentPool \<Rightarrow> (string \<rightharpoonup> MachineInfo)
     \<Rightarrow> OwnedVMStatus \<Rightarrow> OwnedVMStatus" where
  "refreshKnownVM lookup_match now pool machineStates vm =
     (case lookup_match vm of
        None \<Rightarrow> refreshUnmatchedVM now machineStates vm
      | Some agent \<Rightarrow> refreshMatchedVM now pool machineStates agent vm)"

text \<open>The second loop: a discovered host with no VM record gets one.\<close>

fun adoptDiscoveredVMs ::
  "gotime \<Rightarrow> VsphereAgentPool \<Rightarrow> (string \<rightharpoonup> MachineInfo) \<Rightarrow> string set \<Rightarrow> string set \<Rightarrow> AgentInfo list
     \<Rightarrow> OwnedVMStatus list" where
  "adoptDiscoveredVMs now pool machineStates matchedAgents known [] = []"
| "adoptDiscoveredVMs now pool machineStates matchedAgents known (agent # agents) =
     (let hostname = agentObservedHostname agent
      in if ag_Name agent \<in> matchedAgents \<or> hostname = [] \<or> hostname \<in> known
         then adoptDiscoveredVMs now pool machineStates matchedAgents known agents
         else applyMachineStateToOwnedVMStatus now machineStates (agentOwnedVMStatus now pool agent hostname)
                # adoptDiscoveredVMs now pool machineStates matchedAgents (insert hostname known) agents)"

definition refreshOwnedVMStatuses ::
  "gotime \<Rightarrow> VsphereAgentPool \<Rightarrow> AgentInfo list \<Rightarrow> MachineInfo list \<Rightarrow> OwnedVMStatus list" where
  "refreshOwnedVMStatuses now pool agents machines =
     (let agentLookup = newAgentIdentityLookup agents;
          machineStates = index_by mi_Name machines;
          owned = pst_OwnedVMs (pool_Status pool);
          vms = map (refreshKnownVM (agentIdentityLookup_match agentLookup) now pool machineStates) owned;
          matchedAgents = set (map ag_Name (List.map_filter (agentIdentityLookup_match agentLookup) owned));
          knownVMNames = set (filter (\<lambda>n. n \<noteq> []) (map vm_Name owned))
      in vms @ adoptDiscoveredVMs now pool machineStates matchedAgents knownVMNames agents)"

section \<open>Which Agents belong to the pool\<close>

definition vsphereAgentBelongsToPool :: "VsphereAgent \<Rightarrow> string \<Rightarrow> bool" where
  "vsphereAgentBelongsToPool agent poolName \<longleftrightarrow>
     (if lor_Name (vas_PoolRef (va_Spec agent)) \<noteq> [] then lor_Name (vas_PoolRef (va_Spec agent)) = poolName
      else mget (om_Labels (va_Meta agent)) vsphereAgentPoolNameLabel = poolName)"

definition vsphereAgentHasPoolRef :: "VsphereAgent \<Rightarrow> bool" where
  "vsphereAgentHasPoolRef agent \<longleftrightarrow>
     lor_Name (vas_PoolRef (va_Spec agent)) \<noteq> [] \<or> mget (om_Labels (va_Meta agent)) vsphereAgentPoolNameLabel \<noteq> []"

definition vsphereAgentClaimsAgent :: "VsphereAgent \<Rightarrow> AgentInfo \<Rightarrow> bool" where
  "vsphereAgentClaimsAgent vsphereAgent agent =
     (let vm = vast_VM (va_Status vsphereAgent);
          hostname = agentObservedHostname agent
      in if objectReferenceName (vm_AgentRef vm) = ag_Name agent then True
         else if vmMatchesAgentIdentity vm agent then True
         else if hostname = [] then False
         else if vm_Name vm = hostname \<and> \<not> vmIdentityConflictsAgent vm agent then True
         else om_Name (va_Meta vsphereAgent) = hostname \<and> \<not> vmIdentityConflictsAgent vm agent)"

fun agentClaimedByOtherPool :: "AgentInfo \<Rightarrow> VsphereAgentPool \<Rightarrow> VsphereAgent list \<Rightarrow> bool" where
  "agentClaimedByOtherPool agent pool [] = False"
| "agentClaimedByOtherPool agent pool (va # vas) =
     (if om_DeletionTimestamp (va_Meta va) \<noteq> None \<or> \<not> vsphereAgentHasPoolRef va
         \<or> vsphereAgentBelongsToPool va (om_Name (pool_Meta pool))
      then agentClaimedByOtherPool agent pool vas
      else if vsphereAgentClaimsAgent va agent then True
      else agentClaimedByOtherPool agent pool vas)"

definition agentMatchesPoolDiscriminator :: "VsphereAgentPool \<Rightarrow> AgentInfo \<Rightarrow> bool" where
  "agentMatchesPoolDiscriminator pool agent \<longleftrightarrow>
     (case map_of (ab_Labels (ps_Agent (pool_Spec pool))) poolLabelKey of
        None \<Rightarrow> ag_PoolLabel agent = []
      | Some desiredPoolLabel \<Rightarrow>
          if ag_PoolLabel agent = desiredPoolLabel then True
          else if ag_PoolLabel agent \<noteq> [] \<or> ag_Bound agent then False
          else agentAssociatedWithOwnedVM (pst_OwnedVMs (pool_Status pool)) agent)"

definition agentCandidateLabels :: "VsphereAgentPool \<Rightarrow> strmap" where
  "agentCandidateLabels pool =
     filter (\<lambda>(key, value). \<not> (key = roleLabelKey \<or> key = poolLabelKey \<or> key = agentMachineSelectionLabel
                                  \<or> key = agentMachineRefKey))
       (ab_Labels (ps_Agent (pool_Spec pool)))"

definition agentBelongsToInfraEnv :: "AgentObj \<Rightarrow> string \<Rightarrow> bool" where
  "agentBelongsToInfraEnv agent infraEnvName \<longleftrightarrow>
     (if mget (om_Labels (ao_Meta agent)) infraEnvLabel = infraEnvName then True
      else list_ex (\<lambda>ref. own_Kind ref = ''InfraEnv'' \<and> own_Name ref = infraEnvName)
             (om_OwnerReferences (ao_Meta agent)))"

section \<open>Assigning VM names to Agents\<close>

type_synonym assignment = "strmap \<times> string set"

text \<open>
  One of the four loops of \<open>assignedAgentHostnames\<close>: every agent that is not skipped takes the first
  eligible VM whose name is not reserved.
\<close>

fun assign_vm :: "(OwnedVMStatus \<Rightarrow> bool) \<Rightarrow> string \<Rightarrow> OwnedVMStatus list \<Rightarrow> assignment \<Rightarrow> assignment" where
  "assign_vm eligible agentName [] st = st"
| "assign_vm eligible agentName (vm # vms) (assigned, reserved) =
     (if \<not> eligible vm \<or> vm_Name vm \<in> reserved then assign_vm eligible agentName vms (assigned, reserved)
      else (mput assigned agentName (vm_Name vm), insert (vm_Name vm) reserved))"

fun assign_pass ::
  "(AgentInfo \<Rightarrow> strmap \<Rightarrow> bool) \<Rightarrow> (AgentInfo \<Rightarrow> OwnedVMStatus \<Rightarrow> bool) \<Rightarrow> OwnedVMStatus list
     \<Rightarrow> AgentInfo list \<Rightarrow> assignment \<Rightarrow> assignment" where
  "assign_pass skip eligible vms [] st = st"
| "assign_pass skip eligible vms (agent # agents) st =
     assign_pass skip eligible vms agents
       (if skip agent (fst st) then st else assign_vm (eligible agent) (ag_Name agent) vms st)"

definition eligibleByIdentity :: "AgentInfo \<Rightarrow> OwnedVMStatus \<Rightarrow> bool" where
  "eligibleByIdentity agent vm \<longleftrightarrow>
     \<not> (vm_Name vm = [] \<or> vm_Phase vm = phaseBound) \<and> vmMatchesAgentIdentity vm agent"

definition eligibleByHostname :: "(AgentInfo \<Rightarrow> string) \<Rightarrow> AgentInfo \<Rightarrow> OwnedVMStatus \<Rightarrow> bool" where
  "eligibleByHostname host agent vm \<longleftrightarrow>
     \<not> (vm_Name vm \<noteq> host agent \<or> vm_Phase vm = phaseBound) \<and> \<not> vmIdentityConflictsAgent vm agent"

definition eligibleByRef :: "AgentInfo \<Rightarrow> OwnedVMStatus \<Rightarrow> bool" where
  "eligibleByRef agent vm \<longleftrightarrow>
     \<not> (vm_Name vm = [] \<or> vm_Phase vm = phaseBound) \<and> vmMatchesAgentRef vm agent"

definition assigned_state :: "VsphereAgentPool \<Rightarrow> AgentInfo list \<Rightarrow> assignment" where
  "assigned_state pool agents =
     (let vms = pst_OwnedVMs (pool_Status pool);
          st = assign_pass (\<lambda>_ _. False) eligibleByIdentity vms agents ([], {});
          st = assign_pass (\<lambda>agent assigned. mget assigned (ag_Name agent) \<noteq> [] \<or> ag_Hostname agent = [])
                 (eligibleByHostname ag_Hostname) vms agents st;
          st = assign_pass (\<lambda>agent assigned. mget assigned (ag_Name agent) \<noteq> []) eligibleByRef vms agents st
      in assign_pass (\<lambda>agent assigned. mget assigned (ag_Name agent) \<noteq> [] \<or> agentObservedHostname agent = [])
           (eligibleByHostname agentObservedHostname) vms agents st)"

definition assignedAgentHostnames :: "VsphereAgentPool \<Rightarrow> AgentInfo list \<Rightarrow> strmap" where
  "assignedAgentHostnames pool agents = fst (assigned_state pool agents)"


section \<open>The abstract life cycle of a VM\<close>

text \<open>
  What one refresh means for a VM, without strings: the phase it is in, what was observed of its Agent
  and of its Machine, and the phase it moves to.
\<close>

datatype vm_phase = PProvisioning | PAvailable | PBound | PReleased | PMachineDeleting | PMachineDeleted
  | POrphaned | PUnknown

datatype agent_obs = NoAgent | FreeAgent | BoundAgent

datatype machine_obs = NoMachineRef | MachineGone | MachineLive | MachineDeleting

definition absPhase :: "OwnedVMStatus \<Rightarrow> vm_phase" where
  "absPhase vm =
     (if vm_Phase vm = phaseProvisioning then PProvisioning
      else if vm_Phase vm = phaseAvailable then PAvailable
      else if vm_Phase vm = phaseBound then PBound
      else if vm_Phase vm = phaseOrphaned then POrphaned
      else if vm_Phase vm = phaseReleased then
        (if vm_Reason vm = reasonMachineDeleting then PMachineDeleting
         else if vm_Reason vm = reasonMachineDeleted then PMachineDeleted else PReleased)
      else PUnknown)"

definition absAgent :: "AgentInfo option \<Rightarrow> agent_obs" where
  "absAgent a = (case a of None \<Rightarrow> NoAgent | Some agent \<Rightarrow> if ag_Bound agent then BoundAgent else FreeAgent)"

definition absMachine :: "(string \<rightharpoonup> MachineInfo) \<Rightarrow> string \<Rightarrow> machine_obs" where
  "absMachine machineStates name =
     (if name = [] then NoMachineRef
      else case machineStates name of None \<Rightarrow> MachineGone
           | Some machine \<Rightarrow> if mi_Deleting machine then MachineDeleting else MachineLive)"

text \<open>The Machine a refresh looks at: the Agent's current one, else one remembered from before.\<close>

definition observedMachine :: "AgentInfo option \<Rightarrow> OwnedVMStatus \<Rightarrow> string" where
  "observedMachine a vm =
     (case a of None \<Rightarrow> objectReferenceName (vm_MachineRef vm)
      | Some agent \<Rightarrow>
          if ag_MachineName agent \<noteq> [] then ag_MachineName agent
          else if \<not> ag_Bound agent \<or> absPhase vm = PMachineDeleting then objectReferenceName (vm_MachineRef vm)
          else [])"

fun afterMachine :: "machine_obs \<Rightarrow> vm_phase \<Rightarrow> vm_phase" where
  "afterMachine NoMachineRef p = (if p = PMachineDeleting then PMachineDeleted else p)"
| "afterMachine MachineGone p = (if p = PMachineDeleting \<or> p = PReleased then PMachineDeleted else p)"
| "afterMachine MachineLive p = p"
| "afterMachine MachineDeleting p = PMachineDeleting"

fun afterAgent :: "agent_obs \<Rightarrow> vm_phase \<Rightarrow> vm_phase" where
  "afterAgent a PMachineDeleting = PMachineDeleting"
| "afterAgent BoundAgent p = PBound"
| "afterAgent a p = (if p = PBound \<or> p = PReleased \<or> p = PMachineDeleted then PReleased else PAvailable)"

fun phase_next :: "agent_obs \<Rightarrow> machine_obs \<Rightarrow> bool \<Rightarrow> bool \<Rightarrow> vm_phase \<Rightarrow> vm_phase" where
  "phase_next NoAgent MachineLive had expired p = p"
| "phase_next NoAgent MachineDeleting had expired p = PMachineDeleting"
| "phase_next NoAgent m had expired p = (if p = POrphaned \<or> had \<or> expired then POrphaned else PProvisioning)"
| "phase_next a m had expired p = afterMachine m (afterAgent a p)"

text \<open>A life of a VM: its observations so far, newest first, and the phase they led to.\<close>

type_synonym observation = "agent_obs \<times> machine_obs"

inductive vm_life :: "observation list \<Rightarrow> vm_phase \<Rightarrow> bool" where
  vm_created: "vm_life [] PProvisioning"
| vm_observed: "vm_life obs p \<Longrightarrow> vm_life ((a, m) # obs) (phase_next a m had expired p)"

definition cleanup_evidence :: "observation list \<Rightarrow> bool" where
  "cleanup_evidence obs \<longleftrightarrow> list_ex (\<lambda>(a, m). a = BoundAgent \<or> m = MachineDeleting) obs"

text \<open>
  The same on the program's own records: a VM seen by a sequence of refreshes, each with its Agents,
  instant, pool and Machines, and what those refreshes observed of it, newest first.
\<close>

type_synonym refresh_input = "AgentInfo list \<times> gotime \<times> VsphereAgentPool \<times> MachineInfo list"

definition refresh_step :: "refresh_input \<Rightarrow> OwnedVMStatus \<Rightarrow> OwnedVMStatus" where
  "refresh_step i vm = (case i of (agents, now, pool, machines) \<Rightarrow>
     refreshKnownVM (agentIdentityLookup_match (newAgentIdentityLookup agents)) now pool (index_by mi_Name machines) vm)"

definition refresh_observes :: "refresh_input \<Rightarrow> OwnedVMStatus \<Rightarrow> observation" where
  "refresh_observes i vm = (case i of (agents, now, pool, machines) \<Rightarrow>
     let a = agentIdentityLookup_match (newAgentIdentityLookup agents) vm
     in (absAgent a, absMachine (index_by mi_Name machines) (observedMachine a vm)))"

fun refresh_run :: "refresh_input list \<Rightarrow> observation list \<times> OwnedVMStatus \<Rightarrow> observation list \<times> OwnedVMStatus" where
  "refresh_run [] st = st"
| "refresh_run (i # is) (obs, vm) = refresh_run is (refresh_observes i vm # obs, refresh_step i vm)"

section \<open>Lemmas on single operations\<close>

inductive_cases vm_life_ConsE: "vm_life (o1 # obs) p"

named_theorems vm_fields \<open>what an operation on a VM record leaves alone\<close>

lemma setOwnedVMPhase_fields [simp, vm_fields]:
  "vm_Name (setOwnedVMPhase now p r vm) = vm_Name vm"
  "vm_OwnerUID (setOwnedVMPhase now p r vm) = vm_OwnerUID vm"
  "vm_Source (setOwnedVMPhase now p r vm) = vm_Source vm"
  "vm_BIOSUUID (setOwnedVMPhase now p r vm) = vm_BIOSUUID vm"
  "vm_MACAddress (setOwnedVMPhase now p r vm) = vm_MACAddress vm"
  "vm_AgentRef (setOwnedVMPhase now p r vm) = vm_AgentRef vm"
  "vm_MachineRef (setOwnedVMPhase now p r vm) = vm_MachineRef vm"
  "vm_Phase (setOwnedVMPhase now p r vm) = p"
  "vm_Reason (setOwnedVMPhase now p r vm) = r"
  by (simp_all add: setOwnedVMPhase_def)

lemma applyMachineState_fields [simp, vm_fields]:
  "vm_Name (applyMachineStateToOwnedVMStatus now ms vm) = vm_Name vm"
  "vm_OwnerUID (applyMachineStateToOwnedVMStatus now ms vm) = vm_OwnerUID vm"
  "vm_Source (applyMachineStateToOwnedVMStatus now ms vm) = vm_Source vm"
  "vm_BIOSUUID (applyMachineStateToOwnedVMStatus now ms vm) = vm_BIOSUUID vm"
  "vm_MACAddress (applyMachineStateToOwnedVMStatus now ms vm) = vm_MACAddress vm"
  "vm_AgentRef (applyMachineStateToOwnedVMStatus now ms vm) = vm_AgentRef vm"
  "vm_MachineRef (applyMachineStateToOwnedVMStatus now ms vm) = vm_MachineRef vm"
  by (simp_all add: applyMachineStateToOwnedVMStatus_def split: option.split)

lemma applyAgent_fields [simp, vm_fields]:
  "vm_Name (applyAgentToOwnedVMStatus now pool agent vm) = vm_Name vm"
  "vm_OwnerUID (applyAgentToOwnedVMStatus now pool agent vm) = vm_OwnerUID vm"
  "vm_Source (applyAgentToOwnedVMStatus now pool agent vm) = vm_Source vm"
  "vm_BIOSUUID (applyAgentToOwnedVMStatus now pool agent vm) =
     (if ag_BIOSUUID agent \<noteq> [] then ag_BIOSUUID agent else vm_BIOSUUID vm)"
  "vm_MACAddress (applyAgentToOwnedVMStatus now pool agent vm) =
     (if ag_MAC agent \<noteq> [] then ag_MAC agent else vm_MACAddress vm)"
  "vm_AgentRef (applyAgentToOwnedVMStatus now pool agent vm) = Some (agentObjectReference pool (ag_Name agent))"
  "vm_MachineRef (applyAgentToOwnedVMStatus now pool agent vm) =
     (if ag_MachineName agent \<noteq> [] then Some (machineObjectReference pool (ag_MachineName agent)) else None)"
  by (simp_all add: applyAgentToOwnedVMStatus_def Let_def)

lemma markWithoutAgent_fields [simp, vm_fields]:
  "vm_Name (markOwnedVMWithoutMatchingAgent now vm) = vm_Name vm"
  "vm_OwnerUID (markOwnedVMWithoutMatchingAgent now vm) = vm_OwnerUID vm"
  "vm_Source (markOwnedVMWithoutMatchingAgent now vm) = vm_Source vm"
  "vm_BIOSUUID (markOwnedVMWithoutMatchingAgent now vm) = vm_BIOSUUID vm"
  "vm_MACAddress (markOwnedVMWithoutMatchingAgent now vm) = vm_MACAddress vm"
  "vm_MachineRef (markOwnedVMWithoutMatchingAgent now vm) = vm_MachineRef vm"
  by (simp_all add: markOwnedVMWithoutMatchingAgent_def Let_def)

lemma refreshUnmatched_fields [simp, vm_fields]:
  "vm_Name (refreshUnmatchedVM now ms vm) = vm_Name vm"
  "vm_OwnerUID (refreshUnmatchedVM now ms vm) = vm_OwnerUID vm"
  "vm_Source (refreshUnmatchedVM now ms vm) = vm_Source vm"
  "vm_BIOSUUID (refreshUnmatchedVM now ms vm) = vm_BIOSUUID vm"
  "vm_MACAddress (refreshUnmatchedVM now ms vm) = vm_MACAddress vm"
  by (simp_all add: refreshUnmatchedVM_def split: option.split)

lemma refreshMatched_fields [simp, vm_fields]:
  "vm_Name (refreshMatchedVM now pool ms agent vm) = vm_Name vm"
  "vm_OwnerUID (refreshMatchedVM now pool ms agent vm) = vm_OwnerUID vm"
  "vm_Source (refreshMatchedVM now pool ms agent vm) = vm_Source vm"
  "vm_BIOSUUID (refreshMatchedVM now pool ms agent vm) =
     (if ag_BIOSUUID agent \<noteq> [] then ag_BIOSUUID agent else vm_BIOSUUID vm)"
  "vm_MACAddress (refreshMatchedVM now pool ms agent vm) =
     (if ag_MAC agent \<noteq> [] then ag_MAC agent else vm_MACAddress vm)"
  by (simp_all add: refreshMatchedVM_def applyAgentKeepingMachine_def Let_def)

lemma refreshKnown_fields [simp, vm_fields]:
  "vm_Name (refreshKnownVM mt now pool ms vm) = vm_Name vm"
  "vm_OwnerUID (refreshKnownVM mt now pool ms vm) = vm_OwnerUID vm"
  "vm_Source (refreshKnownVM mt now pool ms vm) = vm_Source vm"
  by (simp_all add: refreshKnownVM_def split: option.split)

lemma agentOwned_fields [simp, vm_fields]:
  "vm_Name (agentOwnedVMStatus now pool agent hostname) = hostname"
  "vm_OwnerUID (agentOwnedVMStatus now pool agent hostname) = []"
  "vm_Source (agentOwnedVMStatus now pool agent hostname) = vmSourceDiscoveredAgent"
  by (simp_all add: agentOwnedVMStatus_def emptyOwnedVMStatus_def)

lemma absPhase_setOwnedVMPhase [simp]:
  "absPhase (setOwnedVMPhase now phaseOrphaned r vm) = POrphaned"
  "absPhase (setOwnedVMPhase now phaseProvisioning r vm) = PProvisioning"
  "absPhase (setOwnedVMPhase now phaseBound r vm) = PBound"
  "absPhase (setOwnedVMPhase now phaseAvailable r vm) = PAvailable"
  "absPhase (setOwnedVMPhase now phaseReleased reasonMachineDeleting vm) = PMachineDeleting"
  "absPhase (setOwnedVMPhase now phaseReleased reasonMachineDeleted vm) = PMachineDeleted"
  "absPhase (setOwnedVMPhase now phaseReleased reasonAgentReleased vm) = PReleased"
  by (simp_all add: absPhase_def)

lemma absPhase_updates [simp]:
  "absPhase (vm\<lparr>vm_MachineRef := x\<rparr>) = absPhase vm"
  "absPhase (vm\<lparr>vm_AgentRef := y\<rparr>) = absPhase vm"
  "absPhase (vm\<lparr>vm_LastTransitionTime := t\<rparr>) = absPhase vm"
  "absPhase (vm\<lparr>vm_MACAddress := s\<rparr>) = absPhase vm"
  "absPhase (vm\<lparr>vm_BIOSUUID := u\<rparr>) = absPhase vm"
  by (simp_all add: absPhase_def)

lemma absPhase_iff:
  "absPhase vm = PMachineDeleting \<longleftrightarrow> vm_Phase vm = phaseReleased \<and> vm_Reason vm = reasonMachineDeleting"
  "absPhase vm = PMachineDeleted \<longleftrightarrow> vm_Phase vm = phaseReleased \<and> vm_Reason vm = reasonMachineDeleted"
  "absPhase vm = PBound \<longleftrightarrow> vm_Phase vm = phaseBound"
  "absPhase vm = POrphaned \<longleftrightarrow> vm_Phase vm = phaseOrphaned"
  "absPhase vm = PReleased \<longleftrightarrow> vm_Phase vm = phaseReleased \<and> vm_Reason vm \<noteq> reasonMachineDeleting
     \<and> vm_Reason vm \<noteq> reasonMachineDeleted"
  by (simp_all add: absPhase_def)

lemma absPhase_released:
  "vm_Phase vm = phaseReleased \<longleftrightarrow> absPhase vm = PReleased \<or> absPhase vm = PMachineDeleting \<or> absPhase vm = PMachineDeleted"
  by (auto simp: absPhase_def)

lemma applyAgent_phase:
  "absPhase (applyAgentToOwnedVMStatus now pool agent vm) =
     (if ag_Bound agent then PBound
      else if vm_Phase vm = phaseBound \<or> vm_Phase vm = phaseReleased then PReleased else PAvailable)"
  by (simp add: applyAgentToOwnedVMStatus_def Let_def)

lemma applyAgent_released_reason:
  "vm_Phase (applyAgentToOwnedVMStatus now pool agent vm) = phaseReleased \<Longrightarrow>
   vm_Reason (applyAgentToOwnedVMStatus now pool agent vm) = reasonAgentReleased"
  by (simp add: applyAgentToOwnedVMStatus_def Let_def split: if_splits)

lemma applyMachineState_refines:
  assumes "vm_Phase vm = phaseReleased \<Longrightarrow> vm_Reason vm = reasonMachineDeleting \<or> vm_Reason vm = reasonAgentReleased"
  shows "absPhase (applyMachineStateToOwnedVMStatus now ms vm) =
     afterMachine (absMachine ms (objectReferenceName (vm_MachineRef vm))) (absPhase vm)"
  using assms
  by (auto simp: applyMachineStateToOwnedVMStatus_def absMachine_def absPhase_iff split: option.split)

lemma refreshUnmatched_refines:
  assumes "[] \<notin> dom ms"
  shows "absPhase (refreshUnmatchedVM now ms vm) =
     phase_next NoAgent (absMachine ms (objectReferenceName (vm_MachineRef vm)))
       (vmHadDiscoveredAgent vm) (ownedVMDiscoveryExpired vm now) (absPhase vm)"
proof (cases "objectReferenceName (vm_MachineRef vm) = []")
  case True
  moreover have "ms [] = None" using assms by auto
  ultimately show ?thesis
    by (simp add: refreshUnmatchedVM_def markOwnedVMWithoutMatchingAgent_def absMachine_def absPhase_iff Let_def)
next
  case False
  then show ?thesis
    by (simp add: refreshUnmatchedVM_def markOwnedVMWithoutMatchingAgent_def absMachine_def absPhase_iff Let_def
          split: option.split)
qed

lemma keepingMachine_phase:
  "absPhase (applyAgentKeepingMachine now pool agent vm) = afterAgent (absAgent (Some agent)) (absPhase vm)"
proof (cases "absPhase vm = PMachineDeleting")
  case True
  then have "vm_Phase vm = phaseReleased \<and> vm_Reason vm = reasonMachineDeleting"
    by (simp add: absPhase_iff)
  with True show ?thesis by (simp add: applyAgentKeepingMachine_def Let_def)
next
  case False
  then have "\<not> (vm_Phase vm = phaseReleased \<and> vm_Reason vm = reasonMachineDeleting)"
    by (simp add: absPhase_iff)
  then have "absPhase (applyAgentKeepingMachine now pool agent vm) = absPhase (applyAgentToOwnedVMStatus now pool agent vm)"
    unfolding applyAgentKeepingMachine_def Let_def by (simp only: if_False) simp
  with False show ?thesis
    by (cases "absPhase vm") (auto simp: applyAgent_phase absAgent_def absPhase_released absPhase_iff [symmetric])
qed

lemma keepingMachine_reason:
  "vm_Phase (applyAgentKeepingMachine now pool agent vm) = phaseReleased \<Longrightarrow>
   vm_Reason (applyAgentKeepingMachine now pool agent vm) = reasonMachineDeleting \<or>
   vm_Reason (applyAgentKeepingMachine now pool agent vm) = reasonAgentReleased"
  using applyAgent_released_reason [of now pool agent vm]
  by (simp add: applyAgentKeepingMachine_def Let_def split: if_splits)

lemma keepingMachine_machine:
  "objectReferenceName (vm_MachineRef (applyAgentKeepingMachine now pool agent vm)) = observedMachine (Some agent) vm"
  by (auto simp: applyAgentKeepingMachine_def Let_def objectReferenceName_def observedMachine_def absPhase_iff
        machineObjectReference_def split: option.splits)

lemma phase_next_matched: "a \<noteq> NoAgent \<Longrightarrow> phase_next a m had expired p = afterMachine m (afterAgent a p)"
  by (cases a; cases m) simp_all

lemma refreshKnown_refines:
  assumes "[] \<notin> dom ms"
  shows "absPhase (refreshKnownVM mt now pool ms vm) =
     phase_next (absAgent (mt vm)) (absMachine ms (observedMachine (mt vm) vm))
       (vmHadDiscoveredAgent vm) (ownedVMDiscoveryExpired vm now) (absPhase vm)"
proof (cases "mt vm")
  case None
  then show ?thesis
    using refreshUnmatched_refines [OF assms, of now vm]
    by (simp add: refreshKnownVM_def absAgent_def observedMachine_def)
next
  case (Some agent)
  have "absAgent (Some agent) \<noteq> NoAgent" by (simp add: absAgent_def)
  then show ?thesis
    using Some applyMachineState_refines [OF keepingMachine_reason, of now pool agent vm]
    by (simp add: refreshKnownVM_def refreshMatchedVM_def phase_next_matched keepingMachine_phase
          keepingMachine_machine)
qed

section \<open>Lemmas on the indexes\<close>

text \<open>
  The interface between the pool controller and an index of Agents: what is returned for a VM is one of
  the indexed Agents, and its hardware does not contradict the VM's.
\<close>

locale agent_matcher =
  fixes matcher :: "AgentInfo list \<Rightarrow> OwnedVMStatus \<Rightarrow> AgentInfo option"
  assumes matcher_member: "matcher agents vm = Some a \<Longrightarrow> a \<in> set agents"
    and matcher_safe: "matcher agents vm = Some a \<Longrightarrow> \<not> vmIdentityConflictsAgent vm a"
begin

lemma refresh_keeps_hardware:
  assumes "vm' = refreshKnownVM (matcher agents) now pool ms vm"
    and "vm_BIOSUUID vm \<noteq> []" and "vm_MACAddress vm \<noteq> []"
  shows "vm_BIOSUUID vm' = vm_BIOSUUID vm \<or> vm_MACAddress vm' = vm_MACAddress vm"
proof (cases "matcher agents vm")
  case None
  then show ?thesis using assms by (simp add: refreshKnownVM_def)
next
  case (Some a)
  then show ?thesis
    using assms matcher_safe [OF Some]
    by (auto simp: refreshKnownVM_def conflict_iff vmMatchesAgentIdentity_def split: if_splits)
qed

lemma refresh_bound_has_agent:
  assumes "vm_Phase (refreshKnownVM (matcher agents) now pool ms vm) = phaseBound"
    and "vm_Phase vm \<noteq> phaseBound" and "[] \<notin> dom ms"
  shows "\<exists>a \<in> set agents. ag_Bound a \<and> \<not> vmIdentityConflictsAgent vm a"
proof (cases "matcher agents vm")
  case None
  then show ?thesis
    using assms refreshUnmatched_refines [OF assms(3), of now vm]
    by (cases "absMachine ms (objectReferenceName (vm_MachineRef vm))")
      (auto simp: refreshKnownVM_def absPhase_iff(3) [symmetric] split: if_splits)
next
  case (Some a)
  have "absPhase (refreshKnownVM (matcher agents) now pool ms vm) = PBound"
    using assms(1) by (simp add: absPhase_iff)
  then have "ag_Bound a"
    using Some refreshKnown_refines [OF assms(3), of "matcher agents" now pool vm]
    by (cases "absPhase vm"; cases "absMachine ms (observedMachine (Some a) vm)")
      (auto simp: absAgent_def phase_next_matched split: if_splits)
  then show ?thesis
    using matcher_member [OF Some] matcher_safe [OF Some] by blast
qed

end

definition names_with :: "(AgentInfo \<Rightarrow> string) \<Rightarrow> AgentInfo set \<Rightarrow> string \<Rightarrow> string set" where
  "names_with key A k = ag_Name ` {b \<in> A. key b = k}"

definition index_entry_ok :: "(AgentInfo \<Rightarrow> string) \<Rightarrow> AgentInfo set \<Rightarrow> identity_index \<Rightarrow> string \<Rightarrow> bool" where
  "index_entry_ok key A ia k \<longleftrightarrow>
     (case fst ia k of
        Some a \<Rightarrow> a \<in> A \<and> key a = k \<and> k \<notin> snd ia \<and> names_with key A k = {ag_Name a}
      | None \<Rightarrow> if k \<in> snd ia then \<not> (\<exists>n. names_with key A k \<subseteq> {n}) else names_with key A k = {})"

definition index_sound :: "(AgentInfo \<Rightarrow> string) \<Rightarrow> AgentInfo set \<Rightarrow> identity_index \<Rightarrow> bool" where
  "index_sound key A ia \<longleftrightarrow> (\<forall>k. k \<noteq> [] \<longrightarrow> index_entry_ok key A ia k) \<and> fst ia [] = None"

lemma names_with_insert [simp]:
  "names_with key (insert a A) k = (if key a = k then insert (ag_Name a) (names_with key A k) else names_with key A k)"
  by (auto simp: names_with_def)

lemma names_with_empty [simp]: "names_with key {} k = {}"
  by (simp add: names_with_def)

lemma index_entry_other:
  "k \<noteq> key a \<Longrightarrow> index_entry_ok key (insert a A) ia k = index_entry_ok key A ia k"
  by (auto simp: index_entry_ok_def split: option.split)

lemma addUnique_other:
  "k \<noteq> k' \<Longrightarrow> fst (addUniqueAgentIdentity ia k' a) k = fst ia k \<and>
     (k \<in> snd (addUniqueAgentIdentity ia k' a) \<longleftrightarrow> k \<in> snd ia)"
  by (auto simp: addUniqueAgentIdentity_def split: prod.split option.split)

lemma index_entry_cong:
  "fst ia k = fst ib k \<Longrightarrow> (k \<in> snd ia) = (k \<in> snd ib) \<Longrightarrow> index_entry_ok key A ia k = index_entry_ok key A ib k"
  by (simp add: index_entry_ok_def split: option.split)

lemma index_entry_add:
  assumes "index_entry_ok key A ia (key a)"
  shows "index_entry_ok key (insert a A) (addUniqueAgentIdentity ia (key a) a) (key a)"
proof -
  obtain ix am where ia: "ia = (ix, am)" by (cases ia)
  consider (amb) "ix (key a) = None" "key a \<in> am" | (new) "ix (key a) = None" "key a \<notin> am"
    | (clash) e where "ix (key a) = Some e" "ag_Name e \<noteq> ag_Name a"
    | (same) e where "ix (key a) = Some e" "ag_Name e = ag_Name a"
    by (cases "ix (key a)") auto
  then show ?thesis
  proof cases
    case amb
    then show ?thesis using assms unfolding ia by (simp add: index_entry_ok_def addUniqueAgentIdentity_def)
  next
    case new
    then show ?thesis using assms unfolding ia by (simp add: index_entry_ok_def addUniqueAgentIdentity_def)
  next
    case clash
    then show ?thesis using assms unfolding ia by (auto simp: index_entry_ok_def addUniqueAgentIdentity_def)
  next
    case same
    then show ?thesis using assms unfolding ia by (auto simp: index_entry_ok_def addUniqueAgentIdentity_def)
  qed
qed

lemma index_sound_add:
  assumes sound: "index_sound key A ia" and a: "key a \<noteq> []"
  shows "index_sound key (insert a A) (addUniqueAgentIdentity ia (key a) a)"
proof -
  have "index_entry_ok key (insert a A) (addUniqueAgentIdentity ia (key a) a) k" if k: "k \<noteq> []" for k
  proof (cases "k = key a")
    case True
    then show ?thesis using sound a by (auto simp: index_sound_def intro: index_entry_add)
  next
    case False
    then show ?thesis
      using sound k addUnique_other [OF False, of ia a]
      by (simp add: index_entry_other index_sound_def)
        (metis index_entry_cong)
  qed
  moreover have "fst (addUniqueAgentIdentity ia (key a) a) [] = None"
    using sound a addUnique_other [of "[]" "key a" ia a] by (simp add: index_sound_def)
  ultimately show ?thesis by (simp add: index_sound_def)
qed

lemma index_sound_skip: "index_sound key A ia \<Longrightarrow> key a = [] \<Longrightarrow> index_sound key (insert a A) ia"
  by (simp add: index_sound_def index_entry_other)

lemma unique_index_fold:
  "index_sound key A ia \<Longrightarrow>
   index_sound key (set agents \<union> A)
     (fold (\<lambda>agent ia. if key agent \<noteq> [] then addUniqueAgentIdentity ia (key agent) agent else ia) agents ia)"
proof (induction agents arbitrary: A ia)
  case (Cons a agents)
  define ia' where "ia' = (if key a \<noteq> [] then addUniqueAgentIdentity ia (key a) a else ia)"
  have "index_sound key (insert a A) ia'"
    using Cons.prems by (simp add: ia'_def index_sound_add index_sound_skip)
  from Cons.IH [OF this] show ?case
    by (simp add: ia'_def)
qed simp

lemma unique_index_sound: "index_sound key (set agents) (unique_index key agents)"
  using unique_index_fold [of key "{}" "(Map.empty, {})" agents]
  by (simp add: unique_index_def index_sound_def index_entry_ok_def)

lemma unique_index_Some:
  assumes "fst (unique_index key agents) k = Some a"
  shows "a \<in> set agents" "key a = k" "k \<noteq> []" "k \<notin> snd (unique_index key agents)"
    "names_with key (set agents) k = {ag_Name a}"
proof -
  show k: "k \<noteq> []" using unique_index_sound [of key agents] assms by (auto simp: index_sound_def)
  then have ok: "index_entry_ok key (set agents) (unique_index key agents) k"
    using unique_index_sound [of key agents] by (simp add: index_sound_def)
  show "a \<in> set agents" "key a = k" "k \<notin> snd (unique_index key agents)"
    "names_with key (set agents) k = {ag_Name a}"
    using ok assms by (simp_all add: index_entry_ok_def)
qed

lemma lookup_fields [simp]:
  "al_byHostname (newAgentIdentityLookup agents) = fst (unique_index agentObservedHostname agents)"
  "al_byBIOSUUID (newAgentIdentityLookup agents) = fst (unique_index ag_BIOSUUID agents)"
  "al_byMAC (newAgentIdentityLookup agents) = fst (unique_index ag_MAC agents)"
  "al_byName (newAgentIdentityLookup agents) = index_by ag_Name agents"
  "al_ambiguousHostname (newAgentIdentityLookup agents) = snd (unique_index agentObservedHostname agents)"
  "al_ambiguousBIOSUUID (newAgentIdentityLookup agents) = snd (unique_index ag_BIOSUUID agents)"
  "al_ambiguousMAC (newAgentIdentityLookup agents) = snd (unique_index ag_MAC agents)"
  by (simp_all add: newAgentIdentityLookup_def split: prod.split)

text \<open>How a match came about: by hardware, or by name or reference with no contradicting hardware.\<close>

lemma lookup_match_cases:
  assumes "agentIdentityLookup_match (newAgentIdentityLookup agents) vm = Some a"
  obtains (bios) "fst (unique_index ag_BIOSUUID agents) (vm_BIOSUUID vm) = Some a"
    | (mac) "fst (unique_index ag_MAC agents) (vm_MACAddress vm) = Some a"
    | (host) "fst (unique_index agentObservedHostname agents) (vm_Name vm) = Some a" "\<not> vmIdentityConflictsAgent vm a"
    | (ref) "index_by ag_Name agents (ownedVMAgentName vm) = Some a" "\<not> vmIdentityConflictsAgent vm a"
proof -
  have "fst (unique_index ag_BIOSUUID agents) (vm_BIOSUUID vm) = Some a
    \<or> fst (unique_index ag_MAC agents) (vm_MACAddress vm) = Some a
    \<or> fst (unique_index agentObservedHostname agents) (vm_Name vm) = Some a \<and> \<not> vmIdentityConflictsAgent vm a
    \<or> index_by ag_Name agents (ownedVMAgentName vm) = Some a \<and> \<not> vmIdentityConflictsAgent vm a"
    using assms
    by (simp add: agentIdentityLookup_match_def matchHostname_def matchAgentRef_def ownedVMAgentName_def
          split: option.split_asm if_split_asm)
  then show thesis using that by blast
qed

lemma lookup_match_member:
  assumes "agentIdentityLookup_match (newAgentIdentityLookup agents) vm = Some a"
  shows "a \<in> set agents"
  using assms by (cases rule: lookup_match_cases) (auto dest: unique_index_Some(1) index_by_Some)

lemma lookup_match_safe:
  assumes "agentIdentityLookup_match (newAgentIdentityLookup agents) vm = Some a"
  shows "\<not> vmIdentityConflictsAgent vm a"
  using assms
proof (cases rule: lookup_match_cases)
  case bios
  then show ?thesis using unique_index_Some(2,3) [OF bios] by (simp add: vmIdentityConflictsAgent_def Let_def)
next
  case mac
  then show ?thesis using unique_index_Some(2,3) [OF mac] by (simp add: vmIdentityConflictsAgent_def Let_def)
qed

interpretation lookup: agent_matcher "\<lambda>agents. agentIdentityLookup_match (newAgentIdentityLookup agents)"
  by unfold_locales (auto dest: lookup_match_member simp: lookup_match_safe)

section \<open>Refreshing\<close>

lemma adopt_fields:
  assumes "vm \<in> set (adoptDiscoveredVMs now pool ms matched known agents)"
  shows "vm_OwnerUID vm = [] \<and> vm_Source vm = vmSourceDiscoveredAgent \<and> vm_Name vm \<noteq> [] \<and> vm_Name vm \<notin> known"
  using assms
  by (induction agents arbitrary: known) (auto simp: Let_def split: if_splits)

lemma adopt_distinct: "distinct (map vm_Name (adoptDiscoveredVMs now pool ms matched known agents))"
  by (induction agents arbitrary: known) (auto simp: Let_def dest!: adopt_fields)

lemma refresh_split:
  "\<exists>new. refreshOwnedVMStatuses now pool agents machines =
     map (\<lambda>vm. refresh_step (agents, now, pool, machines) vm) (pst_OwnedVMs (pool_Status pool)) @ new
   \<and> distinct (map vm_Name new)
   \<and> (\<forall>vm \<in> set new. vm_OwnerUID vm = [] \<and> vm_Source vm = vmSourceDiscoveredAgent \<and> vm_Name vm \<noteq> []
        \<and> vm_Name vm \<notin> vm_Name ` set (pst_OwnedVMs (pool_Status pool)))"
proof -
  let ?owned = "pst_OwnedVMs (pool_Status pool)"
  let ?mt = "agentIdentityLookup_match (newAgentIdentityLookup agents)"
  define new where "new = adoptDiscoveredVMs now pool (index_by mi_Name machines)
    (set (map ag_Name (List.map_filter ?mt ?owned))) (set (filter (\<lambda>n. n \<noteq> []) (map vm_Name ?owned))) agents"
  have "refreshOwnedVMStatuses now pool agents machines =
      map (\<lambda>vm. refresh_step (agents, now, pool, machines) vm) ?owned @ new"
    by (simp add: refreshOwnedVMStatuses_def Let_def refresh_step_def new_def)
  moreover have "distinct (map vm_Name new)"
    unfolding new_def by (rule adopt_distinct)
  moreover have "vm_OwnerUID vm = [] \<and> vm_Source vm = vmSourceDiscoveredAgent \<and> vm_Name vm \<noteq> []
      \<and> vm_Name vm \<notin> vm_Name ` set ?owned" if "vm \<in> set new" for vm
    using adopt_fields [OF that [unfolded new_def]] by auto
  ultimately show ?thesis by blast
qed

text \<open>C30: Refreshing the owned VMs (\<open>refreshOwnedVMStatuses\<close>) keeps every recorded VM at its place with
  its name, owner and source; what it appends are discovered hosts without an owner, under new names; and
  distinct names stay distinct.\<close>

theorem refresh_keeps_vms:
  "let owned = pst_OwnedVMs (pool_Status pool);
       refreshed = refreshOwnedVMStatuses now pool agents machines
   in length owned \<le> length refreshed \<and>
      map (\<lambda>vm. (vm_Name vm, vm_OwnerUID vm, vm_Source vm)) (take (length owned) refreshed)
        = map (\<lambda>vm. (vm_Name vm, vm_OwnerUID vm, vm_Source vm)) owned \<and>
      list_all (\<lambda>vm. vm_OwnerUID vm = [] \<and> vm_Source vm = vmSourceDiscoveredAgent \<and> vm_Name vm \<noteq> [])
        (drop (length owned) refreshed) \<and>
      distinct (map vm_Name refreshed) = distinct (map vm_Name owned)"
proof -
  obtain new where new: "refreshOwnedVMStatuses now pool agents machines =
       map (\<lambda>vm. refresh_step (agents, now, pool, machines) vm) (pst_OwnedVMs (pool_Status pool)) @ new"
    "distinct (map vm_Name new)"
    "\<forall>vm \<in> set new. vm_OwnerUID vm = [] \<and> vm_Source vm = vmSourceDiscoveredAgent \<and> vm_Name vm \<noteq> []
        \<and> vm_Name vm \<notin> vm_Name ` set (pst_OwnedVMs (pool_Status pool))"
    using refresh_split by blast
  have names: "map vm_Name (map (\<lambda>vm. refresh_step (agents, now, pool, machines) vm) (pst_OwnedVMs (pool_Status pool)))
      = map vm_Name (pst_OwnedVMs (pool_Status pool))"
    by (simp add: refresh_step_def)
  have disj: "vm_Name ` set (pst_OwnedVMs (pool_Status pool)) \<inter> vm_Name ` set new = {}"
  proof (rule equals0I)
    fix n
    assume n: "n \<in> vm_Name ` set (pst_OwnedVMs (pool_Status pool)) \<inter> vm_Name ` set new"
    then obtain vm where "vm \<in> set new" "n = vm_Name vm" by (elim IntE imageE)
    then have "n \<notin> vm_Name ` set (pst_OwnedVMs (pool_Status pool))" using bspec [OF new(3)] by metis
    then show False using IntD1 [OF n] by (rule notE)
  qed
  have dist: "distinct (map vm_Name (refreshOwnedVMStatuses now pool agents machines))
      = distinct (map vm_Name (pst_OwnedVMs (pool_Status pool)))"
    unfolding new(1) map_append distinct_append names using new(2) disj by simp
  have foreign: "list_all (\<lambda>vm. vm_OwnerUID vm = [] \<and> vm_Source vm = vmSourceDiscoveredAgent \<and> vm_Name vm \<noteq> []) new"
    using new(3) unfolding list_all_iff by blast
  show ?thesis
    unfolding Let_def dist using foreign unfolding new(1) by (simp add: refresh_step_def)
qed

lemma index_by_nonempty: "[] \<notin> mi_Name ` set machines \<Longrightarrow> [] \<notin> dom (index_by mi_Name machines)"
  using index_by_None [of mi_Name machines "[]"] by auto

lemma refresh_step_refines:
  assumes "[] \<notin> mi_Name ` set (snd (snd (snd i)))"
  shows "\<exists>had expired. absPhase (refresh_step i vm) =
     phase_next (fst (refresh_observes i vm)) (snd (refresh_observes i vm)) had expired (absPhase vm)"
proof -
  obtain agents now pool machines where i: "i = (agents, now, pool, machines)" by (cases i)
  have "[] \<notin> dom (index_by mi_Name machines)" using assms by (intro index_by_nonempty) (simp add: i)
  from refreshKnown_refines [OF this] show ?thesis
    unfolding i refresh_step_def refresh_observes_def Let_def by simp blast
qed

text \<open>C12: Each recorded VM moves through its phases exactly as the abstract life cycle \<open>phase_next\<close>
  says, from what was observed of its Agent and Machine, whether it ever had an Agent, and whether its
  discovery expired.\<close>

theorem refresh_refines_lifecycle:
  assumes "i < length (pst_OwnedVMs (pool_Status pool))"
    and "[] \<notin> mi_Name ` set machines"
  shows "let vm = pst_OwnedVMs (pool_Status pool) ! i;
             a = agentIdentityLookup_match (newAgentIdentityLookup agents) vm
         in absPhase (refreshOwnedVMStatuses now pool agents machines ! i) =
              phase_next (absAgent a) (absMachine (index_by mi_Name machines) (observedMachine a vm))
                (vmHadDiscoveredAgent vm) (ownedVMDiscoveryExpired vm now) (absPhase vm)"
  using assms
  by (simp add: refreshOwnedVMStatuses_def Let_def nth_append refreshKnown_refines [OF index_by_nonempty])

lemma afterMachine_deleted:
  "afterMachine m p = PMachineDeleted \<Longrightarrow> p \<noteq> PMachineDeleted \<Longrightarrow> m = NoMachineRef \<or> m = MachineGone"
  by (cases m) (simp_all split: if_splits)

lemma afterAgent_not_deleted [simp]: "afterAgent a p \<noteq> PMachineDeleted"
  by (cases a; cases p) simp_all

lemma phase_next_deleted:
  assumes "phase_next a m had expired p = PMachineDeleted"
  shows "(a = NoAgent \<and> m = MachineLive \<and> p = PMachineDeleted) \<or> (a \<noteq> NoAgent \<and> (m = NoMachineRef \<or> m = MachineGone))"
  using assms
  by (cases a; cases m) (auto split: if_splits)

text \<open>A recorded VM is in state \<open>MachineDeleted\<close> after a refresh only if no Machine of the recorded
  name exists, or if it was in that state before and the refresh, finding no Agent for it, left it
  alone.\<close>

theorem refresh_machine_deleted_sound:
  assumes "i < length (pst_OwnedVMs (pool_Status pool))"
    and "[] \<notin> mi_Name ` set machines"
    and "vm_Phase (refreshOwnedVMStatuses now pool agents machines ! i) = phaseReleased"
    and "vm_Reason (refreshOwnedVMStatuses now pool agents machines ! i) = reasonMachineDeleted"
  shows "objectReferenceName (vm_MachineRef (refreshOwnedVMStatuses now pool agents machines ! i)) \<notin> mi_Name ` set machines
     \<or> refreshOwnedVMStatuses now pool agents machines ! i = pst_OwnedVMs (pool_Status pool) ! i"
proof -
  define vm where "vm = pst_OwnedVMs (pool_Status pool) ! i"
  define ms where "ms = index_by mi_Name machines"
  define mt where "mt = agentIdentityLookup_match (newAgentIdentityLookup agents)"
  have eq: "refreshOwnedVMStatuses now pool agents machines ! i = refreshKnownVM mt now pool ms vm"
    using assms(1) by (simp add: refreshOwnedVMStatuses_def Let_def nth_append vm_def ms_def mt_def)
  have dom: "[] \<notin> dom ms" unfolding ms_def using assms(2) by (rule index_by_nonempty)
  have "absPhase (refreshKnownVM mt now pool ms vm) = PMachineDeleted"
    using assms(3,4) unfolding eq absPhase_iff by simp
  then have next_del: "phase_next (absAgent (mt vm)) (absMachine ms (observedMachine (mt vm) vm))
      (vmHadDiscoveredAgent vm) (ownedVMDiscoveryExpired vm now) (absPhase vm) = PMachineDeleted"
    unfolding refreshKnown_refines [OF dom] .
  show ?thesis
  proof (cases "mt vm")
    case None
    then have "absMachine ms (objectReferenceName (vm_MachineRef vm)) = MachineLive"
      using phase_next_deleted [OF next_del] by (simp add: absAgent_def observedMachine_def)
    then have "refreshKnownVM mt now pool ms vm = vm"
      using None by (simp add: refreshKnownVM_def refreshUnmatchedVM_def absMachine_def split: option.splits if_splits)
    then show ?thesis by (simp add: eq vm_def)
  next
    case (Some a)
    then have m: "absMachine ms (observedMachine (Some a) vm) = NoMachineRef \<or>
        absMachine ms (observedMachine (Some a) vm) = MachineGone"
      using phase_next_deleted [OF next_del] by (simp add: absAgent_def split: if_splits)
    have "objectReferenceName (vm_MachineRef (refreshKnownVM mt now pool ms vm)) = observedMachine (Some a) vm"
      using Some by (simp add: refreshKnownVM_def refreshMatchedVM_def keepingMachine_machine)
    moreover have "observedMachine (Some a) vm \<notin> mi_Name ` set machines"
      using m assms(2) by (auto simp: absMachine_def ms_def index_by_None split: option.splits if_splits)
    ultimately show ?thesis by (simp add: eq)
  qed
qed

lemma life_evidence:
  "vm_life obs p \<Longrightarrow> p \<in> {PBound, PReleased, PMachineDeleting, PMachineDeleted} \<Longrightarrow> cleanup_evidence obs"
proof (induction rule: vm_life.induct)
  case (vm_observed obs p a m had expired)
  then show ?case
    by (cases a; cases m; cases p) (auto simp: cleanup_evidence_def split: if_splits)
qed simp

lemma run_is_life:
  "vm_life obs (absPhase vm) \<Longrightarrow> list_all (\<lambda>i. [] \<notin> mi_Name ` set (snd (snd (snd i)))) is \<Longrightarrow>
   refresh_run is (obs, vm) = (obs', vm') \<Longrightarrow> vm_life obs' (absPhase vm')"
proof (induction "is" arbitrary: obs vm)
  case (Cons i "is")
  obtain had expired where "absPhase (refresh_step i vm) =
     phase_next (fst (refresh_observes i vm)) (snd (refresh_observes i vm)) had expired (absPhase vm)"
    using refresh_step_refines [of i vm] Cons.prems(2) by auto
  moreover have "vm_life ((fst (refresh_observes i vm), snd (refresh_observes i vm)) # obs)
     (phase_next (fst (refresh_observes i vm)) (snd (refresh_observes i vm)) had expired (absPhase vm))"
    by (rule vm_observed [OF Cons.prems(1)])
  ultimately have "vm_life (refresh_observes i vm # obs) (absPhase (refresh_step i vm))" by simp
  from Cons.IH [OF this] Cons.prems(2,3) show ?case by simp
qed simp

text \<open>C19: Over any sequence of refreshes starting from a VM still being provisioned, the VM is marked
  \<open>MachineDeleted\<close>, the state in which the planner deletes it at once, only if one of these refreshes saw
  its Agent bound or its Machine being deleted.\<close>

theorem machine_deleted_needs_evidence:
  assumes "vm_Phase vm = phaseProvisioning"
    and "list_all (\<lambda>i. [] \<notin> mi_Name ` set (snd (snd (snd i)))) is"
    and "vm_Phase (snd (refresh_run is ([], vm))) = phaseReleased"
    and "vm_Reason (snd (refresh_run is ([], vm))) = reasonMachineDeleted"
  shows "cleanup_evidence (fst (refresh_run is ([], vm)))"
proof -
  have "vm_life [] (absPhase vm)" using assms(1) vm_created by (simp add: absPhase_def)
  from run_is_life [OF this assms(2)]
  have "vm_life (fst (refresh_run is ([], vm))) (absPhase (snd (refresh_run is ([], vm))))" by simp
  moreover have "absPhase (snd (refresh_run is ([], vm))) = PMachineDeleted"
    using assms(3,4) by (simp add: absPhase_iff)
  ultimately show ?thesis using life_evidence by blast
qed

section \<open>Assigning VM names\<close>

definition assignable :: "AgentInfo \<Rightarrow> OwnedVMStatus \<Rightarrow> bool" where
  "assignable agent vm \<longleftrightarrow> vm_Name vm \<noteq> [] \<and> vm_Phase vm \<noteq> phaseBound \<and> \<not> vmIdentityConflictsAgent vm agent"

definition assignment_ok :: "OwnedVMStatus list \<Rightarrow> AgentInfo set \<Rightarrow> assignment \<Rightarrow> bool" where
  "assignment_ok vms A st \<longleftrightarrow>
     (\<forall>a. mget (fst st) a \<noteq> [] \<longrightarrow> mget (fst st) a \<in> snd st \<and>
        (\<exists>agent \<in> A. \<exists>vm \<in> set vms. ag_Name agent = a \<and> vm_Name vm = mget (fst st) a \<and> assignable agent vm)) \<and>
     (\<forall>a b. mget (fst st) a \<noteq> [] \<longrightarrow> mget (fst st) a = mget (fst st) b \<longrightarrow> a = b)"

definition reserved_used :: "assignment \<Rightarrow> bool" where
  "reserved_used st \<longleftrightarrow> (\<forall>n \<in> snd st. n \<noteq> [] \<and> (\<exists>a. mget (fst st) a = n))"

lemma assign_vm_cases:
  obtains (none) "assign_vm eligible n vms st = st" "\<forall>vm \<in> set vms. eligible vm \<longrightarrow> vm_Name vm \<in> snd st"
    | (taken) vm where "vm \<in> set vms" "eligible vm" "vm_Name vm \<notin> snd st"
        "assign_vm eligible n vms st = (mput (fst st) n (vm_Name vm), insert (vm_Name vm) (snd st))"
proof -
  have "(assign_vm eligible n vms st = st \<and> (\<forall>vm \<in> set vms. eligible vm \<longrightarrow> vm_Name vm \<in> snd st)) \<or>
    (\<exists>vm \<in> set vms. eligible vm \<and> vm_Name vm \<notin> snd st \<and>
       assign_vm eligible n vms st = (mput (fst st) n (vm_Name vm), insert (vm_Name vm) (snd st)))"
    by (induction eligible n vms st rule: assign_vm.induct) auto
  then show thesis using none taken by blast
qed

lemma assign_vm_mono: "snd st \<subseteq> snd (assign_vm eligible n vms st)"
  by (rule assign_vm_cases [of eligible n vms st]) auto

lemma assign_vm_other: "a \<noteq> n \<Longrightarrow> mget (fst (assign_vm eligible n vms st)) a = mget (fst st) a"
  by (rule assign_vm_cases [of eligible n vms st]) auto

lemma assign_pass_mono: "snd st \<subseteq> snd (assign_pass skip eligible vms agents st)"
proof (induction agents arbitrary: st)
  case (Cons agent agents)
  show ?case
    using Cons.IH [of "if skip agent (fst st) then st else assign_vm (eligible agent) (ag_Name agent) vms st"]
      assign_vm_mono [of st "eligible agent" "ag_Name agent" vms]
    by (auto split: if_splits)
qed simp

lemma assign_pass_other:
  "a \<notin> ag_Name ` set agents \<Longrightarrow> mget (fst (assign_pass skip eligible vms agents st)) a = mget (fst st) a"
  by (induction agents arbitrary: st) (auto simp: assign_vm_other)

lemma assignment_ok_take:
  assumes "assignment_ok vms A st" "agent \<in> A" "vm \<in> set vms" "assignable agent vm" "vm_Name vm \<notin> snd st"
  shows "assignment_ok vms A (mput (fst st) (ag_Name agent) (vm_Name vm), insert (vm_Name vm) (snd st))"
proof -
  have some: "\<exists>agent \<in> A. \<exists>vm \<in> set vms. ag_Name agent = a \<and> vm_Name vm = mget (fst st) a \<and> assignable agent vm"
    and res: "mget (fst st) a \<in> snd st" if "mget (fst st) a \<noteq> []" for a
    using assms(1) that by (simp_all add: assignment_ok_def)
  have inj: "mget (fst st) a \<noteq> [] \<Longrightarrow> mget (fst st) a = mget (fst st) b \<Longrightarrow> a = b" for a b
    using assms(1) by (simp add: assignment_ok_def)
  have new: "vm_Name vm \<noteq> mget (fst st) a" for a
    using assms(4,5) res [of a] by (auto simp: assignable_def)
  show ?thesis
    unfolding assignment_ok_def fst_conv snd_conv mget_mput
  proof (intro conjI allI impI)
    fix a
    assume "(if a = ag_Name agent then vm_Name vm else mget (fst st) a) \<noteq> []"
    then show "(if a = ag_Name agent then vm_Name vm else mget (fst st) a) \<in> insert (vm_Name vm) (snd st)"
      and "\<exists>ag \<in> A. \<exists>v \<in> set vms. ag_Name ag = a \<and>
        vm_Name v = (if a = ag_Name agent then vm_Name vm else mget (fst st) a) \<and> assignable ag v"
      using assms(2,3,4) some [of a] res [of a] by (auto split: if_splits)
  next
    fix a b
    assume "(if a = ag_Name agent then vm_Name vm else mget (fst st) a) \<noteq> []"
      and "(if a = ag_Name agent then vm_Name vm else mget (fst st) a) =
        (if b = ag_Name agent then vm_Name vm else mget (fst st) b)"
    then show "a = b" using inj [of a b] new [of a] new [of b] by (auto split: if_splits)
  qed
qed

text \<open>
  The contract of a pass: whatever it may hand to an Agent is a named VM that is not bound and whose
  hardware does not contradict the Agent.
\<close>

locale assigning_pass =
  fixes skip :: "AgentInfo \<Rightarrow> strmap \<Rightarrow> bool" and eligible :: "AgentInfo \<Rightarrow> OwnedVMStatus \<Rightarrow> bool"
  assumes eligible_assignable: "\<not> skip agent assigned \<Longrightarrow> eligible agent vm \<Longrightarrow> assignable agent vm"
begin

lemma step_ok:
  assumes "assignment_ok vms A st" "agent \<in> A" "\<not> skip agent (fst st)"
  shows "assignment_ok vms A (assign_vm (eligible agent) (ag_Name agent) vms st)"
proof (rule assign_vm_cases [of "eligible agent" "ag_Name agent" vms st])
  fix vm
  assume vm: "vm \<in> set vms" "eligible agent vm" "vm_Name vm \<notin> snd st"
    and eq: "assign_vm (eligible agent) (ag_Name agent) vms st =
      (mput (fst st) (ag_Name agent) (vm_Name vm), insert (vm_Name vm) (snd st))"
  show ?thesis
    unfolding eq using assms vm eligible_assignable by (intro assignment_ok_take) auto
qed (use assms in simp)

lemma pass_ok:
  "assignment_ok vms A st \<Longrightarrow> set agents \<subseteq> A \<Longrightarrow> assignment_ok vms A (assign_pass skip eligible vms agents st)"
  by (induction agents arbitrary: st) (auto simp: step_ok)

end

text \<open>A pass that never reassigns: it skips every Agent that already has a VM.\<close>

locale fresh_pass = assigning_pass +
  assumes skip_assigned: "mget assigned (ag_Name agent) \<noteq> [] \<Longrightarrow> skip agent assigned"
begin

lemma step_used:
  assumes "reserved_used st" "\<not> skip agent (fst st)"
  shows "reserved_used (assign_vm (eligible agent) (ag_Name agent) vms st)"
proof (rule assign_vm_cases [of "eligible agent" "ag_Name agent" vms st])
  fix vm
  assume vm: "vm \<in> set vms" "eligible agent vm" "vm_Name vm \<notin> snd st"
    and eq: "assign_vm (eligible agent) (ag_Name agent) vms st =
      (mput (fst st) (ag_Name agent) (vm_Name vm), insert (vm_Name vm) (snd st))"
  have "vm_Name vm \<noteq> []" using eligible_assignable [OF assms(2) vm(2)] by (simp add: assignable_def)
  moreover have "mget (fst st) (ag_Name agent) = []" using skip_assigned assms(2) by blast
  moreover have "\<exists>a. mget (mput (fst st) (ag_Name agent) (vm_Name vm)) a = n"
    if n: "n \<in> snd st" for n
  proof -
    obtain a where a: "mget (fst st) a = n" "n \<noteq> []" using assms(1) n by (auto simp: reserved_used_def)
    then have "a \<noteq> ag_Name agent" using \<open>mget (fst st) (ag_Name agent) = []\<close> by auto
    then show ?thesis using a by (intro exI [of _ a]) simp
  qed
  ultimately show ?thesis
    unfolding eq using assms(1) by (auto simp: reserved_used_def)
qed (use assms in simp)

lemma pass_used: "reserved_used st \<Longrightarrow> reserved_used (assign_pass skip eligible vms agents st)"
  by (induction agents arbitrary: st) (auto simp: step_used)

lemma pass_keeps:
  "mget (fst st) a \<noteq> [] \<Longrightarrow> mget (fst (assign_pass skip eligible vms agents st)) a = mget (fst st) a"
proof (induction agents arbitrary: st)
  case (Cons agent agents)
  show ?case
  proof (cases "skip agent (fst st)")
    case False
    then have "a \<noteq> ag_Name agent" using skip_assigned Cons.prems by blast
    then show ?thesis using Cons False by (simp add: assign_vm_other)
  qed (use Cons in simp)
qed simp

lemma pass_unassigned:
  "mget (fst (assign_pass skip eligible vms agents st)) a = [] \<Longrightarrow> mget (fst st) a = []"
  by (rule ccontr) (simp add: pass_keeps)

lemma pass_complete:
  assumes "agent \<in> set agents" "vm \<in> set vms" "eligible agent vm"
    and unskipped: "\<And>assigned. mget assigned (ag_Name agent) = [] \<Longrightarrow> \<not> skip agent assigned"
    and "mget (fst (assign_pass skip eligible vms agents st)) (ag_Name agent) = []"
  shows "vm_Name vm \<in> snd (assign_pass skip eligible vms agents st)"
  using assms(1,5)
proof (induction agents arbitrary: st)
  case (Cons ag agents)
  define st' where "st' = (if skip ag (fst st) then st else assign_vm (eligible ag) (ag_Name ag) vms st)"
  have pass: "assign_pass skip eligible vms (ag # agents) st = assign_pass skip eligible vms agents st'"
    by (simp add: st'_def)
  show ?case
  proof (cases "agent = ag")
    case True
    have none: "mget (fst st') (ag_Name agent) = []"
      using Cons.prems(2) pass_keeps [of st' "ag_Name agent" vms agents] unfolding pass by fastforce
    have "mget (fst st) (ag_Name agent) = []"
      using Cons.prems(2) pass_keeps [of st "ag_Name agent" vms "ag # agents"] by fastforce
    then have "st' = assign_vm (eligible agent) (ag_Name agent) vms st"
      using unskipped True by (simp add: st'_def)
    moreover have "vm_Name v \<noteq> []" if "eligible agent v" for v
      using eligible_assignable [OF unskipped [of "[]"] that] by (simp add: assignable_def mget_def)
    ultimately have "vm_Name vm \<in> snd st'"
      using none assms(2,3)
      by (cases rule: assign_vm_cases [of "eligible agent" "ag_Name agent" vms st]) auto
    then show ?thesis unfolding pass using assign_pass_mono by blast
  next
    case False
    then show ?thesis using Cons unfolding pass by simp
  qed
qed simp

end

abbreviation unassigned_skip :: "(AgentInfo \<Rightarrow> string) \<Rightarrow> AgentInfo \<Rightarrow> strmap \<Rightarrow> bool" where
  "unassigned_skip host agent assigned \<equiv> mget assigned (ag_Name agent) \<noteq> [] \<or> host agent = []"

interpretation by_identity: assigning_pass "\<lambda>_ _. False" eligibleByIdentity
  by unfold_locales (auto simp: assignable_def eligibleByIdentity_def dest: identity_no_conflict)

interpretation by_identity_fresh: fresh_pass "\<lambda>agent assigned. mget assigned (ag_Name agent) \<noteq> []" eligibleByIdentity
  by unfold_locales (auto simp: assignable_def eligibleByIdentity_def dest: identity_no_conflict)

interpretation by_hostname: fresh_pass "unassigned_skip ag_Hostname" "eligibleByHostname ag_Hostname"
  by unfold_locales (auto simp: assignable_def eligibleByHostname_def)

interpretation by_ref: fresh_pass "\<lambda>agent assigned. mget assigned (ag_Name agent) \<noteq> []" eligibleByRef
  by unfold_locales (auto simp: assignable_def eligibleByRef_def vmMatchesAgentRef_def split: option.splits)

interpretation by_observed: fresh_pass "unassigned_skip agentObservedHostname" "eligibleByHostname agentObservedHostname"
  by unfold_locales (auto simp: assignable_def eligibleByHostname_def)

lemma assigned_state_ok: "assignment_ok (pst_OwnedVMs (pool_Status pool)) (set agents) (assigned_state pool agents)"
  unfolding assigned_state_def Let_def
  by (intro by_observed.pass_ok by_ref.pass_ok by_hostname.pass_ok by_identity.pass_ok)
    (simp_all add: assignment_ok_def mget_def)

text \<open>C32: The host names handed to the Agents being patched (\<open>assignedAgentHostnames\<close>) are names of owned
  VMs that are not bound and whose hardware does not contradict the Agent, and no two Agents get the same
  VM.\<close>

theorem assigned_hostnames_sound:
  assumes "mget (assignedAgentHostnames pool agents) a \<noteq> []"
  shows "(\<exists>agent \<in> set agents. \<exists>vm \<in> set (pst_OwnedVMs (pool_Status pool)).
            ag_Name agent = a \<and> vm_Name vm = mget (assignedAgentHostnames pool agents) a
            \<and> vm_Phase vm \<noteq> phaseBound \<and> \<not> vmIdentityConflictsAgent vm agent)
         \<and> (\<forall>b. mget (assignedAgentHostnames pool agents) b = mget (assignedAgentHostnames pool agents) a \<longrightarrow> b = a)"
proof -
  have ok: "assignment_ok (pst_OwnedVMs (pool_Status pool)) (set agents) (assigned_state pool agents)"
    by (rule assigned_state_ok)
  have "\<exists>agent \<in> set agents. \<exists>vm \<in> set (pst_OwnedVMs (pool_Status pool)).
            ag_Name agent = a \<and> vm_Name vm = mget (assignedAgentHostnames pool agents) a \<and> assignable agent vm"
    using ok assms unfolding assignment_ok_def assignedAgentHostnames_def by blast
  moreover have "mget (assignedAgentHostnames pool agents) b = mget (assignedAgentHostnames pool agents) a \<longrightarrow> b = a" for b
    using ok assms unfolding assignment_ok_def assignedAgentHostnames_def by metis
  ultimately show ?thesis unfolding assignable_def by blast
qed

lemma identity_pass_fresh:
  "distinct (map ag_Name agents) \<Longrightarrow> \<forall>agent \<in> set agents. mget (fst st) (ag_Name agent) = [] \<Longrightarrow>
   assign_pass (\<lambda>_ _. False) e vms agents st =
   assign_pass (\<lambda>agent assigned. mget assigned (ag_Name agent) \<noteq> []) e vms agents st"
proof (induction agents arbitrary: st)
  case (Cons agent agents)
  have "\<forall>ag \<in> set agents. mget (fst (assign_vm (e agent) (ag_Name agent) vms st)) (ag_Name ag) = []"
  proof
    fix ag
    assume ag: "ag \<in> set agents"
    then have "ag_Name ag \<noteq> ag_Name agent" using Cons.prems(1) by (auto simp: image_iff)
    then show "mget (fst (assign_vm (e agent) (ag_Name agent) vms st)) (ag_Name ag) = []"
      using ag Cons.prems(2) by (simp add: assign_vm_other)
  qed
  then show ?case using Cons by simp
qed simp

definition vm_candidate :: "AgentInfo \<Rightarrow> OwnedVMStatus \<Rightarrow> bool" where
  "vm_candidate agent vm \<longleftrightarrow> vm_Name vm \<noteq> [] \<and> vm_Phase vm \<noteq> phaseBound \<and>
     (vmMatchesAgentIdentity vm agent \<or> vmMatchesAgentRef vm agent
      \<or> (vm_Name vm = agentObservedHostname agent \<and> \<not> vmIdentityConflictsAgent vm agent))"

text \<open>An Agent left without a host name has no VM left to take: every VM it could take, by hardware,
  by reference or by host name, was given to another Agent.\<close>

theorem assigned_hostnames_complete:
  assumes "distinct (map ag_Name agents)" and "agent \<in> set agents"
    and "mget (assignedAgentHostnames pool agents) (ag_Name agent) = []"
    and "vm \<in> set (pst_OwnedVMs (pool_Status pool))" and "vm_candidate agent vm"
  shows "\<exists>other. other \<noteq> ag_Name agent \<and> mget (assignedAgentHostnames pool agents) other = vm_Name vm"
proof -
  let ?vms = "pst_OwnedVMs (pool_Status pool)"
  let ?skip = "\<lambda>agent assigned. mget assigned (ag_Name agent) \<noteq> []"
  define st1 where "st1 = assign_pass ?skip eligibleByIdentity ?vms agents ([], {})"
  define st2 where "st2 = assign_pass (unassigned_skip ag_Hostname) (eligibleByHostname ag_Hostname) ?vms agents st1"
  define st3 where "st3 = assign_pass ?skip eligibleByRef ?vms agents st2"
  define st4 where "st4 = assign_pass (unassigned_skip agentObservedHostname)
    (eligibleByHostname agentObservedHostname) ?vms agents st3"
  have "assign_pass (\<lambda>_ _. False) eligibleByIdentity ?vms agents ([], {}) = st1"
    unfolding st1_def using assms(1) by (intro identity_pass_fresh) (auto simp: mget_def)
  then have final: "assigned_state pool agents = st4"
    by (simp add: assigned_state_def Let_def st2_def st3_def st4_def)
  then have none4: "mget (fst st4) (ag_Name agent) = []"
    using assms(3) by (simp add: assignedAgentHostnames_def)
  then have none3: "mget (fst st3) (ag_Name agent) = []"
    unfolding st4_def by (rule by_observed.pass_unassigned)
  then have none2: "mget (fst st2) (ag_Name agent) = []"
    unfolding st3_def by (rule by_ref.pass_unassigned)
  then have none1: "mget (fst st1) (ag_Name agent) = []"
    unfolding st2_def by (rule by_hostname.pass_unassigned)
  have mono: "snd st1 \<subseteq> snd st4" "snd st3 \<subseteq> snd st4"
  proof -
    have "snd st1 \<subseteq> snd st2" unfolding st2_def by (rule assign_pass_mono)
    moreover have "snd st2 \<subseteq> snd st3" unfolding st3_def by (rule assign_pass_mono)
    moreover show "snd st3 \<subseteq> snd st4" unfolding st4_def by (rule assign_pass_mono)
    ultimately show "snd st1 \<subseteq> snd st4" by (rule subset_trans [OF subset_trans])
  qed
  consider "eligibleByIdentity agent vm" | "eligibleByRef agent vm"
    | "eligibleByHostname agentObservedHostname agent vm" "agentObservedHostname agent \<noteq> []"
    using assms(5)
    by (auto simp: vm_candidate_def eligibleByIdentity_def eligibleByRef_def eligibleByHostname_def)
  then have "vm_Name vm \<in> snd st4"
  proof cases
    case 1
    then have "vm_Name vm \<in> snd st1"
      unfolding st1_def using assms(2,4) none1 [unfolded st1_def]
      by (intro by_identity_fresh.pass_complete [of agent]) auto
    then show ?thesis using mono by blast
  next
    case 2
    then have "vm_Name vm \<in> snd st3"
      unfolding st3_def using assms(2,4) none3 [unfolded st3_def] by (intro by_ref.pass_complete [of agent]) auto
    then show ?thesis using mono by blast
  next
    case 3
    then show ?thesis
      unfolding st4_def using assms(2,4) none4 [unfolded st4_def]
      by (intro by_observed.pass_complete [of agent]) auto
  qed
  moreover have "reserved_used st4"
    unfolding st4_def st3_def st2_def st1_def
    by (intro by_observed.pass_used by_ref.pass_used by_hostname.pass_used by_identity_fresh.pass_used)
      (simp add: reserved_used_def)
  ultimately obtain other where "mget (fst st4) other = vm_Name vm" "vm_Name vm \<noteq> []"
    by (auto simp: reserved_used_def)
  then show ?thesis
    using none4 final by (intro exI [of _ other]) (auto simp: assignedAgentHostnames_def)
qed

section \<open>Merging\<close>

definition inherits_state :: "OwnedVMStatus \<Rightarrow> OwnedVMStatus \<Rightarrow> bool" where
  "inherits_state vm p \<longleftrightarrow> vm_Phase vm = vm_Phase p \<and> vm_Reason vm = vm_Reason p
     \<and> vm_LastTransitionTime vm = vm_LastTransitionTime p \<and> vm_AgentRef vm = vm_AgentRef p
     \<and> vm_MachineRef vm = vm_MachineRef p"

lemma vlookup_match_member:
  "ownedVMLookup_match (newOwnedVMLookup vms) vm = Some p \<Longrightarrow>
   p \<in> set vms \<and> (vm_Name p = vm_Name vm \<or> vm_BIOSUUID p = vm_BIOSUUID vm \<or> vm_MACAddress p = vm_MACAddress vm)"
  by (auto simp: ownedVMLookup_match_def newOwnedVMLookup_def split: option.splits if_splits dest!: index_by_Some)

lemma mergeOwnedVM_disj:
  "mergeOwnedVM (newOwnedVMLookup prev) vm = vm \<or>
   (\<exists>p \<in> set prev. \<not> previousVMDiffers vm p \<and> inherits_state (mergeOwnedVM (newOwnedVMLookup prev) vm) p \<and>
      (vm_Name p = vm_Name vm \<or> vm_BIOSUUID p = vm_BIOSUUID vm \<or> vm_MACAddress p = vm_MACAddress vm))"
proof (cases "ownedVMLookup_match (newOwnedVMLookup prev) vm")
  case None
  then show ?thesis by (simp add: mergeOwnedVM_def)
next
  case (Some p)
  show ?thesis
  proof (cases "previousVMDiffers vm p")
    case True
    then show ?thesis using Some by (simp add: mergeOwnedVM_def)
  next
    case False
    then have "inherits_state (mergeOwnedVM (newOwnedVMLookup prev) vm) p"
      using Some by (simp add: mergeOwnedVM_def inherits_state_def)
    then show ?thesis using False vlookup_match_member [OF Some] by blast
  qed
qed

lemma mergeOwnedVM_fields:
  "vm_Name (mergeOwnedVM l vm) = vm_Name vm"
  "vm_OwnerUID vm \<noteq> [] \<Longrightarrow> vm_OwnerUID (mergeOwnedVM l vm) = vm_OwnerUID vm"
  "vm_BIOSUUID vm \<noteq> [] \<Longrightarrow> vm_BIOSUUID (mergeOwnedVM l vm) = vm_BIOSUUID vm"
  "vm_MACAddress vm \<noteq> [] \<Longrightarrow> vm_MACAddress (mergeOwnedVM l vm) = vm_MACAddress vm"
  "vm_Source vm \<noteq> [] \<Longrightarrow> vm_Source (mergeOwnedVM l vm) = vm_Source vm"
  by (simp_all add: mergeOwnedVM_def split: option.split)

text \<open>Merging the recorded VMs into the reported ones (\<open>mergeOwnedVMStatuses\<close>) keeps the reported
  VMs, their order and names and whatever identity they report; a VM's phase, times and references are
  either the reported ones or those of one record that shares its name, BIOS UUID or MAC address and
  whose owner and BIOS UUID do not differ from it.\<close>

theorem merge_sound:
  assumes "vm' \<in> set (mergeOwnedVMStatuses previous current)"
  shows "map vm_Name (mergeOwnedVMStatuses previous current) = map vm_Name current \<and>
     (\<exists>vm \<in> set current. vm_Name vm' = vm_Name vm
        \<and> (vm_OwnerUID vm \<noteq> [] \<longrightarrow> vm_OwnerUID vm' = vm_OwnerUID vm)
        \<and> (vm_BIOSUUID vm \<noteq> [] \<longrightarrow> vm_BIOSUUID vm' = vm_BIOSUUID vm)
        \<and> (vm_MACAddress vm \<noteq> [] \<longrightarrow> vm_MACAddress vm' = vm_MACAddress vm)
        \<and> (vm' = vm \<or> (\<exists>p \<in> set previous. \<not> previousVMDiffers vm p \<and> inherits_state vm' p \<and>
             (vm_Name p = vm_Name vm \<or> vm_BIOSUUID p = vm_BIOSUUID vm \<or> vm_MACAddress p = vm_MACAddress vm))))"
proof (cases "previous = [] \<or> current = []")
  case True
  then show ?thesis using assms by (auto simp: mergeOwnedVMStatuses_def)
next
  case False
  then obtain vm where vm: "vm \<in> set current" "vm' = mergeOwnedVM (newOwnedVMLookup previous) vm"
    using assms by (auto simp: mergeOwnedVMStatuses_def)
  have "map vm_Name (mergeOwnedVMStatuses previous current) = map vm_Name current"
    using False by (simp add: mergeOwnedVMStatuses_def mergeOwnedVM_fields)
  moreover have "vm' = vm \<or> (\<exists>p \<in> set previous. \<not> previousVMDiffers vm p \<and> inherits_state vm' p \<and>
       (vm_Name p = vm_Name vm \<or> vm_BIOSUUID p = vm_BIOSUUID vm \<or> vm_MACAddress p = vm_MACAddress vm))"
    unfolding vm(2) by (rule mergeOwnedVM_disj)
  ultimately show ?thesis
    using vm(1) mergeOwnedVM_fields [where l = "newOwnedVMLookup previous" and vm = vm] unfolding vm(2) [symmetric] by blast
qed

lemma index_by_distinct:
  "distinct (map key xs) \<Longrightarrow> x \<in> set xs \<Longrightarrow> index_by key xs (key x) = Some x"
proof -
  assume d: "distinct (map key xs)" and x: "x \<in> set xs"
  then obtain y where y: "index_by key xs (key x) = Some y"
    using index_by_None [of key xs "key x"] by fastforce
  then have "y \<in> set xs" "key y = key x" by (auto dest: index_by_Some)
  then have "y = x" using d x by (auto simp: distinct_map inj_on_def)
  then show ?thesis using y by simp
qed

lemma vlookup_match_name:
  assumes "distinct (map vm_Name prev)" "p \<in> set prev" "vm_Name p \<noteq> []" "vm_Name vm = vm_Name p"
  shows "ownedVMLookup_match (newOwnedVMLookup prev) vm = Some p"
proof -
  have "distinct (map vm_Name (filter (\<lambda>vm. vm_Name vm \<noteq> []) prev))"
    using assms(1) by (rule distinct_map_filter)
  then have "index_by vm_Name (filter (\<lambda>vm. vm_Name vm \<noteq> []) prev) (vm_Name p) = Some p"
    using assms(2,3) by (intro index_by_distinct) simp_all
  then show ?thesis using assms(3,4) by (simp add: ownedVMLookup_match_def newOwnedVMLookup_def)
qed

text \<open>A reported VM gets back the state recorded under its name, unless owner or BIOS UUID show that it
  is a different VM, and in that case it starts afresh with what was reported.\<close>

theorem merge_recovers_state:
  assumes "distinct (map vm_Name previous)" and "p \<in> set previous" and "vm_Name p \<noteq> []"
    and "i < length current" and "vm_Name (current ! i) = vm_Name p"
  shows "if previousVMDiffers (current ! i) p then mergeOwnedVMStatuses previous current ! i = current ! i
         else inherits_state (mergeOwnedVMStatuses previous current ! i) p"
proof -
  have "previous \<noteq> []" "current \<noteq> []" using assms by auto
  then show ?thesis
    using assms(4) vlookup_match_name [OF assms(1,2,3,5)]
    by (simp add: mergeOwnedVMStatuses_def mergeOwnedVM_def inherits_state_def)
qed

section \<open>Witnesses\<close>

abbreviation sampleBoundAgent :: AgentInfo where
  "sampleBoundAgent \<equiv> sampleAgent\<lparr>ag_Bound := True, ag_MachineName := ''m1''\<rparr>"

abbreviation samplePoolWith :: "OwnedVMStatus list \<Rightarrow> VsphereAgentPool" where
  "samplePoolWith vms \<equiv> samplePool\<lparr>pool_Status := (pool_Status samplePool)\<lparr>pst_OwnedVMs := vms\<rparr>\<rparr>"

lemma refresh_refines_lifecycle_witness:
  "absPhase (refreshOwnedVMStatuses 9 (samplePoolWith [sampleVM ''vm1'' phaseBound ''AgentBound'']) [sampleAgent]
     [\<lparr>mi_Name = ''m1'', mi_Deleting = False\<rparr>] ! 0) = PReleased"
proof -
  have "let vm = pst_OwnedVMs (pool_Status (samplePoolWith [sampleVM ''vm1'' phaseBound ''AgentBound''])) ! 0;
         a = agentIdentityLookup_match (newAgentIdentityLookup [sampleAgent]) vm
     in absPhase (refreshOwnedVMStatuses 9 (samplePoolWith [sampleVM ''vm1'' phaseBound ''AgentBound'']) [sampleAgent]
          [\<lparr>mi_Name = ''m1'', mi_Deleting = False\<rparr>] ! 0) =
        phase_next (absAgent a) (absMachine (index_by mi_Name [\<lparr>mi_Name = ''m1'', mi_Deleting = False\<rparr>])
          (observedMachine a vm)) (vmHadDiscoveredAgent vm) (ownedVMDiscoveryExpired vm 9) (absPhase vm)"
    by (rule refresh_refines_lifecycle) (simp_all add: samplePool_def)
  moreover have "agentIdentityLookup_match (newAgentIdentityLookup [sampleAgent])
      (sampleVM ''vm1'' phaseBound ''AgentBound'') = Some sampleAgent"
    by code_simp
  ultimately show ?thesis
    by (simp add: sample_defs Let_def absAgent_def absMachine_def observedMachine_def objectReferenceName_def absPhase_def)
qed

abbreviation sampleMachineRef :: ObjectReference where
  "sampleMachineRef \<equiv> \<lparr>ref_APIVersion = machineAPIVersion, ref_Kind = ''Machine'', ref_Namespace = ''clusters-demo'',
     ref_Name = ''m1'', ref_UID = []\<rparr>"

abbreviation sampleBoundVM :: OwnedVMStatus where
  "sampleBoundVM \<equiv> (sampleVM ''vm1'' phaseBound ''AgentBound'')\<lparr>vm_MachineRef := Some sampleMachineRef\<rparr>"

abbreviation sampleMachine :: "string \<Rightarrow> bool \<Rightarrow> MachineInfo" where
  "sampleMachine n d \<equiv> \<lparr>mi_Name = n, mi_Deleting = d\<rparr>"

abbreviation sampleRefreshed :: OwnedVMStatus where
  "sampleRefreshed \<equiv>
     refreshOwnedVMStatuses 9 (samplePoolWith [sampleBoundVM]) [sampleAgent] [sampleMachine ''m2'' False] ! 0"

abbreviation sampleRun :: "refresh_input list" where
  "sampleRun \<equiv> [([sampleAgent\<lparr>ag_Bound := True, ag_MachineName := ''m1''\<rparr>], 9, samplePool, [sampleMachine ''m1'' False]),
     ([sampleAgent], 19, samplePool, [sampleMachine ''m2'' False])]"

lemma machine_deleted_needs_evidence_witness:
  "cleanup_evidence (fst (refresh_run sampleRun ([], sampleVM ''vm1'' phaseProvisioning reasonAgentNotDiscovered)))"
  by (rule machine_deleted_needs_evidence; code_simp)

abbreviation sampleAssignPool :: VsphereAgentPool where
  "sampleAssignPool \<equiv> samplePoolWith [sampleVM ''vm1'' phaseProvisioning reasonAgentNotDiscovered]"

abbreviation sampleOther :: AgentInfo where
  "sampleOther \<equiv> emptyAgentInfo\<lparr>ag_Name := ''other'', ag_InventoryHostname := ''vm1''\<rparr>"

lemma only_preimage: "f a = v \<Longrightarrow> Q \<and> (\<forall>b. f b = f a \<longrightarrow> b = a) \<Longrightarrow> {b. f b = v} = {a}"
  by (erule subst) blast

lemma assigned_hostnames_sound_witness:
  "{b. mget (assignedAgentHostnames sampleAssignPool [sampleAgent, sampleOther]) b = ''vm1''} = {''host''}"
proof (rule only_preimage)
  show "mget (assignedAgentHostnames sampleAssignPool [sampleAgent, sampleOther]) ''host'' = ''vm1''" by code_simp
  have "mget (assignedAgentHostnames sampleAssignPool [sampleAgent, sampleOther]) ''host'' \<noteq> []" by code_simp
  from assigned_hostnames_sound [OF this] show "(\<exists>agent \<in> set [sampleAgent, sampleOther].
      \<exists>vm \<in> set (pst_OwnedVMs (pool_Status sampleAssignPool)). ag_Name agent = ''host''
        \<and> vm_Name vm = mget (assignedAgentHostnames sampleAssignPool [sampleAgent, sampleOther]) ''host''
        \<and> vm_Phase vm \<noteq> phaseBound \<and> \<not> vmIdentityConflictsAgent vm agent)
    \<and> (\<forall>b. mget (assignedAgentHostnames sampleAssignPool [sampleAgent, sampleOther]) b
          = mget (assignedAgentHostnames sampleAssignPool [sampleAgent, sampleOther]) ''host'' \<longrightarrow> b = ''host'')" .
qed

lemma assigned_hostnames_complete_witness:
  "\<exists>other. other \<noteq> ag_Name sampleOther \<and>
     mget (assignedAgentHostnames sampleAssignPool [sampleAgent, sampleOther]) other
       = vm_Name (sampleVM ''vm1'' phaseProvisioning reasonAgentNotDiscovered)"
  by (rule assigned_hostnames_complete; code_simp)

abbreviation sampleReported :: OwnedVMStatus where
  "sampleReported \<equiv> (sampleVM ''vm1'' phaseProvisioning reasonVMCreateRequested)\<lparr>vm_BIOSUUID := ''b1'', vm_AgentRef := None\<rparr>"

lemma merge_recovers_state_witness:
  "inherits_state (mergeOwnedVMStatuses [sampleBoundVM] [sampleReported] ! 0) sampleBoundVM"
proof -
  have "if previousVMDiffers ([sampleReported] ! 0) sampleBoundVM
        then mergeOwnedVMStatuses [sampleBoundVM] [sampleReported] ! 0 = [sampleReported] ! 0
        else inherits_state (mergeOwnedVMStatuses [sampleBoundVM] [sampleReported] ! 0) sampleBoundVM"
    by (rule merge_recovers_state; code_simp)
  moreover have "\<not> previousVMDiffers ([sampleReported] ! 0) sampleBoundVM" by code_simp
  ultimately show ?thesis by simp
qed

end
