(* ===== verification/AgentMatching.thy ===== *)
theory AgentMatching
  imports OwnedVMs
begin

text \<open>
  The matching of VMs with discovered Agents against a reference. The code builds one index per kind of identity in a
  single pass over the Agents and then answers each VM with a few look-ups; the reference searches the list of Agents for every VM.
\<close>

section \<open>Reference\<close>

text \<open>The Agent that alone reports an identity: all entries that report it have the same name, the last one listed counts.\<close>

definition soleAgent :: "(AgentInfo \<Rightarrow> string) \<Rightarrow> string \<Rightarrow> AgentInfo list \<Rightarrow> AgentInfo option" where
  "soleAgent key k agents =
     (let reporting = filter (\<lambda>a. key a = k) agents
      in if k \<noteq> [] \<and> reporting \<noteq> [] \<and> (\<forall>a \<in> set reporting. ag_Name a = ag_Name (last reporting))
         then Some (last reporting) else None)"

definition unlessConflict :: "OwnedVMStatus \<Rightarrow> AgentInfo option \<Rightarrow> AgentInfo option" where
  "unlessConflict vm found = (case found of Some a \<Rightarrow> if vmIdentityConflictsAgent vm a then None else Some a | None \<Rightarrow> None)"

definition referencedAgent :: "OwnedVMStatus \<Rightarrow> AgentInfo list \<Rightarrow> AgentInfo option" where
  "referencedAgent vm agents =
     (case vm_AgentRef vm of None \<Rightarrow> None
      | Some ref \<Rightarrow> if ref_Name ref = [] then None else find (\<lambda>a. ag_Name a = ref_Name ref) (rev agents))"

text \<open>The candidates in the order of their strength; the first that exists is the match.\<close>

definition agentOfVM :: "AgentInfo list \<Rightarrow> OwnedVMStatus \<Rightarrow> AgentInfo option" where
  "agentOfVM agents vm = fold (\<lambda>candidate found. if found = None then candidate else found)
     [soleAgent ag_BIOSUUID (vm_BIOSUUID vm) agents, soleAgent ag_MAC (vm_MACAddress vm) agents,
      unlessConflict vm (soleAgent agentObservedHostname (vm_Name vm) agents), unlessConflict vm (referencedAgent vm agents)] None"

section \<open>The indexes\<close>

lemma soleAgent_Nil [simp]: "soleAgent key k [] = None" "soleAgent key [] agents = None"
  by (simp_all add: soleAgent_def)

lemma soleAgent_snoc_other: "key a \<noteq> k \<Longrightarrow> soleAgent key k (agents @ [a]) = soleAgent key k agents"
  by (simp add: soleAgent_def)

lemma unique_index_snoc:
  "unique_index key (agents @ [a]) =
     (if key a \<noteq> [] then addUniqueAgentIdentity (unique_index key agents) (key a) a else unique_index key agents)"
  by (simp add: unique_index_def)

text \<open>An identity is ambiguous when it is reported under several names.\<close>

definition clashing :: "(AgentInfo \<Rightarrow> string) \<Rightarrow> string \<Rightarrow> AgentInfo list \<Rightarrow> bool" where
  "clashing key k agents \<longleftrightarrow> k \<noteq> [] \<and> (\<exists>a \<in> set agents. \<exists>b \<in> set agents. key a = k \<and> key b = k \<and> ag_Name a \<noteq> ag_Name b)"

lemma soleAgent_clashing: "soleAgent key k agents = None \<longleftrightarrow> k = [] \<or> filter (\<lambda>a. key a = k) agents = [] \<or> clashing key k agents"
proof (cases "k = [] \<or> filter (\<lambda>a. key a = k) agents = []")
  case True
  then show ?thesis by (auto simp: soleAgent_def)
next
  case False
  let ?r = "filter (\<lambda>a. key a = k) agents"
  have "last ?r \<in> set ?r" using False last_in_set by blast
  then have l: "last ?r \<in> set agents" "key (last ?r) = k" by simp_all
  have "(\<forall>a \<in> set ?r. ag_Name a = ag_Name (last ?r)) \<longleftrightarrow> \<not> clashing key k agents"
  proof
    assume "\<forall>a \<in> set ?r. ag_Name a = ag_Name (last ?r)"
    then have "ag_Name a = ag_Name (last ?r)" if "a \<in> set agents" "key a = k" for a using that by simp
    then show "\<not> clashing key k agents" by (auto simp: clashing_def)
  next
    assume "\<not> clashing key k agents"
    then show "\<forall>a \<in> set ?r. ag_Name a = ag_Name (last ?r)" using l False unfolding clashing_def by fastforce
  qed
  then show ?thesis using False by (simp add: soleAgent_def Let_def)
qed

lemma soleAgent_Some:
  assumes "soleAgent key k agents = Some e"
  shows "e \<in> set agents" "key e = k" "\<forall>b \<in> set agents. key b = k \<longrightarrow> ag_Name b = ag_Name e"
proof -
  let ?r = "filter (\<lambda>a. key a = k) agents"
  have e: "?r \<noteq> []" "last ?r = e" "\<forall>b \<in> set ?r. ag_Name b = ag_Name (last ?r)"
    using assms by (auto simp: soleAgent_def Let_def split: if_splits)
  then have "e \<in> set ?r" using last_in_set by blast
  then show "e \<in> set agents" "key e = k" by simp_all
  show "\<forall>b \<in> set agents. key b = k \<longrightarrow> ag_Name b = ag_Name e" using e by simp
qed

lemma soleAgent_snoc:
  assumes k: "key a = k" "k \<noteq> []" and same: "\<And>b. b \<in> set agents \<Longrightarrow> key b = k \<Longrightarrow> ag_Name b = ag_Name a"
  shows "soleAgent key k (agents @ [a]) = Some a" "\<not> clashing key k (agents @ [a])"
proof -
  let ?r = "filter (\<lambda>b. key b = k) (agents @ [a])"
  have all: "b \<in> set (agents @ [a]) \<Longrightarrow> key b = k \<Longrightarrow> ag_Name b = ag_Name a" for b using same by auto
  then show "\<not> clashing key k (agents @ [a])" unfolding clashing_def by metis
  have "\<forall>b \<in> set ?r. ag_Name b = ag_Name a" unfolding set_filter using all by blast
  moreover have last: "last ?r = a" "?r \<noteq> []" using k by simp_all
  ultimately have "k \<noteq> [] \<and> ?r \<noteq> [] \<and> (\<forall>b \<in> set ?r. ag_Name b = ag_Name (last ?r))" using k by metis
  then have "soleAgent key k (agents @ [a]) = Some (last ?r)" unfolding soleAgent_def Let_def by (rule if_P)
  then show "soleAgent key k (agents @ [a]) = Some a" by (simp only: last(1))
qed

lemma unique_index_reference:
  "fst (unique_index key agents) k = soleAgent key k agents \<and> (k \<in> snd (unique_index key agents) \<longleftrightarrow> clashing key k agents)"
proof (induction agents rule: rev_induct)
  case Nil
  show ?case by (simp add: unique_index_def clashing_def)
next
  case (snoc a agents)
  obtain ix amb where ia: "unique_index key agents = (ix, amb)" by force
  show ?case
  proof (cases "key a = k \<and> k \<noteq> []")
    case False
    have "clashing key k (agents @ [a]) \<longleftrightarrow> clashing key k agents" using False by (auto simp: clashing_def)
    moreover have "soleAgent key k (agents @ [a]) = soleAgent key k agents"
      using False by (cases "k = []") (simp_all add: soleAgent_snoc_other)
    moreover have "fst (unique_index key (agents @ [a])) k = fst (unique_index key agents) k
       \<and> (k \<in> snd (unique_index key (agents @ [a])) \<longleftrightarrow> k \<in> snd (unique_index key agents))"
      using False addUnique_other [of k "key a" "unique_index key agents" a] by (auto simp: unique_index_snoc)
    ultimately show ?thesis using snoc.IH by simp
  next
    case True
    have ix: "ix k = soleAgent key k agents" and amb: "k \<in> amb \<longleftrightarrow> clashing key k agents" using snoc.IH ia by simp_all
    have new: "unique_index key (agents @ [a]) = addUniqueAgentIdentity (ix, amb) k a" using True by (simp add: unique_index_snoc ia)
    show ?thesis
    proof (cases "soleAgent key k agents")
      case (Some e)
      note e = soleAgent_Some [OF Some]
      have "\<not> clashing key k agents" using e(3) by (auto simp: clashing_def)
      then have add: "addUniqueAgentIdentity (ix, amb) k a =
          (if ag_Name e \<noteq> ag_Name a then (ix(k := None), insert k amb) else (ix(k \<mapsto> a), amb))"
        using ix amb Some by (simp add: addUniqueAgentIdentity_def)
      show ?thesis
      proof (cases "ag_Name e = ag_Name a")
        case same: True
        then have "ag_Name b = ag_Name a" if "b \<in> set agents" "key b = k" for b using e(3) that by metis
        then show ?thesis using soleAgent_snoc [of key a k agents] True add new same \<open>\<not> clashing key k agents\<close> amb by simp
      next
        case other: False
        have "e \<in> set (agents @ [a])" "a \<in> set (agents @ [a])" using e(1) by simp_all
        then have c: "clashing key k (agents @ [a])" unfolding clashing_def using True e(2) other by blast
        then have "soleAgent key k (agents @ [a]) = None" using soleAgent_clashing by blast
        then show ?thesis using c add new other by simp
      qed
    next
      case None
      show ?thesis
      proof (cases "clashing key k agents")
        case c: True
        then have "clashing key k (agents @ [a])" by (auto simp: clashing_def)
        then show ?thesis unfolding new using ix amb None c soleAgent_clashing [of key k "agents @ [a]"]
          by (simp add: addUniqueAgentIdentity_def)
      next
        case c: False
        then have "filter (\<lambda>a. key a = k) agents = []" using None True soleAgent_clashing [of key k agents] by simp
        then have "b \<in> set agents \<Longrightarrow> key b = k \<Longrightarrow> ag_Name b = ag_Name a" for b by (auto simp: filter_empty_conv)
        then show ?thesis unfolding new using soleAgent_snoc [of key a k agents] ix amb None c True
          by (simp add: addUniqueAgentIdentity_def)
      qed
    qed
  qed
qed

text \<open>C18: The matching of an owned VM with a discovered Agent by the precomputed indexes (\<open>newAgentIdentityLookup\<close> and
its \<open>match\<close>) gives for every list of Agents and every VM the same answer as searching the list: the Agent that alone reports the
VM's BIOS UUID, else the one that alone reports its MAC address, else the one that alone reports its host name and the one the VM
refers to, these two unless another identity contradicts.\<close>

theorem matching_equals_search:
  "agentIdentityLookup_match (newAgentIdentityLookup agents) vm = agentOfVM agents vm"
proof -
  have sole: "fst (unique_index key agents) k = soleAgent key k agents" for key k using unique_index_reference by simp
  have amb: "k \<in> snd (unique_index key agents) \<Longrightarrow> soleAgent key k agents = None" for key k
    using unique_index_reference soleAgent_clashing by blast
  have direct: "(if k \<noteq> [] \<and> k \<notin> snd (unique_index key agents) then fst (unique_index key agents) k else None) = soleAgent key k agents" for key k
    using sole amb by auto
  have host: "matchHostname (newAgentIdentityLookup agents) vm = unlessConflict vm (soleAgent agentObservedHostname (vm_Name vm) agents)"
    using amb by (auto simp: matchHostname_def unlessConflict_def sole split: option.split)
  have ref: "matchAgentRef (newAgentIdentityLookup agents) vm = unlessConflict vm (referencedAgent vm agents)"
    by (auto simp: matchAgentRef_def unlessConflict_def referencedAgent_def index_by_find split: option.split)
  show ?thesis
    unfolding agentIdentityLookup_match_def host ref lookup_fields direct
    by (simp add: agentOfVM_def split: option.split)
qed

end
