(* ===== verification/OpenStackErrors.thy ===== *)
theory OpenStackErrors
  imports GoPrelude
begin

text \<open>
  The error type of \<open>internal/openstack/errors.go\<close>. Errors of the SDK are classified, never quoted: what
  a controller sees is a record of fixed words, an HTTP status and a request identifier.

  An error of the SDK, of the network stack or of the JSON decoder is represented by what the code asks
  of it with \<open>errors.As\<close> and \<open>errors.Is\<close>: whether it wraps one of our own errors, whether it wraps an
  unexpected HTTP response (its code and headers), and which of the other classes it matches.

  The lemmas show which errors are marked as rejected or retryable, that a message never contains text
  of the original error apart from a well-formed request identifier, and that labelling an error with a
  service and an operation happens once.
\<close>

record OsError =
  er_Reason :: string
  er_Retryable :: bool
  er_Rejected :: bool
  er_service :: string
  er_operation :: string
  er_category :: string
  er_requestID :: string
  er_statusCode :: int

definition mkOsError :: "string \<Rightarrow> bool \<Rightarrow> bool \<Rightarrow> OsError" where
  "mkOsError reason retryable rejected =
     \<lparr>er_Reason = reason, er_Retryable = retryable, er_Rejected = rejected, er_service = [], er_operation = [],
      er_category = [], er_requestID = [], er_statusCode = 0\<rparr>"

definition ErrNotFound :: OsError where "ErrNotFound = mkOsError ''ResourceNotFound'' False True"
definition ErrOwnership :: OsError where "ErrOwnership = mkOsError ''ResourceOwnershipMismatch'' False True"
definition ErrThrottle :: OsError where "ErrThrottle = mkOsError ''RateLimited'' True True"

text \<open>\<open>http.StatusText\<close>; the empty string for a code it does not know.\<close>

definition statusTexts :: "(int \<times> string) list" where
  "statusTexts = [
     (100, ''Continue''), (101, ''Switching Protocols''), (102, ''Processing''), (103, ''Early Hints''),
     (200, ''OK''), (201, ''Created''), (202, ''Accepted''), (203, ''Non-Authoritative Information''),
     (204, ''No Content''), (205, ''Reset Content''), (206, ''Partial Content''),
     (207, ''Multi-Status''), (208, ''Already Reported''), (226, ''IM Used''),
     (300, ''Multiple Choices''), (301, ''Moved Permanently''), (302, ''Found''), (303, ''See Other''),
     (304, ''Not Modified''), (305, ''Use Proxy''), (307, ''Temporary Redirect''),
     (308, ''Permanent Redirect''), (400, ''Bad Request''), (401, ''Unauthorized''),
     (402, ''Payment Required''), (403, ''Forbidden''), (404, ''Not Found''),
     (405, ''Method Not Allowed''), (406, ''Not Acceptable''), (407, ''Proxy Authentication Required''),
     (408, ''Request Timeout''), (409, ''Conflict''), (410, ''Gone''), (411, ''Length Required''),
     (412, ''Precondition Failed''), (413, ''Request Entity Too Large''),
     (414, ''Request URI Too Long''), (415, ''Unsupported Media Type''),
     (416, ''Requested Range Not Satisfiable''), (417, ''Expectation Failed''),
     (418, (''I'' @ [CHR 0x27] @ ''m a teapot'')), (421, ''Misdirected Request''),
     (422, ''Unprocessable Entity''), (423, ''Locked''), (424, ''Failed Dependency''),
     (425, ''Too Early''), (426, ''Upgrade Required''), (428, ''Precondition Required''),
     (429, ''Too Many Requests''), (431, ''Request Header Fields Too Large''),
     (451, ''Unavailable For Legal Reasons''), (500, ''Internal Server Error''),
     (501, ''Not Implemented''), (502, ''Bad Gateway''), (503, ''Service Unavailable''),
     (504, ''Gateway Timeout''), (505, ''HTTP Version Not Supported''),
     (506, ''Variant Also Negotiates''), (507, ''Insufficient Storage''), (508, ''Loop Detected''),
     (510, ''Not Extended''), (511, ''Network Authentication Required'')]"

definition StatusText :: "int \<Rightarrow> string" where
  "StatusText code = (case map_of statusTexts code of None \<Rightarrow> [] | Some t \<Rightarrow> t)"

definition OsError_Error :: "OsError \<Rightarrow> string" where
  "OsError_Error e =
     er_Reason e
     @ (if er_Reason e = ''HTTPSRequired'' then
          ''; HTTP is disabled; use HTTPS or explicitly set allow-insecure-http=true in the credentials Secret (plaintext credentials and tokens)''
        else if er_Reason e = ''InvalidHTTPPolicy'' then
          ''; allow-insecure-http must be exactly true or false when present in the credentials Secret''
        else if er_Reason e = ''InvalidAuthenticationURL'' then
          ''; auth-url must be an absolute HTTP(S) URL without user information, query, or fragment''
        else [])
     @ (if er_service e \<noteq> [] then ''; service='' @ er_service e @ ''; operation='' @ er_operation e else [])
     @ (if er_category e \<noteq> [] then ''; category='' @ er_category e else [])
     @ (if er_statusCode e \<noteq> 0 then ''; HTTP '' @ int_str (er_statusCode e) @ '' '' @ StatusText (er_statusCode e) else [])
     @ (if er_requestID e \<noteq> [] then ''; request_id='' @ er_requestID e else [])"

text \<open>\<open>errors.Is\<close> with one of the three sentinels as its target.\<close>

datatype os_sentinel = NotFoundSentinel | OwnershipSentinel | ThrottleSentinel

fun sentinelError :: "os_sentinel \<Rightarrow> OsError" where
  "sentinelError NotFoundSentinel = ErrNotFound"
| "sentinelError OwnershipSentinel = ErrOwnership"
| "sentinelError ThrottleSentinel = ErrThrottle"

definition OsError_Is :: "OsError \<Rightarrow> os_sentinel \<Rightarrow> bool" where
  "OsError_Is e target \<longleftrightarrow> er_Reason e = er_Reason (sentinelError target)"

section \<open>Classification of foreign errors\<close>

datatype err_class = SchemeMismatch | Canceled | DeadlineExceeded | UnknownAuthority | HostnameMismatch
  | CertificateInvalid | CertificateVerification | RecordHeader | TlsAlert | DNSError | NetTimeout
  | ConnRefused | ConnReset | NetUnreachable | HostUnreachable
  | EndpointNotFound | ServiceNotFound | InvalidInput | MissingInput | JsonSyntax | JsonTypeMismatch
  | EndOfFile | UnexpectedEOF

record response_err =
  rp_Actual :: int
  rp_Header :: "string \<Rightarrow> string"

record sdk_error =
  sdk_safe :: "OsError option"
  sdk_response :: "response_err option"
  sdk_classes :: "err_class list"

definition clientErrorCategory :: "err_class list \<Rightarrow> string" where
  "clientErrorCategory cs =
     (if EndpointNotFound \<in> set cs then ''EndpointNotFound''
      else if ServiceNotFound \<in> set cs then ''ServiceNotFound''
      else if InvalidInput \<in> set cs \<or> MissingInput \<in> set cs then ''InvalidSDKInput''
      else if JsonSyntax \<in> set cs \<or> JsonTypeMismatch \<in> set cs then ''InvalidAPIResponse''
      else if EndOfFile \<in> set cs \<or> UnexpectedEOF \<in> set cs then ''UnexpectedEndOfResponse''
      else ''UnclassifiedClientError'')"

definition errorCategory :: "err_class list \<Rightarrow> string" where
  "errorCategory cs =
     (if SchemeMismatch \<in> set cs then ''HTTPResponseToHTTPSClient''
      else if Canceled \<in> set cs then ''RequestCanceled''
      else if DeadlineExceeded \<in> set cs then ''RequestTimeout''
      else if UnknownAuthority \<in> set cs then ''TLSUnknownAuthority''
      else if HostnameMismatch \<in> set cs then ''TLSHostnameMismatch''
      else if CertificateInvalid \<in> set cs then ''TLSCertificateInvalid''
      else if CertificateVerification \<in> set cs \<or> RecordHeader \<in> set cs \<or> TlsAlert \<in> set cs then ''TLSHandshakeFailed''
      else if DNSError \<in> set cs then ''DNSResolutionFailed''
      else if NetTimeout \<in> set cs then ''RequestTimeout''
      else if ConnRefused \<in> set cs then ''ConnectionRefused''
      else if ConnReset \<in> set cs then ''ConnectionReset''
      else if NetUnreachable \<in> set cs \<or> HostUnreachable \<in> set cs then ''NetworkUnreachable''
      else clientErrorCategory cs)"

text \<open>The pattern \<open>^req-<8>-<4>-<4>-<4>-<12>$\<close> over hexadecimal digits.\<close>

definition requestIDPattern :: "string \<Rightarrow> bool" where
  "requestIDPattern v \<longleftrightarrow>
     (case go_Split (CHR ''-'') v of
        [r, a, b, c, d, e] \<Rightarrow> r = ''req'' \<and> length a = 8 \<and> length b = 4 \<and> length c = 4 \<and> length d = 4 \<and> length e = 12
          \<and> list_all is_hex (a @ b @ c @ d @ e)
      | _ \<Rightarrow> False)"

fun firstRequestID :: "(string \<Rightarrow> string) \<Rightarrow> string list \<Rightarrow> string" where
  "firstRequestID hdr [] = []"
| "firstRequestID hdr (h # hs) = (if requestIDPattern (hdr h) then hdr h else firstRequestID hdr hs)"

definition responseError :: "response_err \<Rightarrow> OsError" where
  "responseError response =
     (let code = rp_Actual response;
          result = (mkOsError ''OpenStackRequestFailed'' True False)\<lparr>er_category := ''HTTPResponse''\<rparr>;
          result = (if code = 404 then ErrNotFound
                    else if code \<in> set [400, 401, 403, 405, 413, 422]
                    then result\<lparr>er_Reason := ''ConfigurationRejected'', er_Retryable := False, er_Rejected := True\<rparr>
                    else if code = 429 then ErrThrottle
                    else result);
          result = result\<lparr>er_category := ''HTTPResponse''\<rparr>;
          result = (if code \<ge> 100 \<and> code \<le> 599 then result\<lparr>er_statusCode := code\<rparr> else result)
      in result\<lparr>er_requestID := firstRequestID (rp_Header response)
                                  [''X-Openstack-Request-Id'', ''X-Compute-Request-Id'']\<rparr>)"

text \<open>\<open>SafeError\<close> on a non-nil error.\<close>

definition SafeError :: "sdk_error \<Rightarrow> OsError" where
  "SafeError err =
     (case sdk_safe err of
        Some safe \<Rightarrow> safe
      | None \<Rightarrow>
          (case sdk_response err of
             Some response \<Rightarrow> responseError response
           | None \<Rightarrow> (mkOsError ''OpenStackRequestFailed'' True False)
                       \<lparr>er_category := errorCategory (sdk_classes err)\<rparr>))"

definition ourError :: "OsError \<Rightarrow> sdk_error" where
  "ourError e = \<lparr>sdk_safe = Some e, sdk_response = None, sdk_classes = []\<rparr>"

definition safeErrorAt :: "sdk_error \<Rightarrow> string \<Rightarrow> string \<Rightarrow> OsError" where
  "safeErrorAt err service operation =
     (let safe = SafeError err
      in if er_service safe = [] then safe\<lparr>er_service := service, er_operation := operation\<rparr> else safe)"

datatype Kind = Port | OSVolume | DiscoveryVolume | Server | Image | OtherKind string

fun kind_str :: "Kind \<Rightarrow> string" where
  "kind_str Port = ''port''"
| "kind_str OSVolume = ''os-volume''"
| "kind_str DiscoveryVolume = ''discovery-volume''"
| "kind_str Server = ''server''"
| "kind_str Image = ''image''"
| "kind_str (OtherKind s) = s"

fun kindService :: "Kind \<Rightarrow> string \<times> string" where
  "kindService Port = (''neutron'', ''port'')"
| "kindService OSVolume = (''cinder'', ''os-volume'')"
| "kindService DiscoveryVolume = (''cinder'', ''discovery-volume'')"
| "kindService Server = (''nova'', ''server'')"
| "kindService Image = (''glance'', ''image'')"
| "kindService (OtherKind s) = (''openstack'', ''resource'')"

definition safeResourceError :: "sdk_error \<Rightarrow> Kind \<Rightarrow> string \<Rightarrow> OsError" where
  "safeResourceError err kind action =
     (case kindService kind of (service, resource) \<Rightarrow> safeErrorAt err service (action @ ''-'' @ resource))"

section \<open>Lemmas\<close>

lemmas os_error_defs = mkOsError_def ErrNotFound_def ErrOwnership_def ErrThrottle_def

lemma firstRequestID_ok: "firstRequestID hdr hs = [] \<or> requestIDPattern (firstRequestID hdr hs)"
  by (induction hs) auto

lemma kindService_ne [simp]: "fst (kindService k) \<noteq> []"
  by (cases k) simp_all

text \<open>What a response tells the reconciler: an HTTP response marks the request as rejected, that is known
  not to have created anything, exactly for the codes 400, 401, 403, 404, 405, 413, 422 and 429; it is
  final (not retryable) exactly for those except 429; it counts as not found exactly for 404 and as
  throttled exactly for 429, and never as an ownership mismatch.\<close>

theorem response_classification:
  "let e = SafeError \<lparr>sdk_safe = None, sdk_response = Some response, sdk_classes = cs\<rparr>; code = rp_Actual response
   in er_Rejected e = (code \<in> {400, 401, 403, 404, 405, 413, 422, 429})
    \<and> er_Retryable e = (code \<notin> {400, 401, 403, 404, 405, 413, 422})
    \<and> OsError_Is e NotFoundSentinel = (code = 404)
    \<and> OsError_Is e ThrottleSentinel = (code = 429)
    \<and> \<not> OsError_Is e OwnershipSentinel"
  by (simp add: SafeError_def responseError_def OsError_Is_def Let_def os_error_defs)

definition safe_words :: "OsError \<Rightarrow> bool" where
  "safe_words e \<longleftrightarrow>
     er_Reason e \<in> set [''OpenStackRequestFailed'', ''ConfigurationRejected'', ''ResourceNotFound'', ''RateLimited'']
     \<and> er_category e \<in> set [''HTTPResponse'', ''HTTPResponseToHTTPSClient'', ''RequestCanceled'', ''RequestTimeout'',
          ''TLSUnknownAuthority'', ''TLSHostnameMismatch'', ''TLSCertificateInvalid'', ''TLSHandshakeFailed'',
          ''DNSResolutionFailed'', ''ConnectionRefused'', ''ConnectionReset'', ''NetworkUnreachable'',
          ''EndpointNotFound'', ''ServiceNotFound'', ''InvalidSDKInput'', ''InvalidAPIResponse'',
          ''UnexpectedEndOfResponse'', ''UnclassifiedClientError'']
     \<and> (er_requestID e = [] \<or> requestIDPattern (er_requestID e))
     \<and> (er_statusCode e = 0 \<or> (100 \<le> er_statusCode e \<and> er_statusCode e \<le> 599))"

lemma clientErrorCategory_cases:
  "clientErrorCategory cs \<in> set [''EndpointNotFound'', ''ServiceNotFound'', ''InvalidSDKInput'', ''InvalidAPIResponse'',
     ''UnexpectedEndOfResponse'', ''UnclassifiedClientError'']"
  by (simp add: clientErrorCategory_def)

lemma errorCategory_cases:
  "errorCategory cs \<in> set [''HTTPResponseToHTTPSClient'', ''RequestCanceled'', ''RequestTimeout'',
     ''TLSUnknownAuthority'', ''TLSHostnameMismatch'', ''TLSCertificateInvalid'', ''TLSHandshakeFailed'',
     ''DNSResolutionFailed'', ''ConnectionRefused'', ''ConnectionReset'', ''NetworkUnreachable''] \<or>
   errorCategory cs = clientErrorCategory cs"
  by (simp add: errorCategory_def)

lemma errorCategory_safe: "safe_words ((mkOsError ''OpenStackRequestFailed'' True False)\<lparr>er_category := errorCategory cs\<rparr>)"
  using errorCategory_cases [of cs] clientErrorCategory_cases [of cs]
  unfolding safe_words_def by (auto simp: os_error_defs)

lemma responseError_safe: "safe_words (responseError response)"
  using firstRequestID_ok [of "rp_Header response" "[''X-Openstack-Request-Id'', ''X-Compute-Request-Id'']"]
  unfolding safe_words_def responseError_def Let_def
  by (simp add: os_error_defs)

text \<open>C36: An error that did not originate in this package is reduced to a fixed vocabulary: its reason and
  category are among finitely many words, its status is a valid HTTP code or absent, and its request
  identifier is empty or a well-formed one. Nothing else of the original error survives.\<close>

theorem foreign_errors_sanitized:
  assumes "sdk_safe err = None"
  shows "safe_words (safeErrorAt err service operation)
    \<and> er_service (safeErrorAt err service operation) = service
    \<and> er_operation (safeErrorAt err service operation) = operation"
proof -
  have service: "er_service (SafeError err) = []"
    using assms by (simp add: SafeError_def responseError_def Let_def os_error_defs split: option.split)
  have "safe_words (SafeError err)"
    using assms errorCategory_safe responseError_safe by (simp add: SafeError_def split: option.split)
  then show ?thesis
    using service by (simp add: safeErrorAt_def safe_words_def)
qed

lemma foreign_errors_sanitized_witness:
  "safe_words (safeErrorAt \<lparr>sdk_safe = None, sdk_response = None, sdk_classes = [ConnRefused]\<rparr> ''nova'' ''get-server'')"
  using foreign_errors_sanitized [of "\<lparr>sdk_safe = None, sdk_response = None, sdk_classes = [ConnRefused]\<rparr>"
      "''nova''" "''get-server''"] by simp

text \<open>The diagnosis made closest to the failing call survives: labelling an already labelled error again
  changes nothing, whatever labels are offered, and classification flags are never altered by labelling.\<close>

theorem labels_are_final:
  assumes "service \<noteq> []"
  shows "safeErrorAt (ourError (safeErrorAt err service operation)) service' operation' = safeErrorAt err service operation
    \<and> safeResourceError (ourError (safeResourceError err kind action)) kind' action' = safeResourceError err kind action
    \<and> er_Rejected (safeErrorAt err service operation) = er_Rejected (SafeError err)
    \<and> er_Retryable (safeErrorAt err service operation) = er_Retryable (SafeError err)"
proof -
  have once: "safeErrorAt (ourError (safeErrorAt err s op)) s' op' = safeErrorAt err s op" if "s \<noteq> []" for s op s' op'
    using that by (simp add: safeErrorAt_def SafeError_def ourError_def Let_def)
  then have "safeResourceError (ourError (safeResourceError err kind action)) kind' action' = safeResourceError err kind action"
    using kindService_ne [of kind] unfolding safeResourceError_def case_prod_beta by blast
  then show ?thesis using once [OF assms] by (simp add: safeErrorAt_def Let_def)
qed

lemma labels_are_final_witness:
  "safeErrorAt (ourError (safeErrorAt (ourError ErrThrottle) ''nova'' ''get-server'')) ''cinder'' ''x''
     = safeErrorAt (ourError ErrThrottle) ''nova'' ''get-server''"
  using labels_are_final [of "''nova''" "ourError ErrThrottle" "''get-server''" "''cinder''" "''x''"] by simp

end
