(* ===== verification/Sha256.thy ===== *)
theory Sha256
  imports GoPrelude
begin

text \<open>
  SHA-256 (FIPS 180-4) on byte strings and its hexadecimal form: \<open>crypto/sha256\<close> followed by
  \<open>hex.EncodeToString\<close>, which the program uses to name ISO images, OpenStack resources and alternate
  VM objects.

  The lemmas show that padding fills whole blocks, and that a digest always has 64 hexadecimal digits.
\<close>

unbundle bit_operations_syntax

text \<open>
  The constants of the standard are the first 32 bits of the fractional parts of the cube roots of the
  first 64 primes and of the square roots of the first 8 primes; they are computed here, by finding the
  integer root bit by bit.
\<close>

definition sha_primes :: "int list" where
  "sha_primes = [
     2, 3, 5, 7, 11, 13, 17, 19, 23, 29, 31, 37, 41, 43, 47, 53,
     59, 61, 67, 71, 73, 79, 83, 89, 97, 101, 103, 107, 109, 113, 127, 131,
     137, 139, 149, 151, 157, 163, 167, 173, 179, 181, 191, 193, 197, 199, 211, 223,
     227, 229, 233, 239, 241, 251, 257, 263, 269, 271, 277, 281, 283, 293, 307, 311]"

definition iroot :: "nat \<Rightarrow> int \<Rightarrow> int" where
  "iroot k n = fold (\<lambda>b r. if (r + 2 ^ b) ^ k \<le> n then r + 2 ^ b else r) (rev [0..<37]) 0"

definition sha_K :: "int32 list" where
  "sha_K = map (\<lambda>p. word_of_int (iroot 3 (p * 2 ^ 96))) sha_primes"

definition sha_H0 :: "int32 list" where
  "sha_H0 = map (\<lambda>p. word_of_int (iroot 2 (p * 2 ^ 64))) (take 8 sha_primes)"

definition rotr :: "nat \<Rightarrow> int32 \<Rightarrow> int32" where
  "rotr n x = (drop_bit n x) OR (push_bit (32 - n) x)"

definition sha_ch :: "int32 \<Rightarrow> int32 \<Rightarrow> int32 \<Rightarrow> int32" where
  "sha_ch x y z = (x AND y) XOR ((NOT x) AND z)"

definition sha_maj :: "int32 \<Rightarrow> int32 \<Rightarrow> int32 \<Rightarrow> int32" where
  "sha_maj x y z = (x AND y) XOR (x AND z) XOR (y AND z)"

definition sha_S0 :: "int32 \<Rightarrow> int32" where "sha_S0 x = rotr 2 x XOR rotr 13 x XOR rotr 22 x"
definition sha_S1 :: "int32 \<Rightarrow> int32" where "sha_S1 x = rotr 6 x XOR rotr 11 x XOR rotr 25 x"
definition sha_s0 :: "int32 \<Rightarrow> int32" where "sha_s0 x = rotr 7 x XOR rotr 18 x XOR drop_bit 3 x"
definition sha_s1 :: "int32 \<Rightarrow> int32" where "sha_s1 x = rotr 17 x XOR rotr 19 x XOR drop_bit 10 x"

text \<open>The message as bytes, then a one bit, zeros and the length in bits as 64 bits.\<close>

definition sha_pad :: "nat list \<Rightarrow> nat list" where
  "sha_pad bs = (let n = length bs; z = (119 - n mod 64) mod 64; bits = 8 * n
     in bs @ [128] @ replicate z 0 @ map (\<lambda>i. (bits div 256 ^ i) mod 256) (rev [0..<8]))"

definition be_word :: "nat list \<Rightarrow> int32" where
  "be_word bs = foldl (\<lambda>a b. 256 * a + of_nat b) 0 bs"

fun chunks :: "nat \<Rightarrow> 'a list \<Rightarrow> 'a list list" where
  "chunks n [] = []"
| "chunks n (x # xs) = (x # take n xs) # chunks n (drop n xs)"

text \<open>The schedule of a block, newest word first: word \<open>t\<close> depends on words \<open>t-2, t-7, t-15, t-16\<close>.\<close>

fun sha_schedule :: "nat \<Rightarrow> int32 list \<Rightarrow> int32 list" where
  "sha_schedule 0 ws = ws"
| "sha_schedule (Suc n) ws = sha_schedule n ((sha_s1 (ws ! 1) + ws ! 6 + sha_s0 (ws ! 14) + ws ! 15) # ws)"

fun sha_round :: "int32 \<times> int32 \<Rightarrow> int32 list \<Rightarrow> int32 list" where
  "sha_round (k, w) [a, b, c, d, e, f, g, h] =
     (let t1 = h + sha_S1 e + sha_ch e f g + k + w; t2 = sha_S0 a + sha_maj a b c
      in [t1 + t2, a, b, c, d + t1, e, f, g])"
| "sha_round kw st = st"

definition sha_block :: "nat list \<Rightarrow> int32 list \<Rightarrow> int32 list" where
  "sha_block bs st =
     (let ws = rev (sha_schedule 48 (rev (map be_word (chunks 3 bs))))
      in map2 (+) st (fold sha_round (zip sha_K ws) st))"

definition sha256_words :: "string \<Rightarrow> int32 list" where
  "sha256_words s = fold sha_block (chunks 63 (sha_pad (map of_char s))) sha_H0"

definition hex_digit :: "nat \<Rightarrow> char" where
  "hex_digit n = (if n < 10 then char_of (48 + n) else char_of (87 + n))"

definition hex_word :: "int32 \<Rightarrow> string" where
  "hex_word w = map (\<lambda>i. hex_digit (unat (take_bit 4 (drop_bit (4 * i) w)))) (rev [0..<8])"

definition sha256hex :: "string \<Rightarrow> string" where
  "sha256hex s = concat (map hex_word (sha256_words s))"

section \<open>Lemmas\<close>

lemma sha_pad_blocks: "64 dvd length (sha_pad bs)"
proof -
  define q where "q = length bs div 64"
  define m where "m = length bs mod 64"
  have n: "length bs = 64 * q + m" and m: "m < 64" by (simp_all add: q_def m_def)
  have z: "(119 - m) mod 64 = (if m \<le> 55 then 55 - m else 119 - m)"
    using m by (simp add: mod_if)
  have len: "length (sha_pad bs) = 64 * q + m + 1 + (119 - m) mod 64 + 8"
    by (simp add: sha_pad_def Let_def n) (simp add: n [symmetric] m_def)
  show ?thesis
  proof (cases "m \<le> 55")
    case True
    then have "length (sha_pad bs) = 64 * (q + 1)" using len z by simp
    then show ?thesis by (metis dvd_triv_left)
  next
    case False
    then have "length (sha_pad bs) = 64 * (q + 2)" using len z m by simp
    then show ?thesis by (metis dvd_triv_left)
  qed
qed

lemma sha_round_length: "length (sha_round kw st) = length st"
  by (induction kw st rule: sha_round.induct) (simp_all add: Let_def)

lemma sha_rounds_length: "length (fold sha_round kws st) = length st"
  by (induction kws arbitrary: st) (simp_all add: sha_round_length)

lemma sha_block_length: "length (sha_block bs st) = length st"
  by (simp add: sha_block_def sha_rounds_length)

lemma sha_blocks_length: "length (fold sha_block bss st) = length st"
  by (induction bss arbitrary: st) (simp_all add: sha_block_length)

lemma sha256_words_length: "length (sha256_words s) = 8"
  by (simp add: sha256_words_def sha_blocks_length sha_H0_def sha_primes_def)

lemma length_concat_const: "\<forall>x \<in> set xs. length (f x) = n \<Longrightarrow> length (concat (map f xs)) = n * length xs"
  by (induction xs) auto

lemma sha256hex_length [simp]: "length (sha256hex s) = 64"
  using length_concat_const [of "sha256_words s" hex_word 8]
  by (simp add: sha256hex_def sha256_words_length hex_word_def)

lemma hex_digit_is_hex: "n < 16 \<Longrightarrow> is_hex (hex_digit n)"
  by (auto simp: hex_digit_def is_hex_def Let_def)

lemma sha256hex_hex: "list_all is_hex (sha256hex s)"
proof -
  have "unat (take_bit 4 w) < 16" for w :: int32
    by (simp add: take_bit_eq_mod unat_mod)
  then show ?thesis
    by (auto simp: sha256hex_def hex_word_def list_all_iff intro: hex_digit_is_hex)
qed

lemma sha256hex_ne [simp]: "sha256hex s \<noteq> []"
  using sha256hex_length [of s] by (metis list.size(3) zero_neq_numeral)

end
