(* ===== verification/Effects.thy ===== *)
theory Effects
  imports ApiTypes OpenStackErrors Sha256
begin

text \<open>
  The boundary between the controllers and everything they call. The Kubernetes API server, \<open>govc\<close>, the
  web and OpenStack are parameters: records of functions on an unknown world \<open>'w\<close>, each of which answers
  with a value or an error and may change the world in any way. Every call is recorded in the trace with
  its arguments and its answer.

  \<^item> \<open>go_error\<close> is the type \<open>error\<close>: the errors the code distinguishes with \<open>apierrors.Is...\<close>,
    \<open>errors.Is\<close> and \<open>errors.As\<close>, and plain text. \<open>Panic\<close> stands for a run-time panic, which the manager recovers
    from and reports as the error of the reconciliation.
  \<^item> \<open>api\<close> is the part of \<open>client.Client\<close> used on one type of object. A \<open>reader\<close> says whether a read goes
    through the manager's cache (\<open>r.Client\<close>) or to the server (\<open>r.apiReader()\<close>).
  \<^item> \<open>golib\<close> holds the pure functions of third-party packages (\<open>meta.SetStatusCondition\<close>, the finalizer
    helpers of \<open>controllerutil\<close>, \<open>url.Parse\<close> and the like).
\<close>

section \<open>Errors\<close>

datatype sentinel = errVMNotFound | errVMOwnershipMismatch | errVMDeletionBlocked

datatype go_error = ApiNotFound string | ApiAlreadyExists string | ApiConflict string | ApiOther string
  | ErrSentinel sentinel string | OsErr OsError | ErrorText string | Panic string

fun error_text :: "go_error \<Rightarrow> string" where
  "error_text (ApiNotFound m) = m"
| "error_text (ApiAlreadyExists m) = m"
| "error_text (ApiConflict m) = m"
| "error_text (ApiOther m) = m"
| "error_text (ErrSentinel t m) = m"
| "error_text (OsErr e) = OsError_Error e"
| "error_text (ErrorText m) = m"
| "error_text (Panic m) = m"

fun IsNotFound :: "go_error \<Rightarrow> bool" where
  "IsNotFound (ApiNotFound m) = True"
| "IsNotFound e = False"

fun IsAlreadyExists :: "go_error \<Rightarrow> bool" where
  "IsAlreadyExists (ApiAlreadyExists m) = True"
| "IsAlreadyExists e = False"

fun IsConflict :: "go_error \<Rightarrow> bool" where
  "IsConflict (ApiConflict m) = True"
| "IsConflict e = False"

fun IsSentinel :: "sentinel \<Rightarrow> go_error \<Rightarrow> bool" where
  "IsSentinel t (ErrSentinel t' m) = (t = t')"
| "IsSentinel t e = False"

fun IsOs :: "os_sentinel \<Rightarrow> go_error \<Rightarrow> bool" where
  "IsOs t (OsErr e) = OsError_Is e t"
| "IsOs t e = False"

type_synonym 'a result = "go_error + 'a"

text \<open>\<open>client.IgnoreNotFound\<close>, on the error of a handler that returns only an error.\<close>

definition IgnoreNotFound :: "go_error \<Rightarrow> unit result" where
  "IgnoreNotFound e = (if IsNotFound e then Inr () else Inl e)"

section \<open>The Kubernetes API\<close>

datatype reader = Cached | Live

record list_opts =
  lo_Namespace :: "string option"
  lo_Field :: "(string \<times> string) option"
  lo_Labels :: strmap

definition InNamespace :: "string \<Rightarrow> list_opts" where
  "InNamespace ns = \<lparr>lo_Namespace = Some ns, lo_Field = None, lo_Labels = []\<rparr>"

definition MatchingField :: "string \<Rightarrow> string \<Rightarrow> list_opts" where
  "MatchingField idx v = \<lparr>lo_Namespace = None, lo_Field = Some (idx, v), lo_Labels = []\<rparr>"

text \<open>\<open>client.Preconditions\<close>: the UID and the resource version a deletion insists on.\<close>

type_synonym preconditions = "(string \<times> string option) option"

record ('o, 'w) api =
  api_get :: "reader \<Rightarrow> objkey \<Rightarrow> 'w \<Rightarrow> 'o result \<times> 'w"
  api_list :: "reader \<Rightarrow> list_opts \<Rightarrow> 'w \<Rightarrow> 'o list result \<times> 'w"
  api_create :: "'o \<Rightarrow> 'w \<Rightarrow> 'o result \<times> 'w"
  api_patch :: "bool \<Rightarrow> 'o \<Rightarrow> 'o \<Rightarrow> 'w \<Rightarrow> 'o result \<times> 'w"
  api_update :: "'o \<Rightarrow> 'w \<Rightarrow> 'o result \<times> 'w"
  api_status_patch :: "bool \<Rightarrow> 'o \<Rightarrow> 'o \<Rightarrow> 'w \<Rightarrow> 'o result \<times> 'w"
  api_status_update :: "'o \<Rightarrow> 'w \<Rightarrow> 'o result \<times> 'w"
  api_delete :: "preconditions \<Rightarrow> 'o \<Rightarrow> 'w \<Rightarrow> unit result \<times> 'w"

datatype 'o api_event =
    Get reader objkey "'o result"
  | ListAll reader list_opts "'o list result"
  | Create 'o "'o result"
  | Patch bool 'o 'o "'o result"
  | Update 'o "'o result"
  | StatusPatch bool 'o 'o "'o result"
  | StatusUpdate 'o "'o result"
  | Delete preconditions 'o "unit result"

fun is_read :: "'o api_event \<Rightarrow> bool" where
  "is_read (Get rd k r) = True"
| "is_read (ListAll rd opts r) = True"
| "is_read _ = False"

record 'w kube =
  k_pools :: "(VsphereAgentPool, 'w) api"
  k_vagents :: "(VsphereAgent, 'w) api"
  k_agents :: "(AgentObj, 'w) api"
  k_agentmachines :: "(AgentMachineObj, 'w) api"
  k_machines :: "(MachineObj, 'w) api"
  k_infraenvs :: "(InfraEnvObj, 'w) api"
  k_secrets :: "(Secret, 'w) api"
  k_ospools :: "(OpenStackAgentPool, 'w) api"
  k_osagents :: "(OpenStackAgent, 'w) api"
  k_configmaps :: "(ConfigMap, 'w) api"
  k_now :: "'w \<Rightarrow> gotime \<times> 'w"

section \<open>The vSphere provider\<close>

record VMCreateRequest =
  rq_Name :: string
  rq_ISOPath :: string
  rq_OwnerUID :: string

record ISOEnsureResult =
  ir_VerificationDeferred :: bool
  ir_LastModified :: string
  ir_Path :: string
  ir_SHA256 :: string
  ir_SizeBytes :: int64
  ir_Uploaded :: bool

section \<open>OpenStack\<close>

record Resource =
  rs_ID :: string
  rs_Name :: string
  rs_Owner :: string
  rs_State :: string
  rs_MAC :: string
  rs_Attached :: bool
  rs_Bootable :: bool
  rs_SizeBytes :: int64

section \<open>The trace\<close>

text \<open>
\<open>EvProvider\<close> is a call of the \<open>VMProvider\<close> interface, \<open>EvHost\<close> a call of the provider to the machine it
  runs on (the \<open>govc\<close> command, the web, files), \<open>EvOs\<close> a call of the \<open>openstack.Client\<close> interface,
  \<open>EvRecord\<close> an event written with the event recorder (its type, reason and message), \<open>EvMetric\<close> an
  increment of a counter with its labels; \<open>EvGauges\<close> sets (or, when the list is empty, deletes) the gauges
  of a pool.
\<close>

datatype provider_event =
    EnsureISO string "ISOEnsureResult result"
  | CreateVM VMCreateRequest "OwnedVMStatus result"
  | VMStatus string "OwnedVMStatus result"
  | DeleteVM OwnedVMStatus "unit result"
  | PrepareISOEjection OwnedVMStatus "ISOEjectionStatus option result"
  | EjectISO ISOEjectionStatus "unit result"
  | DeleteISO string "unit result"

text \<open>
  An answer of \<open>govc\<close>: its output, or the error and output of a failed run, or the error of an expired context.
  A \<open>govc\<close> started in the background is waited for: it is finished, the context expired, or a second passed.
  An HTTP answer: the request is malformed, the context expired, the transport failed, or a response with
  its status, its declared length, its \<open>Last-Modified\<close> header and its body. Copying the body to a file may fail.
\<close>

datatype govc_answer = GovcOK string | GovcFailed string string | GovcExpired string

datatype govc_wait = WaitDone govc_answer | WaitExpired string | WaitTick

datatype http_answer = HttpInvalid | HttpExpired string | HttpFailed string
  | HttpResponse nat int64 string string

datatype copy_failure = CopyExpired string | CopyFailed string

text \<open>A temporary file: it could not be made, or could not be closed, or is there.\<close>

datatype temp_answer = TempFailed string | TempCloseFailed string string | TempFile string

datatype host_event =
    Govc "string list" govc_answer
  | GovcStart "string list"
  | GovcWait govc_wait
  | MkdirTemp "string result"
  | HttpGet string string http_answer
  | CreateFile string "unit result"
  | CopyFile string string "copy_failure option"
  | ReadFile string "string result"
  | RemoveAll string
  | CreateTemp temp_answer
  | RemoveFile string

datatype os_event =
    OsConnect "string result"
  | OsFind Kind string string "Resource result"
  | OsGet Kind string string "Resource result"
  | OsCreate Kind string string OpenStackAgent "Resource option result"
  | OsSetBootable string string "unit result"
  | OsUploadImage string string string "unit result"
  | OsDelete Kind string string "unit result"

datatype event =
    EvPool "VsphereAgentPool api_event"
  | EvVAgent "VsphereAgent api_event"
  | EvAgent "AgentObj api_event"
  | EvAgentMachine "AgentMachineObj api_event"
  | EvMachine "MachineObj api_event"
  | EvInfraEnv "InfraEnvObj api_event"
  | EvSecret "Secret api_event"
  | EvOsPool "OpenStackAgentPool api_event"
  | EvOsAgent "OpenStackAgent api_event"
  | EvConfigMap "ConfigMap api_event"
  | EvProvider provider_event
  | EvHost host_event
  | EvOs os_event
  | EvRecord string string string
  | EvMetric string string string
  | EvGauges objkey "(string \<times> int) list"
  | EvClock gotime

type_synonym ('w, 'a) io = "(('w, event) sys, 'a) state"

text \<open>
  The interface \<open>VMProvider\<close>. \<open>EjectISO\<close> works on the record of the operation, which it changes, and calls
  the controller's \<open>checkpoint\<close> to have the \<open>VsphereAgent\<close> written. The controller's object refers to the
  same record until a status update replaces it by a copy: the Boolean says whether it still does.
\<close>

type_synonym eject_state = "VsphereAgent \<times> bool"
type_synonym 'w checkpoint = "eject_state \<Rightarrow> ISOEjectionStatus \<Rightarrow> ('w, eject_state \<times> unit result) io"

record 'w VMProvider =
  pv_EnsureISO :: "VsphereAgentPool \<Rightarrow> string \<Rightarrow> 'w \<Rightarrow> ISOEnsureResult result \<times> 'w"
  pv_CreateVM :: "VsphereAgentPool \<Rightarrow> VMCreateRequest \<Rightarrow> 'w \<Rightarrow> OwnedVMStatus result \<times> 'w"
  pv_VMStatus :: "VsphereAgentPool \<Rightarrow> string \<Rightarrow> 'w \<Rightarrow> OwnedVMStatus result \<times> 'w"
  pv_DeleteVM :: "VsphereAgentPool \<Rightarrow> OwnedVMStatus \<Rightarrow> 'w \<Rightarrow> unit result \<times> 'w"
  pv_PrepareISOEjection :: "VsphereAgentPool \<Rightarrow> OwnedVMStatus \<Rightarrow> 'w \<Rightarrow> ISOEjectionStatus option result \<times> 'w"
  pv_EjectISO :: "VsphereAgentPool \<Rightarrow> ISOEjectionStatus \<Rightarrow> 'w checkpoint \<Rightarrow> eject_state
    \<Rightarrow> ('w, (eject_state \<times> ISOEjectionStatus) \<times> unit result) io"
  pv_DeleteISO :: "VsphereAgentPool \<Rightarrow> string \<Rightarrow> 'w \<Rightarrow> unit result \<times> 'w"

text \<open>
  The interface \<open>openstack.Client\<close> and its factory, which authenticates. \<open>Find\<close> and \<open>Get\<close> return a resource
  whenever they return no error; the result of \<open>Create\<close> may be nil.
\<close>

record 'w os_client =
  oc_Scope :: string
  oc_Find :: "Kind \<Rightarrow> string \<Rightarrow> string \<Rightarrow> 'w \<Rightarrow> Resource result \<times> 'w"
  oc_Get :: "Kind \<Rightarrow> string \<Rightarrow> string \<Rightarrow> 'w \<Rightarrow> Resource result \<times> 'w"
  oc_Create :: "Kind \<Rightarrow> string \<Rightarrow> string \<Rightarrow> OpenStackAgent \<Rightarrow> 'w \<Rightarrow> Resource option result \<times> 'w"
  oc_SetBootable :: "string \<Rightarrow> string \<Rightarrow> 'w \<Rightarrow> unit result \<times> 'w"
  oc_UploadImage :: "string \<Rightarrow> string \<Rightarrow> string \<Rightarrow> 'w \<Rightarrow> unit result \<times> 'w"
  oc_Delete :: "Kind \<Rightarrow> string \<Rightarrow> string \<Rightarrow> 'w \<Rightarrow> unit result \<times> 'w"

type_synonym 'w os_factory = "OpenStackPlacementSpec \<Rightarrow> Secret \<Rightarrow> 'w \<Rightarrow> 'w os_client result \<times> 'w"

section \<open>Calls\<close>

definition Now :: "'w kube \<Rightarrow> ('w, gotime) io" where
  "Now K = ask (k_now K) EvClock"

definition prov_EnsureISO :: "'w VMProvider \<Rightarrow> VsphereAgentPool \<Rightarrow> string \<Rightarrow> ('w, ISOEnsureResult result) io" where
  "prov_EnsureISO P pool url = ask (pv_EnsureISO P pool url) (\<lambda>r. EvProvider (EnsureISO url r))"

definition prov_CreateVM :: "'w VMProvider \<Rightarrow> VsphereAgentPool \<Rightarrow> VMCreateRequest \<Rightarrow> ('w, OwnedVMStatus result) io" where
  "prov_CreateVM P pool rq = ask (pv_CreateVM P pool rq) (\<lambda>r. EvProvider (CreateVM rq r))"

definition prov_VMStatus :: "'w VMProvider \<Rightarrow> VsphereAgentPool \<Rightarrow> string \<Rightarrow> ('w, OwnedVMStatus result) io" where
  "prov_VMStatus P pool name = ask (pv_VMStatus P pool name) (\<lambda>r. EvProvider (VMStatus name r))"

definition prov_DeleteVM :: "'w VMProvider \<Rightarrow> VsphereAgentPool \<Rightarrow> OwnedVMStatus \<Rightarrow> ('w, unit result) io" where
  "prov_DeleteVM P pool vm = ask (pv_DeleteVM P pool vm) (\<lambda>r. EvProvider (DeleteVM vm r))"

definition prov_PrepareISOEjection ::
  "'w VMProvider \<Rightarrow> VsphereAgentPool \<Rightarrow> OwnedVMStatus \<Rightarrow> ('w, ISOEjectionStatus option result) io" where
  "prov_PrepareISOEjection P pool vm =
     ask (pv_PrepareISOEjection P pool vm) (\<lambda>r. EvProvider (PrepareISOEjection vm r))"

definition prov_DeleteISO :: "'w VMProvider \<Rightarrow> VsphereAgentPool \<Rightarrow> string \<Rightarrow> ('w, unit result) io" where
  "prov_DeleteISO P pool path = ask (pv_DeleteISO P pool path) (\<lambda>r. EvProvider (DeleteISO path r))"

definition os_find :: "'w os_client \<Rightarrow> Kind \<Rightarrow> string \<Rightarrow> string \<Rightarrow> ('w, Resource result) io" where
  "os_find P k name owner = ask (oc_Find P k name owner) (\<lambda>r. EvOs (OsFind k name owner r))"

definition os_get :: "'w os_client \<Rightarrow> Kind \<Rightarrow> string \<Rightarrow> string \<Rightarrow> ('w, Resource result) io" where
  "os_get P k i owner = ask (oc_Get P k i owner) (\<lambda>r. EvOs (OsGet k i owner r))"

definition os_create :: "'w os_client \<Rightarrow> Kind \<Rightarrow> string \<Rightarrow> string \<Rightarrow> OpenStackAgent \<Rightarrow> ('w, Resource option result) io" where
  "os_create P k name owner a = ask (oc_Create P k name owner a) (\<lambda>r. EvOs (OsCreate k name owner a r))"

definition os_setBootable :: "'w os_client \<Rightarrow> string \<Rightarrow> string \<Rightarrow> ('w, unit result) io" where
  "os_setBootable P i owner = ask (oc_SetBootable P i owner) (\<lambda>r. EvOs (OsSetBootable i owner r))"

definition os_uploadImage :: "'w os_client \<Rightarrow> string \<Rightarrow> string \<Rightarrow> string \<Rightarrow> ('w, unit result) io" where
  "os_uploadImage P i owner content = ask (oc_UploadImage P i owner content) (\<lambda>r. EvOs (OsUploadImage i owner content r))"

definition os_delete :: "'w os_client \<Rightarrow> Kind \<Rightarrow> string \<Rightarrow> string \<Rightarrow> ('w, unit result) io" where
  "os_delete P k i owner = ask (oc_Delete P k i owner) (\<lambda>r. EvOs (OsDelete k i owner r))"

definition kget :: "('o, 'w) api \<Rightarrow> ('o api_event \<Rightarrow> event) \<Rightarrow> reader \<Rightarrow> objkey \<Rightarrow> ('w, 'o result) io" where
  "kget ops ev rd key = ask (api_get ops rd key) (\<lambda>r. ev (Get rd key r))"

definition klist :: "('o, 'w) api \<Rightarrow> ('o api_event \<Rightarrow> event) \<Rightarrow> reader \<Rightarrow> list_opts \<Rightarrow> ('w, 'o list result) io" where
  "klist ops ev rd opts = ask (api_list ops rd opts) (\<lambda>r. ev (ListAll rd opts r))"

definition kcreate :: "('o, 'w) api \<Rightarrow> ('o api_event \<Rightarrow> event) \<Rightarrow> 'o \<Rightarrow> ('w, 'o result) io" where
  "kcreate ops ev obj = ask (api_create ops obj) (\<lambda>r. ev (Create obj r))"

definition kpatch :: "('o, 'w) api \<Rightarrow> ('o api_event \<Rightarrow> event) \<Rightarrow> bool \<Rightarrow> 'o \<Rightarrow> 'o \<Rightarrow> ('w, 'o result) io" where
  "kpatch ops ev lock before obj = ask (api_patch ops lock before obj) (\<lambda>r. ev (Patch lock before obj r))"

definition kupdate :: "('o, 'w) api \<Rightarrow> ('o api_event \<Rightarrow> event) \<Rightarrow> 'o \<Rightarrow> ('w, 'o result) io" where
  "kupdate ops ev obj = ask (api_update ops obj) (\<lambda>r. ev (Update obj r))"

definition kstatus_patch :: "('o, 'w) api \<Rightarrow> ('o api_event \<Rightarrow> event) \<Rightarrow> bool \<Rightarrow> 'o \<Rightarrow> 'o \<Rightarrow> ('w, 'o result) io" where
  "kstatus_patch ops ev lock before obj =
     ask (api_status_patch ops lock before obj) (\<lambda>r. ev (StatusPatch lock before obj r))"

definition kstatus_update :: "('o, 'w) api \<Rightarrow> ('o api_event \<Rightarrow> event) \<Rightarrow> 'o \<Rightarrow> ('w, 'o result) io" where
  "kstatus_update ops ev obj = ask (api_status_update ops obj) (\<lambda>r. ev (StatusUpdate obj r))"

definition kdelete :: "('o, 'w) api \<Rightarrow> ('o api_event \<Rightarrow> event) \<Rightarrow> preconditions \<Rightarrow> 'o \<Rightarrow> ('w, unit result) io" where
  "kdelete ops ev pre obj = ask (api_delete ops pre obj) (\<lambda>r. ev (Delete pre obj r))"

text \<open>\<open>retry.RetryOnConflict\<close> with a number of further attempts.\<close>

fun RetryOnConflict :: "nat \<Rightarrow> ('w, 'a result) io \<Rightarrow> ('w, 'a result) io" where
  "RetryOnConflict 0 fn = fn"
| "RetryOnConflict (Suc n) fn =
     do { r \<leftarrow> fn;
          case r of Inl e \<Rightarrow> (if IsConflict e then RetryOnConflict n fn else ret (Inl e)) | Inr x \<Rightarrow> ret (Inr x) }"

text \<open>What a \<open>Reconcile\<close> returns: \<open>ctrl.Result\<close>'s \<open>RequeueAfter\<close> (0 for none) and an error.\<close>

type_synonym reconcile_result = "duration \<times> go_error option"

definition ok_result :: "duration \<Rightarrow> ('w, reconcile_result) io" where
  "ok_result d = ret (d, None)"

definition fail_result :: "go_error \<Rightarrow> ('w, reconcile_result) io" where
  "fail_result e = ret (0, Some e)"

text \<open>\<open>return ctrl.Result{}, client.IgnoreNotFound(err)\<close>\<close>

definition ignore_not_found :: "go_error \<Rightarrow> ('w, reconcile_result) io" where
  "ignore_not_found e = ret (0, if IsNotFound e then None else Some e)"

text \<open>The operation counters.\<close>

definition metricResult :: "go_error option \<Rightarrow> string" where
  "metricResult err = (case err of None \<Rightarrow> ''success'' | Some _ \<Rightarrow> ''error'')"

definition recordVMOperation :: "string \<Rightarrow> go_error option \<Rightarrow> ('w, unit) io" where
  "recordVMOperation operation err = emit (EvMetric ''vm_operations'' operation (metricResult err))"

definition recordISOOperation :: "string \<Rightarrow> go_error option \<Rightarrow> ('w, unit) io" where
  "recordISOOperation operation err = emit (EvMetric ''iso_operations'' operation (metricResult err))"

text \<open>The event recorder. The object an event is about is the one being reconciled.\<close>

abbreviation recordEvent :: "string \<Rightarrow> string \<Rightarrow> string \<Rightarrow> ('w, unit) io" where
  "recordEvent eventtype reason message \<equiv> emit (EvRecord eventtype reason message)"

section \<open>Pure functions of third-party packages\<close>

record url_parts =
  ur_stripped :: string
  ur_path :: string
  ur_query :: "string \<Rightarrow> string"

text \<open>
  \<open>gl_SetStatusCondition now conds c\<close> is \<open>meta.SetStatusCondition\<close> at the instant \<open>now\<close>.
  \<open>gl_url_Parse\<close> is \<open>url.Parse\<close>, \<open>None\<close> being an error; of the result the code uses the path, the query
  values, and the URL printed without user information, query and fragment.
  \<open>gl_http_ParseTime\<close> parses an HTTP date and prints it in the canonical format, \<open>None\<close> being an error.
  \<open>gl_uuid_NewSHA1\<close> is the text of \<open>uuid.NewSHA1\<close> in the name space of object identifiers.
\<close>

record golib =
  gl_SetStatusCondition :: "gotime \<Rightarrow> Condition list \<Rightarrow> Condition \<Rightarrow> Condition list"
  gl_AddFinalizer :: "ObjectMeta \<Rightarrow> string \<Rightarrow> ObjectMeta \<times> bool"
  gl_RemoveFinalizer :: "ObjectMeta \<Rightarrow> string \<Rightarrow> ObjectMeta \<times> bool"
  gl_ContainsFinalizer :: "ObjectMeta \<Rightarrow> string \<Rightarrow> bool"
  gl_SetControllerReference :: "ObjectMeta \<Rightarrow> string \<Rightarrow> ObjectMeta \<Rightarrow> ObjectMeta result"
  gl_RetrySteps :: nat
  gl_FindStatusCondition :: "Condition list \<Rightarrow> string \<Rightarrow> Condition option"
  gl_url_Parse :: "string \<Rightarrow> url_parts option"
  gl_http_ParseTime :: "string \<Rightarrow> string option"
  gl_uuid_NewSHA1 :: "string \<Rightarrow> string"

definition mkCondition :: "string \<Rightarrow> string \<Rightarrow> int64 \<Rightarrow> string \<Rightarrow> string \<Rightarrow> Condition" where
  "mkCondition type status gen reason message =
     \<lparr>co_Type = type, co_Status = status, co_ObservedGeneration = gen, co_Reason = reason, co_Message = message,
      co_LastTransitionTime = 0\<rparr>"

text \<open>A concrete library for the witnesses, which behaves as the packages document.\<close>

definition sampleLib :: golib where
  "sampleLib = \<lparr>
     gl_SetStatusCondition = (\<lambda>now conds c.
       if list_ex (\<lambda>d. co_Type d = co_Type c) conds
       then map (\<lambda>d. if co_Type d = co_Type c
                     then c\<lparr>co_LastTransitionTime := (if co_Status d = co_Status c then co_LastTransitionTime d else now)\<rparr>
                     else d) conds
       else conds @ [c\<lparr>co_LastTransitionTime := now\<rparr>]),
     gl_AddFinalizer = (\<lambda>m f. if f \<in> set (om_Finalizers m) then (m, False)
       else (m\<lparr>om_Finalizers := om_Finalizers m @ [f]\<rparr>, True)),
     gl_RemoveFinalizer = (\<lambda>m f. (m\<lparr>om_Finalizers := filter (\<lambda>x. x \<noteq> f) (om_Finalizers m)\<rparr>, f \<in> set (om_Finalizers m))),
     gl_ContainsFinalizer = (\<lambda>m f. f \<in> set (om_Finalizers m)),
     gl_SetControllerReference = (\<lambda>owner kind m. Inr (m\<lparr>om_OwnerReferences := om_OwnerReferences m @
       [\<lparr>own_APIVersion = ''agent-forge.containeroo.ch/v1alpha1'', own_Kind = kind, own_Name = om_Name owner,
         own_UID = om_UID owner\<rparr>]\<rparr>)),
     gl_RetrySteps = 4,
     gl_FindStatusCondition = (\<lambda>conds t. find (\<lambda>c. co_Type c = t) conds),
     gl_url_Parse = (\<lambda>u. Some \<lparr>ur_stripped = takeWhile (\<lambda>c. c \<noteq> CHR ''?'') u, ur_path = u, ur_query = (\<lambda>_. [])\<rparr>),
     gl_http_ParseTime = (\<lambda>s. if s = [] then None else Some s),
     gl_uuid_NewSHA1 = (\<lambda>s. ''uuid-of-'' @ s)\<rparr>"

section \<open>Lemmas\<close>

lemmas wp_calls [wp_simps] = kget_def klist_def kcreate_def kpatch_def kupdate_def kstatus_patch_def
  kstatus_update_def kdelete_def Now_def prov_EnsureISO_def prov_CreateVM_def prov_VMStatus_def prov_DeleteVM_def
  prov_PrepareISOEjection_def prov_DeleteISO_def os_find_def os_get_def os_create_def os_setBootable_def
  os_uploadImage_def os_delete_def

end
