(* ===== verification/IsoCache.thy ===== *)
theory IsoCache
  imports Samples Effects
begin

text \<open>
  The cache of discovery ISOs on the datastore: where an image is stored (\<open>isoPathPrefix\<close>,
  \<open>isoContentPath\<close> of \<open>vsphere_provider.go\<close>), when the cached copy has to be checked again
  (\<open>isoCacheDue\<close>), which versions are kept and which are removed (\<open>updatedISOHistory\<close>,
  \<open>staleISOPaths\<close> of \<open>vsphereagentpool_controller.go\<close>) and the reconciliation of the cache
  (\<open>ensureISOCache\<close> of \<open>iso_cache.go\<close>).

  The lemmas show that the paths stay inside their directory, that history and removed paths partition
  what was known, that the current image is never removed, and that a path leaves the history only
  after its deletion succeeded.
\<close>

section \<open>Paths\<close>

text \<open>\<open>path.Clean\<close>, \<open>path.Dir\<close> and \<open>path.Join\<close>: the stack holds the components kept so far.\<close>

fun clean_parts :: "bool \<Rightarrow> string list \<Rightarrow> string list \<Rightarrow> string list" where
  "clean_parts rooted stack [] = rev stack"
| "clean_parts rooted stack (c # cs) =
     (if c = [] \<or> c = ''.'' then clean_parts rooted stack cs
      else if c = ''..'' then
        (case stack of
           [] \<Rightarrow> if rooted then clean_parts rooted [] cs else clean_parts rooted [''..''] cs
         | t # ts \<Rightarrow> if t = ''..'' then clean_parts rooted (''..'' # t # ts) cs else clean_parts rooted ts cs)
      else clean_parts rooted (c # stack) cs)"

definition path_Clean :: "string \<Rightarrow> string" where
  "path_Clean p =
     (if p = [] then ''.''
      else let rooted = (hd p = CHR ''/'');
               out = (if rooted then ''/'' else []) @ go_Join (clean_parts rooted [] (go_Split (CHR ''/'') p)) ''/''
           in if out = [] then ''.'' else out)"

definition path_Dir :: "string \<Rightarrow> string" where
  "path_Dir p = path_Clean (rev (dropWhile (\<lambda>c. c \<noteq> CHR ''/'') (rev p)))"

definition path_Join :: "string list \<Rightarrow> string" where
  "path_Join elems = (let es = filter (\<lambda>e. e \<noteq> []) elems in if es = [] then [] else path_Clean (go_Join es ''/''))"

definition defaultISOPrefix :: "VsphereAgentPool \<Rightarrow> string" where
  "defaultISOPrefix pool = ''agent-forge/'' @ om_Namespace (pool_Meta pool) @ ''/'' @ om_Name (pool_Meta pool)"

definition isoPathPrefix :: "VsphereAgentPool \<Rightarrow> string" where
  "isoPathPrefix pool =
     (let prefix = go_Trim (go_TrimSpace (is_PathPrefix (ps_ISO (pool_Spec pool)))) ''/'';
          prefix = (if prefix = [] then defaultISOPrefix pool else prefix);
          prefix = go_Trim (path_Clean (''/'' @ prefix)) ''/''
      in if prefix = [] then defaultISOPrefix pool else prefix)"

definition isoContentPath :: "VsphereAgentPool \<Rightarrow> string \<Rightarrow> string" where
  "isoContentPath pool sha = isoPathPrefix pool @ ''/'' @ sha @ ''.iso''"

definition downloadURLHash :: "string \<Rightarrow> string" where
  "downloadURLHash rawURL = sha256hex rawURL"

definition redactedDownloadURL :: "golib \<Rightarrow> string \<Rightarrow> string" where
  "redactedDownloadURL L rawURL =
     (case gl_url_Parse L rawURL of None \<Rightarrow> ''<invalid-url>'' | Some parsed \<Rightarrow> ur_stripped parsed)"

text \<open>Replacing the matches of \<open>/tmp/agent-forge-iso-[^[:space:]]+\<close> in an error message.\<close>

abbreviation tempISOPrefix :: string where "tempISOPrefix \<equiv> ''/tmp/agent-forge-iso-''"

definition temp_match :: "string \<Rightarrow> bool" where
  "temp_match s \<longleftrightarrow> go_HasPrefix s tempISOPrefix \<and>
     (case drop (length tempISOPrefix) s of [] \<Rightarrow> False | c # _ \<Rightarrow> \<not> is_space c)"

function replace_temp :: "string \<Rightarrow> string" where
  "replace_temp [] = []"
| "replace_temp (c # s) =
     (if temp_match (c # s)
      then ''<temp-iso>'' @ replace_temp (dropWhile (\<lambda>x. \<not> is_space x) (drop (length tempISOPrefix) (c # s)))
      else c # replace_temp s)"
  by pat_completeness auto

termination replace_temp
proof (relation "measure length", goal_cases)
  case (2 c s)
  have "length (dropWhile (\<lambda>x. \<not> is_space x) (drop (length tempISOPrefix) (c # s))) \<le> length (drop (length tempISOPrefix) (c # s))"
    by (rule length_dropWhile_le)
  also have "\<dots> < length (c # s)" by simp
  finally show ?case by simp
qed simp_all

definition stableErrorMessage :: "go_error \<Rightarrow> string" where
  "stableErrorMessage err = replace_temp (error_text err)"

section \<open>When the cache is checked\<close>

definition isoCheckInterval :: "VsphereAgentPool \<Rightarrow> duration" where
  "isoCheckInterval pool =
     (if is_CheckInterval (ps_ISO (pool_Spec pool)) > 0 then is_CheckInterval (ps_ISO (pool_Spec pool)) else 10 * minute)"

definition isoRetainVersions :: "VsphereAgentPool \<Rightarrow> int" where
  "isoRetainVersions pool =
     (if sint (is_RetainVersions (ps_ISO (pool_Spec pool))) > 0
      then sint (is_RetainVersions (ps_ISO (pool_Spec pool))) else 2)"

definition isoCacheDue :: "VsphereAgentPool \<Rightarrow> string \<Rightarrow> string \<Rightarrow> gotime \<Rightarrow> bool" where
  "isoCacheDue pool isoDownloadURL forceToken now =
     (let iso = pst_ISO (pool_Status pool)
      in if ic_Path iso = [] \<or> ic_SHA256 iso = [] then True
         else if ic_URLHash iso \<noteq> downloadURLHash isoDownloadURL then True
         else if \<not> go_HasPrefix (ic_Path iso) (isoPathPrefix pool @ ''/'') then True
         else if forceToken \<noteq> [] \<and> forceToken \<noteq> ic_ForceRefreshToken iso then True
         else if ic_CheckedAt iso = 0 then True
         else \<not> now < ic_CheckedAt iso + isoCheckInterval pool)"

section \<open>What is kept\<close>

fun history_loop ::
  "string \<Rightarrow> int \<Rightarrow> ISOCacheHistoryEntry list \<Rightarrow> ISOCacheHistoryEntry list \<Rightarrow> ISOCacheHistoryEntry list" where
  "history_loop cur retain [] result = result"
| "history_loop cur retain (entry # history) result =
     (if ih_Path entry = [] \<or> ih_Path entry = cur then history_loop cur retain history result
      else (let result = result @ [entry]
            in if int (length result) \<ge> retain then result else history_loop cur retain history result))"

definition updatedISOHistory ::
  "ISOCacheHistoryEntry list \<Rightarrow> ISOCacheHistoryEntry \<Rightarrow> int \<Rightarrow> ISOCacheHistoryEntry list" where
  "updatedISOHistory history cur retain =
     (let retain = (if retain < 1 then 1 else retain);
          result = [cur]
      in if int (length result) \<ge> retain then result else history_loop (ih_Path cur) retain history result)"

definition findISOHistoryEntry :: "ISOCacheHistoryEntry list \<Rightarrow> string \<Rightarrow> ISOCacheHistoryEntry option" where
  "findISOHistoryEntry history path = find (\<lambda>entry. ih_Path entry = path) history"

definition ensureISOHistoryEntry ::
  "ISOCacheHistoryEntry list \<Rightarrow> ISOCacheHistoryEntry \<Rightarrow> ISOCacheHistoryEntry list" where
  "ensureISOHistoryEntry history entry =
     (if ih_Path entry = [] then history
      else if findISOHistoryEntry history (ih_Path entry) \<noteq> None then history
      else history @ [entry])"

fun kept_loop :: "string \<Rightarrow> int \<Rightarrow> ISOCacheHistoryEntry list \<Rightarrow> string set \<Rightarrow> int \<Rightarrow> string set" where
  "kept_loop cur retain [] kept n = kept"
| "kept_loop cur retain (entry # history) kept n =
     (if n \<ge> retain then kept
      else if ih_Path entry = [] \<or> ih_Path entry = cur then kept_loop cur retain history kept n
      else kept_loop cur retain history (insert (ih_Path entry) kept) (n + 1))"

definition addStale :: "string \<Rightarrow> string list \<Rightarrow> string list" where
  "addStale path stale = (if path \<in> set stale then stale else stale @ [path])"

fun stale_loop :: "string \<Rightarrow> ISOCacheHistoryEntry list \<Rightarrow> string set \<Rightarrow> string list \<Rightarrow> string list" where
  "stale_loop cur [] kept stale = stale"
| "stale_loop cur (entry # history) kept stale =
     (if ih_Path entry = [] \<or> ih_Path entry = cur then stale_loop cur history kept stale
      else if ih_Path entry \<in> kept then stale_loop cur history kept stale
      else stale_loop cur history (insert (ih_Path entry) kept) (addStale (ih_Path entry) stale))"

definition staleISOPaths :: "ISOCacheHistoryEntry list \<Rightarrow> string \<Rightarrow> string \<Rightarrow> int \<Rightarrow> string list" where
  "staleISOPaths history previousPath currentPath retain =
     (let retain = (if retain < 1 then 1 else retain);
          kept = kept_loop currentPath retain history {currentPath} 1;
          stale = (if previousPath \<noteq> [] \<and> previousPath \<noteq> currentPath \<and> previousPath \<notin> kept
                   then addStale previousPath [] else [])
      in stale_loop currentPath history kept stale)"

section \<open>Reconciling the cache\<close>

definition setISOReady :: "golib \<Rightarrow> gotime \<Rightarrow> string \<Rightarrow> string \<Rightarrow> VsphereAgentPool \<Rightarrow> VsphereAgentPool" where
  "setISOReady L now reason message pool =
     pool\<lparr>pool_Status := (pool_Status pool)\<lparr>pst_Conditions :=
        gl_SetStatusCondition L now (pst_Conditions (pool_Status pool))
          (mkCondition conditionISOReady ConditionTrue (om_Generation (pool_Meta pool)) reason message)\<rparr>\<rparr>"

text \<open>The part of \<open>ensureISOCache\<close> that writes the verified image into the pool's status.\<close>

definition previousISOHistory :: "VsphereAgentPool \<Rightarrow> ISOCacheHistoryEntry list" where
  "previousISOHistory pool =
     (let iso = pst_ISO (pool_Status pool)
      in ensureISOHistoryEntry (ic_History iso)
           \<lparr>ih_Path = ic_Path iso, ih_SHA256 = ic_SHA256 iso, ih_SizeBytes = ic_SizeBytes iso,
            ih_UploadedAt = ic_UploadedAt iso\<rparr>)"

definition setISOStatus ::
  "golib \<Rightarrow> gotime \<Rightarrow> string \<Rightarrow> string \<Rightarrow> ISOEnsureResult \<Rightarrow> VsphereAgentPool \<Rightarrow> VsphereAgentPool" where
  "setISOStatus L now token url result pool =
     (let iso = pst_ISO (pool_Status pool);
          uploadedAt = (if ir_Uploaded result \<or> ic_UploadedAt iso = 0 \<or> ir_Path result \<noteq> ic_Path iso
                        then now else ic_UploadedAt iso);
          history = updatedISOHistory (previousISOHistory pool)
             \<lparr>ih_Path = ir_Path result, ih_SHA256 = ir_SHA256 result, ih_SizeBytes = ir_SizeBytes result,
              ih_UploadedAt = uploadedAt\<rparr> (isoRetainVersions pool)
      in pool\<lparr>pool_Status := (pool_Status pool)\<lparr>pst_ISO :=
           \<lparr>ic_URL = redactedDownloadURL L url, ic_URLHash = downloadURLHash url, ic_Path = ir_Path result,
            ic_SHA256 = ir_SHA256 result, ic_SizeBytes = ir_SizeBytes result, ic_LastModified = ir_LastModified result,
            ic_CheckedAt = now, ic_UploadedAt = uploadedAt, ic_ForceRefreshToken = token, ic_History = history\<rparr>\<rparr>\<rparr>)"

definition addISOHistory :: "ISOCacheHistoryEntry \<Rightarrow> VsphereAgentPool \<Rightarrow> VsphereAgentPool" where
  "addISOHistory entry pool =
     pool\<lparr>pool_Status := (pool_Status pool)\<lparr>pst_ISO := (pst_ISO (pool_Status pool))
       \<lparr>ic_History := ensureISOHistoryEntry (ic_History (pst_ISO (pool_Status pool))) entry\<rparr>\<rparr>\<rparr>"

text \<open>The loop over the stale paths: a failed deletion puts the path back into the history.\<close>

fun pruneISOs ::
  "'w VMProvider \<Rightarrow> ISOCacheHistoryEntry list \<Rightarrow> string list \<Rightarrow> VsphereAgentPool \<Rightarrow> ('w, VsphereAgentPool) io" where
  "pruneISOs P previousHistory [] pool = ret pool"
| "pruneISOs P previousHistory (stalePath # paths) pool =
     do { r \<leftarrow> prov_DeleteISO P pool stalePath;
          case r of
            Inl err \<Rightarrow>
              do { recordISOOperation ''delete'' (Some err);
                   recordEvent ''Warning'' ''ISOPruneFailed'' (stableErrorMessage err);
                   pruneISOs P previousHistory paths
                     (case findISOHistoryEntry previousHistory stalePath of
                        Some entry \<Rightarrow> addISOHistory entry pool | None \<Rightarrow> pool) }
          | Inr _ \<Rightarrow>
              do { recordISOOperation ''delete'' None;
                   pruneISOs P previousHistory paths pool } }"

definition isoReadyReason :: "ISOEnsureResult \<Rightarrow> string" where
  "isoReadyReason result = (if ir_Uploaded result then ''Uploaded'' else ''Reused'')"

definition isoReadyMessage :: "ISOEnsureResult \<Rightarrow> string" where
  "isoReadyMessage result =
     (if ir_Uploaded result then ''Uploaded cached ISO '' else ''Reused cached ISO '') @ ir_Path result"

definition ensureISOCache ::
  "'w kube \<Rightarrow> golib \<Rightarrow> 'w VMProvider \<Rightarrow> VsphereAgentPool \<Rightarrow> string \<Rightarrow> ('w, VsphereAgentPool \<times> string result) io" where
  "ensureISOCache K L P pool isoDownloadURL =
     do { now \<leftarrow> Now K;
          let token = mget (om_Annotations (pool_Meta pool)) forceISORefreshAnnotation;
          if \<not> isoCacheDue pool isoDownloadURL token now then ret (pool, Inr (ic_Path (pst_ISO (pool_Status pool))))
          else do {
            r \<leftarrow> prov_EnsureISO P pool isoDownloadURL;
            case r of
              Inl err \<Rightarrow>
                do { recordISOOperation ''ensure'' (Some err);
                     recordEvent ''Warning'' ''ISORefreshFailed'' (stableErrorMessage err);
                     ret (pool, Inl err) }
            | Inr result \<Rightarrow>
                if ir_VerificationDeferred result then
                  do { emit (EvMetric ''iso_operations'' ''ensure'' ''deferred'');
                       ret (setISOReady L now ''VerificationDeferred''
                              ''Source unchanged; cached ISO is attached to a VM, checksum verification will resume after ejection''
                              pool, Inr (ir_Path result)) }
                else
                  do { recordISOOperation ''ensure'' None;
                       let previousPath = ic_Path (pst_ISO (pool_Status pool));
                       let previousHistory = previousISOHistory pool;
                       let retainVersions = isoRetainVersions pool;
                       let pool = setISOStatus L now token isoDownloadURL result pool;
                       pool \<leftarrow> pruneISOs P previousHistory
                                 (staleISOPaths previousHistory previousPath (ir_Path result) retainVersions) pool;
                       let pool = setISOReady L now (isoReadyReason result) (isoReadyMessage result) pool;
                       recordEvent ''Normal'' (''ISO'' @ isoReadyReason result) (isoReadyMessage result);
                       ret (pool, Inr (ir_Path result)) } } }"

section \<open>Specification vocabulary\<close>

definition known_paths :: "VsphereAgentPool \<Rightarrow> string set" where
  "known_paths pool = (insert (ic_Path (pst_ISO (pool_Status pool)))
     (ih_Path ` set (ic_History (pst_ISO (pool_Status pool))))) - {[]}"

fun iso_deletion :: "event \<Rightarrow> (string \<times> unit result) option" where
  "iso_deletion (EvProvider (DeleteISO p r)) = Some (p, r)"
| "iso_deletion e = None"

definition iso_deletions :: "event list \<Rightarrow> (string \<times> unit result) list" where
  "iso_deletions tr = List.map_filter iso_deletion tr"

definition deleted_isos :: "event list \<Rightarrow> string set" where
  "deleted_isos tr = {p. (p, Inr ()) \<in> set (iso_deletions tr)}"

definition plain_part :: "string \<Rightarrow> bool" where
  "plain_part c \<longleftrightarrow> c \<noteq> [] \<and> c \<noteq> ''.'' \<and> c \<noteq> ''..'' \<and> CHR ''/'' \<notin> set c"

section \<open>Paths stay inside their directory\<close>

lemma go_Split_no_sep: "w \<in> set (go_Split sep s) \<Longrightarrow> sep \<notin> set w"
proof (induction s arbitrary: w)
  case (Cons c s)
  then show ?case
    by (cases "go_Split sep s") (auto split: if_splits)
qed simp

lemma go_Split_single: "sep \<notin> set w \<Longrightarrow> go_Split sep w = [w]"
  by (induction w) auto

lemma go_Split_append: "sep \<notin> set w \<Longrightarrow> go_Split sep (w @ sep # s) = w # go_Split sep s"
  by (induction w) auto

lemma go_Split_Join: "ws \<noteq> [] \<Longrightarrow> \<forall>w \<in> set ws. sep \<notin> set w \<Longrightarrow> go_Split sep (go_Join ws [sep]) = ws"
  by (induction ws "[sep]" rule: go_Join.induct) (auto simp: go_Split_single go_Split_append)

lemma clean_parts_plain:
  "\<forall>c \<in> set stack. plain_part c \<Longrightarrow> \<forall>c \<in> set cs. CHR ''/'' \<notin> set c \<Longrightarrow>
   \<forall>c \<in> set (clean_parts True stack cs). plain_part c"
proof (induction cs arbitrary: stack)
  case (Cons c cs)
  have cs: "\<forall>c \<in> set cs. CHR ''/'' \<notin> set c" using Cons.prems(2) by simp
  consider (skip) "c = [] \<or> c = ''.''" | (up) "c = ''..''" | (plain) "plain_part c" "c \<noteq> ''.''" "c \<noteq> ''..''" "c \<noteq> []"
    using Cons.prems(2) by (auto simp: plain_part_def)
  then show ?case
  proof cases
    case skip
    then have "clean_parts True stack (c # cs) = clean_parts True stack cs" by simp
    then show ?thesis using Cons.IH [OF Cons.prems(1) cs] by simp
  next
    case up
    show ?thesis
    proof (cases stack)
      case Nil
      then show ?thesis using up Cons.IH [of "[]"] cs by simp
    next
      case stack: (Cons t ts)
      then have "t \<noteq> ''..''" using Cons.prems(1) by (simp add: plain_part_def)
      then have "clean_parts True stack (c # cs) = clean_parts True ts cs" using up stack by simp
      then show ?thesis using Cons.IH [of ts] stack Cons.prems(1) cs by simp
    qed
  next
    case plain
    then have "clean_parts True stack (c # cs) = clean_parts True (c # stack) cs" by simp
    then show ?thesis using Cons.IH [of "c # stack"] plain Cons.prems(1) cs by simp
  qed
qed simp

lemma go_Join_Nil_iff: "\<forall>c \<in> set ps. c \<noteq> [] \<Longrightarrow> go_Join ps ''/'' = [] \<longleftrightarrow> ps = []"
  by (induction ps "''/''" rule: go_Join.induct) auto

lemma go_Join_hd: "c \<noteq> [] \<Longrightarrow> hd (go_Join (c # ps) ''/'') = hd c"
  by (cases ps) auto

lemma go_Join_last: "\<forall>c \<in> set ps. c \<noteq> [] \<Longrightarrow> ps \<noteq> [] \<Longrightarrow> last (go_Join ps ''/'') = last (last ps)"
  by (induction ps "''/''" rule: go_Join.induct) (auto simp: go_Join_Nil_iff)

lemma trim_while_id: "s = [] \<or> (\<not> p (hd s) \<and> \<not> p (last s)) \<Longrightarrow> trim_while p s = s"
proof -
  assume a: "s = [] \<or> (\<not> p (hd s) \<and> \<not> p (last s))"
  have "dropWhile p s = s" using a by (cases s) auto
  moreover have "dropWhile p (rev s) = rev s" using a by (cases s rule: rev_cases) auto
  ultimately show ?thesis by (simp add: trim_while_def)
qed

lemma trim_while_drop: "p c \<Longrightarrow> trim_while p (c # s) = trim_while p s"
  by (simp add: trim_while_def)

lemma trim_join:
  assumes "\<forall>c \<in> set ps. plain_part c"
  shows "go_Trim (''/'' @ go_Join ps ''/'') ''/'' = go_Join ps ''/''"
proof (cases ps)
  case Nil
  then show ?thesis by (simp add: go_Trim_def trim_while_def)
next
  case (Cons c cs)
  have ne: "\<forall>c \<in> set ps. c \<noteq> []" using assms by (simp add: plain_part_def)
  have "hd (go_Join ps ''/'') = hd c" using ne Cons by (simp add: go_Join_hd)
  moreover have "hd c \<in> set c" "last (last ps) \<in> set (last ps)" using ne Cons by (auto intro: last_in_set)
  moreover have "last ps \<in> set ps" using Cons by simp
  ultimately have "hd (go_Join ps ''/'') \<noteq> CHR ''/''" "last (go_Join ps ''/'') \<noteq> CHR ''/''"
    using assms Cons go_Join_last [OF ne] unfolding plain_part_def by (metis list.distinct(1) list.set_intros(1))+
  then show ?thesis
    unfolding go_Trim_def by (simp add: trim_while_drop trim_while_id)
qed

lemma path_Clean_rooted:
  obtains ps where "path_Clean (''/'' @ p) = ''/'' @ go_Join ps ''/''" "\<forall>c \<in> set ps. plain_part c"
proof
  show "path_Clean (''/'' @ p) = ''/'' @ go_Join (clean_parts True [] (go_Split (CHR ''/'') (''/'' @ p))) ''/''"
    by (simp add: path_Clean_def Let_def)
  show "\<forall>c \<in> set (clean_parts True [] (go_Split (CHR ''/'') (''/'' @ p))). plain_part c"
    using go_Split_no_sep by (intro clean_parts_plain) auto
qed

text \<open>C35: Whatever prefix the user configured, every component of the directory in which the pool's images
  are stored (\<open>isoPathPrefix\<close>) is a plain name: no empty component, no \<open>.\<close> and no \<open>..\<close>, so that no image is
  written or deleted outside the datastore directory.\<close>

theorem iso_prefix_confined:
  assumes "plain_part (om_Namespace (pool_Meta pool))" and "plain_part (om_Name (pool_Meta pool))"
  shows "\<forall>c \<in> set (go_Split (CHR ''/'') (isoPathPrefix pool)). plain_part c"
proof -
  define p where "p = (let q = go_Trim (go_TrimSpace (is_PathPrefix (ps_ISO (pool_Spec pool)))) ''/''
    in if q = [] then defaultISOPrefix pool else q)"
  obtain ps where ps: "path_Clean (''/'' @ p) = ''/'' @ go_Join ps ''/''" "\<forall>c \<in> set ps. plain_part c"
    using path_Clean_rooted by blast
  have prefix: "isoPathPrefix pool = (if go_Join ps ''/'' = [] then defaultISOPrefix pool else go_Join ps ''/'')"
    using ps(1) trim_join [OF ps(2)] by (simp add: isoPathPrefix_def p_def Let_def)
  show ?thesis
  proof (cases "go_Join ps ''/'' = []")
    case True
    let ?ws = "[''agent-forge'', om_Namespace (pool_Meta pool), om_Name (pool_Meta pool)]"
    have "defaultISOPrefix pool = go_Join ?ws ''/''" by (simp add: defaultISOPrefix_def)
    moreover have "\<forall>w \<in> set ?ws. plain_part w" using assms by (simp add: plain_part_def)
    ultimately show ?thesis
      using prefix True go_Split_Join [of ?ws "CHR ''/''"] by (simp add: plain_part_def)
  next
    case False
    then have "ps \<noteq> []" by auto
    then have "go_Split (CHR ''/'') (go_Join ps ''/'') = ps"
      using ps(2) by (intro go_Split_Join) (auto simp: plain_part_def)
    then show ?thesis using prefix False ps(2) by simp
  qed
qed

abbreviation sampleEscapingPool :: VsphereAgentPool where
  "sampleEscapingPool \<equiv> samplePool\<lparr>pool_Spec := (pool_Spec samplePool)
     \<lparr>ps_ISO := (ps_ISO (pool_Spec samplePool))\<lparr>is_PathPrefix := ''a/../../x''\<rparr>\<rparr>\<rparr>"

lemma iso_prefix_confined_witness:
  "list_all plain_part (go_Split (CHR ''/'') (isoPathPrefix sampleEscapingPool))"
  unfolding list_all_iff
  by (rule iso_prefix_confined) (simp_all add: plain_part_def samplePool_def sampleMeta_def emptyMeta_def)

section \<open>History and stale paths\<close>

definition other_entries :: "string \<Rightarrow> ISOCacheHistoryEntry list \<Rightarrow> ISOCacheHistoryEntry list" where
  "other_entries cur history = filter (\<lambda>e. ih_Path e \<noteq> [] \<and> ih_Path e \<noteq> cur) history"

lemma history_loop_eq:
  "int (length result) < retain \<Longrightarrow>
   history_loop cur retain history result = result @ take (nat (retain - int (length result))) (other_entries cur history)"
proof (induction history arbitrary: result)
  case (Cons e history)
  show ?case
  proof (cases "ih_Path e = [] \<or> ih_Path e = cur")
    case False
    then have other: "other_entries cur (e # history) = e # other_entries cur history"
      by (simp add: other_entries_def)
    show ?thesis
    proof (cases "int (length (result @ [e])) \<ge> retain")
      case True
      then have "nat (retain - int (length result)) = 1" using Cons.prems by simp
      then show ?thesis using False True other by (simp add: Let_def)
    next
      case more: False
      then have "nat (retain - int (length result)) = Suc (nat (retain - int (length (result @ [e]))))"
        using Cons.prems by simp
      then show ?thesis using False more other Cons.IH [of "result @ [e]"] by (simp add: Let_def)
    qed
  qed (use Cons in \<open>auto simp: other_entries_def\<close>)
qed (simp add: other_entries_def)

lemma updatedISOHistory_eq:
  "updatedISOHistory history cur retain = cur # take (nat (retain - 1)) (other_entries (ih_Path cur) history)"
  by (simp add: updatedISOHistory_def Let_def history_loop_eq)

lemma kept_loop_eq:
  "kept_loop cur retain history kept n = kept \<union> ih_Path ` set (take (nat (retain - n)) (other_entries cur history))"
proof (induction history arbitrary: kept n)
  case (Cons e history)
  show ?case
  proof (cases "ih_Path e = [] \<or> ih_Path e = cur \<or> n \<ge> retain")
    case False
    then have "nat (retain - n) = Suc (nat (retain - (n + 1)))" by linarith
    then show ?thesis using False Cons.IH by (auto simp: other_entries_def)
  qed (use Cons in \<open>auto simp: other_entries_def\<close>)
qed (simp add: other_entries_def)

lemma addStale_set [simp]: "set (addStale p stale) = insert p (set stale)"
  by (auto simp: addStale_def)

lemma addStale_distinct: "distinct stale \<Longrightarrow> distinct (addStale p stale)"
  by (simp add: addStale_def)

lemma stale_loop_set:
  "set (stale_loop cur history kept stale) = set stale \<union> (ih_Path ` set (other_entries cur history) - kept)"
  by (induction cur history kept stale rule: stale_loop.induct) (auto simp: other_entries_def)

lemma stale_loop_distinct: "distinct stale \<Longrightarrow> distinct (stale_loop cur history kept stale)"
  by (induction cur history kept stale rule: stale_loop.induct) (simp_all add: addStale_distinct)

lemma stale_paths_eq:
  "set (staleISOPaths history previousPath currentPath retain) =
     insert previousPath (ih_Path ` set history) - {[]} -
       insert currentPath (ih_Path ` set (take (nat (retain - 1)) (other_entries currentPath history)))"
proof -
  define kept where "kept = insert currentPath (ih_Path ` set (take (nat (retain - 1)) (other_entries currentPath history)))"
  have k: "kept_loop currentPath (if retain < 1 then 1 else retain) history {currentPath} 1 = kept"
    by (simp add: kept_loop_eq kept_def)
  have cur: "currentPath \<in> kept" by (simp add: kept_def)
  have "set (staleISOPaths history previousPath currentPath retain) =
      (if previousPath \<noteq> [] \<and> previousPath \<noteq> currentPath \<and> previousPath \<notin> kept then {previousPath} else {})
      \<union> (ih_Path ` set (other_entries currentPath history) - kept)"
    by (simp add: staleISOPaths_def Let_def k stale_loop_set)
  also have "\<dots> = insert previousPath (ih_Path ` set history) - {[]} - kept"
    using cur by (auto simp: other_entries_def)
  finally show ?thesis by (simp add: kept_def)
qed

text \<open>After a new image was verified, the updated history starts with it and holds at most the configured
  number of versions, and the paths to delete are exactly the previously known ones that the history no
  longer holds: no known image is forgotten, none that is kept, and never the current one, is deleted, and
  none is deleted twice.\<close>

theorem iso_history_partition:
  "let updated = updatedISOHistory history cur retain;
       stale = staleISOPaths history previousPath (ih_Path cur) retain
   in hd updated = cur \<and> updated \<noteq> [] \<and> int (length updated) \<le> max 1 retain \<and> distinct stale \<and>
      ih_Path cur \<notin> set stale \<and>
      set stale = insert previousPath (ih_Path ` set history) - {[]} - ih_Path ` set updated"
proof -
  have "distinct (staleISOPaths history previousPath (ih_Path cur) retain)"
    unfolding staleISOPaths_def Let_def by (intro stale_loop_distinct) (simp add: addStale_def)
  then show ?thesis
    by (auto simp: updatedISOHistory_eq stale_paths_eq Let_def)
qed

section \<open>Reconciling the cache\<close>

lemma iso_deletions_append [simp]: "iso_deletions (xs @ ys) = iso_deletions xs @ iso_deletions ys"
  by (simp add: iso_deletions_def map_filter_def)

lemma iso_deletions_simps [simp]:
  "iso_deletions [] = []"
  "iso_deletions (e # tr) = (case iso_deletion e of None \<Rightarrow> iso_deletions tr | Some d \<Rightarrow> d # iso_deletions tr)"
  by (simp_all add: iso_deletions_def map_filter_simps split: option.split)

lemma findISO_Some: "findISOHistoryEntry h p = Some e \<Longrightarrow> ih_Path e = p"
  unfolding findISOHistoryEntry_def by (auto simp: find_Some_iff)

lemma findISO_None: "findISOHistoryEntry h p = None \<longleftrightarrow> p \<notin> ih_Path ` set h"
  by (auto simp: findISOHistoryEntry_def find_None_iff)

lemma ensureISOHistoryEntry_paths:
  "ih_Path ` set (ensureISOHistoryEntry h e) = ih_Path ` set h \<union> ({ih_Path e} - {[]})"
  by (auto simp: ensureISOHistoryEntry_def findISO_None dest: findISO_Some)

definition iso_history :: "VsphereAgentPool \<Rightarrow> string set" where
  "iso_history pool = ih_Path ` set (ic_History (pst_ISO (pool_Status pool)))"

definition iso_path :: "VsphereAgentPool \<Rightarrow> string" where
  "iso_path pool = ic_Path (pst_ISO (pool_Status pool))"

lemma addISOHistory_facts [simp]:
  "iso_history (addISOHistory e pool) = iso_history pool \<union> ({ih_Path e} - {[]})"
  "iso_path (addISOHistory e pool) = iso_path pool"
  by (simp_all add: iso_history_def iso_path_def addISOHistory_def ensureISOHistoryEntry_paths)

lemma setISOReady_facts [simp]:
  "iso_history (setISOReady L now reason msg pool) = iso_history pool"
  "iso_path (setISOReady L now reason msg pool) = iso_path pool"
  by (simp_all add: iso_history_def iso_path_def setISOReady_def)

lemma previousISOHistory_paths: "ih_Path ` set (previousISOHistory pool) = iso_history pool \<union> ({iso_path pool} - {[]})"
  by (simp add: previousISOHistory_def Let_def ensureISOHistoryEntry_paths iso_history_def iso_path_def)

text \<open>What the pruning loop guarantees of its result and of the deletions it performed.\<close>

definition pruned_ok ::
  "ISOCacheHistoryEntry list \<Rightarrow> string list \<Rightarrow> VsphereAgentPool \<Rightarrow> VsphereAgentPool \<Rightarrow> event list \<Rightarrow> bool" where
  "pruned_ok prev paths pool pool' new \<longleftrightarrow>
     fst ` set (iso_deletions new) \<subseteq> set paths \<and> iso_path pool' = iso_path pool \<and> iso_history pool \<subseteq> iso_history pool' \<and>
     set paths \<inter> (ih_Path ` set prev) - {[]} \<subseteq> iso_history pool' \<union> deleted_isos new"

lemma pruned_ok_step:
  assumes "pruned_ok prev paths pool1 pool' new" "iso_path pool1 = iso_path pool" "iso_history pool \<subseteq> iso_history pool1"
    and "iso_deletions pre = [(p, r)]"
    and "r = Inr () \<or> p \<notin> ih_Path ` set prev - {[]} \<or> p \<in> iso_history pool1"
  shows "pruned_ok prev (p # paths) pool pool' (pre @ new)"
  using assms unfolding pruned_ok_def deleted_isos_def by auto

lemma yields_pruneISOs: "yields (pruneISOs P prev paths pool) (pruned_ok prev paths pool)"
proof (induction paths arbitrary: pool)
  case Nil
  show ?case by (simp add: yields_ret pruned_ok_def)
next
  case (Cons p paths)
  have ok: "pruned_ok prev (p # paths) pool pool' ([EvProvider (DeleteISO p (Inr ())), ev] @ new)"
    if "pruned_ok prev paths pool pool' new" "iso_deletion ev = None" for pool' new ev
    by (rule pruned_ok_step [OF that(1) refl subset_refl, where r = "Inr ()"]) (use that(2) in simp_all)
  have failed: "pruned_ok prev (p # paths) pool pool' ([EvProvider (DeleteISO p (Inl err)), ev1, ev2] @ new)"
    if "pruned_ok prev paths (case findISOHistoryEntry prev p of Some e \<Rightarrow> addISOHistory e pool | None \<Rightarrow> pool) pool' new"
      "iso_deletion ev1 = None" "iso_deletion ev2 = None" for pool' new ev1 ev2 err
    by (rule pruned_ok_step [OF that(1), where r = "Inl err"])
      (use that(2,3) in \<open>auto simp: findISO_None split: option.split dest: findISO_Some\<close>)
  show ?case
    unfolding pruneISOs.simps prov_DeleteISO_def recordISOOperation_def
    using ok failed
    by (auto split: sum.split intro!: yields_intros yields_mono [OF Cons.IH])
qed

lemma setISOStatus_facts:
  "iso_path (setISOStatus L now token url result pool) = ir_Path result"
  "iso_history (setISOStatus L now token url result pool) = insert (ir_Path result)
     (ih_Path ` set (take (nat (isoRetainVersions pool - 1)) (other_entries (ir_Path result) (previousISOHistory pool))))"
  by (simp_all add: setISOStatus_def iso_path_def iso_history_def Let_def updatedISOHistory_eq)

definition cache_ok :: "VsphereAgentPool \<Rightarrow> VsphereAgentPool \<Rightarrow> event list \<Rightarrow> bool" where
  "cache_ok pool pool' new \<longleftrightarrow>
     known_paths pool \<subseteq> known_paths pool' \<union> deleted_isos new \<and>
     ic_Path (pst_ISO (pool_Status pool')) \<notin> fst ` set (iso_deletions new)"

lemma known_paths_eq: "known_paths pool = insert (iso_path pool) (iso_history pool) - {[]}"
  by (simp add: known_paths_def iso_path_def iso_history_def)

lemma pruned_cache_ok:
  assumes "pruned_ok (previousISOHistory pool)
      (staleISOPaths (previousISOHistory pool) (iso_path pool) (ir_Path result) (isoRetainVersions pool))
      (setISOStatus L now token url result pool) pool' new"
    and "iso_deletions pre = []" and "iso_deletions post = []"
  shows "cache_ok pool (setISOReady L now reason msg pool') (pre @ new @ post)"
proof -
  let ?stale = "staleISOPaths (previousISOHistory pool) (iso_path pool) (ir_Path result) (isoRetainVersions pool)"
  let ?updated = "iso_history (setISOStatus L now token url result pool)"
  have part: "set ?stale = insert (iso_path pool) (ih_Path ` set (previousISOHistory pool)) - {[]} - ?updated"
    by (simp add: stale_paths_eq setISOStatus_facts)
  then have cur: "ir_Path result \<notin> set ?stale" by (simp add: setISOStatus_facts)
  have known: "known_paths pool = ih_Path ` set (previousISOHistory pool) - {[]}"
    by (auto simp: known_paths_eq previousISOHistory_paths)
  then have "known_paths pool \<subseteq> ?updated \<union> (set ?stale \<inter> ih_Path ` set (previousISOHistory pool) - {[]})"
    unfolding part by auto
  also have "\<dots> \<subseteq> iso_history pool' \<union> deleted_isos new"
    using assms(1) unfolding pruned_ok_def by blast
  finally have "known_paths pool \<subseteq> iso_history pool' \<union> deleted_isos new" .
  moreover have "[] \<notin> known_paths pool" by (simp add: known_paths_def)
  moreover have "iso_path pool' = ir_Path result" "fst ` set (iso_deletions new) \<subseteq> set ?stale"
    using assms(1) by (simp_all add: pruned_ok_def setISOStatus_facts)
  ultimately show ?thesis
    using cur assms(2,3) setISOReady_facts [of L now reason msg pool']
    unfolding cache_ok_def known_paths_eq iso_path_def [symmetric] deleted_isos_def by auto
qed

lemma cache_ok_unchanged:
  "known_paths pool' = known_paths pool \<Longrightarrow> iso_deletions new = [] \<Longrightarrow> cache_ok pool pool' new"
  by (simp add: cache_ok_def deleted_isos_def)

text \<open>C21: Reconciling the ISO cache (\<open>ensureISOCache\<close>), whatever the provider answers: every image path the pool
  knew is afterwards still recorded in the pool or was deleted by a call that succeeded, and the current
  image is never deleted.\<close>

theorem iso_cache_forgets_nothing:
  "yields (ensureISOCache K L P pool url) (\<lambda>(pool', r) new. cache_ok pool pool' new)"
proof -
  let ?token = "mget (om_Annotations (pool_Meta pool)) forceISORefreshAnnotation"
  let ?prune = "\<lambda>now result. pruneISOs P (previousISOHistory pool)
    (staleISOPaths (previousISOHistory pool) (iso_path pool) (ir_Path result) (isoRetainVersions pool))
    (setISOStatus L now ?token url result pool)"
  have pruned: "yields (?prune now result) (\<lambda>pool' new.
      cache_ok pool (setISOReady L now reason msg pool') ([EvClock now, EvProvider (EnsureISO url r), EvMetric a b b']
        @ new @ [EvRecord c d e]))" for now result reason msg r a b b' c d e
    by (rule yields_mono [OF yields_pruneISOs], rule pruned_cache_ok) simp_all
  show ?thesis
    unfolding ensureISOCache_def Now_def prov_EnsureISO_def recordISOOperation_def Let_def iso_path_def [symmetric]
    by (auto simp: cache_ok_unchanged known_paths_eq split: sum.split
        intro!: yields_intros yields_mono [OF pruned [simplified]])
qed

lemma isoPathPrefix_status [simp]: "isoPathPrefix (pool\<lparr>pool_Status := st\<rparr>) = isoPathPrefix pool"
  by (simp add: isoPathPrefix_def defaultISOPrefix_def Let_def)

lemma isoCheckInterval_status [simp]: "isoCheckInterval (pool\<lparr>pool_Status := st\<rparr>) = isoCheckInterval pool"
  by (simp add: isoCheckInterval_def)

text \<open>Once an image was verified at its content path, the cache is next due exactly when the check interval
  has passed, as long as neither the URL nor the refresh token changes: it is neither downloaded again
  early nor trusted for longer.\<close>

theorem ensured_iso_due_after_interval:
  assumes "ir_Path result = isoContentPath pool (ir_SHA256 result)" and "ir_SHA256 result \<noteq> []" and "now \<noteq> 0"
  shows "isoCacheDue (setISOStatus L now token url result pool) url token t = (now + isoCheckInterval pool \<le> t)
    \<and> 0 < isoCheckInterval pool"
proof -
  have path: "go_HasPrefix (ir_Path result) (isoPathPrefix pool @ ''/'')" "ir_Path result \<noteq> []"
    using assms(1) by (auto simp: isoContentPath_def go_HasPrefix_iff)
  have "isoCacheDue (setISOStatus L now token url result pool) url token t = (now + isoCheckInterval pool \<le> t)"
    using path assms(2,3) unfolding isoCacheDue_def setISOStatus_def Let_def by (simp add: not_less)
  moreover have "0 < isoCheckInterval pool" by (simp add: isoCheckInterval_def)
  ultimately show ?thesis ..
qed

lemma ensured_iso_due_after_interval_witness:
  "isoCacheDue (setISOStatus sampleLib 5 [] ''https://x'' \<lparr>ir_VerificationDeferred = False, ir_LastModified = [],
     ir_Path = isoContentPath samplePool ''ab'', ir_SHA256 = ''ab'', ir_SizeBytes = 7, ir_Uploaded = True\<rparr> samplePool)
     ''https://x'' [] 600000000005"
  using ensured_iso_due_after_interval [of "\<lparr>ir_VerificationDeferred = False, ir_LastModified = [],
     ir_Path = isoContentPath samplePool ''ab'', ir_SHA256 = ''ab'', ir_SizeBytes = 7, ir_Uploaded = True\<rparr>" samplePool 5
     sampleLib "[]" "''https://x''" 600000000005]
  by (simp add: isoCheckInterval_def samplePool_def)

end
