(* ===== verification/VmCleanup.thy ===== *)
theory VmCleanup
  imports Samples Effects
begin

text \<open>
  Taking a worker out of service before its VM is deleted (\<open>vm_cleanup.go\<close>, and
  \<open>agentDeletionBlocker\<close> of \<open>vsphereagentpool_controller.go\<close>): finding the Agents of a VM, refusing while
  its Machine exists or an Agent is bound, withdrawing the Agents' approval under an optimistic lock, and
  deleting the Agents once the VM is gone.

  The lemmas show what these functions write, under which guards, and what their success means.
\<close>

section \<open>Agents of a VM\<close>

definition agentDeletionBlocker :: "AgentObj \<Rightarrow> string" where
  "agentDeletionBlocker agent =
     (let ref = mget (om_Labels (ao_Meta agent)) agentMachineRefKey;
          clusterName = ao_clusterDeploymentName agent
      in if ref \<noteq> [] then ''still bound to AgentMachine '' @ ref
         else if clusterName \<noteq> [] then ''still bound to ClusterDeployment '' @ clusterName
         else [])"

text \<open>The identity of an Agent as \<open>agentsForVM\<close> reads it, and its test for one VM.\<close>

definition agentIdentityInfo :: "AgentObj \<Rightarrow> AgentInfo" where
  "agentIdentityInfo obj = emptyAgentInfo
     \<lparr>ag_Name := om_Name (ao_Meta obj), ag_BIOSUUID := normalizeVMwareSerialUUID (ao_serialNumber obj),
      ag_MAC := normalizeMAC (agentPrimaryMAC obj), ag_Hostname := ao_hostname obj,
      ag_InventoryHostname := ao_inventoryHostname obj\<rparr>"

definition vmHasAgent :: "OwnedVMStatus \<Rightarrow> AgentObj \<Rightarrow> bool" where
  "vmHasAgent vm obj =
     (let info = agentIdentityInfo obj
      in vmMatchesAgentIdentity vm info \<or> vmMatchesAgentRef vm info
         \<or> (vm_Name vm = agentObservedHostname info \<and> \<not> vmIdentityConflictsAgent vm info))"

definition agentsForVM :: "'w kube \<Rightarrow> VsphereAgentPool \<Rightarrow> OwnedVMStatus \<Rightarrow> ('w, AgentObj list result) io" where
  "agentsForVM K pool vm =
     attempt (klist (k_agents K) EvAgent Live (InNamespace (om_Namespace (pool_Meta pool))))
       (\<lambda>items. ret (Inr (filter (vmHasAgent vm) items)))"

section \<open>Before the VM is deleted\<close>

definition specNotMapError :: go_error where
  "specNotMapError = ErrorText ''value cannot be set because .spec is not a map[string]interface{}''"

definition machineKey :: "VsphereAgentPool \<Rightarrow> ObjectReference \<Rightarrow> objkey" where
  "machineKey pool ref =
     (if ref_Namespace ref = [] then ps_ControlPlaneNamespace (pool_Spec pool) else ref_Namespace ref, ref_Name ref)"

definition key_str :: "objkey \<Rightarrow> string" where
  "key_str key = fst key @ ''/'' @ snd key"

definition checkMachineGone :: "'w kube \<Rightarrow> VsphereAgentPool \<Rightarrow> OwnedVMStatus \<Rightarrow> ('w, unit result) io" where
  "checkMachineGone K pool vm =
     (case vm_MachineRef vm of
        None \<Rightarrow> ret (Inr ())
      | Some ref \<Rightarrow>
          if ref_Name ref = [] then ret (Inr ())
          else do { r \<leftarrow> kget (k_machines K) EvMachine Live (machineKey pool ref);
                    case r of
                      Inr _ \<Rightarrow> ret (Inl (ErrSentinel errVMDeletionBlocked
                        (''VM deletion blocked: VM '' @ vm_Name vm @ '' still has Machine '' @ key_str (machineKey pool ref))))
                    | Inl e \<Rightarrow> ret (if IsNotFound e then Inr () else Inl e) })"

text \<open>The Agent as \<open>prepareVMDeletion\<close> writes it: not approved, and marked with the VM being deleted.\<close>

definition quarantinedAgent :: "OwnedVMStatus \<Rightarrow> AgentObj \<Rightarrow> AgentObj" where
  "quarantinedAgent vm agent =
     agent\<lparr>ao_approved := False,
           ao_Meta := (ao_Meta agent)\<lparr>om_Annotations :=
             mput (om_Annotations (ao_Meta agent)) agentCleanupAnnotation (vm_Name vm)\<rparr>\<rparr>"

definition quarantineAgent :: "'w kube \<Rightarrow> OwnedVMStatus \<Rightarrow> AgentObj \<Rightarrow> ('w, unit result) io" where
  "quarantineAgent K vm agent =
     (let blocker = agentDeletionBlocker agent
      in if blocker \<noteq> [] then
           ret (Inl (ErrSentinel errVMDeletionBlocked (''VM deletion blocked: VM '' @ vm_Name vm @ '': Agent ''
             @ om_Name (ao_Meta agent) @ '' '' @ blocker)))
         else if \<not> ao_nestedSpecOK agent then ret (Inl specNotMapError)
         else attempt (kpatch (k_agents K) EvAgent True agent (quarantinedAgent vm agent)) (\<lambda>_. ret (Inr ())))"

definition prepareVMDeletion :: "'w kube \<Rightarrow> VsphereAgentPool \<Rightarrow> OwnedVMStatus \<Rightarrow> ('w, unit result) io" where
  "prepareVMDeletion K pool vm =
     attempt (checkMachineGone K pool vm) (\<lambda>_.
     attempt (agentsForVM K pool vm) (\<lambda>agents.
     for_each (quarantineAgent K vm) agents))"

section \<open>After the VM is deleted\<close>

definition deleteAgent :: "'w kube \<Rightarrow> AgentObj \<Rightarrow> ('w, unit result) io" where
  "deleteAgent K agent =
     (let blocker = agentDeletionBlocker agent
      in if blocker \<noteq> [] then
           ret (Inl (ErrorText (''cannot delete Agent '' @ om_Name (ao_Meta agent) @ '': '' @ blocker)))
         else do { r \<leftarrow> kdelete (k_agents K) EvAgent
                         (Some (om_UID (ao_Meta agent), Some (om_ResourceVersion (ao_Meta agent)))) agent;
                   case r of Inl e \<Rightarrow> ret (if IsNotFound e then Inr () else Inl e) | Inr _ \<Rightarrow> ret (Inr ()) })"

definition deleteVMAgents :: "'w kube \<Rightarrow> VsphereAgentPool \<Rightarrow> OwnedVMStatus \<Rightarrow> ('w, unit result) io" where
  "deleteVMAgents K pool vm =
     attempt (agentsForVM K pool vm) (\<lambda>agents. for_each (deleteAgent K) agents)"

section \<open>Specification vocabulary\<close>

text \<open>An Agent that no AgentMachine and no cluster uses.\<close>

definition unbound_agent :: "AgentObj \<Rightarrow> bool" where
  "unbound_agent a \<longleftrightarrow> mget (om_Labels (ao_Meta a)) agentMachineRefKey = [] \<and> ao_clusterDeploymentName a = []"

text \<open>An Agent that is no longer approved and is marked for clean-up.\<close>

definition withdrawn_for :: "string \<Rightarrow> AgentObj \<Rightarrow> bool" where
  "withdrawn_for name a \<longleftrightarrow> \<not> ao_approved a \<and> mget (om_Annotations (ao_Meta a)) agentCleanupAnnotation = name"

fun safe_quarantine :: "OwnedVMStatus \<Rightarrow> event \<Rightarrow> bool" where
  "safe_quarantine vm (EvAgent (Patch lock before after r)) \<longleftrightarrow>
     lock \<and> unbound_agent before \<and> vmHasAgent vm before \<and> after = quarantinedAgent vm before
     \<and> withdrawn_for (vm_Name vm) after"
| "safe_quarantine vm (EvAgent ev) \<longleftrightarrow> is_read ev"
| "safe_quarantine vm (EvMachine ev) \<longleftrightarrow> is_read ev"
| "safe_quarantine vm _ \<longleftrightarrow> False"

fun safe_agent_delete :: "OwnedVMStatus \<Rightarrow> event \<Rightarrow> bool" where
  "safe_agent_delete vm (EvAgent (Delete pre agent r)) \<longleftrightarrow>
     pre = Some (om_UID (ao_Meta agent), Some (om_ResourceVersion (ao_Meta agent)))
     \<and> unbound_agent agent \<and> vmHasAgent vm agent"
| "safe_agent_delete vm (EvAgent ev) \<longleftrightarrow> is_read ev"
| "safe_agent_delete vm _ \<longleftrightarrow> False"

definition machine_gone :: "VsphereAgentPool \<Rightarrow> OwnedVMStatus \<Rightarrow> event list \<Rightarrow> bool" where
  "machine_gone pool vm tr \<longleftrightarrow>
     (case vm_MachineRef vm of None \<Rightarrow> True
      | Some ref \<Rightarrow> ref_Name ref = [] \<or> (\<exists>m. EvMachine (Get Live (machineKey pool ref) (Inl (ApiNotFound m))) \<in> set tr))"

definition all_agents :: "VsphereAgentPool \<Rightarrow> OwnedVMStatus \<Rightarrow> (AgentObj \<Rightarrow> event list \<Rightarrow> bool) \<Rightarrow> event list \<Rightarrow> bool" where
  "all_agents pool vm P tr \<longleftrightarrow>
     (\<exists>items. EvAgent (ListAll Live (InNamespace (om_Namespace (pool_Meta pool))) (Inr items)) \<in> set tr
        \<and> list_all (\<lambda>a. P a tr) (filter (vmHasAgent vm) items))"

definition was_quarantined :: "OwnedVMStatus \<Rightarrow> AgentObj \<Rightarrow> event list \<Rightarrow> bool" where
  "was_quarantined vm a tr \<longleftrightarrow> (\<exists>a'. EvAgent (Patch True a (quarantinedAgent vm a) (Inr a')) \<in> set tr)"

definition was_deleted :: "AgentObj \<Rightarrow> event list \<Rightarrow> bool" where
  "was_deleted a tr \<longleftrightarrow> (\<exists>pre r. EvAgent (Delete pre a r) \<in> set tr \<and> (r = Inr () \<or> (\<exists>m. r = Inl (ApiNotFound m))))"

section \<open>Lemmas\<close>

lemma agentDeletionBlocker_empty [simp]: "agentDeletionBlocker a = [] \<longleftrightarrow> unbound_agent a"
  by (simp add: agentDeletionBlocker_def unbound_agent_def Let_def)

lemma quarantined_withdrawn [simp]: "withdrawn_for (vm_Name vm) (quarantinedAgent vm a)"
  by (simp add: withdrawn_for_def quarantinedAgent_def Let_def)

lemma IsNotFound_iff: "IsNotFound e \<longleftrightarrow> (\<exists>m. e = ApiNotFound m)"
  by (cases e) simp_all

lemma yields_checkMachineGone:
  "yields (checkMachineGone K pool vm) (\<lambda>r new. list_all (safe_quarantine vm) new \<and>
     (case r of Inl _ \<Rightarrow> True | Inr _ \<Rightarrow> machine_gone pool vm new))"
  unfolding checkMachineGone_def kget_def
  by (auto simp: machine_gone_def IsNotFound_iff split: option.split sum.split intro!: yields_intros)

lemma yields_agentsForVM:
  "yields (agentsForVM K pool vm) (\<lambda>r new. \<exists>ans.
     new = [EvAgent (ListAll Live (InNamespace (om_Namespace (pool_Meta pool))) ans)] \<and>
     r = map_sum id (filter (vmHasAgent vm)) ans)"
  unfolding agentsForVM_def klist_def
  by (auto split: sum.split intro!: yields_intros)

lemma yields_quarantineAgent:
  "vmHasAgent vm a \<Longrightarrow> yields (quarantineAgent K vm a) (\<lambda>r new. list_all (safe_quarantine vm) new \<and>
     (case r of Inl _ \<Rightarrow> True | Inr _ \<Rightarrow> was_quarantined vm a new))"
  unfolding quarantineAgent_def kpatch_def Let_def
  by (auto simp: was_quarantined_def split: sum.split intro!: yields_intros)

lemma yields_deleteAgent:
  "vmHasAgent vm a \<Longrightarrow> yields (deleteAgent K a) (\<lambda>r new. list_all (safe_agent_delete vm) new \<and>
     (case r of Inl _ \<Rightarrow> True | Inr _ \<Rightarrow> was_deleted a new))"
  unfolding deleteAgent_def kdelete_def Let_def
  by (auto simp: was_deleted_def IsNotFound_iff split: sum.split intro!: yields_intros)

lemma was_mono:
  "was_quarantined vm a ys \<Longrightarrow> was_quarantined vm a (zs @ ys) \<and> was_quarantined vm a (ys @ zs)"
  "was_deleted a ys \<Longrightarrow> was_deleted a (zs @ ys) \<and> was_deleted a (ys @ zs)"
  by (auto simp: was_quarantined_def was_deleted_def)

lemma machine_gone_mono: "machine_gone pool vm tr \<Longrightarrow> machine_gone pool vm (tr @ tr2)"
  by (auto simp: machine_gone_def split: option.splits)

text \<open>The Agents of the VM are listed, then a loop deals with each of them.\<close>

lemma yields_agents_loop:
  assumes step: "\<And>a. vmHasAgent vm a \<Longrightarrow> yields (f a) (\<lambda>r new. list_all safe new \<and>
      (case r of Inl _ \<Rightarrow> True | Inr _ \<Rightarrow> did a new))"
    and mono: "\<And>a ys zs. did a ys \<Longrightarrow> did a (zs @ ys) \<and> did a (ys @ zs)"
    and reads: "\<And>rd opts r. safe (EvAgent (ListAll rd opts r))"
  shows "yields (attempt (agentsForVM K pool vm) (for_each f)) (\<lambda>r new. list_all safe new \<and>
    (case r of Inl _ \<Rightarrow> True | Inr _ \<Rightarrow> all_agents pool vm did new))"
proof (rule yields_attempt, rule yields_mono [OF yields_agentsForVM], elim exE conjE)
  fix r new and ans :: "AgentObj list result"
  assume new: "new = [EvAgent (ListAll Live (InNamespace (om_Namespace (pool_Meta pool))) ans)]"
    and r: "r = map_sum id (filter (vmHasAgent vm)) ans"
  show "case r of Inl e \<Rightarrow> list_all safe new \<and> (case Inl e of Inl _ \<Rightarrow> True | Inr _ \<Rightarrow> all_agents pool vm did new)
    | Inr x \<Rightarrow> yields (for_each f x) (\<lambda>r n2. list_all safe (new @ n2) \<and>
        (case r of Inl _ \<Rightarrow> True | Inr _ \<Rightarrow> all_agents pool vm did (new @ n2)))"
  proof (cases ans)
    case (Inl e)
    then show ?thesis using r new reads by simp
  next
    case (Inr items)
    have "yields (for_each f (filter (vmHasAgent vm) items)) (\<lambda>r new. list_all safe new \<and>
        (case r of Inl _ \<Rightarrow> True | Inr _ \<Rightarrow> list_all (\<lambda>a. did a new) (filter (vmHasAgent vm) items)))"
      by (rule yields_for_each) (use step mono in auto)
    then have "yields (for_each f (filter (vmHasAgent vm) items)) (\<lambda>r n2. list_all safe (new @ n2) \<and>
        (case r of Inl _ \<Rightarrow> True | Inr _ \<Rightarrow> all_agents pool vm did (new @ n2)))"
    proof (rule yields_mono)
      fix r n2
      assume *: "list_all safe n2 \<and> (case r of Inl _ \<Rightarrow> True | Inr _ \<Rightarrow> list_all (\<lambda>a. did a n2) (filter (vmHasAgent vm) items))"
      have "all_agents pool vm did (new @ n2)" if "list_all (\<lambda>a. did a n2) (filter (vmHasAgent vm) items)"
      proof -
        have "list_all (\<lambda>a. did a (new @ n2)) (filter (vmHasAgent vm) items)"
          using that mono by (simp add: list_all_iff)
        then show ?thesis
          unfolding all_agents_def using Inr new by (intro exI [of _ items]) simp
      qed
      then show "list_all safe (new @ n2) \<and> (case r of Inl _ \<Rightarrow> True | Inr _ \<Rightarrow> all_agents pool vm did (new @ n2))"
        using * new reads by (auto split: sum.splits)
    qed
    then show ?thesis using r Inr by simp
  qed
qed

lemma yields_prepareVMDeletion:
  "yields (prepareVMDeletion K pool vm) (\<lambda>r new. list_all (safe_quarantine vm) new \<and>
     (case r of Inl _ \<Rightarrow> True
      | Inr _ \<Rightarrow> machine_gone pool vm new \<and> all_agents pool vm (was_quarantined vm) new))"
proof -
  have loop: "yields (attempt (agentsForVM K pool vm) (for_each (quarantineAgent K vm)))
      (\<lambda>r new. list_all (safe_quarantine vm) new \<and>
        (case r of Inl _ \<Rightarrow> True | Inr _ \<Rightarrow> all_agents pool vm (was_quarantined vm) new))"
    by (rule yields_agents_loop) (simp_all add: yields_quarantineAgent was_mono)
  have mono: "all_agents pool vm (was_quarantined vm) n2 \<Longrightarrow> all_agents pool vm (was_quarantined vm) (n1 @ n2)" for n1 n2
    by (auto simp: all_agents_def list_all_iff was_mono)
  show ?thesis
    unfolding prepareVMDeletion_def
    by (rule yields_attempt, rule yields_mono [OF yields_checkMachineGone])
      (use machine_gone_mono mono in \<open>auto split: sum.splits intro!: yields_mono [OF loop]\<close>)
qed

text \<open>C6: Preparing the deletion of a VM (\<open>prepareVMDeletion\<close>) writes nothing but withdrawn approvals of Agents
  of that VM, each under the optimistic lock and only while the Agent is bound to neither an AgentMachine
  nor a cluster; it succeeds only if the VM's Machine was read as not found (or none was recorded) and
  every Agent of the VM was marked.\<close>

theorem prepare_deletion_guarded:
  "yields (prepareVMDeletion K pool vm) (\<lambda>r new. list_all (safe_quarantine vm) new \<and>
     (case r of Inl _ \<Rightarrow> True
      | Inr _ \<Rightarrow> machine_gone pool vm new \<and> all_agents pool vm (was_quarantined vm) new))"
  by (rule yields_prepareVMDeletion)

lemma yields_deleteVMAgents:
  "yields (deleteVMAgents K pool vm) (\<lambda>r new. list_all (safe_agent_delete vm) new \<and>
     (case r of Inl _ \<Rightarrow> True | Inr _ \<Rightarrow> all_agents pool vm was_deleted new))"
  unfolding deleteVMAgents_def
  by (rule yields_agents_loop) (simp_all add: yields_deleteAgent was_mono)

text \<open>After the VM is gone, \<open>deleteVMAgents\<close> deletes only unbound Agents of that VM, each insisting on the
  UID and resource version it read, so that an Agent bound in the meantime is left alone; it succeeds only
  if every Agent of the VM was deleted or no longer existed.\<close>

theorem delete_agents_guarded:
  "yields (deleteVMAgents K pool vm) (\<lambda>r new. list_all (safe_agent_delete vm) new \<and>
     (case r of Inl _ \<Rightarrow> True | Inr _ \<Rightarrow> all_agents pool vm was_deleted new))"
  by (rule yields_deleteVMAgents)

end
