(* ===== verification/AgentMachine.thy ===== *)
theory AgentMachine
  imports OwnedVMs Effects
begin

text \<open>
  Demand: an \<open>AgentMachine\<close> that reports \<open>NoSuitableAgents\<close> gets one worker object
  (\<open>agentmachine_controller.go\<close>, and the demand half of \<open>openstackagentpool_controller.go\<close>). The
  controller finds the pools that serve the AgentMachine, claims it for one of them, pins its Agent
  selector and creates a \<open>VsphereAgent\<close> or an \<open>OpenStackAgent\<close>.

  The lemmas show that a worker is created only for a waiting AgentMachine with exactly one matching pool
  and only after that pool's claim is recorded on the AgentMachine, and that a claim is never changed.
\<close>

abbreviation openStackFinalizer :: string where "openStackFinalizer \<equiv> ''agent-forge.containeroo.ch/openstack''"
abbreviation controlPlaneNamespaceIndex :: string where "controlPlaneNamespaceIndex \<equiv> ''.spec.controlPlaneNamespace''"

section \<open>Reading conditions\<close>

fun conditions_lookup :: "string \<Rightarrow> UCondition option list \<Rightarrow> string \<times> string" where
  "conditions_lookup conditionType [] = (ConditionUnknown, [])"
| "conditions_lookup conditionType (item # items) =
     (case item of
        None \<Rightarrow> conditions_lookup conditionType items
      | Some condition \<Rightarrow>
          if uc_Type condition \<noteq> Some conditionType then conditions_lookup conditionType items
          else (uc_Status condition, uc_Reason condition))"

definition objectConditionStatusReason :: "UCondition option list option \<Rightarrow> string \<Rightarrow> string \<times> string" where
  "objectConditionStatusReason conditions conditionType =
     (case conditions of None \<Rightarrow> (ConditionUnknown, []) | Some items \<Rightarrow> conditions_lookup conditionType items)"

definition objectConditionReason :: "UCondition option list option \<Rightarrow> string \<Rightarrow> string" where
  "objectConditionReason conditions conditionType =
     (case objectConditionStatusReason conditions conditionType of (status, reason) \<Rightarrow>
        if status \<noteq> ConditionFalse then [] else reason)"

definition objectConditionStatus :: "UCondition option list option \<Rightarrow> string \<Rightarrow> string" where
  "objectConditionStatus conditions conditionType = fst (objectConditionStatusReason conditions conditionType)"

definition agentMachineWaitingForAgent :: "AgentMachineObj \<Rightarrow> bool" where
  "agentMachineWaitingForAgent am \<longleftrightarrow> objectConditionReason (am_conditions am) conditionReady = ''NoSuitableAgents''"

definition agentMachineReady :: "AgentMachineObj \<Rightarrow> bool" where
  "agentMachineReady am \<longleftrightarrow> objectConditionStatus (am_conditions am) conditionReady = ConditionTrue"

definition agentMachineHasAssignedAgent :: "AgentMachineObj \<Rightarrow> bool" where
  "agentMachineHasAssignedAgent am \<longleftrightarrow>
     (if am_agentRefName am \<noteq> [] then True else go_HasPrefix (am_providerID am) ''agent://'')"

section \<open>Which pool an AgentMachine belongs to\<close>

definition controlPlaneObjectMatchesPool :: "ObjectMeta \<Rightarrow> VsphereAgentPool \<Rightarrow> bool" where
  "controlPlaneObjectMatchesPool obj pool \<longleftrightarrow>
     (if ps_ControlPlaneNamespace (pool_Spec pool) \<noteq> om_Namespace obj then False
      else mget (om_Annotations obj) nodePoolAnnotation =
             om_Namespace (pool_Meta pool) @ ''/'' @ lor_Name (ps_NodePoolRef (pool_Spec pool)))"

definition openStackDemandMatches :: "ObjectMeta \<Rightarrow> OpenStackAgentPool \<Rightarrow> bool" where
  "openStackDemandMatches obj p \<longleftrightarrow>
     om_Namespace obj = os_ControlPlaneNamespace (op_Spec p)
     \<and> mget (om_Annotations obj) nodePoolAnnotation =
         om_Namespace (op_Meta p) @ ''/'' @ lor_Name (os_NodePoolRef (op_Spec p))"

definition applySpecDefaults :: "VsphereAgentPool \<Rightarrow> VsphereAgentPool" where
  "applySpecDefaults pool =
     (let spec = pool_Spec pool; v = ps_VSphere spec; t = ps_Template spec; a = ps_Agent spec; i = ps_ISO spec;
          v = (if vp_Datacenter v = [] then v\<lparr>vp_Datacenter := defaultDatacenter\<rparr> else v);
          v = (if vp_GuestID v = [] then v\<lparr>vp_GuestID := ''rhel9_64Guest''\<rparr> else v);
          v = (if vp_SCSIType v = [] then v\<lparr>vp_SCSIType := ''pvscsi''\<rparr> else v);
          v = (if vp_Firmware v = [] then v\<lparr>vp_Firmware := ''efi''\<rparr> else v);
          v = (if vp_NetworkAdapterType v = [] then v\<lparr>vp_NetworkAdapterType := ''vmxnet3''\<rparr> else v);
          t = (if vt_NumCPUs t = 0 then t\<lparr>vt_NumCPUs := 4\<rparr> else t);
          t = (if vt_MemoryMiB t = 0 then t\<lparr>vt_MemoryMiB := 16384\<rparr> else t);
          t = (if vt_DiskGiB t = 0 then t\<lparr>vt_DiskGiB := 100\<rparr> else t);
          a = (if ab_Role a = [] then a\<lparr>ab_Role := defaultAgentRole\<rparr> else a);
          i = (if is_CheckInterval i = 0 then i\<lparr>is_CheckInterval := 10 * minute\<rparr> else i);
          i = (if is_RetainVersions i = 0 then i\<lparr>is_RetainVersions := 2\<rparr> else i);
          spec = spec\<lparr>ps_VSphere := v, ps_Template := t, ps_Agent := a, ps_ISO := i\<rparr>;
          spec = (if ps_CleanupPolicy spec = [] then spec\<lparr>ps_CleanupPolicy := CleanupPolicyDelete\<rparr> else spec)
      in pool\<lparr>pool_Spec := spec\<rparr>)"

definition openStackDefaults :: "OpenStackAgentPoolSpec \<Rightarrow> OpenStackAgentPoolSpec" where
  "openStackDefaults s =
     (let o1 = os_OpenStack s; t = os_Template s; a = os_Agent s;
          o1 = (if op_APITimeoutSeconds o1 = 0 then o1\<lparr>op_APITimeoutSeconds := 60\<rparr> else o1);
          t = (if ot_DiskGiB t = 0 then t\<lparr>ot_DiskGiB := 120\<rparr> else t);
          t = (if ot_DiscoveryVolumeMinGiB t = 0 then t\<lparr>ot_DiscoveryVolumeMinGiB := 2\<rparr> else t);
          t = (if ot_OSDiskBus t = [] then t\<lparr>ot_OSDiskBus := ''virtio''\<rparr> else t);
          t = (if ot_DiscoveryDiskBus t = [] then t\<lparr>ot_DiscoveryDiskBus := ''ide''\<rparr> else t);
          t = (if ot_InstallationDisk t = [] then t\<lparr>ot_InstallationDisk := ''/dev/vda''\<rparr> else t);
          t = (if ot_OSVolumePolicy t = [] then t\<lparr>ot_OSVolumePolicy := CleanupPolicyDelete\<rparr> else t);
          s = s\<lparr>os_OpenStack := o1, os_Template := t\<rparr>;
          s = (if os_CleanupPolicy s = [] then s\<lparr>os_CleanupPolicy := CleanupPolicyDelete\<rparr> else s);
          a = (if ab_Role a = [] then a\<lparr>ab_Role := ''worker''\<rparr> else a);
          s = s\<lparr>os_Agent := a\<rparr>
      in (if os_DiscoveryTimeoutSeconds s = 0 then s\<lparr>os_DiscoveryTimeoutSeconds := 1800\<rparr> else s))"

definition matchingPoolNames :: "VsphereAgentPool list \<Rightarrow> string" where
  "matchingPoolNames pools =
     go_Join (map (\<lambda>pool. om_Namespace (pool_Meta pool) @ ''/'' @ om_Name (pool_Meta pool)) pools) '', ''"

section \<open>Claiming an AgentMachine\<close>

definition claimOf :: "string \<Rightarrow> string \<Rightarrow> string" where
  "claimOf kind uid = kind @ ''/'' @ uid"

definition amAnnotate :: "string \<Rightarrow> AgentMachineObj \<Rightarrow> AgentMachineObj" where
  "amAnnotate claim am = am\<lparr>am_Meta := (am_Meta am)
     \<lparr>om_Annotations := mput (om_Annotations (am_Meta am)) demandClaimAnnotation claim\<rparr>\<rparr>"

text \<open>The AgentMachine passed by reference is returned as it is afterwards.\<close>

definition claimDemand :: "'w kube \<Rightarrow> AgentMachineObj \<Rightarrow> string \<Rightarrow> string \<Rightarrow> ('w, AgentMachineObj result) io" where
  "claimDemand K am kind uid =
     (let claim = claimOf kind uid;
          existing = mget (om_Annotations (am_Meta am)) demandClaimAnnotation
      in if existing \<noteq> [] then
           (if existing \<noteq> claim then ret (Inl (ErrorText ''AgentMachine is claimed by another infrastructure pool''))
            else ret (Inr am))
         else kpatch (k_agentmachines K) EvAgentMachine True am (amAnnotate claim am))"

definition ensureAgentMachineSelectorPinned :: "'w kube \<Rightarrow> AgentMachineObj \<Rightarrow> ('w, AgentMachineObj result) io" where
  "ensureAgentMachineSelectorPinned K am =
     (case am_matchLabels am of
        None \<Rightarrow> ret (Inl (ErrorText ''.spec.agentLabelSelector.matchLabels accessor error''))
      | Some matchLabels \<Rightarrow>
          if mget matchLabels agentMachineSelectionLabel = om_Name (am_Meta am) then ret (Inr am)
          else if \<not> am_nestedSpecOK am
          then ret (Inl (ErrorText ''value cannot be set because .spec is not a map[string]interface{}''))
          else kpatch (k_agentmachines K) EvAgentMachine False am
                 (am\<lparr>am_matchLabels := Some (mput matchLabels agentMachineSelectionLabel (om_Name (am_Meta am)))\<rparr>))"

section \<open>vSphere workers\<close>

definition vsphereAgentCreatedForAgentMachine :: "VsphereAgent \<Rightarrow> VsphereAgentPool \<Rightarrow> AgentMachineObj \<Rightarrow> bool" where
  "vsphereAgentCreatedForAgentMachine agent pool am =
     (let labels = om_Labels (va_Meta agent); name = om_Name (am_Meta am)
      in if \<not> vsphereAgentBelongsToPool agent (om_Name (pool_Meta pool)) then False
         else if mget labels agentMachineSelectionLabel = name then True
         else if mget (om_Annotations (va_Meta agent)) vsphereAgentVMNameAnnotation = name then True
         else mget labels vsphereAgentCreatedForLabel = vsphereAgentCreatedForDemand \<and> om_Name (va_Meta agent) = name)"

definition vsphereAgentVMName :: "VsphereAgent \<Rightarrow> string" where
  "vsphereAgentVMName agent =
     (let v = mget (om_Annotations (va_Meta agent)) vsphereAgentVMNameAnnotation
      in if v \<noteq> [] then v else om_Name (va_Meta agent))"

definition newVsphereAgentForAgentMachine :: "string \<Rightarrow> VsphereAgentPool \<Rightarrow> AgentMachineObj \<Rightarrow> VsphereAgent" where
  "newVsphereAgentForAgentMachine name pool am =
     \<lparr>va_Meta = emptyMeta\<lparr>om_Namespace := om_Namespace (pool_Meta pool), om_Name := name,
        om_Labels := [(vsphereAgentPoolNameLabel, om_Name (pool_Meta pool)),
                      (vsphereAgentCreatedForLabel, vsphereAgentCreatedForDemand),
                      (agentMachineSelectionLabel, om_Name (am_Meta am))],
        om_Annotations := [(vsphereAgentVMNameAnnotation, om_Name (am_Meta am))]\<rparr>,
      va_Spec = \<lparr>vas_PoolRef = \<lparr>lor_Name = om_Name (pool_Meta pool)\<rparr>\<rparr>,
      va_Status = \<lparr>vast_ObservedGeneration = 0, vast_VM = emptyOwnedVMStatus, vast_ISOEjection = None,
        vast_Conditions = []\<rparr>\<rparr>"

definition alternateVsphereAgentName :: "VsphereAgentPool \<Rightarrow> AgentMachineObj \<Rightarrow> string" where
  "alternateVsphereAgentName pool am =
     (let suffix = take 10 (sha256hex (om_Namespace (pool_Meta pool) @ ''/'' @ om_Name (pool_Meta pool) @ ''/''
            @ om_Namespace (am_Meta am) @ ''/'' @ om_Name (am_Meta am)));
          base = go_Trim (om_Name (am_Meta am) @ ''-'' @ om_Name (pool_Meta pool)) ''-'';
          maxBaseLength = 253 - length suffix - 1;
          base = (if length base > maxBaseLength then go_Trim (take maxBaseLength base) ''-'' else base)
      in if base = [] then suffix else base @ ''-'' @ suffix)"

definition findVsphereAgentForAgentMachine ::
  "'w kube \<Rightarrow> VsphereAgentPool \<Rightarrow> AgentMachineObj \<Rightarrow> ('w, VsphereAgent option result) io" where
  "findVsphereAgentForAgentMachine K pool am =
     attempt (klist (k_vagents K) EvVAgent Cached (InNamespace (om_Namespace (pool_Meta pool))))
       (\<lambda>items. ret (Inr (find (\<lambda>agent. om_DeletionTimestamp (va_Meta agent) = None \<and>
                                  vsphereAgentCreatedForAgentMachine agent pool am) items)))"

fun createVsphereAgent ::
  "'w kube \<Rightarrow> golib \<Rightarrow> VsphereAgentPool \<Rightarrow> AgentMachineObj \<Rightarrow> string list \<Rightarrow> ('w, unit result) io" where
  "createVsphereAgent K L pool am [] =
     ret (Inl (ErrorText (''could not create VsphereAgent for AgentMachine '' @ om_Namespace (am_Meta am) @ ''/''
       @ om_Name (am_Meta am) @ '' because deterministic names are already used by other demand'')))"
| "createVsphereAgent K L pool am (name # names) =
     (let agent = newVsphereAgentForAgentMachine name pool am
      in case gl_SetControllerReference L (pool_Meta pool) ''VsphereAgentPool'' (va_Meta agent) of
           Inl e \<Rightarrow> ret (Inl e)
         | Inr meta \<Rightarrow>
             handle (kcreate (k_vagents K) EvVAgent (agent\<lparr>va_Meta := meta\<rparr>))
               (\<lambda>e. if \<not> IsAlreadyExists e then ret (Inl e)
                    else attempt (kget (k_vagents K) EvVAgent Cached (om_Namespace meta, om_Name meta))
                      (\<lambda>existing. if vsphereAgentCreatedForAgentMachine existing pool am then ret (Inr ())
                                  else createVsphereAgent K L pool am names))
               (\<lambda>_. ret (Inr ())))"

definition ensureVsphereAgentForAgentMachine ::
  "'w kube \<Rightarrow> golib \<Rightarrow> VsphereAgentPool \<Rightarrow> AgentMachineObj \<Rightarrow> ('w, unit result) io" where
  "ensureVsphereAgentForAgentMachine K L pool am =
     attempt (findVsphereAgentForAgentMachine K pool am) (\<lambda>existing.
       case existing of
         Some _ \<Rightarrow> ret (Inr ())
       | None \<Rightarrow> createVsphereAgent K L pool am [om_Name (am_Meta am), alternateVsphereAgentName pool am])"

section \<open>OpenStack workers\<close>

definition allObjects :: list_opts where
  "allObjects = \<lparr>lo_Namespace = None, lo_Field = None, lo_Labels = []\<rparr>"

definition matchingOpenStackPools :: "'w kube \<Rightarrow> AgentMachineObj \<Rightarrow> ('w, OpenStackAgentPool list result) io" where
  "matchingOpenStackPools K am =
     attempt (klist (k_ospools K) EvOsPool Cached allObjects)
       (\<lambda>items. ret (Inr (filter (\<lambda>p. om_DeletionTimestamp (op_Meta p) = None \<and> openStackDemandMatches (am_Meta am) p) items)))"

text \<open>The loop that counts the workers of an AgentMachine.\<close>

fun countWorkers :: "string \<Rightarrow> string \<Rightarrow> OpenStackAgent list \<Rightarrow> nat \<Rightarrow> nat result" where
  "countWorkers amUID poolUID [] matches = Inr matches"
| "countWorkers amUID poolUID (worker # workers) matches =
     (if ref_UID (oas_AgentMachineRef (oa_Spec worker)) = amUID then
        (if oas_PoolUID (oa_Spec worker) \<noteq> poolUID
         then Inl (ErrorText ''AgentMachine already has another pool's worker'')
         else countWorkers amUID poolUID workers (matches + 1))
      else countWorkers amUID poolUID workers matches)"

definition emptyOpenStackAgentStatus :: OpenStackAgentStatus where
  "emptyOpenStackAgentStatus = \<lparr>oast_ObservedGeneration = 0, oast_Phase = [], oast_ScopeHash = [], oast_PendingCreate = [],
     oast_PortID = [], oast_MACAddress = [], oast_OSVolumeID = [], oast_DiscoveryVolumeID = [], oast_ImageID = [],
     oast_ImageCacheName = [], oast_ISOSHA256 = [], oast_ISOSizeBytes = 0, oast_InfraEnvUID = [], oast_ServerID = [],
     oast_AgentRef = None, oast_InstanceCreatedAt = None, oast_Conditions = []\<rparr>"

definition ownerMachineRef :: "AgentMachineObj \<Rightarrow> ObjectReference option" where
  "ownerMachineRef am =
     fold (\<lambda>owner r. if own_Kind owner = ''Machine''
                     then Some \<lparr>ref_APIVersion = own_APIVersion owner, ref_Kind = own_Kind owner,
                                ref_Namespace = om_Namespace (am_Meta am), ref_Name = own_Name owner,
                                ref_UID = own_UID owner\<rparr>
                     else r)
       (om_OwnerReferences (am_Meta am)) None"

definition newOpenStackAgent :: "OpenStackAgentPool \<Rightarrow> AgentMachineObj \<Rightarrow> OpenStackAgent" where
  "newOpenStackAgent p am =
     \<lparr>oa_Meta = emptyMeta\<lparr>om_Name := ''osa-'' @ om_UID (am_Meta am), om_Namespace := om_Namespace (op_Meta p),
        om_Labels := [(openStackPoolLabel, om_Name (op_Meta p)), (agentMachineSelectionLabel, om_Name (am_Meta am))],
        om_Finalizers := [openStackFinalizer]\<rparr>,
      oa_Spec = \<lparr>oas_PoolRef = \<lparr>lor_Name = om_Name (op_Meta p)\<rparr>, oas_PoolUID = om_UID (op_Meta p),
        oas_AgentMachineRef = \<lparr>ref_APIVersion = am_APIVersion am, ref_Kind = am_Kind am,
          ref_Namespace = om_Namespace (am_Meta am), ref_Name = om_Name (am_Meta am), ref_UID = om_UID (am_Meta am)\<rparr>,
        oas_MachineRef = ownerMachineRef am,
        oas_Configuration = openStackDefaults (op_Spec p),
        oas_FixedIPAddress = []\<rparr>,
      oa_Status = emptyOpenStackAgentStatus\<rparr>"

definition createOpenStackAgent ::
  "'w kube \<Rightarrow> golib \<Rightarrow> OpenStackAgentPool \<Rightarrow> AgentMachineObj \<Rightarrow> ('w, unit result) io" where
  "createOpenStackAgent K L p am =
     (let a = newOpenStackAgent p am
      in case gl_SetControllerReference L (op_Meta p) ''OpenStackAgentPool'' (oa_Meta a) of
           Inl e \<Rightarrow> ret (Inl e)
         | Inr meta \<Rightarrow>
             handle (kcreate (k_osagents K) EvOsAgent (a\<lparr>oa_Meta := meta\<rparr>))
               (\<lambda>e. if \<not> IsAlreadyExists e then ret (Inl e)
                    else attempt (kget (k_osagents K) EvOsAgent Cached (om_Namespace meta, om_Name meta))
                      (\<lambda>current. if oas_PoolUID (oa_Spec current) \<noteq> om_UID (op_Meta p)
                                    \<or> ref_UID (oas_AgentMachineRef (oa_Spec current)) \<noteq> om_UID (am_Meta am)
                                 then ret (Inl (ErrorText ''OpenStackAgent demand ownership mismatch''))
                                 else ret (Inr ())))
               (\<lambda>_. ret (Inr ())))"

definition ensureOpenStackAgent ::
  "'w kube \<Rightarrow> golib \<Rightarrow> OpenStackAgentPool \<Rightarrow> AgentMachineObj \<Rightarrow> ('w, unit result) io" where
  "ensureOpenStackAgent K L p am =
     (if agentMachineHasAssignedAgent am then ret (Inr ())
      else attempt (claimDemand K am ''OpenStackAgentPool'' (om_UID (op_Meta p))) (\<lambda>am.
           attempt (ensureAgentMachineSelectorPinned K am) (\<lambda>am.
           attempt (klist (k_osagents K) EvOsAgent Cached (InNamespace (om_Namespace (op_Meta p)))) (\<lambda>existing.
             case countWorkers (om_UID (am_Meta am)) (om_UID (op_Meta p)) existing 0 of
               Inl e \<Rightarrow> ret (Inl e)
             | Inr matches \<Rightarrow>
                 if matches > 1 then ret (Inl (ErrorText ''AgentMachine has multiple OpenStack workers''))
                 else if matches = 1 then ret (Inr ())
                 else createOpenStackAgent K L p am))))"

section \<open>The reconciler\<close>

definition matchingVspherePools :: "AgentMachineObj \<Rightarrow> VsphereAgentPool list \<Rightarrow> VsphereAgentPool list" where
  "matchingVspherePools am items =
     filter (\<lambda>pool. controlPlaneObjectMatchesPool (am_Meta am) pool)
       (map applySpecDefaults (filter (\<lambda>pool. om_DeletionTimestamp (pool_Meta pool) = None) items))"

definition orResult :: "duration \<Rightarrow> unit result \<Rightarrow> ('w, reconcile_result) io" where
  "orResult d r = ret (d, case r of Inl e \<Rightarrow> Some e | Inr _ \<Rightarrow> None)"

definition reconcileVsphereDemand ::
  "'w kube \<Rightarrow> golib \<Rightarrow> VsphereAgentPool \<Rightarrow> AgentMachineObj \<Rightarrow> ('w, reconcile_result) io" where
  "reconcileVsphereDemand K L pool am =
     handle (claimDemand K am ''VsphereAgentPool'' (om_UID (pool_Meta pool))) fail_result (\<lambda>am.
     handle (ensureAgentMachineSelectorPinned K am) fail_result (\<lambda>am.
     handle (ensureVsphereAgentForAgentMachine K L pool am) fail_result (\<lambda>_.
     ok_result (30 * second))))"

text \<open>The end of \<open>Reconcile\<close>, once the matching pools are known.\<close>

definition dispatchDemand ::
  "'w kube \<Rightarrow> golib \<Rightarrow> AgentMachineObj \<Rightarrow> VsphereAgentPool list \<Rightarrow> OpenStackAgentPool list \<Rightarrow> ('w, reconcile_result) io" where
  "dispatchDemand K L am matchingPools openStackPools =
     (if length openStackPools > 0 \<and> length matchingPools + length openStackPools > 1
      then fail_result (ErrorText ''AgentMachine matches multiple infrastructure pools'')
      else if length openStackPools = 1
      then do { r \<leftarrow> ensureOpenStackAgent K L (hd openStackPools) am; orResult (30 * second) r }
      else if length matchingPools = 0 then ok_result (30 * second)
      else if length matchingPools > 1
      then fail_result (ErrorText (''AgentMachine '' @ om_Namespace (am_Meta am) @ ''/'' @ om_Name (am_Meta am)
             @ '' matches multiple VsphereAgentPools: '' @ matchingPoolNames matchingPools))
      else reconcileVsphereDemand K L (hd matchingPools) am)"

definition AgentMachine_Reconcile :: "'w kube \<Rightarrow> golib \<Rightarrow> objkey \<Rightarrow> ('w, reconcile_result) io" where
  "AgentMachine_Reconcile K L req =
     handle (kget (k_agentmachines K) EvAgentMachine Cached req) ignore_not_found (\<lambda>am.
     if om_DeletionTimestamp (am_Meta am) \<noteq> None \<or> \<not> agentMachineWaitingForAgent am then ok_result 0
     else
       handle (klist (k_pools K) EvPool Cached (MatchingField controlPlaneNamespaceIndex (fst req))) fail_result (\<lambda>items.
       handle (matchingOpenStackPools K am) fail_result (\<lambda>openStackPools.
       dispatchDemand K L am (matchingVspherePools am items) openStackPools)))"

text \<open>The pools to reconcile when a control plane object changes.\<close>

definition requestsForControlPlaneObjectChange :: "'w kube \<Rightarrow> ObjectMeta \<Rightarrow> ('w, objkey list) io" where
  "requestsForControlPlaneObjectChange K obj =
     handle (klist (k_pools K) EvPool Cached (MatchingField controlPlaneNamespaceIndex (om_Namespace obj)))
       (\<lambda>_. ret [])
       (\<lambda>items. ret (map (\<lambda>pool. (om_Namespace (pool_Meta pool), om_Name (pool_Meta pool)))
                       (filter (controlPlaneObjectMatchesPool obj) items)))"

definition requestsForVsphereAgent :: "'w kube \<Rightarrow> VsphereAgent \<Rightarrow> ('w, objkey list) io" where
  "requestsForVsphereAgent K agent =
     (if mget (om_Labels (va_Meta agent)) vsphereAgentCreatedForLabel \<noteq> vsphereAgentCreatedForDemand then ret []
      else handle (kget (k_pools K) EvPool Cached
                    (om_Namespace (va_Meta agent), lor_Name (vas_PoolRef (va_Spec agent))))
             (\<lambda>_. ret [])
             (\<lambda>pool. let name = mget (om_Labels (va_Meta agent)) agentMachineSelectionLabel;
                         name = (if name = [] then vsphereAgentVMName agent else name)
                     in ret [(ps_ControlPlaneNamespace (pool_Spec pool), name)]))"

section \<open>Specification vocabulary\<close>

definition am_claim :: "AgentMachineObj \<Rightarrow> string" where
  "am_claim am = mget (om_Annotations (am_Meta am)) demandClaimAnnotation"

text \<open>An event from which it is known that the AgentMachine carries a claim.\<close>

fun claims :: "string \<Rightarrow> event \<Rightarrow> bool" where
  "claims c (EvAgentMachine (Get rd k (Inr am))) \<longleftrightarrow> am_claim am = c"
| "claims c (EvAgentMachine (Patch lock before after (Inr r))) \<longleftrightarrow> lock \<and> am_claim after = c"
| "claims c _ \<longleftrightarrow> False"

text \<open>The AgentMachine of the request was read as waiting, and these were the pools it matched.\<close>

definition demand_known :: "objkey \<Rightarrow> event list \<Rightarrow> VsphereAgentPool list \<Rightarrow> OpenStackAgentPool list \<Rightarrow> bool" where
  "demand_known req tr pools ospools \<longleftrightarrow>
     (\<exists>am items ositems. EvAgentMachine (Get Cached req (Inr am)) \<in> set tr
        \<and> om_DeletionTimestamp (am_Meta am) = None \<and> agentMachineWaitingForAgent am
        \<and> EvPool (ListAll Cached (MatchingField controlPlaneNamespaceIndex (fst req)) (Inr items)) \<in> set tr
        \<and> filter (\<lambda>pool. om_DeletionTimestamp (pool_Meta pool) = None \<and> controlPlaneObjectMatchesPool (am_Meta am) pool)
             (map applySpecDefaults items) = pools
        \<and> EvOsPool (ListAll Cached allObjects (Inr ositems)) \<in> set tr
        \<and> filter (\<lambda>p. om_DeletionTimestamp (op_Meta p) = None \<and> openStackDemandMatches (am_Meta am) p) ositems = ospools)"

fun demand_event :: "objkey \<Rightarrow> event list \<Rightarrow> event \<Rightarrow> bool" where
  "demand_event req tr (EvVAgent (Create va r)) \<longleftrightarrow>
     (\<exists>pool. demand_known req tr [pool] [] \<and> vas_PoolRef (va_Spec va) = \<lparr>lor_Name = om_Name (pool_Meta pool)\<rparr>
        \<and> list_ex (claims (claimOf ''VsphereAgentPool'' (om_UID (pool_Meta pool)))) tr)"
| "demand_event req tr (EvOsAgent (Create a r)) \<longleftrightarrow>
     (\<exists>p. demand_known req tr [] [p] \<and> oas_PoolUID (oa_Spec a) = om_UID (op_Meta p)
        \<and> list_ex (claims (claimOf ''OpenStackAgentPool'' (om_UID (op_Meta p)))) tr)"
| "demand_event req tr (EvAgentMachine (Patch lock before after r)) \<longleftrightarrow>
     am_claim after = am_claim before \<or> (lock \<and> am_claim before = [])"
| "demand_event req tr (EvAgentMachine ev) \<longleftrightarrow> is_read ev"
| "demand_event req tr (EvVAgent ev) \<longleftrightarrow> is_read ev"
| "demand_event req tr (EvOsAgent ev) \<longleftrightarrow> is_read ev"
| "demand_event req tr (EvPool ev) \<longleftrightarrow> is_read ev"
| "demand_event req tr (EvOsPool ev) \<longleftrightarrow> is_read ev"
| "demand_event req tr _ \<longleftrightarrow> False"

fun worker_created :: "event \<Rightarrow> bool" where
  "worker_created (EvVAgent (Create va (Inr r))) \<longleftrightarrow> True"
| "worker_created (EvOsAgent (Create a (Inr r))) \<longleftrightarrow> True"
| "worker_created _ \<longleftrightarrow> False"

section \<open>Lemmas\<close>

lemma applySpecDefaults_Meta [simp]: "pool_Meta (applySpecDefaults pool) = pool_Meta pool"
  by (simp add: applySpecDefaults_def Let_def)

lemma matchingVspherePools_live:
  "matchingVspherePools am items =
     filter (\<lambda>pool. om_DeletionTimestamp (pool_Meta pool) = None \<and> controlPlaneObjectMatchesPool (am_Meta am) pool)
       (map applySpecDefaults items)"
  by (simp add: matchingVspherePools_def filter_map comp_def conj_commute)

lemma am_claim_amAnnotate [simp]: "am_claim (amAnnotate c am) = c"
  by (simp add: am_claim_def amAnnotate_def)

lemma yields_claimDemand:
  "yields (claimDemand K am kind uid) (\<lambda>r new.
     (new = [] \<and> (case r of Inl _ \<Rightarrow> True | Inr am' \<Rightarrow> am_claim am = claimOf kind uid)) \<or>
     (am_claim am = [] \<and> new = [EvAgentMachine (Patch True am (amAnnotate (claimOf kind uid) am) r)]))"
  unfolding claimDemand_def kpatch_def Let_def am_claim_def
  by (auto intro!: yields_intros)

lemma yields_selectorPinned:
  "yields (ensureAgentMachineSelectorPinned K am) (\<lambda>r new. new = [] \<or>
     (\<exists>after. am_claim after = am_claim am \<and> new = [EvAgentMachine (Patch False am after r)]))"
  unfolding ensureAgentMachineSelectorPinned_def kpatch_def am_claim_def
  by (auto split: option.split intro!: yields_intros)

text \<open>Creating a worker touches nothing but workers of the pool, and succeeds at most once.\<close>

fun vworker_event :: "VsphereAgentPool \<Rightarrow> event \<Rightarrow> bool" where
  "vworker_event pool (EvVAgent (Create va r)) \<longleftrightarrow> vas_PoolRef (va_Spec va) = \<lparr>lor_Name = om_Name (pool_Meta pool)\<rparr>"
| "vworker_event pool (EvVAgent ev) \<longleftrightarrow> is_read ev"
| "vworker_event pool _ \<longleftrightarrow> False"

fun osworker_event :: "OpenStackAgentPool \<Rightarrow> event \<Rightarrow> bool" where
  "osworker_event p (EvOsAgent (Create a r)) \<longleftrightarrow> oas_PoolUID (oa_Spec a) = om_UID (op_Meta p)"
| "osworker_event p (EvOsAgent ev) \<longleftrightarrow> is_read ev"
| "osworker_event p _ \<longleftrightarrow> False"

lemma yields_createVsphereAgent:
  "yields (createVsphereAgent K L pool am names) (\<lambda>r new.
     list_all (vworker_event pool) new \<and> length (filter worker_created new) \<le> 1)"
proof (induction names)
  case Nil
  show ?case by (simp add: yields_ret)
next
  case (Cons name names)
  show ?case
    unfolding createVsphereAgent.simps kcreate_def kget_def Let_def
    by (auto simp: newVsphereAgentForAgentMachine_def split: sum.split intro!: yields_intros yields_mono [OF Cons.IH])
qed

lemma yields_ensureVsphereAgent:
  "yields (ensureVsphereAgentForAgentMachine K L pool am) (\<lambda>r new.
     list_all (vworker_event pool) new \<and> length (filter worker_created new) \<le> 1)"
  unfolding ensureVsphereAgentForAgentMachine_def findVsphereAgentForAgentMachine_def klist_def
  by (auto simp del: createVsphereAgent.simps split: sum.split option.split
      intro!: yields_intros yields_mono [OF yields_createVsphereAgent])

lemma yields_createOpenStackAgent:
  "yields (createOpenStackAgent K L p am) (\<lambda>r new.
     list_all (osworker_event p) new \<and> length (filter worker_created new) \<le> 1)"
  unfolding createOpenStackAgent_def kcreate_def kget_def Let_def
  by (auto simp: newOpenStackAgent_def split: sum.split intro!: yields_intros)

lemma demand_known_append: "demand_known req tr pools ospools \<Longrightarrow> demand_known req (tr @ tr2) pools ospools"
  unfolding demand_known_def by auto

lemma vworkers_ok:
  assumes "list_all (vworker_event pool) new" "demand_known req tr [pool] []"
    "list_ex (claims (claimOf ''VsphereAgentPool'' (om_UID (pool_Meta pool)))) tr"
  shows "trace_ok (\<lambda>pre. demand_event req (tr @ pre)) new"
proof (rule trace_ok_mono [OF trace_ok_all [OF assms(1)]])
  fix pre e
  assume e: "vworker_event pool e"
  have known: "demand_known req (tr @ pre) [pool] []" using assms(2) by (rule demand_known_append)
  have claim: "list_ex (claims (claimOf ''VsphereAgentPool'' (om_UID (pool_Meta pool)))) (tr @ pre)"
    using assms(3) by simp
  show "demand_event req (tr @ pre) e"
    using e by (cases "(pool, e)" rule: vworker_event.cases) (use known claim in auto)
qed

lemma osworkers_ok:
  assumes "list_all (osworker_event p) new" "demand_known req tr [] [p]"
    "list_ex (claims (claimOf ''OpenStackAgentPool'' (om_UID (op_Meta p)))) tr"
  shows "trace_ok (\<lambda>pre. demand_event req (tr @ pre)) new"
proof (rule trace_ok_mono [OF trace_ok_all [OF assms(1)]])
  fix pre e
  assume e: "osworker_event p e"
  have known: "demand_known req (tr @ pre) [] [p]" using assms(2) by (rule demand_known_append)
  have claim: "list_ex (claims (claimOf ''OpenStackAgentPool'' (om_UID (op_Meta p)))) (tr @ pre)"
    using assms(3) by simp
  show "demand_event req (tr @ pre) e"
    using e by (cases "(p, e)" rule: osworker_event.cases) (use known claim in auto)
qed

definition demand_ok :: "objkey \<Rightarrow> event list \<Rightarrow> event list \<Rightarrow> bool" where
  "demand_ok req tr new \<longleftrightarrow> trace_ok (\<lambda>pre. demand_event req (tr @ pre)) new \<and> length (filter worker_created new) \<le> 1"

lemma demand_ok_seq:
  "demand_ok req tr n1 \<Longrightarrow> filter worker_created n1 = [] \<Longrightarrow> demand_ok req (tr @ n1) n2 \<Longrightarrow> demand_ok req tr (n1 @ n2)"
  by (simp add: demand_ok_def trace_ok_append)

lemma yields_demand_seq:
  "yields m (\<lambda>r. demand_ok req (tr @ n1)) \<Longrightarrow> demand_ok req tr n1 \<Longrightarrow> filter worker_created n1 = [] \<Longrightarrow>
   yields m (\<lambda>r n2. demand_ok req tr (n1 @ n2))"
  by (erule yields_mono) (rule demand_ok_seq)

lemma demand_ok_Nil [simp]: "demand_ok req tr []"
  by (simp add: demand_ok_def)

text \<open>
  Claiming and pinning before anything else: what follows can rely on the claim being on record.
\<close>

lemma yields_claim_then:
  assumes seen: "EvAgentMachine (Get Cached req (Inr am)) \<in> set tr"
    and body: "\<And>am' tr'. list_ex (claims (claimOf kind uid)) (tr @ tr') \<Longrightarrow>
       yields (f am') (\<lambda>r new. demand_ok req (tr @ tr') new)"
    and fails: "\<And>e. yields (h e) (\<lambda>r new. new = [])"
  shows "yields (handle (claimDemand K am kind uid) h (\<lambda>am1. handle (ensureAgentMachineSelectorPinned K am1) h f))
     (\<lambda>r new. demand_ok req tr new)"
proof (rule yields_handle, rule yields_mono [OF yields_claimDemand])
  fix r new
  assume claim: "(new = [] \<and> (case r of Inl _ \<Rightarrow> True | Inr am' \<Rightarrow> am_claim am = claimOf kind uid)) \<or>
     (am_claim am = [] \<and> new = [EvAgentMachine (Patch True am (amAnnotate (claimOf kind uid) am) r)])"
  have ok1: "demand_ok req tr new" using claim by (auto simp: demand_ok_def)
  show "case r of Inl e \<Rightarrow> yields (h e) (\<lambda>b n2. demand_ok req tr (new @ n2))
    | Inr x \<Rightarrow> yields (handle (ensureAgentMachineSelectorPinned K x) h f) (\<lambda>b n2. demand_ok req tr (new @ n2))"
  proof (cases r)
    case (Inl e)
    then show ?thesis using ok1 by (auto intro!: yields_mono [OF fails])
  next
    case (Inr am1)
    have ev: "list_ex (claims (claimOf kind uid)) (tr @ new)"
      using claim Inr by (auto simp: list_ex_iff intro!: bexI [OF _ seen])
    have "yields (handle (ensureAgentMachineSelectorPinned K am1) h f) (\<lambda>b n2. demand_ok req tr (new @ n2))"
    proof (rule yields_handle, rule yields_mono [OF yields_selectorPinned])
      fix r2 n2
      assume pin: "n2 = [] \<or> (\<exists>after. am_claim after = am_claim am1 \<and> n2 = [EvAgentMachine (Patch False am1 after r2)])"
      have ok2: "demand_ok req tr (new @ n2)" using ok1 pin by (auto simp: demand_ok_def trace_ok_append)
      have "list_ex (claims (claimOf kind uid)) (tr @ (new @ n2))" using ev by auto
      then have "yields (f x) (\<lambda>b n3. demand_ok req (tr @ (new @ n2)) n3)" for x by (rule body)
      moreover have "filter worker_created (new @ n2) = []" using pin claim by auto
      ultimately have "yields (f x) (\<lambda>b n3. demand_ok req tr (new @ n2 @ n3))" for x
        using yields_demand_seq [OF _ ok2, of "f x"] by simp
      moreover have "yields (h e) (\<lambda>b n3. demand_ok req tr (new @ n2 @ n3))" for e
        using ok2 by (auto intro!: yields_mono [OF fails])
      ultimately show "case r2 of Inl e \<Rightarrow> yields (h e) (\<lambda>b n3. demand_ok req tr (new @ n2 @ n3))
        | Inr x \<Rightarrow> yields (f x) (\<lambda>b n3. demand_ok req tr (new @ n2 @ n3))"
        by (simp split: sum.split)
    qed
    then show ?thesis using Inr by simp
  qed
qed

lemma yields_reconcileVsphereDemand:
  assumes "demand_known req tr [pool] []" "EvAgentMachine (Get Cached req (Inr am)) \<in> set tr"
  shows "yields (reconcileVsphereDemand K L pool am) (\<lambda>r new. demand_ok req tr new)"
  unfolding reconcileVsphereDemand_def
proof (rule yields_claim_then [OF assms(2)])
  fix am' tr'
  assume claim: "list_ex (claims (claimOf ''VsphereAgentPool'' (om_UID (pool_Meta pool)))) (tr @ tr')"
  have known: "demand_known req (tr @ tr') [pool] []" using assms(1) by (rule demand_known_append)
  show "yields (handle (ensureVsphereAgentForAgentMachine K L pool am') fail_result (\<lambda>_. ok_result (30 * second)))
      (\<lambda>r new. demand_ok req (tr @ tr') new)"
    unfolding ok_result_def fail_result_def
    by (rule yields_handle, rule yields_mono [OF yields_ensureVsphereAgent])
      (use vworkers_ok [OF _ known claim] in \<open>auto simp: demand_ok_def split: sum.split intro!: yields_intros\<close>)
qed (auto simp: fail_result_def intro!: yields_intros)

lemma attempt_as_handle: "attempt m f = handle m (\<lambda>e. ret (Inl e)) f"
  by (simp add: attempt_def handle_def)

lemma yields_ensureOpenStackAgent:
  assumes "demand_known req tr [] [p]" "EvAgentMachine (Get Cached req (Inr am)) \<in> set tr"
  shows "yields (ensureOpenStackAgent K L p am) (\<lambda>r new. demand_ok req tr new)"
proof (cases "agentMachineHasAssignedAgent am")
  case True
  then show ?thesis by (simp add: ensureOpenStackAgent_def demand_ok_def yields_ret)
next
  case False
  show ?thesis
    unfolding ensureOpenStackAgent_def using False
  proof (simp only: if_False attempt_as_handle, intro yields_claim_then [OF assms(2)])
    fix am' tr'
    assume claim: "list_ex (claims (claimOf ''OpenStackAgentPool'' (om_UID (op_Meta p)))) (tr @ tr')"
    have known: "demand_known req (tr @ tr') [] [p]" using assms(1) by (rule demand_known_append)
    have created: "yields (createOpenStackAgent K L p am') (\<lambda>r new. demand_ok req (tr @ tr')
        (EvOsAgent (ListAll Cached (InNamespace (om_Namespace (op_Meta p))) x) # new))" for x
      by (rule yields_mono [OF yields_createOpenStackAgent])
        (use osworkers_ok [of p "EvOsAgent (ListAll Cached (InNamespace (om_Namespace (op_Meta p))) x) # _", OF _ known claim]
         in \<open>auto simp: demand_ok_def\<close>)
    show "yields (handle (klist (k_osagents K) EvOsAgent Cached (InNamespace (om_Namespace (op_Meta p)))) (\<lambda>e. ret (Inl e))
        (\<lambda>existing. case countWorkers (om_UID (am_Meta am')) (om_UID (op_Meta p)) existing 0 of
            Inl e \<Rightarrow> ret (Inl e)
          | Inr matches \<Rightarrow>
              if matches > 1 then ret (Inl (ErrorText ''AgentMachine has multiple OpenStack workers''))
              else if matches = 1 then ret (Inr ())
              else createOpenStackAgent K L p am')) (\<lambda>r new. demand_ok req (tr @ tr') new)"
      unfolding klist_def
      by (auto simp: demand_ok_def split: sum.split intro!: yields_intros yields_mono [OF created [unfolded demand_ok_def]])
  qed (auto intro!: yields_intros)
qed

lemma yields_dispatchDemand:
  assumes known: "demand_known req tr pools ospools" and seen: "EvAgentMachine (Get Cached req (Inr am)) \<in> set tr"
  shows "yields (dispatchDemand K L am pools ospools) (\<lambda>r new. demand_ok req tr new)"
proof -
  consider (os) p where "ospools = [p]" "pools = []" | (vs) pool where "pools = [pool]" "ospools = []"
    | (other) "length ospools > 0 \<and> length pools + length ospools > 1 \<or> ospools = [] \<and> (pools = [] \<or> length pools > 1)"
    by (cases ospools; cases "tl ospools"; cases pools; cases "tl pools") auto
  then show ?thesis
  proof cases
    case os
    have "yields (ensureOpenStackAgent K L p am) (\<lambda>r new. demand_ok req tr new)"
      using known seen os by (intro yields_ensureOpenStackAgent) simp_all
    then show ?thesis
      using os by (auto simp: dispatchDemand_def orResult_def intro!: yields_bind yields_ret elim!: yields_mono)
  next
    case vs
    have "yields (reconcileVsphereDemand K L pool am) (\<lambda>r new. demand_ok req tr new)"
      using known seen vs by (intro yields_reconcileVsphereDemand) simp_all
    then show ?thesis using vs by (simp add: dispatchDemand_def)
  next
    case other
    then show ?thesis
      by (auto simp: dispatchDemand_def fail_result_def ok_result_def intro!: yields_ret)
  qed
qed


end
