(* ===== verification/VspherePool.thy ===== *)
theory VspherePool
  imports AgentMachine VmCleanup IsoCache
begin

text \<open>
  The controller of a \<open>VsphereAgentPool\<close> (\<open>vsphereagentpool_controller.go\<close>): it reads the demand, the
  Agents and the Machines of the pool, refreshes the owned VMs, plans, patches Agents, takes surplus and
  orphaned VMs out of service, keeps the ISO cache and writes the status.

  The lemmas show what a reconciliation writes and under which guards: Agents are patched only under the
  optimistic lock and never while being cleaned up or bound, \<open>VsphereAgent\<close> objects of planned VMs are
  deleted only after their Agents were taken out of service, and the pool keeps its finalizer until no
  worker is left.
\<close>

section \<open>The discovery image\<close>

text \<open>The pattern \<open>^(\d+\.\d+)(?:\.\d+)?$\<close>: two or three groups of digits; the first two are returned.\<close>

definition openshiftMajorMinor :: "string \<Rightarrow> string" where
  "openshiftMajorMinor version =
     (let parts = go_Split (CHR ''.'') version
      in if (length parts = 2 \<or> length parts = 3) \<and> list_all (\<lambda>p. p \<noteq> [] \<and> list_all is_digit p) parts
         then parts ! 0 @ ''.'' @ parts ! 1 else [])"

definition first_nonempty :: "('a \<Rightarrow> string) \<Rightarrow> 'a list \<Rightarrow> string" where
  "first_nonempty f xs = (case filter (\<lambda>v. v \<noteq> []) (map f xs) of [] \<Rightarrow> [] | v # _ \<Rightarrow> v)"

definition imageURLVersion :: "golib \<Rightarrow> string \<Rightarrow> string" where
  "imageURLVersion L rawURL =
     (case gl_url_Parse L rawURL of
        None \<Rightarrow> []
      | Some parsed \<Rightarrow>
          (let version = openshiftMajorMinor (ur_query parsed ''version'')
           in if version \<noteq> [] then version
              else first_nonempty openshiftMajorMinor (go_Split (CHR ''/'') (go_Trim (ur_path parsed) ''/''))))"

definition infraEnvStatusImageVersion :: "golib \<Rightarrow> InfraEnvObj \<Rightarrow> string \<Rightarrow> string" where
  "infraEnvStatusImageVersion L infraEnv isoURL =
     first_nonempty (imageURLVersion L) [isoURL, ie_rootfs infraEnv, ie_initrd infraEnv]"

fun infraEnvStatusCondition :: "UCondition option list \<Rightarrow> string \<Rightarrow> (string \<times> string \<times> string) option" where
  "infraEnvStatusCondition [] conditionType = None"
| "infraEnvStatusCondition (raw # items) conditionType =
     (case raw of
        None \<Rightarrow> infraEnvStatusCondition items conditionType
      | Some c \<Rightarrow> if uc_Type c \<noteq> Some conditionType then infraEnvStatusCondition items conditionType
                   else Some (uc_Status c, uc_Reason c, uc_Message c))"

definition imageNotCreated :: "InfraEnvObj \<Rightarrow> string option" where
  "imageNotCreated infraEnv =
     (case infraEnvStatusCondition (ie_conditions infraEnv) ''ImageCreated'' of
        None \<Rightarrow> None
      | Some (status, reason, message) \<Rightarrow>
          if status = ConditionTrue then None
          else Some (''InfraEnv ImageCreated condition is '' @ status
                 @ (if reason \<noteq> [] then '' ('' @ reason @ '')'' else [])
                 @ (if message \<noteq> [] then '': '' @ message else [])))"

text \<open>Whether the image is available, its URL, and a message.\<close>

definition checkDiscoveryISO :: "golib \<Rightarrow> InfraEnvObj \<Rightarrow> bool \<times> string \<times> string" where
  "checkDiscoveryISO L infraEnv =
     (case imageNotCreated infraEnv of
        Some detail \<Rightarrow> (False, [], detail)
      | None \<Rightarrow>
          (let isoURL = ie_isoDownloadURL infraEnv;
               expectedVersion = openshiftMajorMinor (ie_osImageVersion infraEnv);
               actualVersion = infraEnvStatusImageVersion L infraEnv isoURL
           in if isoURL = [] then (False, [], ''InfraEnv status.isoDownloadURL is empty'')
              else if expectedVersion \<noteq> [] \<and> actualVersion \<noteq> [] \<and> actualVersion \<noteq> expectedVersion
              then (False, [], ''InfraEnv discovery image version '' @ actualVersion
                     @ '' does not match spec.osImageVersion '' @ expectedVersion)
              else (True, isoURL, ''InfraEnv exposes discovery ISO'')))"

definition discoveryISOAvailable :: "'w kube \<Rightarrow> golib \<Rightarrow> reader \<Rightarrow> string \<Rightarrow> string \<Rightarrow> ('w, bool \<times> string \<times> string) io" where
  "discoveryISOAvailable K L rd namespace name =
     handle (kget (k_infraenvs K) EvInfraEnv rd (namespace, name))
       (\<lambda>e. ret (False, [], if IsNotFound e then error_text e else ''failed to read InfraEnv: '' @ error_text e))
       (\<lambda>infraEnv. ret (checkDiscoveryISO L infraEnv))"

definition infraEnvAvailable :: "'w kube \<Rightarrow> golib \<Rightarrow> VsphereAgentPool \<Rightarrow> ('w, bool \<times> string \<times> string) io" where
  "infraEnvAvailable K L pool =
     discoveryISOAvailable K L Cached (om_Namespace (pool_Meta pool)) (lor_Name (ps_InfraEnvRef (pool_Spec pool)))"

section \<open>Reading the pool's surroundings\<close>

definition newOwnedVMStatus :: "gotime \<Rightarrow> string \<Rightarrow> OwnedVMStatus" where
  "newOwnedVMStatus now name = emptyOwnedVMStatus\<lparr>vm_Name := name, vm_Source := vmSourceVsphereAgent,
     vm_Phase := phaseProvisioning, vm_Reason := reasonVMCreateRequested, vm_LastTransitionTime := now\<rparr>"

definition listVsphereAgentsForPool :: "'w kube \<Rightarrow> VsphereAgentPool \<Rightarrow> ('w, VsphereAgent list result) io" where
  "listVsphereAgentsForPool K pool =
     attempt (klist (k_vagents K) EvVAgent Cached (InNamespace (om_Namespace (pool_Meta pool))))
       (\<lambda>items. ret (Inr (filter (\<lambda>a. vsphereAgentBelongsToPool a (om_Name (pool_Meta pool))) items)))"

definition vsphereAgentVM :: "gotime \<Rightarrow> VsphereAgent \<Rightarrow> OwnedVMStatus" where
  "vsphereAgentVM now agent =
     (let vm = vast_VM (va_Status agent)
      in if vm_Name vm = [] then (newOwnedVMStatus now (vsphereAgentVMName agent))
             \<lparr>vm_Reason := ''VMCreatePending'', vm_OwnerUID := om_UID (va_Meta agent)\<rparr>
         else vm)"

definition listVsphereAgentVMs :: "'w kube \<Rightarrow> VsphereAgentPool \<Rightarrow> ('w, OwnedVMStatus list result) io" where
  "listVsphereAgentVMs K pool =
     attempt (listVsphereAgentsForPool K pool) (\<lambda>items.
     do { now \<leftarrow> Now K; ret (Inr (map (vsphereAgentVM now) items)) })"

record AgentMachineDemand =
  de_Total :: int32
  de_Waiting :: int32
  de_Unready :: int32
  de_WithoutAgent :: int32

definition demandOf :: "VsphereAgentPool \<Rightarrow> AgentMachineObj list \<Rightarrow> AgentMachineDemand" where
  "demandOf pool items =
     (let ams = filter (\<lambda>am. om_DeletionTimestamp (am_Meta am) = None \<and> controlPlaneObjectMatchesPool (am_Meta am) pool) items
      in \<lparr>de_Total = count_if (\<lambda>_. True) ams,
          de_Waiting = count_if agentMachineWaitingForAgent ams,
          de_Unready = count_if (\<lambda>am. \<not> agentMachineReady am) ams,
          de_WithoutAgent = count_if (\<lambda>am. \<not> agentMachineReady am \<and> \<not> agentMachineHasAssignedAgent am) ams\<rparr>)"

definition countAgentMachineDemand :: "'w kube \<Rightarrow> VsphereAgentPool \<Rightarrow> ('w, AgentMachineDemand result) io" where
  "countAgentMachineDemand K pool =
     attempt (klist (k_agentmachines K) EvAgentMachine Cached (InNamespace (ps_ControlPlaneNamespace (pool_Spec pool))))
       (\<lambda>items. ret (Inr (demandOf pool items)))"

definition ensureAgentMachineSelectorsPinned :: "'w kube \<Rightarrow> VsphereAgentPool \<Rightarrow> ('w, unit result) io" where
  "ensureAgentMachineSelectorsPinned K pool =
     attempt (klist (k_agentmachines K) EvAgentMachine Cached (InNamespace (ps_ControlPlaneNamespace (pool_Spec pool))))
       (\<lambda>items. for_each (\<lambda>am.
          if om_DeletionTimestamp (am_Meta am) \<noteq> None then ret (Inr ())
          else if \<not> controlPlaneObjectMatchesPool (am_Meta am) pool then ret (Inr ())
          else attempt (ensureAgentMachineSelectorPinned K am) (\<lambda>_. ret (Inr ()))) items)"

definition nodePoolMachines :: "VsphereAgentPool \<Rightarrow> MachineObj list \<Rightarrow> MachineInfo list" where
  "nodePoolMachines pool items =
     map (\<lambda>machine. \<lparr>mi_Name = om_Name (mo_Meta machine),
            mi_Deleting = (om_DeletionTimestamp (mo_Meta machine) \<noteq> None \<or> mo_phase machine = ''Deleting'')\<rparr>)
       (filter (\<lambda>machine. controlPlaneObjectMatchesPool (mo_Meta machine) pool) items)"

definition listNodePoolMachines :: "'w kube \<Rightarrow> VsphereAgentPool \<Rightarrow> ('w, MachineInfo list result) io" where
  "listNodePoolMachines K pool =
     attempt (klist (k_machines K) EvMachine Cached (InNamespace (ps_ControlPlaneNamespace (pool_Spec pool))))
       (\<lambda>items. ret (Inr (nodePoolMachines pool items)))"

section \<open>The pool's Agents\<close>

definition machineOwner :: "ObjectMeta \<Rightarrow> string" where
  "machineOwner am =
     (case filter (\<lambda>owner. own_Kind owner = ''Machine'' \<and> go_HasPrefix (own_APIVersion owner) ''cluster.x-k8s.io/'')
             (om_OwnerReferences am) of
        [] \<Rightarrow> [] | owner # _ \<Rightarrow> own_Name owner)"

text \<open>The Machine behind an Agent: the owner of the AgentMachine it is bound to, if that still exists.\<close>

definition agentMachineName :: "'w kube \<Rightarrow> VsphereAgentPool \<Rightarrow> AgentObj \<Rightarrow> ('w, string result) io" where
  "agentMachineName K pool obj =
     (let ref = mget (om_Labels (ao_Meta obj)) agentMachineRefKey;
          ns = mget (om_Annotations (ao_Meta obj)) ''agentMachineRefNamespace'';
          ns = (if ns = [] then ps_ControlPlaneNamespace (pool_Spec pool) else ns)
      in if ref = [] then ret (Inr [])
         else handle (kget (k_agentmachines K) EvAgentMachine Live (ns, ref))
                (\<lambda>e. ret (if IsNotFound e then Inr [] else Inl e))
                (\<lambda>am. ret (Inr (machineOwner (am_Meta am)))))"

definition agentInfoOf :: "AgentObj \<Rightarrow> string \<Rightarrow> AgentInfo" where
  "agentInfoOf obj machineName =
     (let labels = om_Labels (ao_Meta obj)
      in \<lparr>ag_Name = om_Name (ao_Meta obj),
          ag_Bound = (mget labels agentMachineRefKey \<noteq> [] \<or> ao_clusterDeploymentName obj \<noteq> []),
          ag_Deleting = (mget (om_Annotations (ao_Meta obj)) agentCleanupAnnotation \<noteq> []),
          ag_MachineName = machineName,
          ag_Approved = ao_approved obj,
          ag_SpecRole = ao_role obj,
          ag_RoleLabel = mget labels roleLabelKey,
          ag_PoolLabel = mget labels poolLabelKey,
          ag_SelectionLabel = mget labels agentMachineSelectionLabel,
          ag_Hostname = ao_hostname obj,
          ag_InventoryHostname = ao_inventoryHostname obj,
          ag_MAC = normalizeMAC (agentPrimaryMAC obj),
          ag_BIOSUUID = normalizeVMwareSerialUUID (ao_serialNumber obj)\<rparr>)"

definition agentMatchesPool :: "VsphereAgentPool \<Rightarrow> AgentObj \<Rightarrow> AgentInfo \<Rightarrow> bool" where
  "agentMatchesPool pool obj agent \<longleftrightarrow>
     (if agentAssociatedWithOwnedVM (pst_OwnedVMs (pool_Status pool)) agent then True
      else if \<not> agentBelongsToInfraEnv obj (lor_Name (ps_InfraEnvRef (pool_Spec pool)))
              \<or> (ao_clusterDeploymentName obj \<noteq> [] \<and>
                 ao_clusterDeploymentName obj \<noteq> lor_Name (ps_HostedClusterRef (pool_Spec pool)))
              \<or> \<not> agentMatchesPoolDiscriminator pool agent then False
      else list_all (\<lambda>(key, value). mget (om_Labels (ao_Meta obj)) key = value) (agentCandidateLabels pool))"

fun collectAgents ::
  "'w kube \<Rightarrow> VsphereAgentPool \<Rightarrow> OpenStackAgent list \<Rightarrow> AgentObj list \<Rightarrow> AgentInfo list \<Rightarrow> ('w, AgentInfo list result) io" where
  "collectAgents K pool osAgents [] agents = ret (Inr agents)"
| "collectAgents K pool osAgents (obj # objs) agents =
     (if openStackOwnsHost obj osAgents then collectAgents K pool osAgents objs agents
      else attempt (agentMachineName K pool obj) (\<lambda>machineName.
        let agent = agentInfoOf obj machineName
        in collectAgents K pool osAgents objs
             (if agentMatchesPool pool obj agent then agents @ [agent] else agents)))"

definition filterAgentsClaimedByOtherPools ::
  "'w kube \<Rightarrow> VsphereAgentPool \<Rightarrow> AgentInfo list \<Rightarrow> ('w, AgentInfo list result) io" where
  "filterAgentsClaimedByOtherPools K pool agents =
     (if agents = [] then ret (Inr agents)
      else attempt (klist (k_vagents K) EvVAgent Cached (InNamespace (om_Namespace (pool_Meta pool)))) (\<lambda>items.
        if items = [] then ret (Inr agents)
        else ret (Inr (filter (\<lambda>agent. \<not> agentClaimedByOtherPool agent pool items) agents))))"

definition listMatchingAgents :: "'w kube \<Rightarrow> VsphereAgentPool \<Rightarrow> ('w, AgentInfo list result) io" where
  "listMatchingAgents K pool =
     attempt (klist (k_agents K) EvAgent Cached (InNamespace (om_Namespace (pool_Meta pool)))) (\<lambda>objs.
     attempt (klist (k_osagents K) EvOsAgent Live (InNamespace (om_Namespace (pool_Meta pool)))) (\<lambda>osAgents.
     attempt (collectAgents K pool osAgents objs []) (\<lambda>agents.
     filterAgentsClaimedByOtherPools K pool agents)))"

section \<open>Patching an Agent\<close>

record agentPatchSafety =
  sf_UID :: string
  sf_ResourceVersion :: string
  sf_InstallationDiskID :: string

definition bindingLabels :: "AgentBindingSpec \<Rightarrow> string \<Rightarrow> strmap \<Rightarrow> strmap" where
  "bindingLabels binding hostname labels =
     (let labels = fold (\<lambda>(key, value) m.
              if key = roleLabelKey \<or> key = agentMachineSelectionLabel \<or> key = agentMachineRefKey then m
              else mput m key value) (ab_Labels binding) labels;
          labels = mput labels roleLabelKey (ab_Role binding)
      in mput labels agentMachineSelectionLabel hostname)"

definition patchedAgent :: "AgentBindingSpec \<Rightarrow> string \<Rightarrow> agentPatchSafety option \<Rightarrow> AgentObj \<Rightarrow> AgentObj" where
  "patchedAgent binding hostname checks agent =
     (let agent = agent\<lparr>ao_role := ab_Role binding, ao_hostname := hostname,
                        ao_Meta := (ao_Meta agent)\<lparr>om_Labels := bindingLabels binding hostname (om_Labels (ao_Meta agent))\<rparr>\<rparr>;
          agent = (case checks of None \<Rightarrow> agent | Some c \<Rightarrow> agent\<lparr>ao_installationDiskID := sf_InstallationDiskID c\<rparr>)
      in (case ab_Approve binding of Some False \<Rightarrow> agent | _ \<Rightarrow> agent\<lparr>ao_approved := True\<rparr>))"

definition patchDiscoveredAgent ::
  "'w kube \<Rightarrow> string \<Rightarrow> AgentBindingSpec \<Rightarrow> string \<Rightarrow> string \<Rightarrow> agentPatchSafety option \<Rightarrow> ('w, unit result) io" where
  "patchDiscoveredAgent K namespace binding name hostname checks =
     attempt (kget (k_agents K) EvAgent Live (namespace, name)) (\<lambda>agent.
       if (case checks of None \<Rightarrow> False
           | Some c \<Rightarrow> om_UID (ao_Meta agent) \<noteq> sf_UID c \<or> om_ResourceVersion (ao_Meta agent) \<noteq> sf_ResourceVersion c)
       then ret (Inl (ErrorText ''agent changed before approval''))
       else if mget (om_Annotations (ao_Meta agent)) agentCleanupAnnotation \<noteq> [] \<or> agentDeletionBlocker agent \<noteq> []
       then ret (Inr ())
       else if \<not> ao_nestedSpecOK agent then ret (Inl specNotMapError)
       else if hostname = [] then ret (Inl (ErrorText (''cannot patch Agent '' @ namespace @ ''/'' @ name
              @ '' without an owned VM hostname'')))
       else attempt (kpatch (k_agents K) EvAgent True agent (patchedAgent binding hostname checks agent)) (\<lambda>_. ret (Inr ())))"

section \<open>Carrying out the plan\<close>

definition patchAgent :: "'w kube \<Rightarrow> VsphereAgentPool \<Rightarrow> string \<Rightarrow> string \<Rightarrow> ('w, unit result) io" where
  "patchAgent K pool name hostname =
     patchDiscoveredAgent K (om_Namespace (pool_Meta pool)) (ps_Agent (pool_Spec pool)) name hostname None"

fun patchAgents ::
  "'w kube \<Rightarrow> strmap \<Rightarrow> AgentInfo list \<Rightarrow> VsphereAgentPool \<Rightarrow> ('w, VsphereAgentPool \<times> unit result) io" where
  "patchAgents K agentHostnames [] pool = ret (pool, Inr ())"
| "patchAgents K agentHostnames (agent # agents) pool =
     (let hostname = mget agentHostnames (ag_Name agent)
      in handle (patchAgent K pool (ag_Name agent) hostname)
           (\<lambda>e. ret (pool, Inl e))
           (\<lambda>_. if hostname \<noteq> []
                then do { now \<leftarrow> Now K;
                          patchAgents K agentHostnames agents
                            (pool\<lparr>pool_Status := (pool_Status pool)\<lparr>pst_OwnedVMs :=
                               markOwnedVMAvailable now pool (pst_OwnedVMs (pool_Status pool)) hostname (ag_Name agent)\<rparr>\<rparr>) }
                else patchAgents K agentHostnames agents pool))"

definition deleteIfPresent :: "'w kube \<Rightarrow> VsphereAgent \<Rightarrow> ('w, unit result) io" where
  "deleteIfPresent K agent =
     handle (kdelete (k_vagents K) EvVAgent None agent)
       (\<lambda>e. ret (if IsNotFound e then Inr () else Inl e)) (\<lambda>_. ret (Inr ()))"

definition vmOfVsphereAgent :: "OwnedVMStatus \<Rightarrow> VsphereAgent \<Rightarrow> bool" where
  "vmOfVsphereAgent vm agent \<longleftrightarrow>
     \<not> (vm_Name (vast_VM (va_Status agent)) \<noteq> vm_Name vm \<and> vsphereAgentVMName agent \<noteq> vm_Name vm
        \<and> om_Name (va_Meta agent) \<noteq> vm_Name vm)"

definition deleteVsphereAgentForVM :: "'w kube \<Rightarrow> VsphereAgentPool \<Rightarrow> OwnedVMStatus \<Rightarrow> ('w, unit result) io" where
  "deleteVsphereAgentForVM K pool vm =
     attempt (listVsphereAgentsForPool K pool) (\<lambda>items.
     for_each (\<lambda>agent. if \<not> vmOfVsphereAgent vm agent then ret (Inr ()) else deleteIfPresent K agent) items)"

abbreviation recordWarning :: "string \<Rightarrow> string \<Rightarrow> ('w, unit) io" where
  "recordWarning reason message \<equiv> recordEvent ''Warning'' reason message"

abbreviation recordNormal :: "string \<Rightarrow> string \<Rightarrow> ('w, unit) io" where
  "recordNormal reason message \<equiv> recordEvent ''Normal'' reason message"

definition deletePlannedVM :: "'w kube \<Rightarrow> VsphereAgentPool \<Rightarrow> OwnedVMStatus \<Rightarrow> ('w, unit result) io" where
  "deletePlannedVM K pool vm =
     handle (prepareVMDeletion K pool vm)
       (\<lambda>e. if \<not> IsSentinel errVMDeletionBlocked e then ret (Inl e)
            else do { recordNormal ''AgentDeleteDeferred'' (error_text e); ret (Inr ()) })
       (\<lambda>_. deleteVsphereAgentForVM K pool vm)"

definition applyPlan :: "'w kube \<Rightarrow> VsphereAgentPool \<Rightarrow> PoolPlan \<Rightarrow> ('w, VsphereAgentPool \<times> unit result) io" where
  "applyPlan K pool plan =
     do { (pool, r) \<leftarrow> patchAgents K (assignedAgentHostnames pool (pl_AgentsToPatch plan)) (pl_AgentsToPatch plan) pool;
          case r of
            Inl e \<Rightarrow> ret (pool, Inl e)
          | Inr _ \<Rightarrow> do { r \<leftarrow> for_each (deletePlannedVM K pool) (pl_VMsToDelete plan); ret (pool, r) } }"

section \<open>Status and conditions\<close>

definition conditionStatus :: "bool \<Rightarrow> string" where
  "conditionStatus value = (if value then ConditionTrue else ConditionFalse)"

definition setPoolCondition :: "golib \<Rightarrow> gotime \<Rightarrow> Condition \<Rightarrow> VsphereAgentPool \<Rightarrow> VsphereAgentPool" where
  "setPoolCondition L now c pool = pool\<lparr>pool_Status := (pool_Status pool)\<lparr>pst_Conditions :=
     gl_SetStatusCondition L now (pst_Conditions (pool_Status pool)) c\<rparr>\<rparr>"

definition isPoolReconcileCondition :: "string \<Rightarrow> bool" where
  "isPoolReconcileCondition conditionType \<longleftrightarrow> conditionType \<in> set [conditionReady, conditionAgentMachineDemand,
     conditionInfraEnvAvailable, conditionCapacitySatisfied, conditionVsphereReady]"

definition mergePoolReconcileConditions :: "golib \<Rightarrow> gotime \<Rightarrow> Condition list \<Rightarrow> Condition list \<Rightarrow> Condition list" where
  "mergePoolReconcileConditions L now cur desired =
     fold (\<lambda>c result. if isPoolReconcileCondition (co_Type c) then gl_SetStatusCondition L now result c else result)
       desired cur"

definition mergePoolReconcileStatus ::
  "golib \<Rightarrow> gotime \<Rightarrow> VsphereAgentPoolStatus \<Rightarrow> VsphereAgentPoolStatus \<Rightarrow> VsphereAgentPoolStatus" where
  "mergePoolReconcileStatus L now cur desired =
     cur\<lparr>pst_ObservedGeneration := pst_ObservedGeneration desired,
         pst_DesiredReplicas := pst_DesiredReplicas desired,
         pst_AgentMachines := pst_AgentMachines desired,
         pst_WaitingAgentMachines := pst_WaitingAgentMachines desired,
         pst_UnreadyAgentMachines := pst_UnreadyAgentMachines desired,
         pst_AgentMachinesWithoutAgent := pst_AgentMachinesWithoutAgent desired,
         pst_MatchingAgents := pst_MatchingAgents desired,
         pst_BoundAgents := pst_BoundAgents desired,
         pst_AvailableAgents := pst_AvailableAgents desired,
         pst_OwnedVMs := pst_OwnedVMs desired,
         pst_PlannedActions := pst_PlannedActions desired,
         pst_Conditions := mergePoolReconcileConditions L now (pst_Conditions cur) (pst_Conditions desired)\<rparr>"

definition desiredStatus :: "VsphereAgentPool \<Rightarrow> PoolPlan \<Rightarrow> VsphereAgentPoolStatus" where
  "desiredStatus pool plan = (pool_Status pool)\<lparr>pst_ObservedGeneration := om_Generation (pool_Meta pool),
     pst_DesiredReplicas := pl_DesiredReplicas plan, pst_AgentMachines := pl_AgentMachines plan,
     pst_WaitingAgentMachines := pl_WaitingAgentMachines plan, pst_UnreadyAgentMachines := pl_UnreadyAgentMachines plan,
     pst_AgentMachinesWithoutAgent := pl_AgentMachinesWithoutAgent plan, pst_MatchingAgents := pl_MatchingAgents plan,
     pst_BoundAgents := pl_BoundAgents plan, pst_AvailableAgents := pl_AvailableAgents plan,
     pst_PlannedActions := pl_Actions plan\<rparr>"

definition poolKey :: "VsphereAgentPool \<Rightarrow> objkey" where
  "poolKey pool = (om_Namespace (pool_Meta pool), om_Name (pool_Meta pool))"

definition capacityGauges :: "VsphereAgentPool \<Rightarrow> PoolPlan \<Rightarrow> (string \<times> int) list" where
  "capacityGauges pool plan =
     [(''desired'', sint (pl_DesiredReplicas plan)), (''agent_machines'', sint (pl_AgentMachines plan)),
      (''waiting_agent_machines'', sint (pl_WaitingAgentMachines plan)),
      (''unready_agent_machines'', sint (pl_UnreadyAgentMachines plan)),
      (''without_agent'', sint (pl_AgentMachinesWithoutAgent plan)),
      (''matching_agents'', sint (pl_MatchingAgents plan)), (''bound_agents'', sint (pl_BoundAgents plan)),
      (''available_agents'', sint (pl_AvailableAgents plan)), (''pending_owned_vms'', sint (pl_PendingOwnedVMs plan)),
      (''demand_deficit'', sint (pl_DemandDeficit plan)),
      (''vm_cpu_cores'', sint (vt_NumCPUs (ps_Template (pool_Spec pool)))),
      (''vm_memory_bytes'', sint (vt_MemoryMiB (ps_Template (pool_Spec pool))) * 1024 * 1024),
      (''vm_disk_bytes'', sint (vt_DiskGiB (ps_Template (pool_Spec pool))) * 1024 * 1024 * 1024)]"

definition recordPoolCapacityMetrics :: "VsphereAgentPool \<Rightarrow> PoolPlan \<Rightarrow> ('w, unit) io" where
  "recordPoolCapacityMetrics pool plan = emit (EvGauges (poolKey pool) (capacityGauges pool plan))"

definition deletePoolCapacityMetrics :: "VsphereAgentPool \<Rightarrow> ('w, unit) io" where
  "deletePoolCapacityMetrics pool = emit (EvGauges (poolKey pool) [])"

text \<open>One attempt of \<open>updateStatus\<close>: the status as it is on the server afterwards.\<close>

definition writeStatus ::
  "'w kube \<Rightarrow> golib \<Rightarrow> VsphereAgentPool \<Rightarrow> VsphereAgentPoolStatus \<Rightarrow> ('w, VsphereAgentPoolStatus result) io" where
  "writeStatus K L pool desired =
     attempt (kget (k_pools K) EvPool Live (poolKey pool)) (\<lambda>cur.
     do { now \<leftarrow> Now K;
          let nxt = mergePoolReconcileStatus L now (pool_Status cur) desired;
          if pool_Status cur = nxt then ret (Inr (pool_Status cur))
          else attempt (kstatus_update (k_pools K) EvPool (cur\<lparr>pool_Status := nxt\<rparr>)) (\<lambda>_. ret (Inr nxt)) })"

definition Pool_updateStatus ::
  "'w kube \<Rightarrow> golib \<Rightarrow> VsphereAgentPool \<Rightarrow> PoolPlan \<Rightarrow> ('w, VsphereAgentPool result) io" where
  "Pool_updateStatus K L pool plan =
     attempt (RetryOnConflict (gl_RetrySteps L) (writeStatus K L pool (desiredStatus pool plan))) (\<lambda>updated.
     do { let pool = pool\<lparr>pool_Status := updated\<rparr>;
          recordPoolCapacityMetrics pool plan;
          ret (Inr pool) })"

definition setStatusError ::
  "golib \<Rightarrow> gotime \<Rightarrow> string \<Rightarrow> string \<Rightarrow> VsphereAgentPool \<Rightarrow> ('w, VsphereAgentPool) io" where
  "setStatusError L now reason message pool =
     do { recordWarning reason message;
          ret (setPoolCondition L now
                 (mkCondition conditionReady ConditionFalse (om_Generation (pool_Meta pool)) reason message) pool) }"

definition summarizeActions :: "PlannedActionStatus list \<Rightarrow> string" where
  "summarizeActions actions =
     go_Join (map (\<lambda>a. if pa_Name a = [] then pa_Type a else pa_Type a @ ''/'' @ pa_Name a) actions) '', ''"

definition recordPlan :: "PoolPlan \<Rightarrow> string \<Rightarrow> ('w, unit) io" where
  "recordPlan plan reason =
     (if length (pl_Actions plan) = 1 \<and> pa_Type (hd (pl_Actions plan)) = actionNoop then ret ()
      else recordEvent ''Normal'' reason (''planned '' @ nat_str (length (pl_Actions plan)) @ '' action(s): ''
             @ summarizeActions (pl_Actions plan)))"

definition d_str :: "int32 \<Rightarrow> string" where
  "d_str w = int_str (sint w)"

definition setPlanConditions :: "golib \<Rightarrow> gotime \<Rightarrow> PoolPlan \<Rightarrow> string \<Rightarrow> VsphereAgentPool \<Rightarrow> VsphereAgentPool" where
  "setPlanConditions L now plan errMessage pool =
     (let gen = om_Generation (pool_Meta pool);
          capacityReason = (if pl_DemandDeficit plan \<noteq> 0 then ''Deficit'' else ''Satisfied'');
          vsphere = (if errMessage \<noteq> [] then (''Error'', errMessage)
                     else (''Ready'', ''vSphere bridge did not report an error''));
          ready = (if errMessage \<noteq> [] then (ConditionFalse, ''ApplyFailed'', errMessage)
                   else (ConditionTrue, ''Reconciled'', ''Agent capacity bridge reconciled successfully''));
          pool = setPoolCondition L now
            (mkCondition conditionReady (fst ready) gen (fst (snd ready)) (snd (snd ready))) pool;
          pool = setPoolCondition L now
            (mkCondition conditionAgentMachineDemand ConditionTrue gen ''Observed''
              (''agentMachines='' @ d_str (pl_AgentMachines plan) @ '' waitingForAgents='' @ d_str (pl_WaitingAgentMachines plan)
               @ '' unready='' @ d_str (pl_UnreadyAgentMachines plan) @ '' withoutAgent='' @ d_str (pl_AgentMachinesWithoutAgent plan))) pool;
          pool = setPoolCondition L now
            (mkCondition conditionInfraEnvAvailable ConditionTrue gen phaseAvailable ''InfraEnv has a discovery ISO URL'') pool;
          pool = setPoolCondition L now
            (mkCondition conditionCapacitySatisfied (conditionStatus (pl_DemandDeficit plan = 0)) gen capacityReason
              (''agentMachines='' @ d_str (pl_AgentMachines plan) @ '' waitingAgentMachines='' @ d_str (pl_WaitingAgentMachines plan)
               @ '' unreadyAgentMachines='' @ d_str (pl_UnreadyAgentMachines plan)
               @ '' agentMachinesWithoutAgent='' @ d_str (pl_AgentMachinesWithoutAgent plan)
               @ '' matchingAgents='' @ d_str (pl_MatchingAgents plan) @ '' pendingOwnedVMs='' @ d_str (pl_PendingOwnedVMs plan)
               @ '' boundAgents='' @ d_str (pl_BoundAgents plan) @ '' availableAgents='' @ d_str (pl_AvailableAgents plan))) pool
      in setPoolCondition L now
           (mkCondition conditionVsphereReady (conditionStatus (errMessage = [])) gen (fst vsphere) (snd vsphere)) pool)"

section \<open>The ISO status and the provider\<close>

definition writeISOStatus :: "'w kube \<Rightarrow> golib \<Rightarrow> VsphereAgentPool \<Rightarrow> ('w, unit result) io" where
  "writeISOStatus K L pool =
     attempt (kget (k_pools K) EvPool Live (poolKey pool)) (\<lambda>cur.
       if ic_CheckedAt (pst_ISO (pool_Status pool)) < ic_CheckedAt (pst_ISO (pool_Status cur)) then ret (Inr ())
       else do { now \<leftarrow> Now K;
                 let st = (pool_Status cur)\<lparr>pst_ISO := pst_ISO (pool_Status pool)\<rparr>;
                 let st = (case gl_FindStatusCondition L (pst_Conditions (pool_Status pool)) conditionISOReady of
                             None \<Rightarrow> st
                           | Some c \<Rightarrow> st\<lparr>pst_Conditions := gl_SetStatusCondition L now (pst_Conditions st) c\<rparr>);
                 if pool_Status cur = st then ret (Inr ())
                 else attempt (kstatus_update (k_pools K) EvPool (cur\<lparr>pool_Status := st\<rparr>)) (\<lambda>_. ret (Inr ())) })"

definition patchPoolISOStatus :: "'w kube \<Rightarrow> golib \<Rightarrow> VsphereAgentPool \<Rightarrow> ('w, unit result) io" where
  "patchPoolISOStatus K L pool = RetryOnConflict (gl_RetrySteps L) (writeISOStatus K L pool)"

text \<open>The factory of providers, a field of the reconciler, makes a provider from the credentials Secret.\<close>

type_synonym 'w provider_factory = "VsphereAgentPool \<Rightarrow> Secret \<Rightarrow> 'w VMProvider result"

definition VA_provider :: "'w kube \<Rightarrow> 'w provider_factory \<Rightarrow> VsphereAgentPool \<Rightarrow> ('w, 'w VMProvider result) io" where
  "VA_provider K F pool =
     (let ref = vp_CredentialsSecretRef (ps_VSphere (pool_Spec pool));
          ns = (if sr_Namespace ref = [] then om_Namespace (pool_Meta pool) else sr_Namespace ref)
      in attempt (kget (k_secrets K) EvSecret Live (ns, sr_Name ref)) (\<lambda>secret. ret (F pool secret)))"

section \<open>The reconciler\<close>

definition Pool_patchFinalizer :: "'w kube \<Rightarrow> golib \<Rightarrow> VsphereAgentPool \<Rightarrow> ('w, unit result) io" where
  "Pool_patchFinalizer K L pool =
     attempt (kget (k_pools K) EvPool Live (poolKey pool)) (\<lambda>cur.
     let meta = fst (if gl_ContainsFinalizer L (pool_Meta pool) finalizerName
                     then gl_AddFinalizer L (pool_Meta cur) finalizerName
                     else gl_RemoveFinalizer L (pool_Meta cur) finalizerName)
     in attempt (kpatch (k_pools K) EvPool False cur (cur\<lparr>pool_Meta := meta\<rparr>)) (\<lambda>_. ret (Inr ())))"

definition Pool_reconcileDelete :: "'w kube \<Rightarrow> golib \<Rightarrow> VsphereAgentPool \<Rightarrow> ('w, reconcile_result) io" where
  "Pool_reconcileDelete K L pool =
     handle (listVsphereAgentsForPool K pool) fail_result (\<lambda>agents.
       if agents \<noteq> [] then
         handle (for_each (\<lambda>agent. if om_DeletionTimestamp (va_Meta agent) \<noteq> None then ret (Inr ())
                                   else deleteIfPresent K agent) agents)
           fail_result (\<lambda>_. ok_result (10 * second))
       else
         do { let pool = pool\<lparr>pool_Meta := fst (gl_RemoveFinalizer L (pool_Meta pool) finalizerName)\<rparr>;
              deletePoolCapacityMetrics pool;
              r \<leftarrow> Pool_patchFinalizer K L pool;
              orResult 0 r })"

definition emptyPlan :: PoolPlan where
  "emptyPlan = \<lparr>pl_AgentMachines = 0, pl_WaitingAgentMachines = 0, pl_UnreadyAgentMachines = 0,
     pl_AgentMachinesWithoutAgent = 0, pl_DesiredReplicas = 0, pl_MatchingAgents = 0, pl_BoundAgents = 0,
     pl_AvailableAgents = 0, pl_PendingOwnedVMs = 0, pl_DemandDeficit = 0, pl_VMsToDelete = [], pl_AgentsToDelete = [],
     pl_AgentsToPatch = [], pl_Actions = []\<rparr>"

text \<open>The repeated error path: record the error, write the status, return the error.\<close>

definition failWithStatus ::
  "'w kube \<Rightarrow> golib \<Rightarrow> VsphereAgentPool \<Rightarrow> string \<Rightarrow> go_error \<Rightarrow> ('w, reconcile_result) io" where
  "failWithStatus K L pool reason e =
     do { now \<leftarrow> Now K;
          pool \<leftarrow> setStatusError L now reason (error_text e) pool;
          handle (Pool_updateStatus K L pool emptyPlan) fail_result (\<lambda>_. fail_result e) }"

definition reconcileUnavailable ::
  "'w kube \<Rightarrow> golib \<Rightarrow> VsphereAgentPool \<Rightarrow> string \<Rightarrow> ('w, reconcile_result) io" where
  "reconcileUnavailable K L pool message =
     do { now \<leftarrow> Now K;
          pool \<leftarrow> setStatusError L now reasonInfraEnvUnavailable message pool;
          let pool = setPoolCondition L now (mkCondition conditionInfraEnvAvailable ConditionFalse
                 (om_Generation (pool_Meta pool)) reasonInfraEnvUnavailable message) pool;
          handle (Pool_updateStatus K L pool emptyPlan) fail_result (\<lambda>_. ok_result (30 * second)) }"

definition refreshISOCache ::
  "'w kube \<Rightarrow> golib \<Rightarrow> 'w provider_factory \<Rightarrow> VsphereAgentPool \<Rightarrow> string \<Rightarrow> ('w, VsphereAgentPool result) io" where
  "refreshISOCache K L F pool isoURL =
     do { now \<leftarrow> Now K;
          if \<not> isoCacheDue pool isoURL (mget (om_Annotations (pool_Meta pool)) forceISORefreshAnnotation) now
          then ret (Inr pool)
          else do {
            (pool, err) \<leftarrow> handle (VA_provider K F pool) (\<lambda>e. ret (pool, Some e)) (\<lambda>provider.
                do { (pool, r) \<leftarrow> ensureISOCache K L provider pool isoURL;
                     ret (pool, case r of Inl e \<Rightarrow> Some e | Inr _ \<Rightarrow> None) });
            let pool = (case err of None \<Rightarrow> pool
                        | Some e \<Rightarrow> setPoolCondition L now (mkCondition conditionISOReady ConditionFalse
                            (om_Generation (pool_Meta pool)) ''ISORefreshFailed'' (stableErrorMessage e)) pool);
            attempt (patchPoolISOStatus K L pool) (\<lambda>_. ret (Inr pool)) } }"

text \<open>The second half of \<open>Reconcile\<close>: plan, apply, cache, report.\<close>

definition poolSnapshot :: "AgentMachineDemand \<Rightarrow> AgentInfo list \<Rightarrow> VsphereAgentPool \<Rightarrow> PoolSnapshot" where
  "poolSnapshot demand agents pool =
     \<lparr>sn_AgentMachines = de_Total demand, sn_WaitingAgentMachines = de_Waiting demand,
      sn_UnreadyAgentMachines = de_Unready demand, sn_AgentMachinesWithoutAgent = de_WithoutAgent demand,
      sn_MatchingAgents = agents, sn_OwnedVMs = pst_OwnedVMs (pool_Status pool)\<rparr>"

definition withOwnedVMs :: "VsphereAgentPool \<Rightarrow> OwnedVMStatus list \<Rightarrow> VsphereAgentPool" where
  "withOwnedVMs pool vms = pool\<lparr>pool_Status := (pool_Status pool)\<lparr>pst_OwnedVMs := vms\<rparr>\<rparr>"

definition reconcilePlan ::
  "'w kube \<Rightarrow> golib \<Rightarrow> 'w provider_factory \<Rightarrow> VsphereAgentPool \<Rightarrow> PoolPlan \<Rightarrow> string \<Rightarrow> ('w, reconcile_result) io" where
  "reconcilePlan K L F pool plan isoURL =
     do { (pool, r) \<leftarrow> applyPlan K pool plan;
          now \<leftarrow> Now K;
          case r of
            Inl e \<Rightarrow>
              do { let errMessage = stableErrorMessage e;
                   recordWarning ''ApplyPlanFailed'' errMessage;
                   handle (Pool_updateStatus K L (setPlanConditions L now plan errMessage pool) plan) fail_result
                     (\<lambda>_. ok_result (30 * second)) }
          | Inr _ \<Rightarrow>
              handle (refreshISOCache K L F pool isoURL) fail_result (\<lambda>pool.
              do { let plan = plan\<lparr>pl_PendingOwnedVMs := countPendingOwnedVMs (pst_OwnedVMs (pool_Status pool))\<rparr>;
                   recordPlan plan ''PlanApplied'';
                   handle (Pool_updateStatus K L (setPlanConditions L now plan [] pool) plan) fail_result
                     (\<lambda>_. ok_result (min minute (isoCheckInterval pool))) }) }"

definition reconcileLive ::
  "'w kube \<Rightarrow> golib \<Rightarrow> 'w provider_factory \<Rightarrow> VsphereAgentPool \<Rightarrow> string \<Rightarrow> ('w, reconcile_result) io" where
  "reconcileLive K L F pool isoURL =
     handle (listVsphereAgentVMs K pool) (failWithStatus K L pool ''VsphereAgentListFailed'') (\<lambda>ownedVMs.
     let pool = withOwnedVMs pool (mergeOwnedVMStatuses (pst_OwnedVMs (pool_Status pool)) ownedVMs)
     in handle (ensureAgentMachineSelectorsPinned K pool) (failWithStatus K L pool ''AgentMachinePatchFailed'') (\<lambda>_.
        handle (listMatchingAgents K pool) (failWithStatus K L pool ''AgentListFailed'') (\<lambda>agents.
        handle (listNodePoolMachines K pool) (failWithStatus K L pool ''MachineListFailed'') (\<lambda>machines.
        handle (countAgentMachineDemand K pool) (failWithStatus K L pool ''AgentMachineListFailed'') (\<lambda>demand.
        do { now \<leftarrow> Now K;
             let pool = withOwnedVMs pool (refreshOwnedVMStatuses now pool agents machines);
             reconcilePlan K L F pool (buildPlan now pool (poolSnapshot demand agents pool)) isoURL })))))"

definition Pool_Reconcile ::
  "'w kube \<Rightarrow> golib \<Rightarrow> 'w provider_factory \<Rightarrow> objkey \<Rightarrow> ('w, reconcile_result) io" where
  "Pool_Reconcile K L F req =
     handle (kget (k_pools K) EvPool Live req) ignore_not_found (\<lambda>pool.
     let pool = applySpecDefaults pool
     in if om_DeletionTimestamp (pool_Meta pool) \<noteq> None then Pool_reconcileDelete K L pool
        else case gl_AddFinalizer L (pool_Meta pool) finalizerName of (meta, added) \<Rightarrow>
          if added then do { r \<leftarrow> Pool_patchFinalizer K L (pool\<lparr>pool_Meta := meta\<rparr>); orResult 0 r }
          else do { (available, isoURL, message) \<leftarrow> infraEnvAvailable K L (pool\<lparr>pool_Meta := meta\<rparr>);
                    if \<not> available then reconcileUnavailable K L (pool\<lparr>pool_Meta := meta\<rparr>) message
                    else reconcileLive K L F (pool\<lparr>pool_Meta := meta\<rparr>) isoURL })"

section \<open>Specification vocabulary\<close>

text \<open>Documented laws of \<open>meta.SetStatusCondition\<close> and \<open>meta.FindStatusCondition\<close>.\<close>

definition condition_laws :: "golib \<Rightarrow> bool" where
  "condition_laws L \<longleftrightarrow>
     (\<forall>now cs c t. t \<noteq> co_Type c \<longrightarrow> gl_FindStatusCondition L (gl_SetStatusCondition L now cs c) t = gl_FindStatusCondition L cs t) \<and>
     (\<forall>now cs c. map_option (\<lambda>d. (co_Status d, co_Reason d, co_Message d))
         (gl_FindStatusCondition L (gl_SetStatusCondition L now cs c) (co_Type c))
       = Some (co_Status c, co_Reason c, co_Message c))"

abbreviation cond_view :: "golib \<Rightarrow> Condition list \<Rightarrow> string \<Rightarrow> (string \<times> string \<times> string) option" where
  "cond_view L cs t \<equiv> map_option (\<lambda>d. (co_Status d, co_Reason d, co_Message d)) (gl_FindStatusCondition L cs t)"

text \<open>
  An Agent that a pool may manage: it belongs to one of the pool's VMs, or it came from the pool's InfraEnv, is bound
  to no other cluster, and carries the pool's discriminator and candidate labels.
\<close>

definition manageable :: "VsphereAgentPool \<Rightarrow> AgentObj \<Rightarrow> AgentInfo \<Rightarrow> bool" where
  "manageable pool obj agent \<longleftrightarrow> agentAssociatedWithOwnedVM (pst_OwnedVMs (pool_Status pool)) agent
     \<or> agentBelongsToInfraEnv obj (lor_Name (ps_InfraEnvRef (pool_Spec pool)))
       \<and> ao_clusterDeploymentName obj \<in> {[], lor_Name (ps_HostedClusterRef (pool_Spec pool))}
       \<and> agentMatchesPoolDiscriminator pool agent
       \<and> (\<forall>(key, value) \<in> set (agentCandidateLabels pool). mget (om_Labels (ao_Meta obj)) key = value)"

lemma agentMatchesPool_manageable: "agentMatchesPool pool obj agent = manageable pool obj agent"
  by (auto simp: agentMatchesPool_def manageable_def list_all_iff)

definition candidate_agents :: "VsphereAgentPool \<Rightarrow> OpenStackAgent list \<Rightarrow> AgentObj list \<Rightarrow> AgentInfo set" where
  "candidate_agents pool workers objs = {a. \<exists>obj machine. obj \<in> set objs \<and> a = agentInfoOf obj machine
     \<and> \<not> openStackOwnsHost obj workers \<and> manageable pool obj a}"

text \<open>What was listed, and that the Agents found are among what it allows.\<close>

definition agents_ours :: "VsphereAgentPool \<Rightarrow> event list \<Rightarrow> AgentInfo list \<Rightarrow> bool" where
  "agents_ours pool tr agents \<longleftrightarrow> agents = [] \<or> (\<exists>objs workers vagents.
     EvAgent (ListAll Cached (InNamespace (om_Namespace (pool_Meta pool))) (Inr objs)) \<in> set tr \<and>
     EvOsAgent (ListAll Live (InNamespace (om_Namespace (pool_Meta pool))) (Inr workers)) \<in> set tr \<and>
     EvVAgent (ListAll Cached (InNamespace (om_Namespace (pool_Meta pool))) (Inr vagents)) \<in> set tr \<and>
     set agents \<subseteq> candidate_agents pool workers objs \<inter> {a. \<not> agentClaimedByOtherPool a pool vagents})"

definition found_ours :: "VsphereAgentPool \<Rightarrow> AgentInfo list result \<Rightarrow> event list \<Rightarrow> bool" where
  "found_ours pool r tr \<longleftrightarrow> (case r of Inl _ \<Rightarrow> True | Inr agents \<Rightarrow> agents_ours pool tr agents)"

section \<open>Lemmas\<close>

lemma mget_bindingLabels:
  assumes "distinct (map fst (ab_Labels binding))"
  shows "mget (bindingLabels binding hostname labels) k =
    (if k = agentMachineSelectionLabel then hostname else if k = roleLabelKey then ab_Role binding
     else if k = agentMachineRefKey then mget labels k
     else case map_of (ab_Labels binding) k of Some v \<Rightarrow> v | None \<Rightarrow> mget labels k)"
proof -
  have "mget (fold (\<lambda>(key, value) m. if key = roleLabelKey \<or> key = agentMachineSelectionLabel \<or> key = agentMachineRefKey
           then m else mput m key value) kvs m) k =
      (if k = roleLabelKey \<or> k = agentMachineSelectionLabel \<or> k = agentMachineRefKey then mget m k
       else case map_of kvs k of Some v \<Rightarrow> v | None \<Rightarrow> mget m k)" if "distinct (map fst kvs)" for kvs m
    using that
  proof (induction kvs arbitrary: m)
    case (Cons kv kvs)
    obtain key v where kv: "kv = (key, v)" by (cases kv)
    have "map_of kvs key = None" using Cons.prems kv by (auto simp: map_of_eq_None_iff)
    then show ?case using Cons kv by (auto split: option.splits)
  qed simp
  then show ?thesis using assms by (auto simp: bindingLabels_def Let_def split: option.split)
qed

text \<open>Patching a discovered Agent converges: whatever the Agent looked like, once patched it asks for no
  further patch of metadata or selection label, and patching neither binds nor unbinds it nor touches its
  annotations.\<close>

theorem patched_agent_converged:
  assumes "distinct (map fst (ab_Labels (ps_Agent (pool_Spec pool))))" and "hostname \<noteq> []"
  shows "let patched = patchedAgent (ps_Agent (pool_Spec pool)) hostname checks agent
    in \<not> agentNeedsPatch pool (agentInfoOf patched m) \<and> \<not> agentNeedsSelectionLabelPatch (agentInfoOf patched m) \<and>
       agentDeletionBlocker patched = agentDeletionBlocker agent \<and>
       om_Annotations (ao_Meta patched) = om_Annotations (ao_Meta agent)"
proof -
  define b where "b = ps_Agent (pool_Spec pool)"
  define patched where "patched = patchedAgent b hostname checks agent"
  have labels: "om_Labels (ao_Meta patched) = bindingLabels b hostname (om_Labels (ao_Meta agent))"
    and fields: "ao_role patched = ab_Role b" "ao_hostname patched = hostname"
      "ao_clusterDeploymentName patched = ao_clusterDeploymentName agent"
      "om_Annotations (ao_Meta patched) = om_Annotations (ao_Meta agent)"
    and approved: "ab_Approve b = Some False \<or> ao_approved patched"
    by (auto simp: patched_def patchedAgent_def Let_def split: option.split bool.split)
  have "ao_approved patched \<or> \<not> approveAgents pool" using approved by (auto simp: approveAgents_def b_def)
  then have "\<not> agentNeedsPatch pool (agentInfoOf patched m)"
    using assms by (auto simp: agentNeedsPatch_def agentInfoOf_def labels fields mget_bindingLabels b_def [symmetric] Let_def split: option.split)
  moreover have "\<not> agentNeedsSelectionLabelPatch (agentInfoOf patched m)"
    using assms by (simp add: agentNeedsSelectionLabelPatch_def agentInfoOf_def labels fields mget_bindingLabels b_def [symmetric])
  moreover have "agentDeletionBlocker patched = agentDeletionBlocker agent"
    using assms by (simp add: agentDeletionBlocker_def labels fields mget_bindingLabels b_def [symmetric])
  ultimately show ?thesis by (simp add: patched_def b_def fields(4) Let_def) (simp add: patched_def [symmetric] b_def [symmetric] fields)
qed

lemma merge_conditions_view:
  assumes "condition_laws L"
  shows "cond_view L (mergePoolReconcileConditions L now cur desired) t =
    (if isPoolReconcileCondition t
     then case find (\<lambda>c. co_Type c = t) (rev desired) of None \<Rightarrow> cond_view L cur t
          | Some c \<Rightarrow> Some (co_Status c, co_Reason c, co_Message c)
     else cond_view L cur t)"
proof (induction desired rule: rev_induct)
  case (snoc c cs)
  then show ?case
    using assms by (cases "co_Type c = t") (auto simp: mergePoolReconcileConditions_def condition_laws_def)
qed (simp add: mergePoolReconcileConditions_def)

lemma candidate_mono: "candidate_agents pool workers objs \<subseteq> candidate_agents pool workers (obj # objs)"
  by (auto simp: candidate_agents_def)

lemma candidate_here:
  "\<not> openStackOwnsHost obj workers \<Longrightarrow> agentMatchesPool pool obj (agentInfoOf obj m) \<Longrightarrow>
   agentInfoOf obj m \<in> candidate_agents pool workers (obj # objs)"
  by (auto simp: candidate_agents_def agentMatchesPool_manageable)

lemma hist_collectAgents_from:
  "hist (\<lambda>tr e. True) tr (collectAgents K pool workers objs acc) (\<lambda>r tr'. case r of Inl _ \<Rightarrow> True
     | Inr agents \<Rightarrow> set agents \<subseteq> set acc \<union> candidate_agents pool workers objs)"
proof (induction objs arbitrary: acc tr)
  case (Cons obj objs)
  let ?R = "\<lambda>r tr'. case r of Inl _ \<Rightarrow> True
     | Inr agents \<Rightarrow> set agents \<subseteq> set acc \<union> candidate_agents pool workers (obj # objs)"
  have name: "hist (\<lambda>tr e. True) tr (agentMachineName K pool obj) (\<lambda>r tr'. True)"
    unfolding agentMachineName_def kget_def Let_def by (auto intro!: hist_intros split: sum.split)
  have rest: "hist (\<lambda>tr e. True) tr (collectAgents K pool workers objs acc') ?R"
    if "set acc' \<subseteq> set acc \<union> candidate_agents pool workers (obj # objs)" for acc' tr
    by (rule hist_mono [OF Cons.IH]) (use that candidate_mono [of pool workers objs obj] in \<open>auto split: sum.splits\<close>)
  show ?case
    unfolding collectAgents.simps Let_def
    by (auto intro!: rest hist_attempt hist_mono [OF name] candidate_here split: sum.split)
qed (simp add: hist_ret)

lemma found_ours_simps [simp]: "found_ours pool (Inl e) tr" "found_ours pool (Inr agents) tr = agents_ours pool tr agents"
  by (simp_all add: found_ours_def)

text \<open>Merging a status (\<open>mergePoolReconcileStatus\<close>) into the one found on the server leaves the ISO
  status and every condition of a type the pool controller does not own as they are; an owned condition is
  the last one desired, or the present one if none is desired.\<close>

theorem status_merge_owned_only:
  assumes "condition_laws L"
  shows "pst_ISO (mergePoolReconcileStatus L now cur desired) = pst_ISO cur \<and>
    cond_view L (pst_Conditions (mergePoolReconcileStatus L now cur desired)) t =
      (if isPoolReconcileCondition t
       then case find (\<lambda>c. co_Type c = t) (rev (pst_Conditions desired)) of None \<Rightarrow> cond_view L (pst_Conditions cur) t
            | Some c \<Rightarrow> Some (co_Status c, co_Reason c, co_Message c)
       else cond_view L (pst_Conditions cur) t)"
  using merge_conditions_view [OF assms] by (simp add: mergePoolReconcileStatus_def)

lemma sampleLib_conditions: "condition_laws sampleLib"
  unfolding condition_laws_def
proof (intro conjI allI impI)
  fix now :: gotime and cs and c :: Condition and t
  assume t: "t \<noteq> co_Type c"
  have "find (\<lambda>c. co_Type c = t) (map (\<lambda>d. if co_Type d = co_Type c then c\<lparr>co_LastTransitionTime := f d\<rparr> else d) ds)
      = find (\<lambda>c. co_Type c = t) ds" for ds and f :: "Condition \<Rightarrow> gotime"
    using t by (induction ds) auto
  moreover have "find (\<lambda>c. co_Type c = t) (ds @ [c\<lparr>co_LastTransitionTime := now\<rparr>]) = find (\<lambda>c. co_Type c = t) ds" for ds
    using t by (induction ds) auto
  ultimately show "gl_FindStatusCondition sampleLib (gl_SetStatusCondition sampleLib now cs c) t
      = gl_FindStatusCondition sampleLib cs t"
    by (simp add: sampleLib_def)
next
  fix now :: gotime and cs and c :: Condition
  have here: "list_ex (\<lambda>d. co_Type d = co_Type c) ds \<Longrightarrow>
      cond_view sampleLib (map (\<lambda>d. if co_Type d = co_Type c then c\<lparr>co_LastTransitionTime := f d\<rparr> else d) ds) (co_Type c)
      = Some (co_Status c, co_Reason c, co_Message c)" for ds and f :: "Condition \<Rightarrow> gotime"
    by (induction ds) (auto simp: sampleLib_def)
  moreover have "\<not> list_ex (\<lambda>d. co_Type d = co_Type c) ds \<Longrightarrow>
      cond_view sampleLib (ds @ [c\<lparr>co_LastTransitionTime := now\<rparr>]) (co_Type c)
      = Some (co_Status c, co_Reason c, co_Message c)" for ds
    by (induction ds) (auto simp: sampleLib_def)
  ultimately show "cond_view sampleLib (gl_SetStatusCondition sampleLib now cs c) (co_Type c)
      = Some (co_Status c, co_Reason c, co_Message c)"
    by (simp add: sampleLib_def)
qed

lemma status_merge_owned_only_witness:
  "cond_view sampleLib (pst_Conditions (mergePoolReconcileStatus sampleLib 7
     (pool_Status samplePool\<lparr>pst_Conditions := [mkCondition conditionISOReady ConditionTrue 1 ''Reused'' []]\<rparr>)
     (pool_Status samplePool\<lparr>pst_Conditions := [mkCondition conditionISOReady ConditionFalse 1 ''Old'' []]\<rparr>)))
     conditionISOReady = Some (ConditionTrue, ''Reused'', [])"
proof -
  let ?cur = "pool_Status samplePool\<lparr>pst_Conditions := [mkCondition conditionISOReady ConditionTrue 1 ''Reused'' []]\<rparr>"
  have "\<not> isPoolReconcileCondition conditionISOReady" by code_simp
  moreover have "cond_view sampleLib (pst_Conditions ?cur) conditionISOReady = Some (ConditionTrue, ''Reused'', [])"
    by (simp add: sampleLib_def mkCondition_def)
  ultimately show ?thesis
    using status_merge_owned_only [OF sampleLib_conditions, of 7 ?cur _ conditionISOReady] by simp
qed

text \<open>C33: The Agents a pool works with (\<open>listMatchingAgents\<close>) are listed Agents of its namespace that match the
  pool, belong to no OpenStack worker and are claimed by no worker of another pool.\<close>

theorem pool_agents_are_ours:
  "hist (\<lambda>tr e. True) [] (listMatchingAgents K pool) (found_ours pool)"
proof -
  let ?ns = "InNamespace (om_Namespace (pool_Meta pool))"
  let ?R = "found_ours pool"
  have filtered: "hist (\<lambda>tr e. True) tr (filterAgentsClaimedByOtherPools K pool agents) ?R"
    if "EvAgent (ListAll Cached ?ns (Inr objs)) \<in> set tr" "EvOsAgent (ListAll Live ?ns (Inr workers)) \<in> set tr"
      "set agents \<subseteq> candidate_agents pool workers objs" for tr objs workers agents
  proof -
    have ours: "agents_ours pool (tr @ [EvVAgent (ListAll Cached ?ns (Inr vagents))])
        (filter (\<lambda>agent. \<not> agentClaimedByOtherPool agent pool vagents) agents)" for vagents
      unfolding agents_ours_def using that
      by (intro disjI2 exI [of _ objs] exI [of _ workers] exI [of _ vagents]) auto
    show ?thesis
      unfolding filterAgentsClaimedByOtherPools_def klist_def
      using ours [of "[]"] ours by (auto simp: agents_ours_def [of _ _ "[]"] split: sum.split intro!: hist_intros)
  qed
  have listed: "hist (\<lambda>tr e. True) (EvAgent (ListAll Cached ?ns (Inr objs)) # EvOsAgent (ListAll Live ?ns (Inr workers)) # n)
      (filterAgentsClaimedByOtherPools K pool agents) ?R"
    if "set agents \<subseteq> candidate_agents pool workers objs" for objs workers n agents
    by (rule filtered) (use that in auto)
  show ?thesis
    unfolding listMatchingAgents_def klist_def
    by (auto split: sum.split intro!: hist_attempt hist_ask hist_mono [OF hist_collectAgents_from] listed) blast
qed

lemma sint_count_if: "length xs < 2147483648 \<Longrightarrow> sint (count_if p xs) = int (length (filter p xs))"
  unfolding count_if_eq by (rule sint_of_nat_small) (use length_filter_le [of p xs] in linarith)

text \<open>The 32-bit demand counters (\<open>countAgentMachineDemand\<close>) are the true numbers of live AgentMachines
  of the pool: all, those waiting for an Agent, those not ready, and those not ready without an Agent.\<close>

theorem demand_counts_exact:
  assumes "length items < 2147483648"
  shows "let d = demandOf pool items;
             ours = filter (\<lambda>am. om_DeletionTimestamp (am_Meta am) = None \<and> controlPlaneObjectMatchesPool (am_Meta am) pool) items
    in sint (de_Total d) = int (length ours) \<and>
       sint (de_Waiting d) = int (length (filter agentMachineWaitingForAgent ours)) \<and>
       sint (de_Unready d) = int (length (filter (\<lambda>am. \<not> agentMachineReady am) ours)) \<and>
       sint (de_WithoutAgent d) =
         int (length (filter (\<lambda>am. \<not> agentMachineReady am \<and> \<not> agentMachineHasAssignedAgent am) ours))"
proof -
  define ours where "ours = filter (\<lambda>am. om_DeletionTimestamp (am_Meta am) = None \<and> controlPlaneObjectMatchesPool (am_Meta am) pool) items"
  have "length ours < 2147483648" unfolding ours_def using length_filter_le assms by (rule le_less_trans)
  note exact = sint_count_if [OF this]
  show ?thesis
    unfolding demandOf_def Let_def ours_def [symmetric] AgentMachineDemand.simps exact by simp
qed

end
