(* ===== verification/PoolSafety.thy ===== *)
theory PoolSafety
  imports VspherePool
begin

text \<open>
  What the \<open>VsphereAgentPool\<close> controller of theory \<open>VspherePool\<close> may do: specifications of single calls given
  the history of the calls before them, and the proof that every call of a reconciliation satisfies them.
\<close>

section \<open>Specification vocabulary\<close>

text \<open>
  \<open>planned_removal\<close>: the worker object is the pool's, stands for this VM, the VM's Machine is gone and its
  Agents are out of service. \<open>safe_binding\<close>: the patch of a discovered, unbound Agent as it was just read.
\<close>

definition planned_removal :: "VsphereAgentPool \<Rightarrow> OwnedVMStatus \<Rightarrow> VsphereAgent \<Rightarrow> event list \<Rightarrow> bool" where
  "planned_removal pool vm va tr \<longleftrightarrow>
     vsphereAgentBelongsToPool va (om_Name (pool_Meta pool)) \<and> vmOfVsphereAgent vm va
     \<and> machine_gone pool vm tr \<and> all_agents pool vm (was_quarantined vm) tr"

definition safe_binding :: "AgentBindingSpec \<Rightarrow> agentPatchSafety option \<Rightarrow> event list \<Rightarrow> AgentObj \<Rightarrow> AgentObj \<Rightarrow> bool" where
  "safe_binding binding checks tr before after \<longleftrightarrow>
     unbound_agent before \<and> mget (om_Annotations (ao_Meta before)) agentCleanupAnnotation = []
     \<and> (\<exists>k. EvAgent (Get Live k (Inr before)) \<in> set tr)
     \<and> (\<exists>hostname. hostname \<noteq> [] \<and> after = patchedAgent binding hostname checks before)"

fun plan_event :: "VsphereAgentPool \<Rightarrow> PoolPlan \<Rightarrow> event list \<Rightarrow> event \<Rightarrow> bool" where
  "plan_event pool plan tr (EvAgent (Patch lock before after r)) \<longleftrightarrow>
     lock \<and> (safe_binding (ps_Agent (pool_Spec pool)) None tr before after
       \<or> (\<exists>vm \<in> set (pl_VMsToDelete plan). safe_quarantine vm (EvAgent (Patch lock before after r))))"
| "plan_event pool plan tr (EvVAgent (Delete pre va r)) \<longleftrightarrow>
     (\<exists>vm \<in> set (pl_VMsToDelete plan). planned_removal pool vm va tr)"
| "plan_event pool plan tr (EvAgent ev) \<longleftrightarrow> is_read ev"
| "plan_event pool plan tr (EvVAgent ev) \<longleftrightarrow> is_read ev"
| "plan_event pool plan tr (EvMachine ev) \<longleftrightarrow> is_read ev"
| "plan_event pool plan tr (EvRecord ty reason msg) \<longleftrightarrow> True"
| "plan_event pool plan tr (EvClock t) \<longleftrightarrow> True"
| "plan_event pool plan tr _ \<longleftrightarrow> False"

text \<open>Documented laws of \<open>controllerutil\<close>'s finalizer functions.\<close>

definition finalizer_laws :: "golib \<Rightarrow> bool" where
  "finalizer_laws L \<longleftrightarrow>
     (\<forall>m f. gl_ContainsFinalizer L (fst (gl_AddFinalizer L m f)) f) \<and>
     (\<forall>m f. \<not> snd (gl_AddFinalizer L m f) \<longrightarrow> fst (gl_AddFinalizer L m f) = m)"

text \<open>The pool was read while being deleted, and no worker of it was listed.\<close>

definition pool_drained :: "event list \<Rightarrow> bool" where
  "pool_drained tr \<longleftrightarrow> (\<exists>k pool items. EvPool (Get Live k (Inr pool)) \<in> set tr
     \<and> om_DeletionTimestamp (pool_Meta pool) \<noteq> None
     \<and> EvVAgent (ListAll Cached (InNamespace (om_Namespace (pool_Meta pool))) (Inr items)) \<in> set tr
     \<and> filter (\<lambda>a. vsphereAgentBelongsToPool a (om_Name (pool_Meta pool))) items = [])"

text \<open>What a status write may change of the status it replaces.\<close>

definition status_write_ok :: "VsphereAgentPool \<Rightarrow> VsphereAgentPool \<Rightarrow> bool" where
  "status_write_ok cur obj \<longleftrightarrow> pool_Meta obj = pool_Meta cur \<and> pool_Spec obj = pool_Spec cur \<and>
     (pst_ISO (pool_Status obj) = pst_ISO (pool_Status cur) \<or>
      ic_CheckedAt (pst_ISO (pool_Status cur)) \<le> ic_CheckedAt (pst_ISO (pool_Status obj)) \<and>
      pst_OwnedVMs (pool_Status obj) = pst_OwnedVMs (pool_Status cur) \<and>
      pst_PlannedActions (pool_Status obj) = pst_PlannedActions (pool_Status cur))"

text \<open>Why a \<open>VsphereAgent\<close> may be deleted: its pool is being deleted, or its VM was planned for deletion.\<close>

definition removal_justified :: "event list \<Rightarrow> VsphereAgent \<Rightarrow> bool" where
  "removal_justified tr va \<longleftrightarrow>
     (\<exists>k pool. EvPool (Get Live k (Inr pool)) \<in> set tr \<and> vsphereAgentBelongsToPool va (om_Name (pool_Meta pool)) \<and>
       (om_DeletionTimestamp (pool_Meta pool) \<noteq> None \<or>
        cleanupEnabled (applySpecDefaults pool) \<and>
        (\<exists>vm. vm_Name vm \<noteq> [] \<and> vm_Source vm \<noteq> vmSourceDiscoveredAgent \<and>
          planned_removal (applySpecDefaults pool) vm va tr)))"

definition status_written :: "event list \<Rightarrow> VsphereAgentPool \<Rightarrow> bool" where
  "status_written tr obj \<longleftrightarrow> (\<exists>k cur. EvPool (Get Live k (Inr cur)) \<in> set tr \<and> status_write_ok cur obj)"

definition agent_write_ok :: "event list \<Rightarrow> AgentObj \<Rightarrow> AgentObj \<Rightarrow> bool" where
  "agent_write_ok tr before after \<longleftrightarrow> unbound_agent before \<and>
     ((\<exists>binding. safe_binding binding None tr before after) \<or>
      (\<exists>vm. vmHasAgent vm before \<and> vm_Name vm \<noteq> [] \<and> vm_Source vm \<noteq> vmSourceDiscoveredAgent \<and>
         after = quarantinedAgent vm before \<and> withdrawn_for (vm_Name vm) after))"

fun pool_event :: "golib \<Rightarrow> event list \<Rightarrow> event \<Rightarrow> bool" where
  "pool_event L tr (EvAgent (Patch lock before after r)) \<longleftrightarrow> lock \<and> agent_write_ok tr before after"
| "pool_event L tr (EvVAgent (Delete pre va r)) \<longleftrightarrow> removal_justified tr va"
| "pool_event L tr (EvPool (Patch lock before after r)) \<longleftrightarrow>
     pool_Spec after = pool_Spec before \<and> pool_Status after = pool_Status before \<and>
     (gl_ContainsFinalizer L (pool_Meta after) finalizerName \<or> pool_drained tr)"
| "pool_event L tr (EvPool (StatusUpdate obj r)) \<longleftrightarrow> status_written tr obj"
| "pool_event L tr (EvAgentMachine (Patch lock before after r)) \<longleftrightarrow> am_claim after = am_claim before"
| "pool_event L tr (EvProvider (EnsureISO url r)) \<longleftrightarrow> True"
| "pool_event L tr (EvProvider (DeleteISO path r)) \<longleftrightarrow> True"
| "pool_event L tr (EvProvider pe) \<longleftrightarrow> False"
| "pool_event L tr (EvAgent ev) \<longleftrightarrow> is_read ev"
| "pool_event L tr (EvVAgent ev) \<longleftrightarrow> is_read ev"
| "pool_event L tr (EvPool ev) \<longleftrightarrow> is_read ev"
| "pool_event L tr (EvAgentMachine ev) \<longleftrightarrow> is_read ev"
| "pool_event L tr (EvMachine ev) \<longleftrightarrow> is_read ev"
| "pool_event L tr (EvInfraEnv ev) \<longleftrightarrow> is_read ev"
| "pool_event L tr (EvSecret ev) \<longleftrightarrow> is_read ev"
| "pool_event L tr (EvOsAgent ev) \<longleftrightarrow> is_read ev"
| "pool_event L tr (EvRecord ty reason msg) \<longleftrightarrow> True"
| "pool_event L tr (EvMetric c a b) \<longleftrightarrow> True"
| "pool_event L tr (EvGauges k g) \<longleftrightarrow> True"
| "pool_event L tr (EvClock t) \<longleftrightarrow> True"
| "pool_event L tr _ \<longleftrightarrow> False"

section \<open>Lemmas\<close>

lemma machine_gone_cong: "pool_Spec p = pool_Spec q \<Longrightarrow> machine_gone p vm tr = machine_gone q vm tr"
  by (simp add: machine_gone_def machineKey_def split: option.split)

lemma all_agents_cong: "pool_Meta p = pool_Meta q \<Longrightarrow> all_agents p vm Q tr = all_agents q vm Q tr"
  by (simp add: all_agents_def)

lemma planned_removal_append: "planned_removal pool vm va tr \<Longrightarrow> planned_removal pool vm va (tr @ n)"
  by (auto simp: planned_removal_def machine_gone_mono all_agents_def list_all_iff was_mono)


lemma machine_gone_prepend: "machine_gone pool vm tr \<Longrightarrow> machine_gone pool vm (tr2 @ tr)"
  by (auto simp: machine_gone_def split: option.splits)

lemma all_agents_prepend: "all_agents pool vm (was_quarantined vm) tr \<Longrightarrow> all_agents pool vm (was_quarantined vm) (tr2 @ tr)"
  by (auto simp: all_agents_def list_all_iff was_mono)

lemma hist_patchDiscoveredAgent:
  assumes rd: "\<And>n e. is_read e \<Longrightarrow> P (tr @ n) (EvAgent e)"
    and pt: "\<And>n b a r. safe_binding binding checks (tr @ n) b a \<Longrightarrow> P (tr @ n) (EvAgent (Patch True b a r))"
  shows "hist P tr (patchDiscoveredAgent K ns binding name hostname checks) (\<lambda>r tr'. True)"
proof -
  have "P (tr @ [EvAgent (Get Live (ns, name) (Inr b))]) (EvAgent (Patch True b (patchedAgent binding hostname checks b) r))"
    if "unbound_agent b" "mget (om_Annotations (ao_Meta b)) agentCleanupAnnotation = []" "hostname \<noteq> []" for b r
    by (rule pt) (use that in \<open>auto simp: safe_binding_def\<close>)
  then show ?thesis
    unfolding patchDiscoveredAgent_def kget_def kpatch_def
    using rd [of "Get Live (ns, name) _" "[]"] by (auto intro!: hist_intros split: sum.split)
qed

lemma hist_patchAgents:
  "pool_Spec p = pool_Spec pool \<Longrightarrow> pool_Meta p = pool_Meta pool \<Longrightarrow>
   hist (plan_event pool plan) tr (patchAgents K hostnames agents p)
     (\<lambda>(p', r) tr'. pool_Meta p' = pool_Meta pool \<and> pool_Spec p' = pool_Spec pool)"
proof (induction agents arbitrary: p tr)
  case Nil
  then show ?case by (simp add: hist_ret)
next
  case (Cons a agents)
  have patch: "hist (plan_event pool plan) tr (patchAgent K p name hostname) (\<lambda>r tr'. True)" for name hostname
    unfolding patchAgent_def
    by (rule hist_patchDiscoveredAgent) (use Cons.prems in \<open>auto elim!: is_read.elims\<close>)
  show ?case
    unfolding patchAgents.simps Let_def Now_def
    by (rule hist_handle, rule hist_mono [OF patch])
      (use Cons.prems in \<open>auto split: sum.split intro!: hist_intros Cons.IH\<close>)
qed

lemma hist_deleteIfPresent:
  assumes "\<And>r. P tr (EvVAgent (Delete None va r))"
  shows "hist P tr (deleteIfPresent K va) (\<lambda>r tr'. True)"
  unfolding deleteIfPresent_def kdelete_def
  by (auto intro!: hist_intros assms split: sum.split)

lemma hist_listVsphereAgents:
  assumes "\<And>r. P tr (EvVAgent (ListAll Cached (InNamespace (om_Namespace (pool_Meta p))) r))"
  shows "hist P tr (listVsphereAgentsForPool K p) (\<lambda>r tr'. case r of Inl _ \<Rightarrow> True
    | Inr agents \<Rightarrow> \<exists>items. EvVAgent (ListAll Cached (InNamespace (om_Namespace (pool_Meta p))) (Inr items)) \<in> set tr'
        \<and> agents = filter (\<lambda>a. vsphereAgentBelongsToPool a (om_Name (pool_Meta p))) items)"
  unfolding listVsphereAgentsForPool_def klist_def
  using assms by (auto intro!: hist_intros split: sum.split) blast

text \<open>Once the Agents of a VM are out of service, its \<open>VsphereAgent\<close> may go.\<close>

lemma hist_deleteVsphereAgentForVM:
  assumes same: "pool_Meta p = pool_Meta pool" and vm: "vm \<in> set (pl_VMsToDelete plan)"
    and gone: "machine_gone pool vm tr" "all_agents pool vm (was_quarantined vm) tr"
  shows "hist (plan_event pool plan) tr (deleteVsphereAgentForVM K p vm) (\<lambda>r tr'. True)"
proof -
  have ok: "plan_event pool plan (tr @ n) (EvVAgent (Delete None va r))"
    if "vsphereAgentBelongsToPool va (om_Name (pool_Meta pool))" "vmOfVsphereAgent vm va" for n va r
  proof -
    have "planned_removal pool vm va tr" using that gone by (simp add: planned_removal_def)
    then show ?thesis using vm planned_removal_append by (auto intro!: bexI [of _ vm])
  qed
  have step: "hist (plan_event pool plan) (tr @ n) (if \<not> vmOfVsphereAgent vm va then ret (Inr ()) else deleteIfPresent K va) (\<lambda>r tr'. True)"
    if "vsphereAgentBelongsToPool va (om_Name (pool_Meta pool))" for va n
    using that by (auto intro!: hist_ret hist_deleteIfPresent ok simp del: plan_event.simps)
  show ?thesis
    unfolding deleteVsphereAgentForVM_def
  proof (rule hist_attempt, rule hist_mono [OF hist_listVsphereAgents], simp)
    fix r n
    assume r: "case r of Inl _ \<Rightarrow> True | Inr agents \<Rightarrow>
      \<exists>items. EvVAgent (ListAll Cached (InNamespace (om_Namespace (pool_Meta p))) (Inr items)) \<in> set (tr @ n)
        \<and> agents = filter (\<lambda>a. vsphereAgentBelongsToPool a (om_Name (pool_Meta p))) items"
    have loop: "hist (plan_event pool plan) (tr @ n) (for_each (\<lambda>agent. if \<not> vmOfVsphereAgent vm agent then ret (Inr ())
        else deleteIfPresent K agent) items) (\<lambda>r tr'. True)"
      if "\<And>a. a \<in> set items \<Longrightarrow> vsphereAgentBelongsToPool a (om_Name (pool_Meta pool))" for items
      by (rule hist_for_each) (use that step in auto)
    show "case r of Inl e \<Rightarrow> True | Inr x \<Rightarrow> hist (plan_event pool plan) (tr @ n)
        (for_each (\<lambda>agent. if \<not> vmOfVsphereAgent vm agent then ret (Inr ()) else deleteIfPresent K agent) x) (\<lambda>r tr'. True)"
      using r same by (auto split: sum.splits intro!: loop)
  qed
qed

lemma hist_deletePlannedVM:
  assumes same: "pool_Meta p = pool_Meta pool" "pool_Spec p = pool_Spec pool" and vm: "vm \<in> set (pl_VMsToDelete plan)"
  shows "hist (plan_event pool plan) tr (deletePlannedVM K p vm) (\<lambda>r tr'. True)"
proof -
  have safe: "safe_quarantine vm e \<Longrightarrow> plan_event pool plan n e" for n e
    by (cases "(vm, e)" rule: safe_quarantine.cases) (use vm in \<open>auto intro!: bexI [of _ vm]\<close>)
  have prep: "hist (plan_event pool plan) tr (prepareVMDeletion K p vm)
     (\<lambda>r tr'. case r of Inl _ \<Rightarrow> True | Inr _ \<Rightarrow> machine_gone pool vm tr' \<and> all_agents pool vm (was_quarantined vm) tr')"
  proof (rule hist_yields [OF yields_prepareVMDeletion safe])
    fix r and n :: "event list"
    assume "case r of Inl _ \<Rightarrow> True | Inr (_ :: unit) \<Rightarrow> machine_gone p vm n \<and> all_agents p vm (was_quarantined vm) n"
    then show "case r of Inl _ \<Rightarrow> True | Inr _ \<Rightarrow> machine_gone pool vm (tr @ n) \<and> all_agents pool vm (was_quarantined vm) (tr @ n)"
      using machine_gone_cong [OF same(2)] all_agents_cong [OF same(1)] machine_gone_prepend all_agents_prepend
      by (auto split: sum.splits)
  qed
  show ?thesis
    unfolding deletePlannedVM_def
    by (rule hist_handle, rule hist_mono [OF prep])
      (use same vm in \<open>auto split: sum.splits intro!: hist_intros hist_deleteVsphereAgentForVM\<close>)
qed

lemma hist_applyPlan: "hist (plan_event pool plan) tr (applyPlan K pool plan) (\<lambda>(p, r) tr'.
    pool_Meta p = pool_Meta pool \<and> pool_Spec p = pool_Spec pool)"
  unfolding applyPlan_def
  by (rule hist_bind, rule hist_mono [OF hist_patchAgents])
    (auto split: sum.split intro!: hist_intros hist_mono [OF hist_for_each] hist_deletePlannedVM)


lemma merge_status_ISO [simp]: "pst_ISO (mergePoolReconcileStatus L now cur desired) = pst_ISO cur"
  by (simp add: mergePoolReconcileStatus_def)

lemma status_written_read:
  "status_write_ok cur obj \<Longrightarrow> status_written (tr @ [EvPool (Get Live k (Inr cur)), e]) obj"
  unfolding status_written_def by (intro exI [of _ k] exI [of _ cur]) simp

lemma hist_writeStatus: "hist (pool_event L) tr (writeStatus K L pool desired) (\<lambda>r tr'. True)"
  unfolding writeStatus_def kget_def kstatus_update_def Now_def
  by (auto simp: status_write_ok_def Let_def split: sum.split
      intro!: hist_intros status_written_read)

lemma hist_RetryOnConflict:
  "(\<And>tr. hist P tr m (\<lambda>r tr'. True)) \<Longrightarrow> hist P tr (RetryOnConflict n m) (\<lambda>r tr'. True)"
proof (induction n arbitrary: tr)
  case (Suc n)
  show ?case
    unfolding RetryOnConflict.simps
    by (rule hist_bind, rule hist_mono [OF Suc.prems]) (use Suc in \<open>auto split: sum.split intro!: hist_ret\<close>)
qed simp

lemma hist_updateStatus: "hist (pool_event L) tr (Pool_updateStatus K L pool plan) (\<lambda>r tr'. True)"
  unfolding Pool_updateStatus_def recordPoolCapacityMetrics_def
  by (rule hist_attempt, rule hist_mono [OF hist_RetryOnConflict [OF hist_writeStatus]])
    (auto simp: Let_def split: sum.split intro!: hist_intros)

lemma hist_writeISOStatus: "hist (pool_event L) tr (writeISOStatus K L pool) (\<lambda>r tr'. True)"
  unfolding writeISOStatus_def kget_def kstatus_update_def Now_def
  by (auto simp: status_write_ok_def Let_def split: sum.split option.split
      intro!: hist_intros status_written_read)

lemma hist_patchFinalizer:
  assumes "finalizer_laws L" "gl_ContainsFinalizer L (pool_Meta pool) finalizerName \<or> pool_drained tr"
  shows "hist (pool_event L) tr (Pool_patchFinalizer K L pool) (\<lambda>r tr'. True)"
proof -
  have "pool_drained tr \<Longrightarrow> pool_drained (tr @ n)" for n
    unfolding pool_drained_def by auto
  then show ?thesis
  unfolding Pool_patchFinalizer_def kget_def kpatch_def
  using assms by (auto simp: finalizer_laws_def Let_def split: sum.split intro!: hist_intros)
qed


lemma pool_drained_append: "pool_drained tr \<Longrightarrow> pool_drained (tr @ n)"
  unfolding pool_drained_def by auto

lemma hist_reconcileDelete:
  assumes "finalizer_laws L" and seen: "EvPool (Get Live k (Inr pool0)) \<in> set tr"
    "om_DeletionTimestamp (pool_Meta pool0) \<noteq> None" and same: "pool_Meta pool = pool_Meta pool0"
  shows "hist (pool_event L) tr (Pool_reconcileDelete K L pool) (\<lambda>r tr'. True)"
proof -
  let ?step = "\<lambda>agent. if om_DeletionTimestamp (va_Meta agent) \<noteq> None then ret (Inr ()) else deleteIfPresent K agent"
  have just: "removal_justified (tr @ n) va" if "vsphereAgentBelongsToPool va (om_Name (pool_Meta pool))" for va n
    unfolding removal_justified_def using seen same that by (intro exI [of _ k] exI [of _ pool0]) auto
  have loop: "hist (pool_event L) (tr @ n) (for_each ?step agents) (\<lambda>r tr'. True)"
    if "\<And>a. a \<in> set agents \<Longrightarrow> vsphereAgentBelongsToPool a (om_Name (pool_Meta pool))" for agents n
    by (rule hist_for_each) (use that just in \<open>auto intro!: hist_ret hist_deleteIfPresent\<close>)
  have work: "hist (pool_event L) (tr @ n) (handle (for_each ?step agents) fail_result (\<lambda>_. ok_result (10 * second))) (\<lambda>r tr'. True)"
    if "\<And>a. a \<in> set agents \<Longrightarrow> vsphereAgentBelongsToPool a (om_Name (pool_Meta pool))" for agents n
    unfolding fail_result_def ok_result_def
    by (rule hist_handle, rule hist_mono [OF loop]) (use that in \<open>auto split: sum.split intro!: hist_ret\<close>)
  have finish: "hist (pool_event L) (tr @ n) (do { deletePoolCapacityMetrics p; r \<leftarrow> Pool_patchFinalizer K L p; orResult 0 r }) (\<lambda>r tr'. True)"
    if "EvVAgent (ListAll Cached (InNamespace (om_Namespace (pool_Meta pool))) (Inr items)) \<in> set (tr @ n)"
      "filter (\<lambda>a. vsphereAgentBelongsToPool a (om_Name (pool_Meta pool))) items = []" for items n p
  proof -
    have "pool_drained (tr @ n)"
      unfolding pool_drained_def using seen same that
      by (intro exI [of _ k] exI [of _ pool0] exI [of _ items]) auto
    then have "pool_drained (tr @ n @ m)" for m using pool_drained_append [of "tr @ n"] by simp
    then have fin: "hist (pool_event L) (tr @ n @ m) (Pool_patchFinalizer K L p) (\<lambda>r tr'. True)" for m
      using assms(1) by (intro hist_patchFinalizer) simp_all
    show ?thesis
      unfolding deletePoolCapacityMetrics_def orResult_def
      by (auto intro!: hist_bind hist_emit hist_ret hist_mono [OF fin])
  qed
  show ?thesis
    unfolding Pool_reconcileDelete_def
  proof (rule hist_handle, rule hist_mono [OF hist_listVsphereAgents], simp)
    fix r :: "VsphereAgent list result" and n
    assume r: "case r of Inl _ \<Rightarrow> True | Inr agents \<Rightarrow>
      \<exists>items. EvVAgent (ListAll Cached (InNamespace (om_Namespace (pool_Meta pool))) (Inr items)) \<in> set (tr @ n)
        \<and> agents = filter (\<lambda>a. vsphereAgentBelongsToPool a (om_Name (pool_Meta pool))) items"
    show "case r of Inl e \<Rightarrow> hist (pool_event L) (tr @ n) (fail_result e) (\<lambda>r tr'. True)
      | Inr agents \<Rightarrow> hist (pool_event L) (tr @ n) (if agents \<noteq> [] then
           handle (for_each ?step agents) fail_result (\<lambda>_. ok_result (10 * second))
         else do { let pool = pool\<lparr>pool_Meta := fst (gl_RemoveFinalizer L (pool_Meta pool) finalizerName)\<rparr>;
              deletePoolCapacityMetrics pool; r \<leftarrow> Pool_patchFinalizer K L pool; orResult 0 r }) (\<lambda>r tr'. True)"
    proof (cases r)
      case (Inl e)
      then show ?thesis by (simp add: fail_result_def hist_ret)
    next
      case (Inr agents)
      with r obtain items where items: "EvVAgent (ListAll Cached (InNamespace (om_Namespace (pool_Meta pool))) (Inr items)) \<in> set (tr @ n)"
        "agents = filter (\<lambda>a. vsphereAgentBelongsToPool a (om_Name (pool_Meta pool))) items" by auto
      then show ?thesis using Inr work [of agents n] finish [OF items(1)] by (simp add: Let_def)
    qed
  qed
qed


text \<open>C20: Carrying out a plan (\<open>applyPlan\<close>): every write to an Agent is under the optimistic lock on an unbound
  Agent, and is either the patch of a discovered Agent that is not being cleaned up, or marks an Agent of a
  VM that the plan deletes; a \<open>VsphereAgent\<close> is deleted only for a VM that the plan deletes, after that VM's
  Machine was read as gone and all its Agents were marked; nothing else is written, and the pool's metadata
  and specification are left alone.\<close>

theorem plan_applied_guarded:
  "hist (plan_event pool plan) [] (applyPlan K pool plan)
     (\<lambda>(p, r) tr. pool_Meta p = pool_Meta pool \<and> pool_Spec p = pool_Spec pool)"
  by (rule hist_applyPlan)

text \<open>An action that only reads, or touches nothing but what the pool may always touch.\<close>

lemma hist_reads:
  "hist (pool_event L) tr (discoveryISOAvailable K L' rd ns name) (\<lambda>r tr'. True)"
  "hist (pool_event L) tr (listVsphereAgentVMs K pool) (\<lambda>r tr'. True)"
  "hist (pool_event L) tr (countAgentMachineDemand K pool) (\<lambda>r tr'. True)"
  "hist (pool_event L) tr (listNodePoolMachines K pool) (\<lambda>r tr'. True)"
  "hist (pool_event L) tr (agentMachineName K pool obj) (\<lambda>r tr'. True)"
  "hist (pool_event L) tr (filterAgentsClaimedByOtherPools K pool agents) (\<lambda>r tr'. True)"
  "hist (pool_event L) tr (VA_provider K F pool) (\<lambda>r tr'. True)"
  unfolding discoveryISOAvailable_def listVsphereAgentVMs_def listVsphereAgentsForPool_def countAgentMachineDemand_def
    listNodePoolMachines_def agentMachineName_def filterAgentsClaimedByOtherPools_def VA_provider_def
    kget_def klist_def Now_def Let_def
  by (auto intro!: hist_intros split: sum.split)

lemma hist_collectAgents: "hist (pool_event L) tr (collectAgents K pool osAgents objs agents) (\<lambda>r tr'. True)"
proof (induction objs arbitrary: agents tr)
  case (Cons obj objs)
  then show ?case
    by (auto simp: Let_def split: sum.split intro!: hist_attempt hist_mono [OF hist_reads(5)])
qed (simp add: hist_ret)

lemma hist_listMatchingAgents: "hist (pool_event L) tr (listMatchingAgents K pool) (\<lambda>r tr'. True)"
  unfolding listMatchingAgents_def klist_def
  by (auto split: sum.split intro!: hist_attempt hist_ask hist_mono [OF hist_collectAgents] hist_reads)

lemma hist_selectorsPinned: "hist (pool_event L) tr (ensureAgentMachineSelectorsPinned K pool) (\<lambda>r tr'. True)"
proof -
  have pin: "hist (pool_event L) tr (ensureAgentMachineSelectorPinned K am) (\<lambda>r tr'. True)" for am tr
    unfolding ensureAgentMachineSelectorPinned_def kpatch_def am_claim_def
    by (auto simp: am_claim_def split: option.split intro!: hist_intros)
  show ?thesis
    unfolding ensureAgentMachineSelectorsPinned_def klist_def
    by (auto split: sum.split intro!: hist_intros hist_for_each hist_mono [OF pin])
qed

lemma hist_failWithStatus: "hist (pool_event L) tr (failWithStatus K L pool reason e) (\<lambda>r tr'. True)"
  unfolding failWithStatus_def setStatusError_def fail_result_def Now_def
  by (auto split: sum.split intro!: hist_intros hist_mono [OF hist_updateStatus])

lemma hist_reconcileUnavailable: "hist (pool_event L) tr (reconcileUnavailable K L pool msg) (\<lambda>r tr'. True)"
  unfolding reconcileUnavailable_def setStatusError_def fail_result_def ok_result_def Now_def Let_def
  by (auto split: sum.split intro!: hist_intros hist_mono [OF hist_updateStatus])


text \<open>What the application of a plan does is what a reconciliation of the pool may do.\<close>

lemma plan_event_pool:
  assumes seen: "EvPool (Get Live k (Inr pool0)) \<in> set tr"
    and same: "pool_Meta p = pool_Meta pool0" "pool_Spec p = pool_Spec (applySpecDefaults pool0)"
    and planned: "\<And>vm. vm \<in> set (pl_VMsToDelete plan) \<Longrightarrow> cleanupEnabled p \<and> vm_Name vm \<noteq> [] \<and> vm_Source vm \<noteq> vmSourceDiscoveredAgent"
    and e: "plan_event p plan (tr @ n) e"
  shows "pool_event L (tr @ n) e"
  using e
proof (cases "(p, plan, tr @ n, e)" rule: plan_event.cases)
  case (1 pool plan' tr' lock before after r)
  then show ?thesis using e planned by (auto simp: agent_write_ok_def safe_binding_def)
next
  case (2 pool plan' tr' pre va r)
  then obtain vm where vm: "vm \<in> set (pl_VMsToDelete plan)" "planned_removal p vm va (tr @ n)" using e by auto
  have clean: "cleanupEnabled (applySpecDefaults pool0)" using planned [OF vm(1)] same by (simp add: cleanupEnabled_def)
  have "planned_removal (applySpecDefaults pool0) vm va (tr @ n)"
    using vm(2) same machine_gone_cong [of p "applySpecDefaults pool0"] all_agents_cong [of p "applySpecDefaults pool0"]
    by (simp add: planned_removal_def)
  then have "removal_justified (tr @ n) va"
    unfolding removal_justified_def using seen clean planned [OF vm(1)]
    by (intro exI [of _ k] exI [of _ pool0]) (auto simp: planned_removal_def)
  then show ?thesis using 2 by simp
qed (use e in auto)

text \<open>The ISO cache only asks its provider for images, and reports.\<close>

fun iso_event :: "event \<Rightarrow> bool" where
  "iso_event (EvProvider (EnsureISO u r)) = True"
| "iso_event (EvProvider (DeleteISO p r)) = True"
| "iso_event (EvRecord ty reason msg) = True"
| "iso_event (EvMetric c x y) = True"
| "iso_event (EvClock t) = True"
| "iso_event _ = False"

lemma yields_ensureISOCache: "yields (ensureISOCache K L P pool url) (\<lambda>r new. list_all iso_event new \<and> True)"
proof -
  have prune: "yields (pruneISOs P history paths q) (\<lambda>r new. list_all iso_event new)" for history paths q
    by (induction P history paths q rule: pruneISOs.induct)
      (auto simp: prov_DeleteISO_def recordISOOperation_def Let_def split: sum.split option.split
         intro!: yields_intros elim!: yields_mono)
  show ?thesis
    unfolding ensureISOCache_def Now_def prov_EnsureISO_def recordISOOperation_def Let_def
    by (auto split: sum.split intro!: yields_intros yields_mono [OF prune])
qed

lemma hist_ensureISOCache:
  "(\<And>n e. iso_event e \<Longrightarrow> P (tr @ n) e) \<Longrightarrow> hist P tr (ensureISOCache K L Q pool url) (\<lambda>r tr'. True)"
  by (rule hist_yields [OF yields_ensureISOCache]) blast+

lemma iso_event_pool: "iso_event e \<Longrightarrow> pool_event L tr e"
  by (cases e rule: iso_event.cases) auto

lemma hist_refreshISOCache: "hist (pool_event L) tr (refreshISOCache K L F pool url) (\<lambda>r tr'. True)"
  unfolding refreshISOCache_def Now_def patchPoolISOStatus_def Let_def
  by (auto split: sum.split option.split prod.split
      intro!: hist_intros hist_mono [OF hist_reads(7)] hist_mono [OF hist_ensureISOCache [OF iso_event_pool]]
        hist_mono [OF hist_RetryOnConflict [OF hist_writeISOStatus]])


lemma hist_reconcilePlan:
  assumes "EvPool (Get Live k (Inr pool0)) \<in> set tr" "pool_Meta p = pool_Meta pool0"
    "pool_Spec p = pool_Spec (applySpecDefaults pool0)"
  shows "hist (pool_event L) tr (reconcilePlan K L F p (buildPlan now p sn) url) (\<lambda>r tr'. True)"
proof -
  have applied: "hist (pool_event L) tr (applyPlan K p (buildPlan now p sn)) (\<lambda>r tr'. True)"
    by (rule hist_mono, rule hist_weaken, rule hist_applyPlan, rule plan_event_pool [OF assms])
      (use planned_vm_owned [of _ now p sn] in auto)
  show ?thesis
    unfolding reconcilePlan_def Now_def recordPlan_def fail_result_def ok_result_def Let_def
    by (rule hist_bind, rule hist_mono [OF applied])
      (auto split: prod.split sum.split
        intro!: hist_intros hist_mono [OF hist_updateStatus] hist_mono [OF hist_refreshISOCache])
qed

lemma hist_reconcileLive:
  assumes "EvPool (Get Live k (Inr pool0)) \<in> set tr" "pool_Meta p = pool_Meta pool0"
    "pool_Spec p = pool_Spec (applySpecDefaults pool0)"
  shows "hist (pool_event L) tr (reconcileLive K L F p url) (\<lambda>r tr'. True)"
proof -
  have plan: "hist (pool_event L) (tr @ n) (reconcilePlan K L F (withOwnedVMs p vms) (buildPlan now (withOwnedVMs p vms) sn) url) (\<lambda>r tr'. True)"
    for n vms now sn
    by (rule hist_reconcilePlan [of k pool0]) (use assms in \<open>auto simp: withOwnedVMs_def\<close>)
  have [simp]: "withOwnedVMs (withOwnedVMs p a) b = withOwnedVMs p b" for a b
    by (simp add: withOwnedVMs_def)
  show ?thesis
    unfolding reconcileLive_def Now_def Let_def
    by (auto split: sum.split intro!: hist_handle hist_bind hist_ask plan hist_failWithStatus
        hist_mono [OF hist_reads(2)] hist_mono [OF hist_reads(3)] hist_mono [OF hist_reads(4)]
        hist_mono [OF hist_selectorsPinned] hist_mono [OF hist_listMatchingAgents])
qed


lemma sampleLib_finalizers: "finalizer_laws sampleLib"
  by (simp add: finalizer_laws_def sampleLib_def)



end
