(* ===== verification/VsphereAgents.thy ===== *)
theory VsphereAgents
  imports VspherePool
begin

text \<open>
  The controller of a \<open>VsphereAgent\<close> (\<open>vsphereagent_controller.go\<close>): it creates the worker's VM, watches its
  identity, ejects the discovery image once the host is installed, and on deletion takes the worker's Agents
  out of service, deletes the VM and removes the finalizer.
\<close>

section \<open>Status and finalizer\<close>

definition vaKey :: "VsphereAgent \<Rightarrow> objkey" where
  "vaKey agent = (om_Namespace (va_Meta agent), om_Name (va_Meta agent))"

definition setVACondition ::
  "'w kube \<Rightarrow> golib \<Rightarrow> string \<Rightarrow> string \<Rightarrow> string \<Rightarrow> string \<Rightarrow> VsphereAgent \<Rightarrow> ('w, VsphereAgent) io" where
  "setVACondition K L type status reason message agent =
     do { now \<leftarrow> Now K;
          ret (agent\<lparr>va_Status := (va_Status agent)\<lparr>vast_Conditions :=
            gl_SetStatusCondition L now (vast_Conditions (va_Status agent))
              (mkCondition type status (om_Generation (va_Meta agent)) reason message)\<rparr>\<rparr>) }"

definition setISOEjectionCondition ::
  "'w kube \<Rightarrow> golib \<Rightarrow> string \<Rightarrow> string \<Rightarrow> string \<Rightarrow> VsphereAgent \<Rightarrow> ('w, VsphereAgent) io" where
  "setISOEjectionCondition K L status reason message agent =
     setVACondition K L ''ISOEjected'' status reason message agent"

definition IsStatusConditionTrue :: "golib \<Rightarrow> Condition list \<Rightarrow> string \<Rightarrow> bool" where
  "IsStatusConditionTrue L conditions t \<longleftrightarrow>
     (case gl_FindStatusCondition L conditions t of None \<Rightarrow> False | Some c \<Rightarrow> co_Status c = ConditionTrue)"

text \<open>One attempt to write the status, and the whole of \<open>updateStatus\<close>, which returns the object as it then is.\<close>

definition writeVAStatus :: "'w kube \<Rightarrow> objkey \<Rightarrow> VsphereAgentStatus \<Rightarrow> ('w, unit result) io" where
  "writeVAStatus K key desired =
     attempt (kget (k_vagents K) EvVAgent Cached key) (\<lambda>cur.
       if va_Status cur = desired then ret (Inr ())
       else attempt (kstatus_update (k_vagents K) EvVAgent (cur\<lparr>va_Status := desired\<rparr>)) (\<lambda>_. ret (Inr ())))"

definition observedStatus :: "VsphereAgent \<Rightarrow> VsphereAgentStatus" where
  "observedStatus agent = (va_Status agent)\<lparr>vast_ObservedGeneration := om_Generation (va_Meta agent)\<rparr>"

definition VA_updateStatus :: "'w kube \<Rightarrow> golib \<Rightarrow> VsphereAgent \<Rightarrow> ('w, VsphereAgent result) io" where
  "VA_updateStatus K L agent =
     attempt (RetryOnConflict (gl_RetrySteps L) (writeVAStatus K (vaKey agent) (observedStatus agent)))
       (\<lambda>_. ret (Inr (agent\<lparr>va_Status := observedStatus agent\<rparr>)))"

definition VA_patchFinalizer :: "'w kube \<Rightarrow> golib \<Rightarrow> VsphereAgent \<Rightarrow> ('w, unit result) io" where
  "VA_patchFinalizer K L agent =
     attempt (kget (k_vagents K) EvVAgent Live (vaKey agent)) (\<lambda>cur.
     let meta = fst (if gl_ContainsFinalizer L (va_Meta agent) vsphereAgentFinalizerName
                     then gl_AddFinalizer L (va_Meta cur) vsphereAgentFinalizerName
                     else gl_RemoveFinalizer L (va_Meta cur) vsphereAgentFinalizerName)
     in attempt (kpatch (k_vagents K) EvVAgent False cur (cur\<lparr>va_Meta := meta\<rparr>)) (\<lambda>_. ret (Inr ())))"

definition withoutFinalizer :: "golib \<Rightarrow> VsphereAgent \<Rightarrow> VsphereAgent" where
  "withoutFinalizer L agent = agent\<lparr>va_Meta := fst (gl_RemoveFinalizer L (va_Meta agent) vsphereAgentFinalizerName)\<rparr>"

text \<open>The endings of a reconciliation: write the status, then requeue or report an error.\<close>

definition finishStatus :: "'w kube \<Rightarrow> golib \<Rightarrow> VsphereAgent \<Rightarrow> duration \<Rightarrow> go_error option \<Rightarrow> ('w, reconcile_result) io" where
  "finishStatus K L agent d err =
     handle (VA_updateStatus K L agent) fail_result (\<lambda>_. ret (d, err))"

definition failReady :: "'w kube \<Rightarrow> golib \<Rightarrow> VsphereAgent \<Rightarrow> string \<Rightarrow> string \<Rightarrow> duration \<Rightarrow> ('w, reconcile_result) io" where
  "failReady K L agent reason message d =
     do { agent \<leftarrow> setVACondition K L conditionReady ConditionFalse reason message agent;
          finishStatus K L agent d None }"

definition returnStatus :: "'w kube \<Rightarrow> golib \<Rightarrow> VsphereAgent \<Rightarrow> duration \<Rightarrow> ('w, reconcile_result) io" where
  "returnStatus K L agent d =
     handle (VA_updateStatus K L agent) (\<lambda>e. ret (d, Some e)) (\<lambda>_. ok_result d)"

section \<open>Identity\<close>

definition vmWithIdentity :: "OwnedVMStatus \<Rightarrow> OwnedVMStatus \<Rightarrow> OwnedVMStatus" where
  "vmWithIdentity vm discovered =
     (let vm = (if vm_BIOSUUID discovered \<noteq> [] then vm\<lparr>vm_BIOSUUID := vm_BIOSUUID discovered\<rparr> else vm);
          vm = (if vm_MACAddress discovered \<noteq> [] then vm\<lparr>vm_MACAddress := vm_MACAddress discovered\<rparr> else vm)
      in if vm_OwnerUID discovered \<noteq> [] then vm\<lparr>vm_OwnerUID := vm_OwnerUID discovered\<rparr> else vm)"

definition identityMismatch :: "OwnedVMStatus \<Rightarrow> OwnedVMStatus \<Rightarrow> string \<Rightarrow> string option" where
  "identityMismatch vm discovered expectedOwnerUID =
     (if expectedOwnerUID \<noteq> [] \<and> vm_OwnerUID discovered \<noteq> [] \<and> vm_OwnerUID discovered \<noteq> expectedOwnerUID
      then Some (''VM '' @ quoted (vm_Name vm) @ '' belongs to another VsphereAgent'')
      else if expectedOwnerUID \<noteq> [] \<and> vm_OwnerUID vm \<noteq> [] \<and> vm_OwnerUID discovered = []
      then Some (''VM '' @ quoted (vm_Name vm) @ '' ownership annotation is missing'')
      else if vm_BIOSUUID vm \<noteq> [] \<and> vm_BIOSUUID discovered \<noteq> [] \<and> vm_BIOSUUID vm \<noteq> vm_BIOSUUID discovered
      then Some (''VM '' @ quoted (vm_Name vm) @ '' UUID changed'')
      else None)"

definition refreshVMIdentity ::
  "'w kube \<Rightarrow> 'w provider_factory \<Rightarrow> VsphereAgentPool \<Rightarrow> OwnedVMStatus \<Rightarrow> string \<Rightarrow> ('w, OwnedVMStatus result) io" where
  "refreshVMIdentity K F pool vm expectedOwnerUID =
     (if vm_Name vm = [] then ret (Inr vm)
      else attempt (VA_provider K F pool) (\<lambda>provider.
           attempt (prov_VMStatus provider pool (vm_Name vm)) (\<lambda>discovered.
             case identityMismatch vm discovered expectedOwnerUID of
               Some detail \<Rightarrow> ret (Inl (ErrSentinel errVMOwnershipMismatch (''vSphere VM ownership mismatch: '' @ detail)))
             | None \<Rightarrow> ret (Inr (vmWithIdentity vm discovered)))))"

definition ownedVMStatusForVsphereAgent :: "VsphereAgentPool \<Rightarrow> VsphereAgent \<Rightarrow> OwnedVMStatus option" where
  "ownedVMStatusForVsphereAgent pool agent =
     (if vm_Name (vast_VM (va_Status agent)) = [] then None
      else find (\<lambda>vm. vm_Name vm = vm_Name (vast_VM (va_Status agent))) (pst_OwnedVMs (pool_Status pool)))"

definition setVM :: "(OwnedVMStatus \<Rightarrow> OwnedVMStatus) \<Rightarrow> VsphereAgent \<Rightarrow> VsphereAgent" where
  "setVM f agent = agent\<lparr>va_Status := (va_Status agent)\<lparr>vast_VM := f (vast_VM (va_Status agent))\<rparr>\<rparr>"

section \<open>Ejecting the discovery image\<close>

abbreviation createdFor :: "VsphereAgent \<Rightarrow> string" where
  "createdFor agent \<equiv> mget (om_Labels (va_Meta agent)) vsphereAgentCreatedForLabel"

text \<open>Whether the Machine of the VM, if one is recorded, exists and is not being deleted.\<close>

definition machineAlive :: "'w kube \<Rightarrow> VsphereAgentPool \<Rightarrow> OwnedVMStatus \<Rightarrow> ('w, bool result) io" where
  "machineAlive K pool vm =
     (case vm_MachineRef vm of
        None \<Rightarrow> ret (Inr True)
      | Some ref \<Rightarrow>
          if ref_Name ref = [] then ret (Inr True)
          else handle (kget (k_machines K) EvMachine Live (machineKey pool ref))
                 (\<lambda>e. ret (if IsNotFound e then Inr False else Inl e))
                 (\<lambda>machine. ret (Inr (om_DeletionTimestamp (mo_Meta machine) = None))))"

text \<open>Whether the host, the Agent recorded for the VM, is installed and provably this VM.\<close>

definition hostInstalled :: "OwnedVMStatus \<Rightarrow> ObjectReference \<Rightarrow> AgentObj \<Rightarrow> bool" where
  "hostInstalled vm ref host \<longleftrightarrow>
     \<not> (mget (om_Annotations (ao_Meta host)) agentCleanupAnnotation \<noteq> [] \<or> om_DeletionTimestamp (ao_Meta host) \<noteq> None
        \<or> objectConditionStatus (ao_conditions host) ''Installed'' \<noteq> ConditionTrue)
     \<and> \<not> (ref_UID ref \<noteq> [] \<and> ref_UID ref \<noteq> om_UID (ao_Meta host))
     \<and> vmMatchesAgentIdentity vm (emptyAgentInfo\<lparr>ag_BIOSUUID := normalizeVMwareSerialUUID (ao_serialNumber host),
           ag_MAC := normalizeMAC (agentPrimaryMAC host)\<rparr>)"

definition installedHost :: "'w kube \<Rightarrow> VsphereAgent \<Rightarrow> ('w, bool result) io" where
  "installedHost K agent =
     (case vm_AgentRef (vast_VM (va_Status agent)) of
        None \<Rightarrow> ret (Inr False)
      | Some ref \<Rightarrow>
          if ref_Name ref = [] then ret (Inr False)
          else if ref_Namespace ref \<noteq> [] \<and> ref_Namespace ref \<noteq> om_Namespace (va_Meta agent) then ret (Inr False)
          else handle (kget (k_agents K) EvAgent Live (om_Namespace (va_Meta agent), ref_Name ref))
                 (\<lambda>e. ret (if IsNotFound e then Inr False else Inl e))
                 (\<lambda>host. ret (Inr (hostInstalled (vast_VM (va_Status agent)) ref host))))"

definition prepareEjection ::
  "'w kube \<Rightarrow> golib \<Rightarrow> 'w provider_factory \<Rightarrow> VsphereAgent \<Rightarrow> VsphereAgentPool \<Rightarrow> ('w, VsphereAgent \<times> unit result) io" where
  "prepareEjection K L F agent pool =
     handle (VA_provider K F pool) (\<lambda>e. ret (agent, Inl e)) (\<lambda>provider.
     handle (prov_PrepareISOEjection provider pool (vast_VM (va_Status agent))) (\<lambda>e. ret (agent, Inl e)) (\<lambda>op.
     case op of
       None \<Rightarrow> do { agent \<leftarrow> setISOEjectionCondition K L ConditionTrue ''Ejected''
                       ''No cached discovery media remains attached'' agent;
                    ret (agent, Inr ()) }
     | Some op \<Rightarrow>
         do { let agent = agent\<lparr>va_Status := (va_Status agent)\<lparr>vast_ISOEjection := Some op\<rparr>\<rparr>;
              agent \<leftarrow> setISOEjectionCondition K L ConditionFalse ''EjectionInProgress''
                 ''Discovery media ejection is recorded; disconnect will resume on reconciliation'' agent;
              ret (agent, Inr ()) }))"

definition ejectInstalledAgentISO ::
  "'w kube \<Rightarrow> golib \<Rightarrow> 'w provider_factory \<Rightarrow> VsphereAgent \<Rightarrow> VsphereAgentPool \<Rightarrow> ('w, VsphereAgent \<times> unit result) io" where
  "ejectInstalledAgentISO K L F agent pool =
     (let ejected = IsStatusConditionTrue L (vast_Conditions (va_Status agent)) ''ISOEjected''
      in if \<not> is_EjectAfterInstall (ps_ISO (pool_Spec pool)) then
           do { agent \<leftarrow> (if ejected then ret agent else setISOEjectionCondition K L ConditionFalse ''Disabled''
                    ''Automatic discovery ISO ejection is disabled for this pool'' agent);
                ret (agent, Inr ()) }
         else do {
           agent \<leftarrow> (if ejected then ret agent else setISOEjectionCondition K L ConditionFalse ''WaitingForInstallation''
                    ''Waiting for a matching installed Agent outside deletion or reclaim'' agent);
           if om_DeletionTimestamp (pool_Meta pool) \<noteq> None \<or> vm_Phase (vast_VM (va_Status agent)) = phaseReleased
           then ret (agent, Inr ())
           else handle (machineAlive K pool (vast_VM (va_Status agent))) (\<lambda>e. ret (agent, Inl e)) (\<lambda>alive.
                if \<not> alive then ret (agent, Inr ())
                else handle (installedHost K agent) (\<lambda>e. ret (agent, Inl e)) (\<lambda>installed.
                     if \<not> installed then ret (agent, Inr ()) else prepareEjection K L F agent pool)) })"

text \<open>
  The checkpoint given to the provider writes the status of the controller's object. That object refers to
  the provider's record of the operation until a successful update replaces its status by the copy written.
\<close>

definition ejectCheckpoint :: "'w kube \<Rightarrow> golib \<Rightarrow> 'w checkpoint" where
  "ejectCheckpoint K L st op =
     (case st of (agent, shared) \<Rightarrow>
        do { let agent = (if shared then agent\<lparr>va_Status := (va_Status agent)\<lparr>vast_ISOEjection := Some op\<rparr>\<rparr> else agent);
             handle (VA_updateStatus K L agent) (\<lambda>e. ret ((agent, shared), Inl e)) (\<lambda>agent. ret ((agent, False), Inr ())) })"

definition finishISOEjection ::
  "'w kube \<Rightarrow> golib \<Rightarrow> 'w provider_factory \<Rightarrow> VsphereAgent \<Rightarrow> ISOEjectionStatus \<Rightarrow> VsphereAgentPool
     \<Rightarrow> ('w, VsphereAgent \<times> unit result) io" where
  "finishISOEjection K L F agent op pool =
     handle (VA_provider K F pool) (\<lambda>e. ret (agent, Inl e)) (\<lambda>provider.
     do { (((agent, shared), op), r) \<leftarrow> pv_EjectISO provider pool op (ejectCheckpoint K L) (agent, True);
          emit (EvProvider (EjectISO op r));
          recordISOOperation ''eject'' (case r of Inl e \<Rightarrow> Some e | Inr _ \<Rightarrow> None);
          case r of
            Inl e \<Rightarrow> ret (if shared then agent\<lparr>va_Status := (va_Status agent)\<lparr>vast_ISOEjection := Some op\<rparr>\<rparr> else agent, Inl e)
          | Inr _ \<Rightarrow>
              do { agent \<leftarrow> setISOEjectionCondition K L ConditionTrue ''Ejected''
                       ''Recorded discovery media was disconnected and ejected''
                       (agent\<lparr>va_Status := (va_Status agent)\<lparr>vast_ISOEjection := None\<rparr>\<rparr>);
                   ret (agent, Inr ()) } })"

section \<open>An existing VM\<close>

definition statusFailure :: "VsphereAgent \<Rightarrow> go_error \<Rightarrow> VsphereAgent \<times> string \<times> string" where
  "statusFailure agent e =
     (if IsSentinel errVMNotFound e then
        (if createdFor agent \<noteq> vsphereAgentCreatedForAdopted then setVM (\<lambda>_. emptyOwnedVMStatus) agent else agent,
         ''VMNotFound'', ''vSphere VM no longer exists'')
      else if IsSentinel errVMOwnershipMismatch e
      then (agent, ''VMOwnershipMismatch'', ''vSphere VM ownership does not match this VsphereAgent'')
      else (agent, ''VMStatusFailed'', stableErrorMessage e))"

definition reconcileExistingVM ::
  "'w kube \<Rightarrow> golib \<Rightarrow> 'w provider_factory \<Rightarrow> VsphereAgent \<Rightarrow> VsphereAgentPool \<Rightarrow> ('w, reconcile_result) io" where
  "reconcileExistingVM K L F agent pool =
     (let agent = (case ownedVMStatusForVsphereAgent pool agent of None \<Rightarrow> agent | Some vm \<Rightarrow> setVM (\<lambda>_. vm) agent);
          adopted = (createdFor agent = vsphereAgentCreatedForAdopted)
      in handle (refreshVMIdentity K F pool (vast_VM (va_Status agent)) (if adopted then [] else om_UID (va_Meta agent)))
           (\<lambda>e. case statusFailure agent e of (agent, reason, message) \<Rightarrow>
                  failReady K L agent reason message (30 * second))
           (\<lambda>vm. do {
              let agent = setVM (\<lambda>cur. let cur = cur\<lparr>vm_BIOSUUID := vm_BIOSUUID vm, vm_MACAddress := vm_MACAddress vm\<rparr>
                                     in if vm_OwnerUID vm \<noteq> [] then cur\<lparr>vm_OwnerUID := vm_OwnerUID vm\<rparr> else cur) agent;
              (agent, r) \<leftarrow> ejectInstalledAgentISO K L F agent pool;
              case r of
                Inl e \<Rightarrow>
                  do { agent \<leftarrow> setISOEjectionCondition K L ConditionFalse ''EjectionFailed'' (stableErrorMessage e) agent;
                       finishStatus K L agent 0 (Some e) }
              | Inr _ \<Rightarrow>
                  do { agent \<leftarrow> setVACondition K L conditionReady ConditionTrue
                         (if adopted then reasonVMAdopted else ''VMCreated'')
                         (if adopted then ''vSphere VM has been adopted'' else ''vSphere VM has been created'') agent;
                       returnStatus K L agent (if vast_ISOEjection (va_Status agent) \<noteq> None then second else minute) } }))"

section \<open>Adoption and creation\<close>

definition adoptVM ::
  "'w kube \<Rightarrow> golib \<Rightarrow> 'w provider_factory \<Rightarrow> VsphereAgent \<Rightarrow> VsphereAgentPool \<Rightarrow> ('w, reconcile_result) io" where
  "adoptVM K L F agent pool =
     do { now \<leftarrow> Now K;
          let agent = setVM (\<lambda>_. (newOwnedVMStatus now (vsphereAgentVMName agent))\<lparr>vm_Reason := reasonVMAdopted\<rparr>) agent;
          handle (refreshVMIdentity K F pool (vast_VM (va_Status agent)) [])
            (\<lambda>e. failReady K L agent ''AdoptedVMUnavailable'' (stableErrorMessage e) (30 * second))
            (\<lambda>vm. do {
               let agent = setVM (\<lambda>cur. cur\<lparr>vm_BIOSUUID := vm_BIOSUUID vm, vm_MACAddress := vm_MACAddress vm,
                                          vm_OwnerUID := vm_OwnerUID vm\<rparr>) agent;
               agent \<leftarrow> setVACondition K L conditionReady ConditionTrue reasonVMAdopted ''vSphere VM has been adopted'' agent;
               finishStatus K L agent minute None }) }"

definition createWorkerVM ::
  "'w kube \<Rightarrow> golib \<Rightarrow> 'w VMProvider \<Rightarrow> VsphereAgent \<Rightarrow> VsphereAgentPool \<Rightarrow> string \<Rightarrow> ('w, reconcile_result) io" where
  "createWorkerVM K L provider agent pool isoPath =
     handle (prov_CreateVM provider pool \<lparr>rq_Name = vsphereAgentVMName agent, rq_ISOPath = isoPath,
               rq_OwnerUID = om_UID (va_Meta agent)\<rparr>)
       (\<lambda>e. do { recordVMOperation ''create'' (Some e);
                 failReady K L agent ''VMCreateFailed'' (stableErrorMessage e) (30 * second) })
       (\<lambda>vm. do { recordVMOperation ''create'' None;
                  agent \<leftarrow> setVACondition K L conditionReady ConditionTrue ''VMCreated'' ''vSphere VM has been created''
                     (setVM (\<lambda>_. vm) agent);
                  returnStatus K L agent minute })"

definition provisionWorker ::
  "'w kube \<Rightarrow> golib \<Rightarrow> 'w provider_factory \<Rightarrow> VsphereAgent \<Rightarrow> VsphereAgentPool \<Rightarrow> ('w, reconcile_result) io" where
  "provisionWorker K L F agent pool =
     do { (available, isoURL, message) \<leftarrow> infraEnvAvailable K L pool;
          if \<not> available then failReady K L agent reasonInfraEnvUnavailable message (30 * second)
          else handle (VA_provider K F pool)
            (\<lambda>e. failReady K L agent ''ProviderUnavailable'' (stableErrorMessage e) (30 * second))
            (\<lambda>provider. do {
               (pool, r) \<leftarrow> ensureISOCache K L provider pool isoURL;
               case r of
                 Inl e \<Rightarrow> failReady K L agent ''ISORefreshFailed'' (stableErrorMessage e) (30 * second)
               | Inr isoPath \<Rightarrow>
                   handle (patchPoolISOStatus K L pool) fail_result (\<lambda>_.
                   createWorkerVM K L provider agent pool isoPath) }) }"

section \<open>Deletion\<close>

definition duplicateCanBeDeletedWithoutVMDelete :: "VsphereAgent \<Rightarrow> VsphereAgent \<Rightarrow> bool" where
  "duplicateCanBeDeletedWithoutVMDelete cur other \<longleftrightarrow>
     (if createdFor cur = vsphereAgentCreatedForAdopted \<and> createdFor other \<noteq> vsphereAgentCreatedForAdopted then True
      else om_Name (va_Meta cur) \<noteq> vm_Name (vast_VM (va_Status cur)))"

fun managedByOther :: "VsphereAgent \<Rightarrow> OwnedVMStatus \<Rightarrow> VsphereAgent list \<Rightarrow> bool" where
  "managedByOther agent vm [] = False"
| "managedByOther agent vm (other # others) =
     (if om_Name (va_Meta other) = om_Name (va_Meta agent) \<or> om_DeletionTimestamp (va_Meta other) \<noteq> None
      then managedByOther agent vm others
      else if \<not> vsphereAgentBelongsToPool other (lor_Name (vas_PoolRef (va_Spec agent))) then managedByOther agent vm others
      else if vm_Name (vast_VM (va_Status other)) = vm_Name vm \<or> vsphereAgentVMName other = vm_Name vm then True
      else if sameVMIdentity (vast_VM (va_Status other)) vm \<and> duplicateCanBeDeletedWithoutVMDelete agent other then True
      else managedByOther agent vm others)"

definition vmManagedByAnotherVsphereAgent :: "'w kube \<Rightarrow> VsphereAgent \<Rightarrow> OwnedVMStatus \<Rightarrow> ('w, bool result) io" where
  "vmManagedByAnotherVsphereAgent K agent vm =
     (if vm_Name vm = [] \<or> lor_Name (vas_PoolRef (va_Spec agent)) = [] then ret (Inr False)
      else attempt (klist (k_vagents K) EvVAgent Cached (InNamespace (om_Namespace (va_Meta agent))))
             (\<lambda>items. ret (Inr (managedByOther agent vm items))))"

definition destroyVM ::
  "'w kube \<Rightarrow> 'w provider_factory \<Rightarrow> VsphereAgentPool \<Rightarrow> OwnedVMStatus \<Rightarrow> ('w, unit result) io" where
  "destroyVM K F pool vm =
     attempt (prepareVMDeletion K pool vm) (\<lambda>_.
     attempt (VA_provider K F pool) (\<lambda>provider.
     handle (prov_DeleteVM provider pool vm)
       (\<lambda>e. do { recordVMOperation ''delete'' (Some e); ret (Inl e) })
       (\<lambda>_. do { recordVMOperation ''delete'' None; deleteVMAgents K pool vm })))"

definition workerVM :: "'w kube \<Rightarrow> VsphereAgent \<Rightarrow> ('w, OwnedVMStatus) io" where
  "workerVM K agent =
     (let vm = vast_VM (va_Status agent)
      in if vm_Name vm = [] then
           do { now \<leftarrow> Now K;
                ret ((newOwnedVMStatus now (vsphereAgentVMName agent))\<lparr>vm_OwnerUID := om_UID (va_Meta agent)\<rparr>) }
         else ret vm)"

definition VA_reconcileDelete ::
  "'w kube \<Rightarrow> golib \<Rightarrow> 'w provider_factory \<Rightarrow> VsphereAgent \<Rightarrow> VsphereAgentPool \<Rightarrow> ('w, reconcile_result) io" where
  "VA_reconcileDelete K L F agent pool =
     do { vm \<leftarrow> workerVM K agent;
          r \<leftarrow> (if cleanupEnabled pool \<and> vm_Name vm \<noteq> [] then
                  attempt (vmManagedByAnotherVsphereAgent K agent vm) (\<lambda>managedByAnotherAgent.
                    if managedByAnotherAgent then ret (Inr ()) else destroyVM K F pool vm)
                else ret (Inr ()));
          case r of
            Inl e \<Rightarrow> fail_result e
          | Inr _ \<Rightarrow> do { r \<leftarrow> VA_patchFinalizer K L (withoutFinalizer L agent); orResult 0 r } }"

section \<open>The reconciler\<close>

definition poolMissing :: "'w kube \<Rightarrow> golib \<Rightarrow> VsphereAgent \<Rightarrow> ('w, reconcile_result) io" where
  "poolMissing K L agent =
     (if om_DeletionTimestamp (va_Meta agent) \<noteq> None then
        do { (if vm_Name (vast_VM (va_Status agent)) \<noteq> []
              then recordEvent ''Warning'' ''PoolNotFound''
                     ''referenced VsphereAgentPool is gone; retaining VM and removing finalizer''
              else ret ());
             r \<leftarrow> VA_patchFinalizer K L (withoutFinalizer L agent);
             orResult 0 r }
      else failReady K L agent ''PoolNotFound'' ''referenced VsphereAgentPool does not exist'' minute)"

definition reconcileEjection ::
  "'w kube \<Rightarrow> golib \<Rightarrow> 'w provider_factory \<Rightarrow> VsphereAgent \<Rightarrow> ISOEjectionStatus \<Rightarrow> VsphereAgentPool \<Rightarrow> ('w, reconcile_result) io" where
  "reconcileEjection K L F agent op pool =
     do { (agent, r) \<leftarrow> finishISOEjection K L F agent op pool;
          case r of
            Inl e \<Rightarrow>
              do { agent \<leftarrow> setISOEjectionCondition K L ConditionFalse ''EjectionFailed'' (stableErrorMessage e) agent;
                   finishStatus K L agent second (Some e) }
          | Inr _ \<Rightarrow> finishStatus K L agent second None }"

definition reconcileWorker ::
  "'w kube \<Rightarrow> golib \<Rightarrow> 'w provider_factory \<Rightarrow> VsphereAgent \<Rightarrow> VsphereAgentPool \<Rightarrow> ('w, reconcile_result) io" where
  "reconcileWorker K L F agent pool =
     (if om_DeletionTimestamp (va_Meta agent) \<noteq> None then VA_reconcileDelete K L F agent pool
      else case gl_AddFinalizer L (va_Meta agent) vsphereAgentFinalizerName of (meta, added) \<Rightarrow>
        if added then do { r \<leftarrow> VA_patchFinalizer K L (agent\<lparr>va_Meta := meta\<rparr>); orResult 0 r }
        else (let agent = agent\<lparr>va_Meta := meta\<rparr>
              in if vm_Name (vast_VM (va_Status agent)) \<noteq> [] then reconcileExistingVM K L F agent pool
                 else if createdFor agent = vsphereAgentCreatedForAdopted then adoptVM K L F agent pool
                 else provisionWorker K L F agent pool))"

definition VA_Reconcile :: "'w kube \<Rightarrow> golib \<Rightarrow> 'w provider_factory \<Rightarrow> objkey \<Rightarrow> ('w, reconcile_result) io" where
  "VA_Reconcile K L F req =
     handle (kget (k_vagents K) EvVAgent Live req) ignore_not_found (\<lambda>agent.
     handle (kget (k_pools K) EvPool Live (om_Namespace (va_Meta agent), lor_Name (vas_PoolRef (va_Spec agent))))
       (\<lambda>e. if IsNotFound e then poolMissing K L agent else fail_result e)
       (\<lambda>pool. case vast_ISOEjection (va_Status agent) of
           Some op \<Rightarrow> reconcileEjection K L F agent op (applySpecDefaults pool)
         | None \<Rightarrow> reconcileWorker K L F agent (applySpecDefaults pool)))"

definition requestsForPool :: "'w kube \<Rightarrow> ObjectMeta \<Rightarrow> ('w, objkey list) io" where
  "requestsForPool K obj =
     handle (klist (k_vagents K) EvVAgent Cached
              ((InNamespace (om_Namespace obj))\<lparr>lo_Field := Some (''.spec.poolRef.name'', om_Name obj)\<rparr>))
       (\<lambda>_. ret []) (\<lambda>items. ret (map vaKey items))"

end
