(* ===== verification/WorkerSafety.thy ===== *)
theory WorkerSafety
  imports VsphereAgents PoolSafety
begin

text \<open>
  What the \<open>VsphereAgent\<close> controller of theory \<open>VsphereAgents\<close> may do, whatever provider it works with: the
  interface of providers is the locale \<open>vm_provider\<close>, in which every call of a reconciliation is shown to
  satisfy its specification given the calls before it.
\<close>

section \<open>Specification vocabulary\<close>

definition worker_read :: "event list \<Rightarrow> VsphereAgent \<Rightarrow> bool" where
  "worker_read tr agent \<longleftrightarrow> (\<exists>k. EvVAgent (Get Live k (Inr agent)) \<in> set tr)"

definition pool_read :: "event list \<Rightarrow> VsphereAgentPool \<Rightarrow> bool" where
  "pool_read tr pool \<longleftrightarrow> (\<exists>k pool0. EvPool (Get Live k (Inr pool0)) \<in> set tr \<and> pool = applySpecDefaults pool0)"

abbreviation deleting :: "VsphereAgent \<Rightarrow> bool" where
  "deleting agent \<equiv> om_DeletionTimestamp (va_Meta agent) \<noteq> None"

text \<open>The VM a worker stands for: the recorded one, or the one it would have created.\<close>

definition worker_vm :: "VsphereAgent \<Rightarrow> OwnedVMStatus \<Rightarrow> bool" where
  "worker_vm agent vm \<longleftrightarrow> vm = vast_VM (va_Status agent) \<or>
     vm_Name (vast_VM (va_Status agent)) = [] \<and> vm_Name vm = vsphereAgentVMName agent \<and> vm_OwnerUID vm = om_UID (va_Meta agent)"

definition others_listed :: "event list \<Rightarrow> VsphereAgent \<Rightarrow> OwnedVMStatus \<Rightarrow> bool \<Rightarrow> bool" where
  "others_listed tr agent vm managed \<longleftrightarrow>
     (\<exists>items. EvVAgent (ListAll Cached (InNamespace (om_Namespace (va_Meta agent))) (Inr items)) \<in> set tr
        \<and> managedByOther agent vm items = managed)"

definition vm_deletion_ok :: "event list \<Rightarrow> OwnedVMStatus \<Rightarrow> bool" where
  "vm_deletion_ok tr vm \<longleftrightarrow> (\<exists>agent pool. worker_read tr agent \<and> deleting agent \<and> pool_read tr pool
     \<and> cleanupEnabled pool \<and> worker_vm agent vm \<and> vm_Name vm \<noteq> []
     \<and> (lor_Name (vas_PoolRef (va_Spec agent)) = [] \<or> others_listed tr agent vm False)
     \<and> machine_gone pool vm tr \<and> all_agents pool vm (was_quarantined vm) tr)"

definition vm_creation_ok :: "event list \<Rightarrow> VMCreateRequest \<Rightarrow> bool" where
  "vm_creation_ok tr rq \<longleftrightarrow> (\<exists>agent. worker_read tr agent \<and> \<not> deleting agent \<and> vm_Name (vast_VM (va_Status agent)) = []
     \<and> vast_ISOEjection (va_Status agent) = None
     \<and> createdFor agent \<noteq> vsphereAgentCreatedForAdopted \<and> rq_Name rq = vsphereAgentVMName agent
     \<and> rq_OwnerUID rq = om_UID (va_Meta agent))"

definition ejection_recorded :: "event list \<Rightarrow> bool" where
  "ejection_recorded tr \<longleftrightarrow> (\<exists>agent. worker_read tr agent \<and> vast_ISOEjection (va_Status agent) \<noteq> None)"

text \<open>A host that is installed, is not being withdrawn or deleted, and is provably the VM.\<close>

definition installed_host :: "OwnedVMStatus \<Rightarrow> ObjectReference \<Rightarrow> AgentObj \<Rightarrow> bool" where
  "installed_host vm ref host \<longleftrightarrow> objectConditionStatus (ao_conditions host) ''Installed'' = ConditionTrue
     \<and> mget (om_Annotations (ao_Meta host)) agentCleanupAnnotation = [] \<and> om_DeletionTimestamp (ao_Meta host) = None
     \<and> (ref_UID ref = [] \<or> ref_UID ref = om_UID (ao_Meta host))
     \<and> vmMatchesAgentIdentity vm (emptyAgentInfo\<lparr>ag_BIOSUUID := normalizeVMwareSerialUUID (ao_serialNumber host),
           ag_MAC := normalizeMAC (agentPrimaryMAC host)\<rparr>)"

lemma hostInstalled_installed: "hostInstalled vm ref host = installed_host vm ref host"
  by (auto simp: hostInstalled_def installed_host_def)

text \<open>An ejection may be prepared when the pool asks for it and an Agent that is provably this VM is installed.\<close>

definition ejection_due :: "event list \<Rightarrow> OwnedVMStatus \<Rightarrow> bool" where
  "ejection_due tr vm \<longleftrightarrow> (\<exists>pool. pool_read tr pool \<and> is_EjectAfterInstall (ps_ISO (pool_Spec pool))
       \<and> om_DeletionTimestamp (pool_Meta pool) = None)
     \<and> vm_Phase vm \<noteq> phaseReleased
     \<and> (\<exists>k ref host. EvAgent (Get Live k (Inr host)) \<in> set tr \<and> vm_AgentRef vm = Some ref \<and> installed_host vm ref host)"

definition release_ok :: "event list \<Rightarrow> bool" where
  "release_ok tr \<longleftrightarrow> (\<exists>agent. worker_read tr agent \<and> deleting agent \<and>
     ((\<exists>k m. EvPool (Get Live k (Inl (ApiNotFound m))) \<in> set tr) \<or>
      (\<exists>pool vm. pool_read tr pool \<and> worker_vm agent vm \<and>
         (\<not> cleanupEnabled pool \<or> vm_Name vm = [] \<or> others_listed tr agent vm True \<or>
          EvProvider (DeleteVM vm (Inr ())) \<in> set tr \<and> all_agents pool vm was_deleted tr))))"

fun worker_event :: "golib \<Rightarrow> event list \<Rightarrow> event \<Rightarrow> bool" where
  "worker_event L tr (EvProvider (DeleteVM vm r)) \<longleftrightarrow> vm_deletion_ok tr vm"
| "worker_event L tr (EvProvider (CreateVM rq r)) \<longleftrightarrow> vm_creation_ok tr rq"
| "worker_event L tr (EvProvider (EjectISO op r)) \<longleftrightarrow> ejection_recorded tr"
| "worker_event L tr (EvProvider (PrepareISOEjection vm r)) \<longleftrightarrow> ejection_due tr vm"
| "worker_event L tr (EvProvider pe) \<longleftrightarrow> True"
| "worker_event L tr (EvAgent (Patch lock before after r)) \<longleftrightarrow>
     (\<exists>agent vm. worker_read tr agent \<and> deleting agent \<and> worker_vm agent vm \<and>
        safe_quarantine vm (EvAgent (Patch lock before after r)))"
| "worker_event L tr (EvAgent (Delete pre a r)) \<longleftrightarrow>
     (\<exists>vm. EvProvider (DeleteVM vm (Inr ())) \<in> set tr \<and> safe_agent_delete vm (EvAgent (Delete pre a r)))"
| "worker_event L tr (EvVAgent (Patch lock before after r)) \<longleftrightarrow>
     va_Spec after = va_Spec before \<and> va_Status after = va_Status before \<and>
     (gl_ContainsFinalizer L (va_Meta after) vsphereAgentFinalizerName \<or> release_ok tr)"
| "worker_event L tr (EvVAgent (StatusUpdate obj r)) \<longleftrightarrow>
     (\<exists>k cur. EvVAgent (Get Cached k (Inr cur)) \<in> set tr \<and> va_Meta obj = va_Meta cur \<and> va_Spec obj = va_Spec cur)"
| "worker_event L tr (EvPool (StatusUpdate obj r)) \<longleftrightarrow> status_written tr obj"
| "worker_event L tr (EvAgent ev) \<longleftrightarrow> is_read ev"
| "worker_event L tr (EvVAgent ev) \<longleftrightarrow> is_read ev"
| "worker_event L tr (EvPool ev) \<longleftrightarrow> is_read ev"
| "worker_event L tr (EvMachine ev) \<longleftrightarrow> is_read ev"
| "worker_event L tr (EvInfraEnv ev) \<longleftrightarrow> is_read ev"
| "worker_event L tr (EvSecret ev) \<longleftrightarrow> is_read ev"
| "worker_event L tr (EvHost ev) \<longleftrightarrow> ejection_recorded tr"
| "worker_event L tr (EvRecord ty reason msg) \<longleftrightarrow> True"
| "worker_event L tr (EvMetric c a b) \<longleftrightarrow> True"
| "worker_event L tr (EvClock t) \<longleftrightarrow> True"
| "worker_event L tr _ \<longleftrightarrow> False"

section \<open>Lemmas\<close>

lemma read_append:
  "worker_read tr agent \<Longrightarrow> worker_read (tr @ n) agent"
  "pool_read tr pool \<Longrightarrow> pool_read (tr @ n) pool"
  "others_listed tr agent vm m \<Longrightarrow> others_listed (tr @ n) agent vm m"
  "ejection_recorded tr \<Longrightarrow> ejection_recorded (tr @ n)"
  by (auto simp: worker_read_def pool_read_def others_listed_def ejection_recorded_def)

lemma hist_writeVAStatus: "hist (worker_event L) tr (writeVAStatus K key desired) (\<lambda>r tr'. True)"
proof -
  have "\<exists>k cur'. EvVAgent (Get Cached k (Inr cur')) \<in> set (tr @ [EvVAgent (Get Cached key (Inr cur))])
      \<and> va_Meta cur = va_Meta cur' \<and> va_Spec cur = va_Spec cur'" for cur
    by (intro exI [of _ key] exI [of _ cur]) simp
  then show ?thesis
    unfolding writeVAStatus_def kget_def kstatus_update_def
    by (auto simp del: set_append split: sum.split intro!: hist_intros)
qed

lemma hist_VA_updateStatus: "hist (worker_event L) tr (VA_updateStatus K L' agent) (\<lambda>r tr'. True)"
  unfolding VA_updateStatus_def
  by (rule hist_attempt, rule hist_mono [OF hist_RetryOnConflict [OF hist_writeVAStatus]])
    (auto split: sum.split intro!: hist_ret)

text \<open>The condition setter only reads the clock, and changes nothing but the conditions.\<close>

definition same_but_conditions :: "VsphereAgent \<Rightarrow> VsphereAgent \<Rightarrow> bool" where
  "same_but_conditions a b \<longleftrightarrow> va_Meta b = va_Meta a \<and> va_Spec b = va_Spec a \<and> vast_VM (va_Status b) = vast_VM (va_Status a)
     \<and> vast_ISOEjection (va_Status b) = vast_ISOEjection (va_Status a)"

lemma hist_setVACondition:
  "hist (worker_event L) tr (setVACondition K L' type status reason message agent) (\<lambda>b tr'. same_but_conditions agent b)"
  unfolding setVACondition_def Now_def
  by (auto simp: same_but_conditions_def intro!: hist_intros)

lemma hist_setCond:
  "(\<And>b n. same_but_conditions agent b \<Longrightarrow> hist (worker_event L) (tr @ n) (f b) R) \<Longrightarrow>
   hist (worker_event L) tr (do { b \<leftarrow> setVACondition K L' type status reason message agent; f b }) R"
  by (rule hist_bind, rule hist_mono [OF hist_setVACondition]) blast

lemma hist_finishes:
  "hist (worker_event L) tr (finishStatus K L' agent d err) (\<lambda>r tr'. True)"
  "hist (worker_event L) tr (returnStatus K L' agent d) (\<lambda>r tr'. True)"
  "hist (worker_event L) tr (failReady K L' agent reason message d) (\<lambda>r tr'. True)"
proof -
  show finish: "hist (worker_event L) tr (finishStatus K L' agent d err) (\<lambda>r tr'. True)" for tr agent
    unfolding finishStatus_def fail_result_def
    by (rule hist_handle, rule hist_mono [OF hist_VA_updateStatus]) (auto split: sum.split intro!: hist_ret)
  show "hist (worker_event L) tr (returnStatus K L' agent d) (\<lambda>r tr'. True)"
    unfolding returnStatus_def ok_result_def
    by (rule hist_handle, rule hist_mono [OF hist_VA_updateStatus]) (auto split: sum.split intro!: hist_ret)
  show "hist (worker_event L) tr (failReady K L' agent reason message d) (\<lambda>r tr'. True)"
    unfolding failReady_def finishStatus_def fail_result_def
    by (rule hist_setCond, rule hist_handle, rule hist_mono [OF hist_VA_updateStatus]) (auto split: sum.split intro!: hist_ret)
qed

lemma hist_VA_patchFinalizer:
  assumes "finalizer_laws L" "gl_ContainsFinalizer L (va_Meta agent) vsphereAgentFinalizerName \<or> (\<forall>n. release_ok (tr @ n))"
  shows "hist (worker_event L) tr (VA_patchFinalizer K L agent) (\<lambda>r tr'. True)"
  unfolding VA_patchFinalizer_def kget_def kpatch_def
  using assms by (auto simp: finalizer_laws_def Let_def split: sum.split intro!: hist_intros)

lemma hist_provider: "hist (worker_event L) tr (VA_provider K F pool) (\<lambda>r tr'. case r of Inl _ \<Rightarrow> True
    | Inr P \<Rightarrow> \<exists>secret. F pool secret = Inr P)"
  unfolding VA_provider_def kget_def Let_def
  by (auto split: sum.split intro!: hist_intros) blast+


lemma safe_quarantine_event:
  "safe_quarantine vm e \<Longrightarrow> worker_read tr agent \<Longrightarrow> deleting agent \<Longrightarrow> worker_vm agent vm \<Longrightarrow> worker_event L tr e"
  by (cases "(vm, e)" rule: safe_quarantine.cases) (auto intro!: exI [of _ agent] exI [of _ vm])

lemma safe_delete_event:
  "safe_agent_delete vm e \<Longrightarrow> EvProvider (DeleteVM vm (Inr ())) \<in> set tr \<Longrightarrow> worker_event L tr e"
  by (cases "(vm, e)" rule: safe_agent_delete.cases) auto

lemma all_agents_append:
  "all_agents pool vm (was_quarantined vm) tr \<Longrightarrow> all_agents pool vm (was_quarantined vm) (tr @ n)"
  "all_agents pool vm was_deleted tr \<Longrightarrow> all_agents pool vm was_deleted (tr @ n)"
  by (auto simp: all_agents_def list_all_iff was_mono)

lemma all_deleted_prepend: "all_agents pool vm was_deleted tr \<Longrightarrow> all_agents pool vm was_deleted (tr2 @ tr)"
  by (auto simp: all_agents_def list_all_iff was_mono)

definition destroyed :: "VsphereAgentPool \<Rightarrow> OwnedVMStatus \<Rightarrow> unit result \<Rightarrow> event list \<Rightarrow> bool" where
  "destroyed pool vm r tr \<longleftrightarrow> (case r of Inl _ \<Rightarrow> True
     | Inr _ \<Rightarrow> EvProvider (DeleteVM vm (Inr ())) \<in> set tr \<and> all_agents pool vm was_deleted tr)"

lemma destroyed_Inl [simp]: "destroyed pool vm (Inl e) tr"
  by (simp add: destroyed_def)

lemma hist_destroyVM:
  assumes ctx: "worker_read tr agent" "deleting agent" "pool_read tr pool" "cleanupEnabled pool" "worker_vm agent vm"
      "vm_Name vm \<noteq> []" "lor_Name (vas_PoolRef (va_Spec agent)) = [] \<or> others_listed tr agent vm False"
  shows "hist (worker_event L) tr (destroyVM K F pool vm) (destroyed pool vm)"
proof -
  let ?R = "destroyed pool vm"
  have agents: "hist (worker_event L) tr1 (deleteVMAgents K pool vm) ?R"
    if "EvProvider (DeleteVM vm (Inr ())) \<in> set tr1" for tr1
    by (rule hist_yields [OF yields_deleteVMAgents])
      (use that safe_delete_event all_deleted_prepend in \<open>auto simp: destroyed_def split: sum.splits\<close>)
  have vmdel: "hist (worker_event L) tr1 (handle (prov_DeleteVM P pool vm)
       (\<lambda>e. do { recordVMOperation ''delete'' (Some e); ret (Inl e) })
       (\<lambda>_. do { recordVMOperation ''delete'' None; deleteVMAgents K pool vm })) ?R" if "vm_deletion_ok tr1 vm" for tr1 P
    unfolding prov_DeleteVM_def recordVMOperation_def
    using that by (auto split: sum.split intro!: hist_handle hist_ask hist_bind hist_emit hist_ret agents)
  have prep: "hist (worker_event L) tr (prepareVMDeletion K pool vm)
     (\<lambda>r tr'. case r of Inl _ \<Rightarrow> True | Inr _ \<Rightarrow> machine_gone pool vm tr' \<and> all_agents pool vm (was_quarantined vm) tr')"
    by (rule hist_yields [OF yields_prepareVMDeletion])
      (use safe_quarantine_event [OF _ read_append(1) [OF ctx(1)] ctx(2,5)] machine_gone_prepend all_agents_prepend
       in \<open>auto split: sum.splits\<close>)
  have ok: "vm_deletion_ok (tr @ n @ m) vm"
    if "machine_gone pool vm (tr @ n)" "all_agents pool vm (was_quarantined vm) (tr @ n)" for n m
  proof -
    have "machine_gone pool vm ((tr @ n) @ m)" by (rule machine_gone_mono) (rule that(1))
    moreover have "all_agents pool vm (was_quarantined vm) ((tr @ n) @ m)" by (rule all_agents_append(1)) (rule that(2))
    ultimately show ?thesis
      unfolding vm_deletion_ok_def using ctx read_append
      by (intro exI [of _ agent] exI [of _ pool]) auto
  qed
  have rest: "hist (worker_event L) (tr @ n) (attempt (VA_provider K F pool) (\<lambda>provider.
     handle (prov_DeleteVM provider pool vm)
       (\<lambda>e. do { recordVMOperation ''delete'' (Some e); ret (Inl e) })
       (\<lambda>_. do { recordVMOperation ''delete'' None; deleteVMAgents K pool vm }))) ?R"
    if "machine_gone pool vm (tr @ n)" "all_agents pool vm (was_quarantined vm) (tr @ n)" for n
    by (rule hist_attempt, rule hist_mono [OF hist_provider]) (use that ok in \<open>auto split: sum.splits intro!: vmdel\<close>)
  show ?thesis
    unfolding destroyVM_def
    by (rule hist_attempt, rule hist_mono [OF prep]) (use rest in \<open>auto split: sum.splits\<close>)
qed


lemma hist_workerVM: "hist (worker_event L) tr (workerVM K agent) (\<lambda>vm tr'. worker_vm agent vm)"
  unfolding workerVM_def Now_def Let_def
  by (auto simp: worker_vm_def newOwnedVMStatus_def intro!: hist_intros)

lemma hist_managed: "hist (worker_event L) tr (vmManagedByAnotherVsphereAgent K agent vm) (\<lambda>r tr'. case r of Inl _ \<Rightarrow> True
   | Inr m \<Rightarrow> vm_Name vm = [] \<or> (lor_Name (vas_PoolRef (va_Spec agent)) = [] \<and> \<not> m) \<or> others_listed tr' agent vm m)"
proof -
  have "others_listed (tr @ [EvVAgent (ListAll Cached (InNamespace (om_Namespace (va_Meta agent))) (Inr items))]) agent vm
      (managedByOther agent vm items)" for items
    unfolding others_listed_def by auto
  then show ?thesis
    unfolding vmManagedByAnotherVsphereAgent_def klist_def
    by (auto split: sum.split intro!: hist_intros)
qed

lemma hist_VA_reconcileDelete:
  assumes laws: "finalizer_laws L" and ctx: "worker_read tr agent" "deleting agent" "pool_read tr pool"
  shows "hist (worker_event L) tr (VA_reconcileDelete K L F agent pool) (\<lambda>r tr'. True)"
proof -
  let ?clean = "\<lambda>vm. if cleanupEnabled pool \<and> vm_Name vm \<noteq> [] then
                  attempt (vmManagedByAnotherVsphereAgent K agent vm) (\<lambda>managedByAnotherAgent.
                    if managedByAnotherAgent then ret (Inr ()) else destroyVM K F pool vm)
                else ret (Inr ())"
  let ?R = "\<lambda>vm r tr'. destroyed pool vm r tr' \<or> \<not> cleanupEnabled pool \<or> vm_Name vm = [] \<or> others_listed tr' agent vm True"
  have clean: "hist (worker_event L) (tr @ n) (?clean vm) (?R vm)" if vm: "worker_vm agent vm" for vm n
  proof (cases "cleanupEnabled pool \<and> vm_Name vm \<noteq> []")
    case True
    have destroy: "hist (worker_event L) (tr @ m) (destroyVM K F pool vm) (?R vm)"
      if "lor_Name (vas_PoolRef (va_Spec agent)) = [] \<or> others_listed (tr @ m) agent vm False" for m
      by (rule hist_mono [OF hist_destroyVM [of _ agent]]) (use that True vm ctx read_append in auto)
    have "hist (worker_event L) (tr @ n) (attempt (vmManagedByAnotherVsphereAgent K agent vm) (\<lambda>managedByAnotherAgent.
                    if managedByAnotherAgent then ret (Inr ()) else destroyVM K F pool vm)) (?R vm)"
      by (rule hist_attempt, rule hist_mono [OF hist_managed])
        (use destroy True in \<open>auto split: sum.splits intro!: hist_ret\<close>)
    then show ?thesis using True by simp
  qed (auto intro!: hist_ret)
  have fin: "hist (worker_event L) (tr @ n) (do { r \<leftarrow> VA_patchFinalizer K L p; orResult 0 r }) (\<lambda>r tr'. True)"
    if "worker_vm agent vm" "?R vm (Inr ()) (tr @ n)" for vm n p
  proof -
    have why: "\<not> cleanupEnabled pool \<or> vm_Name vm = [] \<or> others_listed ((tr @ n) @ m) agent vm True \<or>
          EvProvider (DeleteVM vm (Inr ())) \<in> set ((tr @ n) @ m) \<and> all_agents pool vm was_deleted ((tr @ n) @ m)" for m
      using that(2) read_append(3) [of "tr @ n"] all_agents_append(2) [of pool vm "tr @ n"]
      by (auto simp: destroyed_def)
    have "worker_read ((tr @ n) @ m) agent" "pool_read ((tr @ n) @ m) pool" for m
      using read_append(1,2) [of tr _ "n @ m"] ctx by simp_all
    then have "release_ok ((tr @ n) @ m)" for m
      unfolding release_ok_def using ctx(2) that(1) why [of m] by blast
    then have "hist (worker_event L) (tr @ n) (VA_patchFinalizer K L p) (\<lambda>r tr'. True)"
      by (intro hist_VA_patchFinalizer [OF laws]) blast
    then show ?thesis
      unfolding orResult_def by (auto intro!: hist_bind hist_ret elim!: hist_mono)
  qed
  have body: "hist (worker_event L) (tr @ n) (do { r \<leftarrow> ?clean vm; case r of Inl e \<Rightarrow> fail_result e
          | Inr _ \<Rightarrow> do { r \<leftarrow> VA_patchFinalizer K L (withoutFinalizer L agent); orResult 0 r } }) (\<lambda>r tr'. True)"
    if "worker_vm agent vm" for vm n
  proof (rule hist_bind, rule hist_mono [OF clean [OF that]])
    fix r :: "unit result" and m
    assume "?R vm r ((tr @ n) @ m)"
    then show "hist (worker_event L) ((tr @ n) @ m) (case r of Inl e \<Rightarrow> fail_result e
          | Inr _ \<Rightarrow> do { r \<leftarrow> VA_patchFinalizer K L (withoutFinalizer L agent); orResult 0 r }) (\<lambda>r tr'. True)"
      using fin [OF that, of "n @ m"] by (cases r) (auto simp: fail_result_def intro!: hist_ret)
  qed
  show ?thesis
    unfolding VA_reconcileDelete_def
    by (rule hist_bind, rule hist_mono [OF hist_workerVM]) (rule body)
qed


section \<open>Existing VMs\<close>

lemma hist_VMStatus: "hist (worker_event L) tr (prov_VMStatus P pool name) (\<lambda>r tr'. True)"
  unfolding prov_VMStatus_def by (auto intro!: hist_ask)

lemma hist_refreshVMIdentity: "hist (worker_event L) tr (refreshVMIdentity K F pool vm owner) (\<lambda>r tr'. True)"
proof -
  have "hist (worker_event L) tr2 (attempt (prov_VMStatus P pool (vm_Name vm)) (\<lambda>discovered.
             case identityMismatch vm discovered owner of
               Some detail \<Rightarrow> ret (Inl (ErrSentinel errVMOwnershipMismatch (''vSphere VM ownership mismatch: '' @ detail)))
             | None \<Rightarrow> ret (Inr (vmWithIdentity vm discovered)))) (\<lambda>r tr'. True)" for tr2 P
    by (rule hist_attempt_seq [OF hist_VMStatus]) (auto split: option.split intro!: hist_ret)
  then show ?thesis
    unfolding refreshVMIdentity_def
    by (intro hist_if hist_ret hist_attempt_seq [OF hist_provider]) simp_all
qed

lemma hist_machineAlive: "hist (worker_event L) tr (machineAlive K pool vm) (\<lambda>r tr'. True)"
  unfolding machineAlive_def kget_def
  by (auto split: option.split sum.split intro!: hist_intros)

definition host_found :: "OwnedVMStatus \<Rightarrow> event list \<Rightarrow> bool" where
  "host_found vm tr \<longleftrightarrow>
     (\<exists>k ref host. EvAgent (Get Live k (Inr host)) \<in> set tr \<and> vm_AgentRef vm = Some ref \<and> installed_host vm ref host)"

lemma host_found_here:
  "vm_AgentRef vm = Some ref \<Longrightarrow> hostInstalled vm ref host \<Longrightarrow> host_found vm (tr @ [EvAgent (Get Live k (Inr host))])"
  unfolding host_found_def hostInstalled_installed by (intro exI [of _ k] exI [of _ ref] exI [of _ host]) simp

lemma hist_installedHost:
  "hist (worker_event L) tr (installedHost K agent) (\<lambda>r tr'. r = Inr True \<longrightarrow> host_found (vast_VM (va_Status agent)) tr')"
  unfolding installedHost_def kget_def
  by (auto split: option.split sum.split intro!: hist_intros host_found_here)

lemma host_found_append: "host_found vm tr \<Longrightarrow> host_found vm (tr @ n)"
  by (auto simp: host_found_def)

lemma hist_prepareEjection:
  assumes "pool_read tr pool" "is_EjectAfterInstall (ps_ISO (pool_Spec pool))" "om_DeletionTimestamp (pool_Meta pool) = None"
    "vm_Phase (vast_VM (va_Status agent)) \<noteq> phaseReleased" "host_found (vast_VM (va_Status agent)) tr"
  shows "hist (worker_event L) tr (prepareEjection K L' F agent pool) (\<lambda>r tr'. True)"
proof -
  have due: "ejection_due (tr @ n) (vast_VM (va_Status agent))" for n
    unfolding ejection_due_def host_found_def [symmetric]
    using assms read_append(2) host_found_append by blast
  have "hist (worker_event L) (tr @ n) (prov_PrepareISOEjection P pool (vast_VM (va_Status agent))) (\<lambda>r tr'. True)" for n P
    unfolding prov_PrepareISOEjection_def using due by (auto intro!: hist_ask)
  note prep = hist_mono [OF this]
  show ?thesis
    unfolding prepareEjection_def setISOEjectionCondition_def Let_def
    by (rule hist_handle, rule hist_mono [OF hist_provider])
      (auto split: sum.split option.split intro!: hist_ret hist_handle prep hist_setCond)
qed

lemma hist_ejectInstalledAgentISO:
  assumes "pool_read tr pool"
  shows "hist (worker_event L) tr (ejectInstalledAgentISO K L' F agent pool) (\<lambda>r tr'. True)"
proof -
  let ?go = "\<lambda>agent. if om_DeletionTimestamp (pool_Meta pool) \<noteq> None \<or> vm_Phase (vast_VM (va_Status agent)) = phaseReleased
           then ret (agent, Inr ())
           else handle (machineAlive K pool (vast_VM (va_Status agent))) (\<lambda>e. ret (agent, Inl e)) (\<lambda>alive.
                if \<not> alive then ret (agent, Inr ())
                else handle (installedHost K agent) (\<lambda>e. ret (agent, Inl e)) (\<lambda>installed.
                     if \<not> installed then ret (agent, Inr ()) else prepareEjection K L' F agent pool))"
  have host: "hist (worker_event L) (tr @ n) (handle (installedHost K b) (\<lambda>e. ret (b, Inl e)) (\<lambda>installed.
                     if \<not> installed then ret (b, Inr ()) else prepareEjection K L' F b pool)) (\<lambda>r tr'. True)"
    if "is_EjectAfterInstall (ps_ISO (pool_Spec pool))" "om_DeletionTimestamp (pool_Meta pool) = None"
      "vm_Phase (vast_VM (va_Status b)) \<noteq> phaseReleased" for b n
    by (rule hist_handle, rule hist_mono [OF hist_installedHost])
      (use that read_append(2) [OF assms] in \<open>auto split: sum.split intro!: hist_ret hist_prepareEjection\<close>)
  have go: "hist (worker_event L) (tr @ n) (?go b) (\<lambda>r tr'. True)" if "is_EjectAfterInstall (ps_ISO (pool_Spec pool))" for b n
  proof (cases "om_DeletionTimestamp (pool_Meta pool) \<noteq> None \<or> vm_Phase (vast_VM (va_Status b)) = phaseReleased")
    case False
    have "hist (worker_event L) (tr @ n) (handle (machineAlive K pool (vast_VM (va_Status b))) (\<lambda>e. ret (b, Inl e)) (\<lambda>alive.
                if \<not> alive then ret (b, Inr ())
                else handle (installedHost K b) (\<lambda>e. ret (b, Inl e)) (\<lambda>installed.
                     if \<not> installed then ret (b, Inr ()) else prepareEjection K L' F b pool))) (\<lambda>r tr'. True)"
      by (rule hist_handle, rule hist_mono [OF hist_machineAlive])
        (use False that host in \<open>auto split: sum.split intro!: hist_ret\<close>)
    then show ?thesis using False by simp
  qed (auto intro!: hist_ret)
  have set: "hist (worker_event L) tr (if c then ret agent else setISOEjectionCondition K L' a b d agent) (\<lambda>r tr'. True)" for a b c d
    unfolding setISOEjectionCondition_def by (auto intro!: hist_ret hist_mono [OF hist_setVACondition])
  show ?thesis
    unfolding ejectInstalledAgentISO_def Let_def
    by (intro hist_if hist_bind_seq [OF set] hist_ret go) simp_all
qed

lemma hist_reconcileExistingVM:
  assumes "pool_read tr pool"
  shows "hist (worker_event L) tr (reconcileExistingVM K L' F agent pool) (\<lambda>r tr'. True)"
proof -
  have tail: "hist (worker_event L) tr2 (case ar of (agent, r) \<Rightarrow> (case r of
                Inl e \<Rightarrow>
                  do { agent \<leftarrow> setISOEjectionCondition K L' ConditionFalse ''EjectionFailed'' (stableErrorMessage e) agent;
                       finishStatus K L' agent 0 (Some e) }
              | Inr _ \<Rightarrow>
                  do { agent \<leftarrow> setVACondition K L' conditionReady ConditionTrue reason message agent;
                       returnStatus K L' agent (if vast_ISOEjection (va_Status agent) \<noteq> None then second else minute) })) (\<lambda>r tr'. True)"
    for tr2 ar reason message
    unfolding setISOEjectionCondition_def
    by (auto split: prod.split sum.split intro!: hist_setCond hist_finishes)
  have eject: "hist (worker_event L) (tr @ n) (do { ar \<leftarrow> ejectInstalledAgentISO K L' F b pool; case ar of (agent, r) \<Rightarrow> (case r of
                Inl e \<Rightarrow>
                  do { agent \<leftarrow> setISOEjectionCondition K L' ConditionFalse ''EjectionFailed'' (stableErrorMessage e) agent;
                       finishStatus K L' agent 0 (Some e) }
              | Inr _ \<Rightarrow>
                  do { agent \<leftarrow> setVACondition K L' conditionReady ConditionTrue reason message agent;
                       returnStatus K L' agent (if vast_ISOEjection (va_Status agent) \<noteq> None then second else minute) }) }) (\<lambda>r tr'. True)"
    for n b reason message
    by (rule hist_bind, rule hist_mono [OF hist_ejectInstalledAgentISO]) (use assms read_append(2) tail in auto)
  show ?thesis
    unfolding reconcileExistingVM_def Let_def
    by (rule hist_handle_seq [OF hist_refreshVMIdentity])
      (use eject in \<open>auto split: prod.split intro!: hist_finishes\<close>)
qed

section \<open>New VMs\<close>

lemma iso_event_worker: "iso_event e \<Longrightarrow> worker_event L tr e"
  by (cases e rule: iso_event.cases) auto

lemma hist_adoptVM: "hist (worker_event L) tr (adoptVM K L' F agent pool) (\<lambda>r tr'. True)"
  unfolding adoptVM_def Now_def Let_def
  by (rule hist_bind_seq, rule hist_ask, rule conjI, simp, rule TrueI, rule hist_handle_seq [OF hist_refreshVMIdentity])
    (auto intro!: hist_finishes hist_setCond)

lemma hist_createWorkerVM:
  assumes "\<And>n. vm_creation_ok (tr @ n) \<lparr>rq_Name = vsphereAgentVMName agent, rq_ISOPath = path, rq_OwnerUID = om_UID (va_Meta agent)\<rparr>"
  shows "hist (worker_event L) tr (createWorkerVM K L' P agent pool path) (\<lambda>r tr'. True)"
  unfolding createWorkerVM_def prov_CreateVM_def recordVMOperation_def
  by (rule hist_handle_seq [where Q = "\<lambda>_ _. True"], rule hist_ask, rule conjI)
    (use assms [of "[]"] in \<open>auto intro!: hist_bind_seq [OF hist_emit, where Q = "\<lambda>_ _. True"] hist_finishes hist_setCond\<close>)

lemma hist_patchPoolISOStatus: "hist (worker_event L) tr (patchPoolISOStatus K L pool) (\<lambda>r tr'. True)"
proof -
  have "hist (worker_event L) tr (writeISOStatus K L pool) (\<lambda>r tr'. True)" for tr
    unfolding writeISOStatus_def kget_def kstatus_update_def Now_def
    by (auto simp: status_write_ok_def Let_def split: sum.split option.split intro!: hist_intros status_written_read)
  then show ?thesis
    unfolding patchPoolISOStatus_def by (rule hist_RetryOnConflict)
qed

lemma hist_infraEnvAvailable: "hist (worker_event L) tr (infraEnvAvailable K L' pool) (\<lambda>r tr'. True)"
  unfolding infraEnvAvailable_def discoveryISOAvailable_def kget_def
  by (auto split: sum.split intro!: hist_intros)

lemma hist_provisionWorker:
  assumes "worker_read tr agent" "\<not> deleting agent" "vm_Name (vast_VM (va_Status agent)) = []"
    "vast_ISOEjection (va_Status agent) = None" "createdFor agent \<noteq> vsphereAgentCreatedForAdopted"
  shows "hist (worker_event L) tr (provisionWorker K L F agent pool) (\<lambda>r tr'. True)"
proof -
  have create: "hist (worker_event L) (tr @ n) (createWorkerVM K L P agent p path) (\<lambda>r tr'. True)" for n P p path
    by (rule hist_createWorkerVM) (use assms read_append(1) in \<open>auto simp: vm_creation_ok_def\<close>)
  have patch: "hist (worker_event L) (tr @ n) (handle (patchPoolISOStatus K L p) fail_result (\<lambda>_. createWorkerVM K L P agent p path))
      (\<lambda>r tr'. True)" for n P p path
    by (rule hist_handle_seq [OF hist_patchPoolISOStatus]) (use create in \<open>auto simp: fail_result_def intro!: hist_ret\<close>)
  have iso: "hist (worker_event L) (tr @ n) (do {
               (pool, r) \<leftarrow> ensureISOCache K L provider pool isoURL;
               case r of
                 Inl e \<Rightarrow> failReady K L agent ''ISORefreshFailed'' (stableErrorMessage e) (30 * second)
               | Inr isoPath \<Rightarrow>
                   handle (patchPoolISOStatus K L pool) fail_result (\<lambda>_.
                   createWorkerVM K L provider agent pool isoPath) }) (\<lambda>r tr'. True)" for n provider isoURL
    by (rule hist_bind_seq [OF hist_ensureISOCache [OF iso_event_worker]])
      (use patch in \<open>auto split: prod.split sum.split intro!: hist_finishes\<close>)
  have prov: "hist (worker_event L) (tr @ n) (handle (VA_provider K F pool)
            (\<lambda>e. failReady K L agent ''ProviderUnavailable'' (stableErrorMessage e) (30 * second))
            (\<lambda>provider. do {
               (pool, r) \<leftarrow> ensureISOCache K L provider pool isoURL;
               case r of
                 Inl e \<Rightarrow> failReady K L agent ''ISORefreshFailed'' (stableErrorMessage e) (30 * second)
               | Inr isoPath \<Rightarrow>
                   handle (patchPoolISOStatus K L pool) fail_result (\<lambda>_.
                   createWorkerVM K L provider agent pool isoPath) })) (\<lambda>r tr'. True)" for n isoURL
    by (rule hist_handle_seq [OF hist_provider]) (use iso in \<open>auto intro!: hist_finishes\<close>)
  show ?thesis
    unfolding provisionWorker_def
    by (rule hist_bind_seq [OF hist_infraEnvAvailable]) (use prov in \<open>auto split: prod.split intro!: hist_finishes\<close>)
qed

section \<open>The interface of providers\<close>

text \<open>
  While ejecting, a provider made by the factory calls the machine it runs on, reads the clock and has its
  caller checkpoint, and does nothing else: whatever holds of those calls holds of the ejection.
\<close>

locale vm_provider =
  fixes F :: "'w provider_factory"
  assumes ejects: "F pool secret = Inr P \<Longrightarrow>
     (\<And>n st op. hist Q (tr @ n) (cp st op) (\<lambda>r tr'. True)) \<Longrightarrow> (\<And>n h. Q (tr @ n) (EvHost h)) \<Longrightarrow>
     (\<And>n t. Q (tr @ n) (EvClock t)) \<Longrightarrow> hist Q tr (pv_EjectISO P pool' op cp st) (\<lambda>r tr'. True)"
begin

lemma finish_ejection:
  assumes "ejection_recorded tr"
  shows "hist (worker_event L) tr (finishISOEjection K L' F agent op pool) (\<lambda>r tr'. True)"
proof -
  have rec: "ejection_recorded (tr @ n)" for n by (rule read_append(4) [OF assms])
  have cp: "hist (worker_event L) tr2 (ejectCheckpoint K L' st op) (\<lambda>r tr'. True)" for tr2 st op
    unfolding ejectCheckpoint_def Let_def
    by (cases st) (auto intro!: hist_handle_seq [OF hist_VA_updateStatus] hist_ret)
  have tail: "hist (worker_event L) (tr @ n) (do {
          emit (EvProvider (EjectISO op r));
          recordISOOperation ''eject'' (case r of Inl e \<Rightarrow> Some e | Inr _ \<Rightarrow> None);
          case r of
            Inl e \<Rightarrow> ret (if shared then agent\<lparr>va_Status := (va_Status agent)\<lparr>vast_ISOEjection := Some op\<rparr>\<rparr> else agent, Inl e)
          | Inr _ \<Rightarrow>
              do { agent \<leftarrow> setISOEjectionCondition K L' ConditionTrue ''Ejected''
                       ''Recorded discovery media was disconnected and ejected''
                       (agent\<lparr>va_Status := (va_Status agent)\<lparr>vast_ISOEjection := None\<rparr>\<rparr>);
                   ret (agent, Inr ()) } }) (\<lambda>r tr'. True)" for n agent shared op and r :: "unit result"
    unfolding recordISOOperation_def setISOEjectionCondition_def
    by (cases r) (use rec in \<open>auto intro!: hist_bind_seq [OF hist_emit, where Q = "\<lambda>_ _. True"] hist_ret hist_setCond\<close>)
  have eject: "hist (worker_event L) (tr @ n) (pv_EjectISO P pool op (ejectCheckpoint K L') (agent, True)) (\<lambda>r tr'. True)"
    if "F pool secret = Inr P" for n P secret
    by (rule ejects [OF that]) (use cp read_append(4) [OF assms] in auto)
  show ?thesis
    unfolding finishISOEjection_def
  proof (rule hist_handle_seq [OF hist_provider], rule hist_ret, rule TrueI)
    fix P n
    assume "case Inr P :: 'w VMProvider result of Inl _ \<Rightarrow> True | Inr P \<Rightarrow> \<exists>secret. F pool secret = Inr P"
    then obtain secret where "F pool secret = Inr P" by auto
    then show "hist (worker_event L) (tr @ n) (do {
          (((agent, shared), op), r) \<leftarrow> pv_EjectISO P pool op (ejectCheckpoint K L') (agent, True);
          emit (EvProvider (EjectISO op r));
          recordISOOperation ''eject'' (case r of Inl e \<Rightarrow> Some e | Inr _ \<Rightarrow> None);
          case r of
            Inl e \<Rightarrow> ret (if shared then agent\<lparr>va_Status := (va_Status agent)\<lparr>vast_ISOEjection := Some op\<rparr>\<rparr> else agent, Inl e)
          | Inr _ \<Rightarrow>
              do { agent \<leftarrow> setISOEjectionCondition K L' ConditionTrue ''Ejected''
                       ''Recorded discovery media was disconnected and ejected''
                       (agent\<lparr>va_Status := (va_Status agent)\<lparr>vast_ISOEjection := None\<rparr>\<rparr>);
                   ret (agent, Inr ()) } }) (\<lambda>r tr'. True)"
      unfolding case_prod_beta append_assoc [symmetric]
      by (rule hist_bind_seq [OF eject]) (simp only: append_assoc tail)
  qed
qed

lemma reconcile_ejection:
  "ejection_recorded tr \<Longrightarrow> hist (worker_event L) tr (reconcileEjection K L' F agent op pool) (\<lambda>r tr'. True)"
  unfolding reconcileEjection_def setISOEjectionCondition_def
  by (rule hist_bind_seq [OF finish_ejection]) (auto split: prod.split sum.split intro!: hist_setCond hist_finishes)

lemma reconcile_worker:
  assumes laws: "finalizer_laws L" and ctx: "worker_read tr agent" "pool_read tr pool" "vast_ISOEjection (va_Status agent) = None"
  shows "hist (worker_event L) tr (reconcileWorker K L F agent pool) (\<lambda>r tr'. True)"
proof (cases "deleting agent")
  case True
  then show ?thesis
    unfolding reconcileWorker_def using hist_VA_reconcileDelete [OF laws ctx(1) _ ctx(2)] by simp
next
  case alive: False
  show ?thesis
  proof (cases "snd (gl_AddFinalizer L (va_Meta agent) vsphereAgentFinalizerName)")
    case True
    have "hist (worker_event L) tr (do { r \<leftarrow> VA_patchFinalizer K L
        (agent\<lparr>va_Meta := fst (gl_AddFinalizer L (va_Meta agent) vsphereAgentFinalizerName)\<rparr>); orResult 0 r }) (\<lambda>r tr'. True)"
      unfolding orResult_def
      by (rule hist_bind_seq [OF hist_VA_patchFinalizer [OF laws]])
        (use laws in \<open>auto simp: finalizer_laws_def intro!: hist_ret\<close>)
    then show ?thesis unfolding reconcileWorker_def using alive True by (simp add: case_prod_beta)
  next
    case False
    then have same: "gl_AddFinalizer L (va_Meta agent) vsphereAgentFinalizerName = (va_Meta agent, False)"
      using laws by (simp add: finalizer_laws_def prod_eq_iff)
    show ?thesis
      unfolding reconcileWorker_def same
      using alive ctx by (simp add: hist_reconcileExistingVM hist_adoptVM hist_provisionWorker)
  qed
qed

lemma pool_missing:
  assumes laws: "finalizer_laws L" and ctx: "worker_read tr agent" "EvPool (Get Live k (Inl (ApiNotFound m))) \<in> set tr"
  shows "hist (worker_event L) tr (poolMissing K L agent) (\<lambda>r tr'. True)"
proof (cases "deleting agent")
  case True
  have "release_ok (tr @ n)" for n
  proof -
    have "\<exists>k m. EvPool (Get Live k (Inl (ApiNotFound m))) \<in> set (tr @ n)"
      using ctx(2) by (intro exI [of _ k] exI [of _ m]) simp
    then show ?thesis unfolding release_ok_def using read_append(1) [OF ctx(1)] True by blast
  qed
  then have patch: "hist (worker_event L) (tr @ n) (VA_patchFinalizer K L p) (\<lambda>r tr'. True)" for n p
    by (intro hist_VA_patchFinalizer [OF laws]) simp
  have fin: "hist (worker_event L) (tr @ n) (do { r \<leftarrow> VA_patchFinalizer K L p; orResult 0 r }) (\<lambda>r tr'. True)" for n p
    unfolding orResult_def by (rule hist_bind_seq [OF patch]) (auto intro!: hist_ret)
  show ?thesis
    unfolding poolMissing_def if_P [OF True]
    by (rule hist_bind_seq [where Q = "\<lambda>_ _. True"]) (use fin in \<open>auto intro!: hist_ret hist_emit\<close>)
qed (simp add: poolMissing_def hist_finishes)

lemma reconcile_guarded:
  assumes laws: "finalizer_laws L"
  shows "hist (worker_event L) [] (VA_Reconcile K L F req) (\<lambda>r tr'. True)"
proof -
  let ?tr = "\<lambda>agent. [EvVAgent (Get Live req (Inr agent))]"
  have read: "worker_read (?tr agent @ n) agent" for agent n
    unfolding worker_read_def by (intro exI [of _ req]) simp
  have pool: "hist (worker_event L) (?tr agent @ [EvPool (Get Live k (Inr pool))])
      (case vast_ISOEjection (va_Status agent) of
           Some op \<Rightarrow> reconcileEjection K L F agent op (applySpecDefaults pool)
         | None \<Rightarrow> reconcileWorker K L F agent (applySpecDefaults pool)) (\<lambda>r tr'. True)" for agent k pool
  proof -
    have "pool_read (?tr agent @ [EvPool (Get Live k (Inr pool))]) (applySpecDefaults pool)"
      unfolding pool_read_def by (intro exI [of _ k] exI [of _ pool]) simp
    moreover have "vast_ISOEjection (va_Status agent) \<noteq> None \<Longrightarrow> ejection_recorded (?tr agent @ [EvPool (Get Live k (Inr pool))])"
      unfolding ejection_recorded_def using read by blast
    ultimately show ?thesis
      using read [of agent "[EvPool (Get Live k (Inr pool))]"]
      by (auto split: option.split intro!: reconcile_ejection reconcile_worker [OF laws])
  qed
  have missing: "hist (worker_event L) (?tr agent @ [EvPool (Get Live k (Inl e))])
      (if IsNotFound e then poolMissing K L agent else fail_result e) (\<lambda>r tr'. True)" for agent k e
  proof (cases e rule: IsNotFound.cases)
    case (1 m)
    then show ?thesis using pool_missing [OF laws read, where k = k and m = m and K = K] by simp
  qed (simp_all add: fail_result_def hist_ret)
  show ?thesis
    unfolding VA_Reconcile_def kget_def ignore_not_found_def
    using pool missing by (auto split: sum.split split del: if_split intro!: hist_handle hist_ask hist_ret)
qed

end

end
