(* ===== verification/Govc.thy ===== *)
theory Govc
  imports VspherePool
begin

text \<open>
  The default vSphere provider (\<open>vsphere_provider.go\<close>): the VM operations as runs of the \<open>govc\<close> command, the
  download and upload of the discovery image, and the ejection of it from an installed VM.

  The machine the manager runs on is the parameter \<open>host\<close>: the \<open>govc\<close> command, HTTP, files and the clock
  answer as they like. \<open>hs_Unmarshal\<close> is \<open>json.Unmarshal\<close> into \<open>govcVMInfo\<close>, \<open>hs_MapOrder\<close> the order in which
  a Go map is iterated, \<open>hs_Getenv\<close> is \<open>os.Getenv\<close>. Contexts appear through their effect: any command or request may answer that its context
  expired.
\<close>

section \<open>Data\<close>

record govcConfig =
  gc_Server :: string
  gc_Username :: string
  gc_Password :: string
  gc_Insecure :: string

record govcVMProvider =
  gp_config :: govcConfig
  gp_command :: string

record govcVMQuestion =
  qu_ID :: string
  qu_Message :: "string list"
  qu_ChoiceInfo :: "(string \<times> string) list"

record govcDevice =
  gd_Key :: int
  gd_FileName :: string
  gd_MACAddress :: string

record govcVirtualMachine =
  gv_UUID :: string
  gv_Annotation :: string
  gv_Device :: "govcDevice list"
  gv_Question :: "govcVMQuestion option"

record 'w host =
  hs_govc :: "govcVMProvider \<Rightarrow> string list \<Rightarrow> 'w \<Rightarrow> govc_answer \<times> 'w"
  hs_start :: "govcVMProvider \<Rightarrow> string list \<Rightarrow> 'w \<Rightarrow> unit \<times> 'w"
  hs_wait :: "'w \<Rightarrow> govc_wait \<times> 'w"
  hs_MkdirTemp :: "string \<Rightarrow> 'w \<Rightarrow> string result \<times> 'w"
  hs_HttpGet :: "string \<Rightarrow> string \<Rightarrow> 'w \<Rightarrow> http_answer \<times> 'w"
  hs_CreateFile :: "string \<Rightarrow> 'w \<Rightarrow> unit result \<times> 'w"
  hs_CopyFile :: "string \<Rightarrow> string \<Rightarrow> 'w \<Rightarrow> copy_failure option \<times> 'w"
  hs_ReadFile :: "string \<Rightarrow> 'w \<Rightarrow> string result \<times> 'w"
  hs_RemoveAll :: "string \<Rightarrow> 'w \<Rightarrow> unit \<times> 'w"
  hs_CreateTemp :: "string \<Rightarrow> 'w \<Rightarrow> temp_answer \<times> 'w"
  hs_RemoveFile :: "string \<Rightarrow> 'w \<Rightarrow> unit \<times> 'w"
  hs_now :: "'w \<Rightarrow> gotime \<times> 'w"
  hs_Unmarshal :: "string \<Rightarrow> string + govcVirtualMachine list"
  hs_MapOrder :: "(string \<times> string) list \<Rightarrow> (string \<times> string) list"
  hs_Getenv :: "string \<Rightarrow> string"

abbreviation vmOwnerAnnotationPrefix :: string where
  "vmOwnerAnnotationPrefix \<equiv> ''agent-forge.containeroo.ch/vsphere-agent-uid=''"
abbreviation maxISODownloadSize :: nat where "maxISODownloadSize \<equiv> 10737418240"
abbreviation secretKeyServer :: string where "secretKeyServer \<equiv> ''server''"
abbreviation secretKeyUsername :: string where "secretKeyUsername \<equiv> ''username''"
abbreviation secretKeyPassword :: string where "secretKeyPassword \<equiv> ''password''"
abbreviation secretKeyInsecure :: string where "secretKeyInsecure \<equiv> ''insecure''"
abbreviation datacenter :: "VsphereAgentPool \<Rightarrow> string" where "datacenter pool \<equiv> vp_Datacenter (ps_VSphere (pool_Spec pool))"
abbreviation isoDatastore :: "VsphereAgentPool \<Rightarrow> string" where "isoDatastore pool \<equiv> vp_ISODatastore (ps_VSphere (pool_Spec pool))"

text \<open>\<open>fmt.Errorf\<close> with \<open>%w\<close>: another text around the text of an error that stays recognisable.\<close>

fun wrap_error :: "(string \<Rightarrow> string) \<Rightarrow> go_error \<Rightarrow> go_error" where
  "wrap_error f (ApiNotFound m) = ApiNotFound (f m)"
| "wrap_error f (ApiAlreadyExists m) = ApiAlreadyExists (f m)"
| "wrap_error f (ApiConflict m) = ApiConflict (f m)"
| "wrap_error f (ApiOther m) = ApiOther (f m)"
| "wrap_error f (ErrSentinel t m) = ErrSentinel t (f m)"
| "wrap_error f (OsErr e) = OsErr e"
| "wrap_error f (ErrorText m) = ErrorText (f m)"

section \<open>Credentials\<close>

definition strconv_ParseBool :: "string \<Rightarrow> bool option" where
  "strconv_ParseBool s =
     (if s \<in> {''1'', ''t'', ''T'', ''TRUE'', ''true'', ''True''} then Some True
      else if s \<in> {''0'', ''f'', ''F'', ''FALSE'', ''false'', ''False''} then Some False
      else None)"

definition NewGovcVMProvider :: "'w host \<Rightarrow> Secret \<Rightarrow> govcVMProvider result" where
  "NewGovcVMProvider H secret =
     (let get = mget (se_Data secret);
          where = om_Namespace (se_Meta secret) @ ''/'' @ om_Name (se_Meta secret)
      in case find (\<lambda>kv. snd kv = []) (hs_MapOrder H [(secretKeyServer, get secretKeyServer),
                (secretKeyUsername, get secretKeyUsername), (secretKeyPassword, get secretKeyPassword)]) of
           Some (key, v) \<Rightarrow>
             Inl (ErrorText (''vSphere credentials Secret '' @ where @ '' is missing key '' @ quoted key))
         | None \<Rightarrow>
             let insecure = (if get secretKeyInsecure = [] then ''false'' else get secretKeyInsecure)
             in case strconv_ParseBool insecure of
                  None \<Rightarrow> Inl (ErrorText (''vSphere credentials Secret '' @ where @ '' has invalid '' @ quoted secretKeyInsecure
                    @ '' value '' @ quoted insecure @ '': strconv.ParseBool: parsing '' @ quoted insecure @ '': invalid syntax''))
                | Some b \<Rightarrow> Inr \<lparr>gp_config = \<lparr>gc_Server = get secretKeyServer, gc_Username = get secretKeyUsername,
                      gc_Password = get secretKeyPassword, gc_Insecure = (if b then ''true'' else ''false'')\<rparr>,
                    gp_command = (if hs_Getenv H ''GOVC_PATH'' = [] then ''/usr/local/bin/govc'' else hs_Getenv H ''GOVC_PATH'')\<rparr>)"

section \<open>Running govc\<close>

text \<open>The matches of \<open>\x1b\[[0-9;?]*[ -/]*[@-~]\<close>: what follows one at the start of a text.\<close>

definition ansi_match :: "string \<Rightarrow> string option" where
  "ansi_match s =
     (case s of
        c # d # rest \<Rightarrow>
          if c = CHR 0x1B \<and> d = CHR ''['' then
            (case dropWhile (\<lambda>x. 32 \<le> (of_char x :: nat) \<and> of_char x \<le> (47 :: nat))
                    (dropWhile (\<lambda>x. is_digit x \<or> x = CHR '';'' \<or> x = CHR ''?'') rest) of
               [] \<Rightarrow> None
             | x # r \<Rightarrow> if 64 \<le> (of_char x :: nat) \<and> of_char x \<le> (126 :: nat) then Some r else None)
          else None
      | _ \<Rightarrow> None)"

lemma ansi_match_shorter: "ansi_match s = Some r \<Longrightarrow> length r < length s"
proof -
  assume a: "ansi_match s = Some r"
  then obtain c d rest where s: "s = c # d # rest" by (auto simp: ansi_match_def split: list.splits)
  have le: "length (dropWhile p (dropWhile q rest)) \<le> length rest" for p q
    by (meson length_dropWhile_le le_trans)
  from a obtain x where "dropWhile (\<lambda>x. 32 \<le> (of_char x :: nat) \<and> of_char x \<le> (47 :: nat))
      (dropWhile (\<lambda>x. is_digit x \<or> x = CHR '';'' \<or> x = CHR ''?'') rest) = x # r"
    unfolding s ansi_match_def by (auto split: list.splits if_splits)
  then show ?thesis using le [of "\<lambda>x. 32 \<le> (of_char x :: nat) \<and> of_char x \<le> (47 :: nat)"
      "\<lambda>x. is_digit x \<or> x = CHR '';'' \<or> x = CHR ''?''"] by (simp add: s)
qed

function strip_ansi :: "string \<Rightarrow> string" where
  "strip_ansi [] = []"
| "strip_ansi (c # s) = (case ansi_match (c # s) of Some r \<Rightarrow> strip_ansi r | None \<Rightarrow> c # strip_ansi s)"
  by pat_completeness auto

termination strip_ansi
  by (relation "measure length") (auto dest: ansi_match_shorter)

definition sanitizeCommandOutput :: "string \<Rightarrow> string" where
  "sanitizeCommandOutput output =
     (let cleaned = replace_char (CHR 0x0D) (CHR 0x0A) (strip_ansi output);
          lines = filter (\<lambda>line. \<not> (line = [] \<or> go_Contains line ''Uploading...'')) (map go_TrimSpace (go_Split (CHR 0x0A) cleaned))
      in if lines = [] then go_TrimSpace cleaned
         else let lines = (if length lines > 3 then drop (length lines - 3) lines else lines)
              in go_Join lines ''; '')"

definition govc_result :: "string list \<Rightarrow> govc_answer \<Rightarrow> string result" where
  "govc_result args answer =
     (case answer of
        GovcOK output \<Rightarrow> Inr output
      | GovcExpired err \<Rightarrow> Inl (ErrorText (''govc '' @ go_Join args '' '' @ '' failed: '' @ err))
      | GovcFailed err output \<Rightarrow>
          Inl (ErrorText (''govc '' @ go_Join args '' '' @ '' failed: '' @ err @ '': '' @ sanitizeCommandOutput output)))"

definition runOutput :: "'w host \<Rightarrow> govcVMProvider \<Rightarrow> string list \<Rightarrow> ('w, string result) io" where
  "runOutput H p args =
     do { answer \<leftarrow> ask (hs_govc H p args) (\<lambda>r. EvHost (Govc args r)); ret (govc_result args answer) }"

definition run :: "'w host \<Rightarrow> govcVMProvider \<Rightarrow> string list \<Rightarrow> ('w, unit result) io" where
  "run H p args = attempt (runOutput H p args) (\<lambda>_. ret (Inr ()))"

text \<open>The classification of failures by the text of the message.\<close>

definition says :: "go_error \<Rightarrow> string \<Rightarrow> bool" where
  "says err phrase \<longleftrightarrow> go_Contains (go_ToLower (error_text err)) phrase"

definition isGovcVMNotFound :: "go_error \<Rightarrow> bool" where
  "isGovcVMNotFound err \<longleftrightarrow> says err ''no such vm'' \<or> says err ''vm '' \<and> says err '' not found''"

definition isGovcVMAlreadyExists :: "go_error \<Rightarrow> bool" where
  "isGovcVMAlreadyExists err \<longleftrightarrow> says err ''already exists'' \<or> says err ''duplicatename'' \<or> says err ''duplicate name''"

definition isGovcDeviceAlreadyExists :: "go_error \<Rightarrow> bool" where
  "isGovcDeviceAlreadyExists err \<longleftrightarrow>
     says err ''already exists'' \<or> says err ''already present'' \<or> says err ''device'' \<and> says err ''exists''"

definition isGovcTagAlreadyAttached :: "go_error \<Rightarrow> bool" where
  "isGovcTagAlreadyAttached err \<longleftrightarrow> says err ''already attached'' \<or> says err ''already exists''"

definition isGovcVMAlreadyPoweredOn :: "go_error \<Rightarrow> bool" where
  "isGovcVMAlreadyPoweredOn err \<longleftrightarrow>
     says err ''already powered on'' \<or> says err ''current state'' \<and> says err ''poweredon''"

definition isGovcDatastorePathNotFound :: "go_error \<Rightarrow> bool" where
  "isGovcDatastorePathNotFound err \<longleftrightarrow>
     says err ''no such file'' \<or> says err ''filenotfound'' \<or> says err ''not found'' \<or> says err ''no such object''"

definition isGovcDatastorePathAlreadyExists :: "go_error \<Rightarrow> bool" where
  "isGovcDatastorePathAlreadyExists err \<longleftrightarrow> says err ''already exists'' \<or> says err ''file exists''"

text \<open>A command whose failure of a certain kind counts as success.\<close>

definition runUnless :: "'w host \<Rightarrow> govcVMProvider \<Rightarrow> (go_error \<Rightarrow> bool) \<Rightarrow> string list \<Rightarrow> ('w, unit result) io" where
  "runUnless H p harmless args =
     handle (run H p args) (\<lambda>e. ret (if harmless e then Inr () else Inl e)) (\<lambda>_. ret (Inr ()))"

section \<open>Looking at a VM\<close>

definition vmFolder :: "VsphereAgentPool \<Rightarrow> string" where
  "vmFolder pool =
     (if vp_Folder (ps_VSphere (pool_Spec pool)) \<noteq> [] then vp_Folder (ps_VSphere (pool_Spec pool))
      else lor_Name (ps_HostedClusterRef (pool_Spec pool)))"

definition vmInventoryPath :: "VsphereAgentPool \<Rightarrow> string \<Rightarrow> string" where
  "vmInventoryPath pool name =
     (let folder = go_Trim (vmFolder pool) ''/''
      in if folder = [] then ''/'' @ datacenter pool @ ''/vm/'' @ name
         else ''/'' @ datacenter pool @ ''/vm/'' @ folder @ ''/'' @ name)"

definition vmDetailsWithSelector ::
  "'w host \<Rightarrow> govcVMProvider \<Rightarrow> VsphereAgentPool \<Rightarrow> string \<Rightarrow> string \<Rightarrow> string \<Rightarrow> ('w, govcVirtualMachine result) io" where
  "vmDetailsWithSelector H p pool selector val identity =
     handle (runOutput H p [''vm.info'', ''-json'', ''-dc'', datacenter pool, selector, val])
       (\<lambda>e. ret (Inl (if isGovcVMNotFound e then ErrSentinel errVMNotFound (''vSphere VM not found: '' @ error_text e) else e)))
       (\<lambda>output. case hs_Unmarshal H output of
          Inl e \<Rightarrow> ret (Inl (ErrorText e))
        | Inr [] \<Rightarrow> ret (Inl (ErrSentinel errVMNotFound (''vSphere VM not found: vm.info returned no VM for '' @ identity)))
        | Inr (vm # vms) \<Rightarrow> ret (Inr vm))"

definition vmDetails :: "'w host \<Rightarrow> govcVMProvider \<Rightarrow> VsphereAgentPool \<Rightarrow> string \<Rightarrow> ('w, govcVirtualMachine result) io" where
  "vmDetails H p pool name = vmDetailsWithSelector H p pool ''-vm.ipath'' (vmInventoryPath pool name) name"

definition vmDetailsByUUID :: "'w host \<Rightarrow> govcVMProvider \<Rightarrow> VsphereAgentPool \<Rightarrow> string \<Rightarrow> ('w, govcVirtualMachine result) io" where
  "vmDetailsByUUID H p pool uuid = vmDetailsWithSelector H p pool ''-vm.uuid'' uuid uuid"

definition hostNow :: "'w host \<Rightarrow> ('w, gotime) io" where
  "hostNow H = ask (hs_now H) EvClock"

definition govc_VMStatus :: "'w host \<Rightarrow> govcVMProvider \<Rightarrow> VsphereAgentPool \<Rightarrow> string \<Rightarrow> ('w, OwnedVMStatus result) io" where
  "govc_VMStatus H p pool name =
     attempt (vmDetails H p pool name) (\<lambda>vm. do {
       now \<leftarrow> hostNow H;
       ret (Inr ((newOwnedVMStatus now name)\<lparr>
         vm_OwnerUID := (if go_HasPrefix (gv_Annotation vm) vmOwnerAnnotationPrefix
                         then go_TrimPrefix (gv_Annotation vm) vmOwnerAnnotationPrefix else []),
         vm_BIOSUUID := normalizeVMwareSerialUUID (gv_UUID vm),
         vm_MACAddress := (case find (\<lambda>device. go_TrimSpace (gd_MACAddress device) \<noteq> []) (gv_Device vm) of
            None \<Rightarrow> [] | Some device \<Rightarrow> normalizeMAC (gd_MACAddress device))\<rparr>)) })"

section \<open>Deleting a VM\<close>

text \<open>
  The VM a deletion is about, with the UUID the VM now has; \<open>None\<close> when it is gone already. A VM with a
  recorded owner must carry the owner's annotation.
\<close>

definition deletionTarget ::
  "'w host \<Rightarrow> govcVMProvider \<Rightarrow> VsphereAgentPool \<Rightarrow> OwnedVMStatus \<Rightarrow> ('w, OwnedVMStatus option result) io" where
  "deletionTarget H p pool vm =
     (if vm_OwnerUID vm = [] then ret (Inr (Some vm))
      else handle (if vm_BIOSUUID vm \<noteq> [] then vmDetailsByUUID H p pool (vm_BIOSUUID vm) else vmDetails H p pool (vm_Name vm))
        (\<lambda>e. ret (if IsSentinel errVMNotFound e then Inr None
                  else Inl (wrap_error (\<lambda>t. ''verify VM '' @ quoted (vm_Name vm) @ '' ownership before delete: '' @ t) e)))
        (\<lambda>discovered.
           if gv_Annotation discovered \<noteq> vmOwnerAnnotationPrefix @ vm_OwnerUID vm
           then ret (Inl (ErrorText (''refusing to delete VM '' @ quoted (vm_Name vm)
                  @ '': ownership annotation does not match VsphereAgent UID'')))
           else let uuid = normalizeVMwareSerialUUID (gv_UUID discovered)
                in ret (Inr (Some (if uuid \<noteq> [] then vm\<lparr>vm_BIOSUUID := uuid\<rparr> else vm)))))"

definition govc_DeleteVM :: "'w host \<Rightarrow> govcVMProvider \<Rightarrow> VsphereAgentPool \<Rightarrow> OwnedVMStatus \<Rightarrow> ('w, unit result) io" where
  "govc_DeleteVM H p pool vm =
     (if go_TrimSpace (vm_Name vm) = [] then ret (Inl (ErrorText ''cannot delete VM with empty name''))
      else attempt (deletionTarget H p pool vm) (\<lambda>target.
        case target of
          None \<Rightarrow> ret (Inr ())
        | Some vm \<Rightarrow>
            runUnless H p isGovcVMNotFound
              (if go_TrimSpace (vm_BIOSUUID vm) \<noteq> []
               then [''vm.destroy'', ''-dc'', datacenter pool, ''-vm.uuid'', vm_BIOSUUID vm]
               else [''vm.destroy'', ''-dc'', datacenter pool, ''-vm.ipath'', vmInventoryPath pool (vm_Name vm)])))"

section \<open>Creating a VM\<close>

definition hasCDROMDevice :: "string \<Rightarrow> bool" where
  "hasCDROMDevice output \<longleftrightarrow> list_ex (\<lambda>line. go_HasPrefix (go_TrimSpace line) ''cdrom-'') (go_Split (CHR 0x0A) output)"

definition ensureCDROM :: "'w host \<Rightarrow> govcVMProvider \<Rightarrow> VsphereAgentPool \<Rightarrow> string \<Rightarrow> ('w, unit result) io" where
  "ensureCDROM H p pool name =
     attempt (runOutput H p [''device.ls'', ''-dc'', datacenter pool, ''-vm'', vmInventoryPath pool name]) (\<lambda>output.
       if hasCDROMDevice output then ret (Inr ())
       else runUnless H p isGovcDeviceAlreadyExists
              [''device.cdrom.add'', ''-dc'', datacenter pool, ''-vm'', vmInventoryPath pool name])"

definition createArgs :: "VsphereAgentPool \<Rightarrow> string \<Rightarrow> string \<Rightarrow> string list" where
  "createArgs pool ownerAnnotation name =
     (let vs = ps_VSphere (pool_Spec pool); t = ps_Template (pool_Spec pool)
      in [''vm.create'',
          ''-annotation'', ownerAnnotation,
          ''-dc'', vp_Datacenter vs,
          ''-datastore-cluster'', vp_DatastoreCluster vs,
          ''-pool'', vp_ResourcePool vs,
          ''-folder'', vmFolder pool,
          ''-net'', vp_Network vs,
          ''-net.adapter'', vp_NetworkAdapterType vs,
          ''-g'', vp_GuestID vs,
          ''-firmware'', vp_Firmware vs,
          ''-c'', int_str (sint (vt_NumCPUs t)),
          ''-m'', int_str (sint (vt_MemoryMiB t)),
          ''-disk'', int_str (sint (vt_DiskGiB t)) @ ''G'',
          ''-disk.controller'', vp_SCSIType vs]
         @ (if vp_DiskEagerlyScrub vs then [''-disk.eager''] else [])
         @ [''-on=false'', name])"

text \<open>\<open>True\<close> when the VM was created now, \<open>False\<close> when it exists and carries the owner's annotation.\<close>

definition createOrFindVM ::
  "'w host \<Rightarrow> govcVMProvider \<Rightarrow> VsphereAgentPool \<Rightarrow> string \<Rightarrow> string \<Rightarrow> ('w, bool result) io" where
  "createOrFindVM H p pool ownerAnnotation name =
     handle (run H p (createArgs pool ownerAnnotation name))
       (\<lambda>e. if isGovcVMAlreadyExists e then
              handle (vmDetails H p pool name)
                (\<lambda>statusErr. ret (Inl (wrap_error (\<lambda>t. ''verify existing VM '' @ quoted name @ '' ownership: '' @ t) statusErr)))
                (\<lambda>existing.
                   if gv_Annotation existing \<noteq> ownerAnnotation
                   then ret (Inl (ErrorText (''refusing to manage existing VM '' @ quoted name
                          @ '': ownership annotation does not match VsphereAgent UID'')))
                   else ret (Inr False))
            else ret (Inl e))
       (\<lambda>_. ret (Inr True))"

definition configureVM :: "'w host \<Rightarrow> govcVMProvider \<Rightarrow> VsphereAgentPool \<Rightarrow> string \<Rightarrow> string \<Rightarrow> ('w, unit result) io" where
  "configureVM H p pool name isoPath =
     (let vmPath = vmInventoryPath pool name
      in attempt (run H p [''vm.change'', ''-dc'', datacenter pool, ''-vm'', vmPath, ''-e'', ''disk.enableUUID=TRUE'']) (\<lambda>_.
         attempt (ensureCDROM H p pool name) (\<lambda>_.
         attempt (run H p [''device.cdrom.insert'', ''-dc'', datacenter pool, ''-vm'', vmPath, ''-ds'', isoDatastore pool, isoPath]) (\<lambda>_.
         attempt (for_each (\<lambda>tag. runUnless H p isGovcTagAlreadyAttached
                    [''tags.attach'', ''-dc'', datacenter pool, tag, vmPath]) (vp_VMTags (ps_VSphere (pool_Spec pool)))) (\<lambda>_.
         runUnless H p isGovcVMAlreadyPoweredOn [''vm.power'', ''-on'', ''-dc'', datacenter pool, ''-vm.ipath'', vmPath])))))"

definition cleanupPartialVM ::
  "'w host \<Rightarrow> govcVMProvider \<Rightarrow> VsphereAgentPool \<Rightarrow> bool \<Rightarrow> string \<Rightarrow> string \<Rightarrow> go_error \<Rightarrow> ('w, OwnedVMStatus result) io" where
  "cleanupPartialVM H p pool created name ownerUID cause =
     (if \<not> created then ret (Inl cause)
      else do {
        now \<leftarrow> hostNow H;
        handle (govc_DeleteVM H p pool ((newOwnedVMStatus now name)\<lparr>vm_OwnerUID := ownerUID\<rparr>))
          (\<lambda>e. ret (Inl (wrap_error (\<lambda>t. t @ ''; failed to clean up partially created VM '' @ quoted name @ '': '' @ error_text e) cause)))
          (\<lambda>_. ret (Inl cause)) })"

definition createdVM ::
  "'w host \<Rightarrow> govcVMProvider \<Rightarrow> VsphereAgentPool \<Rightarrow> string \<Rightarrow> string \<Rightarrow> ('w, OwnedVMStatus result) io" where
  "createdVM H p pool name ownerUID =
     do { now \<leftarrow> hostNow H;
          let vm = (newOwnedVMStatus now name)\<lparr>vm_OwnerUID := ownerUID\<rparr>;
          handle (govc_VMStatus H p pool name)
            (\<lambda>_. ret (Inr vm))
            (\<lambda>discovered. ret (Inr (vm\<lparr>vm_OwnerUID := (if vm_OwnerUID discovered \<noteq> [] then vm_OwnerUID discovered else ownerUID),
               vm_BIOSUUID := vm_BIOSUUID discovered, vm_MACAddress := vm_MACAddress discovered\<rparr>))) }"

definition govc_CreateVM :: "'w host \<Rightarrow> govcVMProvider \<Rightarrow> VsphereAgentPool \<Rightarrow> VMCreateRequest \<Rightarrow> ('w, OwnedVMStatus result) io" where
  "govc_CreateVM H p pool req =
     (let name = go_TrimSpace (rq_Name req); ownerUID = go_TrimSpace (rq_OwnerUID req)
      in if name = [] then ret (Inl (ErrorText ''VM name is required''))
         else if rq_ISOPath req = [] then ret (Inl (ErrorText ''cached ISO path is empty''))
         else if ownerUID = [] then ret (Inl (ErrorText ''VsphereAgent owner UID is required''))
         else attempt (createOrFindVM H p pool (vmOwnerAnnotationPrefix @ ownerUID) name) (\<lambda>created.
              handle (configureVM H p pool name (rq_ISOPath req))
                (cleanupPartialVM H p pool created name ownerUID)
                (\<lambda>_. createdVM H p pool name ownerUID)))"

section \<open>The discovery image\<close>

definition govc_DeleteISO :: "'w host \<Rightarrow> govcVMProvider \<Rightarrow> VsphereAgentPool \<Rightarrow> string \<Rightarrow> ('w, unit result) io" where
  "govc_DeleteISO H p pool isoPath =
     (if go_TrimSpace isoPath = [] then ret (Inr ())
      else runUnless H p isGovcDatastorePathNotFound
             [''datastore.rm'', ''-f'', ''-dc'', datacenter pool, ''-ds'', isoDatastore pool, isoPath])"

text \<open>\<open>filepath.Base\<close> and \<open>validHTTPDate\<close>.\<close>

definition filepath_Base :: "string \<Rightarrow> string" where
  "filepath_Base p =
     (if p = [] then ''.''
      else let stripped = rev (dropWhile (\<lambda>c. c = CHR ''/'') (rev p));
               base = rev (takeWhile (\<lambda>c. c \<noteq> CHR ''/'') (rev stripped))
           in if base = [] then ''/'' else base)"

definition validHTTPDate :: "golib \<Rightarrow> string \<Rightarrow> string" where
  "validHTTPDate L val = (case gl_http_ParseTime L val of None \<Rightarrow> [] | Some date \<Rightarrow> date)"

record isoDownloadResult =
  dl_SHA256 :: string
  dl_SizeBytes :: int64
  dl_LastModified :: string
  dl_NotModified :: bool

text \<open>Writing the body of a response to a file, at most one byte more than the limit.\<close>

definition saveBody ::
  "'w host \<Rightarrow> golib \<Rightarrow> string \<Rightarrow> string \<Rightarrow> string \<Rightarrow> string \<Rightarrow> ('w, isoDownloadResult result) io" where
  "saveBody H L safeURL path lastModified body =
     attempt (ask (hs_CreateFile H path) (\<lambda>r. EvHost (CreateFile path r))) (\<lambda>_. do {
       let limited = take (maxISODownloadSize + 1) body;
       failure \<leftarrow> ask (hs_CopyFile H path limited) (\<lambda>r. EvHost (CopyFile path limited r));
       case failure of
         Some (CopyExpired err) \<Rightarrow> ret (Inl (ErrorText (''download '' @ safeURL @ '' failed: '' @ err)))
       | Some (CopyFailed err) \<Rightarrow> ret (Inl (ErrorText err))
       | None \<Rightarrow>
           if length limited > maxISODownloadSize
           then ret (Inl (ErrorText (''download '' @ safeURL @ '' exceeds the '' @ nat_str maxISODownloadSize @ ''-byte limit'')))
           else ret (Inr \<lparr>dl_SHA256 = sha256hex limited, dl_SizeBytes = int (length limited),
                  dl_LastModified = validHTTPDate L lastModified, dl_NotModified = False\<rparr>) })"

definition downloadISO ::
  "'w host \<Rightarrow> golib \<Rightarrow> string \<Rightarrow> string \<Rightarrow> string \<Rightarrow> ('w, isoDownloadResult result) io" where
  "downloadISO H L rawURL path lastModified =
     (let safeURL = redactedDownloadURL L rawURL;
          since = validHTTPDate L lastModified
      in do {
        answer \<leftarrow> ask (hs_HttpGet H rawURL since) (\<lambda>r. EvHost (HttpGet rawURL since r));
        case answer of
          HttpInvalid \<Rightarrow> ret (Inl (ErrorText (''invalid ISO download URL '' @ quoted safeURL)))
        | HttpExpired err \<Rightarrow> ret (Inl (ErrorText (''download '' @ safeURL @ '' failed: '' @ err)))
        | HttpFailed err \<Rightarrow> ret (Inl (ErrorText (''download '' @ safeURL @ '' failed: '' @ err)))
        | HttpResponse code contentLength modified body \<Rightarrow>
            if code = 304 \<and> since \<noteq> []
            then ret (Inr \<lparr>dl_SHA256 = [], dl_SizeBytes = 0, dl_LastModified = [], dl_NotModified = True\<rparr>)
            else if code \<noteq> 200 then ret (Inl (ErrorText (''download '' @ safeURL @ '' returned HTTP '' @ nat_str code)))
            else if contentLength > int maxISODownloadSize
            then ret (Inl (ErrorText (''download '' @ safeURL @ '' is '' @ int_str contentLength @ '' bytes, exceeding the ''
                   @ nat_str maxISODownloadSize @ ''-byte limit'')))
            else saveBody H L safeURL path modified body })"

definition verifyISO ::
  "'w host \<Rightarrow> govcVMProvider \<Rightarrow> VsphereAgentPool \<Rightarrow> string \<Rightarrow> string \<Rightarrow> string \<Rightarrow> ('w, bool result) io" where
  "verifyISO H p pool remote local digest =
     handle (run H p [''datastore.download'', ''-dc'', datacenter pool, ''-ds'', isoDatastore pool, remote, local])
       (\<lambda>e. ret (if isGovcDatastorePathNotFound e then Inr False else Inl e))
       (\<lambda>_. attempt (ask (hs_ReadFile H local) (\<lambda>r. EvHost (ReadFile local r))) (\<lambda>content.
              ret (Inr (sha256hex content = digest))))"

definition datastoreDirs :: "string \<Rightarrow> string list" where
  "datastoreDirs dir =
     (let dir = go_Trim (path_Clean (''/'' @ go_TrimSpace dir)) ''/''
      in if dir = [] \<or> dir = ''.'' then [] else filter (\<lambda>part. part \<noteq> []) (go_Split (CHR ''/'') dir))"

fun makeDirs :: "'w host \<Rightarrow> govcVMProvider \<Rightarrow> VsphereAgentPool \<Rightarrow> string \<Rightarrow> string list \<Rightarrow> ('w, unit result) io" where
  "makeDirs H p pool cur [] = ret (Inr ())"
| "makeDirs H p pool cur (part # parts) =
     (let cur = path_Join [cur, part]
      in attempt (runUnless H p isGovcDatastorePathAlreadyExists
                    [''datastore.mkdir'', ''-dc'', datacenter pool, ''-ds'', isoDatastore pool, cur]) (\<lambda>_.
         makeDirs H p pool cur parts))"

definition ensureDatastoreDirectory :: "'w host \<Rightarrow> govcVMProvider \<Rightarrow> VsphereAgentPool \<Rightarrow> string \<Rightarrow> ('w, unit result) io" where
  "ensureDatastoreDirectory H p pool dir = makeDirs H p pool [] (datastoreDirs dir)"

fun backingInUse ::
  "'w host \<Rightarrow> govcVMProvider \<Rightarrow> VsphereAgentPool \<Rightarrow> string \<Rightarrow> OwnedVMStatus list \<Rightarrow> ('w, bool result) io" where
  "backingInUse H p pool backing [] = ret (Inr False)"
| "backingInUse H p pool backing (vm # vms) =
     (if vm_BIOSUUID vm = [] \<and> vm_Name vm = []
      then ret (Inl (ErrorText ''cannot inspect ISO reference for VM without identity''))
      else handle (if vm_BIOSUUID vm \<noteq> [] then vmDetailsByUUID H p pool (vm_BIOSUUID vm) else vmDetails H p pool (vm_Name vm))
        (\<lambda>e. if IsSentinel errVMNotFound e then backingInUse H p pool backing vms else ret (Inl e))
        (\<lambda>details. if list_ex (\<lambda>device. gd_FileName device = backing) (gv_Device details) then ret (Inr True)
                   else backingInUse H p pool backing vms))"

definition cachedISOInUse :: "'w host \<Rightarrow> govcVMProvider \<Rightarrow> VsphereAgentPool \<Rightarrow> string \<Rightarrow> ('w, bool result) io" where
  "cachedISOInUse H p pool remote =
     backingInUse H p pool (''['' @ isoDatastore pool @ ''] '' @ remote) (pst_OwnedVMs (pool_Status pool))"

definition isoValidator :: "golib \<Rightarrow> VsphereAgentPool \<Rightarrow> string \<Rightarrow> string" where
  "isoValidator L pool downloadURL =
     (let cached = pst_ISO (pool_Status pool);
          forceToken = mget (om_Annotations (pool_Meta pool)) forceISORefreshAnnotation
      in if ic_URLHash cached = downloadURLHash downloadURL \<and> ic_SHA256 cached \<noteq> []
            \<and> ic_Path cached = isoContentPath pool (ic_SHA256 cached)
            \<and> (forceToken = [] \<or> forceToken = ic_ForceRefreshToken cached)
         then validHTTPDate L (ic_LastModified cached) else [])"

definition uploadISO ::
  "'w host \<Rightarrow> govcVMProvider \<Rightarrow> VsphereAgentPool \<Rightarrow> string \<Rightarrow> string \<Rightarrow> string \<Rightarrow> isoDownloadResult \<Rightarrow> ('w, ISOEnsureResult result) io" where
  "uploadISO H p pool tmpDir stagingPath isoPath download =
     attempt (run H p [''datastore.upload'', ''-dc'', datacenter pool, ''-ds'', isoDatastore pool,
                path_Join [tmpDir, ''discovery.iso''], stagingPath]) (\<lambda>_.
     attempt (verifyISO H p pool stagingPath (path_Join [tmpDir, ''uploaded.iso'']) (dl_SHA256 download)) (\<lambda>valid.
     if \<not> valid then ret (Inl (ErrorText ''uploaded ISO failed content verification''))
     else attempt (run H p [''datastore.mv'', ''-f=true'', ''-dc'', datacenter pool, ''-ds'', isoDatastore pool, stagingPath, isoPath]) (\<lambda>_.
     ret (Inr \<lparr>ir_VerificationDeferred = False, ir_LastModified = dl_LastModified download, ir_Path = isoPath,
       ir_SHA256 = dl_SHA256 download, ir_SizeBytes = dl_SizeBytes download, ir_Uploaded = True\<rparr>))))"

definition storeISO ::
  "'w host \<Rightarrow> govcVMProvider \<Rightarrow> VsphereAgentPool \<Rightarrow> string \<Rightarrow> isoDownloadResult \<Rightarrow> ('w, ISOEnsureResult result) io" where
  "storeISO H p pool tmpDir download =
     (let isoPath = isoContentPath pool (dl_SHA256 download);
          stagingPath = isoPath @ ''.'' @ filepath_Base tmpDir @ ''.partial''
      in attempt (verifyISO H p pool isoPath (path_Join [tmpDir, ''cached.iso'']) (dl_SHA256 download)) (\<lambda>valid.
         if valid then ret (Inr \<lparr>ir_VerificationDeferred = False, ir_LastModified = dl_LastModified download, ir_Path = isoPath,
                ir_SHA256 = dl_SHA256 download, ir_SizeBytes = dl_SizeBytes download, ir_Uploaded = False\<rparr>)
         else attempt (ensureDatastoreDirectory H p pool (path_Dir isoPath)) (\<lambda>_.
              do { r \<leftarrow> uploadISO H p pool tmpDir stagingPath isoPath download;
                   _ \<leftarrow> govc_DeleteISO H p pool stagingPath;
                   ret r })))"

definition ensureISOIn ::
  "'w host \<Rightarrow> golib \<Rightarrow> govcVMProvider \<Rightarrow> VsphereAgentPool \<Rightarrow> string \<Rightarrow> string \<Rightarrow> ('w, ISOEnsureResult result) io" where
  "ensureISOIn H L p pool downloadURL tmpDir =
     (let cached = pst_ISO (pool_Status pool);
          validator = isoValidator L pool downloadURL;
          tmpFile = path_Join [tmpDir, ''discovery.iso''];
          result = \<lparr>ir_VerificationDeferred = False, ir_LastModified = validator, ir_Path = ic_Path cached,
            ir_SHA256 = ic_SHA256 cached, ir_SizeBytes = ic_SizeBytes cached, ir_Uploaded = False\<rparr>
      in attempt (downloadISO H L downloadURL tmpFile validator) (\<lambda>download.
         if dl_NotModified download then
           handle (cachedISOInUse H p pool (ic_Path cached))
             (\<lambda>e. ret (Inl (wrap_error (\<lambda>t. ''inspect cached ISO references: '' @ t) e)))
             (\<lambda>inUse. if inUse then ret (Inr (result\<lparr>ir_VerificationDeferred := True\<rparr>))
              else handle (verifyISO H p pool (ic_Path cached) (path_Join [tmpDir, ''cached.iso'']) (ic_SHA256 cached))
                (\<lambda>e. ret (Inl (wrap_error (\<lambda>t. ''verify cached ISO: '' @ t) e)))
                (\<lambda>valid. if valid then ret (Inr result)
                 else attempt (downloadISO H L downloadURL tmpFile []) (storeISO H p pool tmpDir)))
         else storeISO H p pool tmpDir download))"

definition govc_EnsureISO ::
  "'w host \<Rightarrow> golib \<Rightarrow> govcVMProvider \<Rightarrow> VsphereAgentPool \<Rightarrow> string \<Rightarrow> ('w, ISOEnsureResult result) io" where
  "govc_EnsureISO H L p pool downloadURL =
     (if downloadURL = [] then ret (Inl (ErrorText ''InfraEnv ISO download URL is empty''))
      else attempt (ask (hs_MkdirTemp H ''agent-forge-iso-'') (\<lambda>r. EvHost (MkdirTemp r))) (\<lambda>tmpDir.
        do { r \<leftarrow> ensureISOIn H L p pool downloadURL tmpDir;
             _ \<leftarrow> ask (hs_RemoveAll H tmpDir) (\<lambda>_. EvHost (RemoveAll tmpDir));
             ret r }))"

section \<open>Ejecting the image\<close>

text \<open>\<open>hex.DecodeString\<close> succeeds with \<open>n\<close> bytes.\<close>

definition hex_bytes :: "string \<Rightarrow> nat option" where
  "hex_bytes s = (if even (length s) \<and> list_all is_hex s then Some (length s div 2) else None)"

definition isCachedISO :: "VsphereAgentPool \<Rightarrow> string \<Rightarrow> bool" where
  "isCachedISO pool filename \<longleftrightarrow>
     (let prefix = ''['' @ isoDatastore pool @ ''] '' @ isoPathPrefix pool @ ''/''
      in go_HasPrefix filename prefix \<and> go_HasSuffix filename ''.iso''
         \<and> hex_bytes (go_TrimSuffix (go_TrimPrefix filename prefix) ''.iso'') = Some 32)"

definition ejectionForeign :: "govcVirtualMachine \<Rightarrow> string \<Rightarrow> string \<Rightarrow> bool" where
  "ejectionForeign details uuid ownerUID \<longleftrightarrow>
     normalizeVMwareSerialUUID (gv_UUID details) \<noteq> uuid
     \<or> ownerUID \<noteq> [] \<and> gv_Annotation details \<noteq> vmOwnerAnnotationPrefix @ ownerUID"

definition ejectionMismatch :: "string \<Rightarrow> go_error" where
  "ejectionMismatch name = ErrSentinel errVMOwnershipMismatch
     (''vSphere VM ownership mismatch: refusing ISO ejection for VM '' @ quoted name)"

definition govc_PrepareISOEjection ::
  "'w host \<Rightarrow> govcVMProvider \<Rightarrow> VsphereAgentPool \<Rightarrow> OwnedVMStatus \<Rightarrow> ('w, ISOEjectionStatus option result) io" where
  "govc_PrepareISOEjection H p pool vm =
     (if vm_BIOSUUID vm = [] then ret (Inl (ErrorText ''cannot eject ISO without a VM UUID''))
      else attempt (vmDetailsByUUID H p pool (vm_BIOSUUID vm)) (\<lambda>details.
        if ejectionForeign details (vm_BIOSUUID vm) (vm_OwnerUID vm) then ret (Inl (ejectionMismatch (vm_Name vm)))
        else if gv_Question details \<noteq> None
        then ret (Inl (ErrorText (''VM '' @ quoted (vm_Name vm) @ '' has a pending question; refusing new ISO ejection'')))
        else case find (\<lambda>device. isCachedISO pool (gd_FileName device)) (gv_Device details) of
               None \<Rightarrow> ret (Inr None)
             | Some device \<Rightarrow>
                 do { now \<leftarrow> hostNow H;
                      ret (Inr (Some \<lparr>ej_VMName = vm_Name vm, ej_BIOSUUID = vm_BIOSUUID vm, ej_OwnerUID = vm_OwnerUID vm,
                        ej_Datacenter = datacenter pool, ej_DeviceKey = gd_Key device, ej_ISOPath = gd_FileName device,
                        ej_StartedAt = now, ej_DisconnectStarted = False, ej_QuestionID = []\<rparr>)) }))"

definition cdromLockAnswer :: "govcVMQuestion \<Rightarrow> string" where
  "cdromLockAnswer q =
     (if ''msg.cdromdisconnect.locked'' \<notin> set (qu_Message q) then []
      else case find (\<lambda>choice. go_EqualFold (go_TrimSpace (snd choice)) ''button.yes''
                        \<or> go_EqualFold (go_TrimSpace (snd choice)) ''Yes'') (qu_ChoiceInfo q) of
             None \<Rightarrow> [] | Some choice \<Rightarrow> fst choice)"

definition cdromName :: "ISOEjectionStatus \<Rightarrow> string" where
  "cdromName op = ''cdrom-'' @ int_str (ej_DeviceKey op)"

text \<open>
  An ejection in progress is the caller's state and the record of the operation; it ends in a result. The
  record changes before each checkpoint.
\<close>

type_synonym 'w ejection = "('w, (eject_state \<times> ISOEjectionStatus) \<times> unit result) io"

definition checkpointed :: "'w checkpoint \<Rightarrow> eject_state \<Rightarrow> ISOEjectionStatus \<Rightarrow> (eject_state \<Rightarrow> 'w ejection) \<Rightarrow> 'w ejection" where
  "checkpointed cp st op f =
     do { (st, r) \<leftarrow> cp st op;
          case r of Inl e \<Rightarrow> ret ((st, op), Inl e) | Inr _ \<Rightarrow> f st }"

definition answerISOLock ::
  "'w host \<Rightarrow> govcVMProvider \<Rightarrow> VsphereAgentPool \<Rightarrow> govcVMQuestion \<Rightarrow> 'w checkpoint \<Rightarrow> eject_state \<Rightarrow> ISOEjectionStatus \<Rightarrow> 'w ejection" where
  "answerISOLock H p pool question cp st op =
     (let answer = cdromLockAnswer question;
          reply = (\<lambda>st op. do { r \<leftarrow> run H p [''vm.question'', ''-dc'', datacenter pool, ''-vm.uuid'', ej_BIOSUUID op, ''-answer'', answer];
                               ret ((st, op), r) })
      in if answer = [] \<or> qu_ID question = [] \<or> ej_QuestionID op \<noteq> [] \<and> ej_QuestionID op \<noteq> qu_ID question
         then ret ((st, op), Inl (ErrorText (''unexpected VM question during ISO disconnect: '' @ qu_ID question)))
         else if ej_QuestionID op = [] then
           (let op = op\<lparr>ej_QuestionID := qu_ID question\<rparr> in checkpointed cp st op (\<lambda>st. reply st op))
         else reply st op)"

definition answerPending ::
  "'w host \<Rightarrow> govcVMProvider \<Rightarrow> VsphereAgentPool \<Rightarrow> govcVMQuestion option \<Rightarrow> 'w checkpoint \<Rightarrow> eject_state \<Rightarrow> ISOEjectionStatus \<Rightarrow> 'w ejection" where
  "answerPending H p pool question cp st op =
     (case question of None \<Rightarrow> ret ((st, op), Inr ()) | Some q \<Rightarrow> answerISOLock H p pool q cp st op)"

text \<open>
  Waiting for the disconnect, which runs in the background. Every second the VM is looked at for a question.
  The number counts the ticks left before the context's deadline, after which only the expired context or
  the finished command are seen.
\<close>

fun awaitDisconnect ::
  "nat \<Rightarrow> 'w host \<Rightarrow> govcVMProvider \<Rightarrow> VsphereAgentPool \<Rightarrow> string list \<Rightarrow> 'w checkpoint \<Rightarrow> eject_state \<Rightarrow> ISOEjectionStatus \<Rightarrow> 'w ejection" where
  "awaitDisconnect ticks H p pool args cp st op =
     do { w \<leftarrow> ask (hs_wait H) (\<lambda>r. EvHost (GovcWait r));
          case w of
            WaitDone answer \<Rightarrow> ret ((st, op), case govc_result args answer of Inl e \<Rightarrow> Inl e | Inr _ \<Rightarrow> Inr ())
          | WaitExpired err \<Rightarrow> ret ((st, op), Inl (ErrorText err))
          | WaitTick \<Rightarrow>
              (case ticks of
                 0 \<Rightarrow> ret ((st, op), Inl (ErrorText ''context deadline exceeded''))
               | Suc n \<Rightarrow>
                   handle (vmDetailsByUUID H p pool (ej_BIOSUUID op)) (\<lambda>e. ret ((st, op), Inl e)) (\<lambda>details.
                   do { ((st, op), r) \<leftarrow> answerPending H p pool (gv_Question details) cp st op;
                        case r of Inl e \<Rightarrow> ret ((st, op), Inl e)
                        | Inr _ \<Rightarrow> awaitDisconnect n H p pool args cp st op })) }"

declare awaitDisconnect.simps [simp del]

abbreviation disconnectTicks :: nat where "disconnectTicks \<equiv> 1801"

definition disconnectInstallationMedia ::
  "'w host \<Rightarrow> govcVMProvider \<Rightarrow> VsphereAgentPool \<Rightarrow> string \<Rightarrow> 'w checkpoint \<Rightarrow> eject_state \<Rightarrow> ISOEjectionStatus \<Rightarrow> 'w ejection" where
  "disconnectInstallationMedia H p pool device cp st op =
     (let args = [''device.disconnect'', ''-dc'', datacenter pool, ''-vm.uuid'', ej_BIOSUUID op, device]
      in do { _ \<leftarrow> ask (hs_start H p args) (\<lambda>_. EvHost (GovcStart args));
              awaitDisconnect disconnectTicks H p pool args cp st op })"

definition inDatacenter :: "string \<Rightarrow> VsphereAgentPool \<Rightarrow> VsphereAgentPool" where
  "inDatacenter dc pool =
     pool\<lparr>pool_Spec := (pool_Spec pool)\<lparr>ps_VSphere := (ps_VSphere (pool_Spec pool))\<lparr>vp_Datacenter := dc\<rparr>\<rparr>\<rparr>"

text \<open>The end of an ejection: disconnect, eject, and look whether the image is gone.\<close>

definition disconnectAndEject ::
  "'w host \<Rightarrow> govcVMProvider \<Rightarrow> VsphereAgentPool \<Rightarrow> 'w checkpoint \<Rightarrow> eject_state \<Rightarrow> ISOEjectionStatus \<Rightarrow> 'w ejection" where
  "disconnectAndEject H p pool cp st op =
     do { ((st, op), r) \<leftarrow> disconnectInstallationMedia H p pool (cdromName op) cp st op;
          case r of
            Inl e \<Rightarrow> ret ((st, op), Inl e)
          | Inr _ \<Rightarrow>
              do { r \<leftarrow> attempt (run H p [''device.cdrom.eject'', ''-dc'', datacenter pool, ''-vm.uuid'', ej_BIOSUUID op,
                                  ''-device'', cdromName op]) (\<lambda>_.
                        attempt (vmDetailsByUUID H p pool (ej_BIOSUUID op)) (\<lambda>observed.
                        ret (if list_ex (\<lambda>device. gd_Key device = ej_DeviceKey op \<and> gd_FileName device = ej_ISOPath op) (gv_Device observed)
                             then Inl (ErrorText (''VM '' @ quoted (ej_VMName op) @ '' still references discovery ISO after ejection''))
                             else Inr ())));
                   ret ((st, op), r) } }"

definition startDisconnect ::
  "'w host \<Rightarrow> govcVMProvider \<Rightarrow> VsphereAgentPool \<Rightarrow> 'w checkpoint \<Rightarrow> eject_state \<Rightarrow> ISOEjectionStatus \<Rightarrow> 'w ejection" where
  "startDisconnect H p pool cp st op =
     (if ej_DisconnectStarted op then disconnectAndEject H p pool cp st op
      else (let op = op\<lparr>ej_DisconnectStarted := True\<rparr>
            in checkpointed cp st op (\<lambda>st. disconnectAndEject H p pool cp st op)))"

definition ejectTarget ::
  "'w host \<Rightarrow> govcVMProvider \<Rightarrow> VsphereAgentPool \<Rightarrow> govcVirtualMachine \<Rightarrow> 'w checkpoint \<Rightarrow> eject_state \<Rightarrow> ISOEjectionStatus \<Rightarrow> 'w ejection" where
  "ejectTarget H p pool details cp st op =
     (case find (\<lambda>device. gd_Key device = ej_DeviceKey op) (gv_Device details) of
        None \<Rightarrow> ret ((st, op), Inr ())
      | Some target \<Rightarrow>
          if gd_FileName target = [] then ret ((st, op), Inr ())
          else if gd_FileName target \<noteq> ej_ISOPath op
          then ret ((st, op), Inl (ErrorText (''VM '' @ quoted (ej_VMName op) @ '' media changed during ISO ejection'')))
          else if gv_Question details \<noteq> None \<and> \<not> ej_DisconnectStarted op
          then ret ((st, op), Inl (ErrorText (''VM '' @ quoted (ej_VMName op) @ '' has a question before disconnect started'')))
          else do { ((st, op), r) \<leftarrow> answerPending H p pool (gv_Question details) cp st op;
                    case r of Inl e \<Rightarrow> ret ((st, op), Inl e) | Inr _ \<Rightarrow> startDisconnect H p pool cp st op })"

definition govc_EjectISO ::
  "'w host \<Rightarrow> govcVMProvider \<Rightarrow> VsphereAgentPool \<Rightarrow> ISOEjectionStatus \<Rightarrow> 'w checkpoint \<Rightarrow> eject_state \<Rightarrow> 'w ejection" where
  "govc_EjectISO H p pool op cp st =
     (if ej_BIOSUUID op = [] \<or> ej_ISOPath op = []
      then ret ((st, op), Inl (ErrorText ''incomplete persisted ISO ejection identity''))
      else (let pool = inDatacenter (ej_Datacenter op) pool
            in handle (vmDetailsByUUID H p pool (ej_BIOSUUID op))
                 (\<lambda>e. ret ((st, op), if IsSentinel errVMNotFound e then Inr () else Inl e))
                 (\<lambda>details. if ejectionForeign details (ej_BIOSUUID op) (ej_OwnerUID op)
                    then ret ((st, op), Inl (ejectionMismatch (ej_VMName op)))
                    else ejectTarget H p pool details cp st op)))"

section \<open>The provider\<close>

text \<open>To the controllers a call of the provider is one step of the world.\<close>

definition as_step :: "('w, 'a) io \<Rightarrow> 'w \<Rightarrow> 'a \<times> 'w" where
  "as_step m w = (case run_state m \<lparr>world = w, trace = []\<rparr> of (r, s) \<Rightarrow> (r, world s))"

definition govcProvider :: "'w host \<Rightarrow> golib \<Rightarrow> govcVMProvider \<Rightarrow> 'w VMProvider" where
  "govcProvider H L p = \<lparr>
     pv_EnsureISO = (\<lambda>pool url. as_step (govc_EnsureISO H L p pool url)),
     pv_CreateVM = (\<lambda>pool req. as_step (govc_CreateVM H p pool req)),
     pv_VMStatus = (\<lambda>pool name. as_step (govc_VMStatus H p pool name)),
     pv_DeleteVM = (\<lambda>pool vm. as_step (govc_DeleteVM H p pool vm)),
     pv_PrepareISOEjection = (\<lambda>pool vm. as_step (govc_PrepareISOEjection H p pool vm)),
     pv_EjectISO = govc_EjectISO H p,
     pv_DeleteISO = (\<lambda>pool path. as_step (govc_DeleteISO H p pool path))\<rparr>"

definition govcFactory :: "'w host \<Rightarrow> golib \<Rightarrow> 'w provider_factory" where
  "govcFactory H L pool secret =
     (case NewGovcVMProvider H secret of Inl e \<Rightarrow> Inl e | Inr p \<Rightarrow> Inr (govcProvider H L p))"

end
