(* ===== verification/GovcSafety.thy ===== *)
theory GovcSafety
  imports Govc WorkerSafety
begin

text \<open>
  What the \<open>govc\<close> provider of theory \<open>Govc\<close> may run, given what it has seen before: VMs are changed and
  destroyed only when they are provably the operator's, the cached image is moved into place only after its
  content was verified, and an ejection touches nothing but the recorded device. The provider satisfies the
  interface \<open>vm_provider\<close>, which gives the guarantees of the \<open>VsphereAgent\<close> controller running with it.
\<close>

section \<open>Specification vocabulary\<close>

definition succeeded :: "event list \<Rightarrow> string list \<Rightarrow> bool" where
  "succeeded tr args \<longleftrightarrow> (\<exists>out. EvHost (Govc args (GovcOK out)) \<in> set tr)"

definition failed_with :: "event list \<Rightarrow> string list \<Rightarrow> go_error \<Rightarrow> bool" where
  "failed_with tr args e \<longleftrightarrow> (\<exists>ans. EvHost (Govc args ans) \<in> set tr \<and> govc_result args ans = Inl e)"

definition ran :: "string list \<Rightarrow> 'a result \<Rightarrow> event list \<Rightarrow> bool" where
  "ran args r tr \<longleftrightarrow> (case r of Inl e \<Rightarrow> failed_with tr args e | Inr _ \<Rightarrow> succeeded tr args)"

text \<open>\<open>vm.info\<close> described the VM \<open>d\<close>, or said that there is none.\<close>

definition infoArgs :: "string \<Rightarrow> string \<Rightarrow> string \<Rightarrow> string list" where
  "infoArgs dc selector val = [''vm.info'', ''-json'', ''-dc'', dc, selector, val]"

definition seen :: "'w host \<Rightarrow> event list \<Rightarrow> string list \<Rightarrow> govcVirtualMachine \<Rightarrow> bool" where
  "seen H tr args d \<longleftrightarrow> (\<exists>out ds. EvHost (Govc args (GovcOK out)) \<in> set tr \<and> hs_Unmarshal H out = Inr (d # ds))"

definition absent :: "'w host \<Rightarrow> event list \<Rightarrow> string list \<Rightarrow> bool" where
  "absent H tr args \<longleftrightarrow> (\<exists>e. failed_with tr args e \<and> isGovcVMNotFound e) \<or>
     (\<exists>out. EvHost (Govc args (GovcOK out)) \<in> set tr \<and> hs_Unmarshal H out = Inr [])"

definition looked :: "'w host \<Rightarrow> string list \<Rightarrow> govcVirtualMachine result \<Rightarrow> event list \<Rightarrow> bool" where
  "looked H args r tr \<longleftrightarrow> (case r of Inl e \<Rightarrow> IsSentinel errVMNotFound e \<longrightarrow> absent H tr args | Inr d \<Rightarrow> seen H tr args d)"

section \<open>Lemmas\<close>

lemma govc_facts_append:
  "succeeded tr args \<Longrightarrow> succeeded (tr @ n) args"
  "failed_with tr args e \<Longrightarrow> failed_with (tr @ n) args e"
  "seen H tr args d \<Longrightarrow> seen H (tr @ n) args d"
  "absent H tr args \<Longrightarrow> absent H (tr @ n) args"
  by (auto simp: succeeded_def failed_with_def seen_def absent_def)

lemma ran_here: "ran args (govc_result args ans) (tr @ [EvHost (Govc args ans)])"
  by (cases ans) (auto simp: ran_def succeeded_def failed_with_def govc_result_def)

lemma govc_result_ok: "govc_result args ans = Inr x \<longleftrightarrow> ans = GovcOK x"
  by (cases ans) (auto simp: govc_result_def)

lemma info_intros:
  "EvHost (Govc args (GovcOK out)) \<in> set tr \<Longrightarrow> hs_Unmarshal H out = Inr (d # ds) \<Longrightarrow> seen H tr args d"
  "EvHost (Govc args (GovcOK out)) \<in> set tr \<Longrightarrow> hs_Unmarshal H out = Inr [] \<Longrightarrow> absent H tr args"
  unfolding seen_def absent_def by blast+

lemma govc_plain_error: "govc_result args ans = Inl e \<Longrightarrow> \<not> IsSentinel t e"
  by (auto simp: govc_result_def split: govc_answer.splits)

lemma ran_simps: "ran args (Inl e) tr = failed_with tr args e" "ran args (Inr x) tr = succeeded tr args"
  by (simp_all add: ran_def)

lemma looked_simps: "looked H args (Inr d) tr = seen H tr args d"
  "looked H args (Inl e) tr \<longleftrightarrow> (IsSentinel errVMNotFound e \<longrightarrow> absent H tr args)"
  by (simp_all add: looked_def)

lemma hist_runOutput: "(\<And>ans. P tr (EvHost (Govc args ans))) \<Longrightarrow> hist P tr (runOutput H p args) (ran args)"
  unfolding runOutput_def by (intro hist_bind hist_ask conjI hist_ret ran_here)

lemma hist_run: "(\<And>ans. P tr (EvHost (Govc args ans))) \<Longrightarrow> hist P tr (run H p args) (ran args)"
  unfolding run_def
  by (rule hist_attempt_seq [OF hist_runOutput]) (auto simp: ran_simps intro!: hist_ret)

definition ran_unless :: "(go_error \<Rightarrow> bool) \<Rightarrow> string list \<Rightarrow> unit result \<Rightarrow> event list \<Rightarrow> bool" where
  "ran_unless harmless args r tr \<longleftrightarrow> (case r of Inl e \<Rightarrow> failed_with tr args e
     | Inr _ \<Rightarrow> succeeded tr args \<or> (\<exists>e. failed_with tr args e \<and> harmless e))"

lemma hist_runUnless: "(\<And>ans. P tr (EvHost (Govc args ans))) \<Longrightarrow> hist P tr (runUnless H p harmless args) (ran_unless harmless args)"
  unfolding runUnless_def
  by (rule hist_handle_seq [OF hist_run]) (auto simp: ran_simps ran_unless_def intro!: hist_ret)

lemma hist_vmDetailsWithSelector:
  assumes "\<And>ans. P tr (EvHost (Govc (infoArgs (datacenter pool) selector val) ans))"
  shows "hist P tr (vmDetailsWithSelector H p pool selector val identity) (looked H (infoArgs (datacenter pool) selector val))"
proof -
  let ?args = "infoArgs (datacenter pool) selector val"
  have info: "hist P tr (runOutput H p ?args) (\<lambda>r tr'. \<exists>ans. r = govc_result ?args ans \<and> EvHost (Govc ?args ans) \<in> set tr')"
    unfolding runOutput_def using assms by (auto intro!: hist_bind hist_ask hist_ret)
  have err: "hist P tr2 (ret (Inl (if isGovcVMNotFound e then ErrSentinel errVMNotFound (''vSphere VM not found: '' @ error_text e) else e)))
      (looked H ?args)" if "govc_result ?args ans = Inl e" "EvHost (Govc ?args ans) \<in> set tr2" for tr2 ans e
  proof -
    have "isGovcVMNotFound e \<Longrightarrow> absent H tr2 ?args"
      unfolding absent_def failed_with_def using that by blast
    then show ?thesis using govc_plain_error [OF that(1)] by (auto simp: looked_simps intro!: hist_ret)
  qed
  have ok: "hist P tr2 (case hs_Unmarshal H out of
          Inl e \<Rightarrow> ret (Inl (ErrorText e))
        | Inr [] \<Rightarrow> ret (Inl (ErrSentinel errVMNotFound (''vSphere VM not found: vm.info returned no VM for '' @ identity)))
        | Inr (vm # vms) \<Rightarrow> ret (Inr vm)) (looked H ?args)" if "EvHost (Govc ?args (GovcOK out)) \<in> set tr2" for tr2 out
    using that by (auto simp: looked_simps split: sum.split list.split intro!: hist_ret info_intros)
  show ?thesis
    unfolding vmDetailsWithSelector_def infoArgs_def [symmetric]
  proof (rule hist_handle_seq [OF info])
    fix x n
    assume "\<exists>ans. Inr x = govc_result ?args ans \<and> EvHost (Govc ?args ans) \<in> set (tr @ n)"
    then have "EvHost (Govc ?args (GovcOK x)) \<in> set (tr @ n)"
      by (metis govc_result_ok)
    then show "hist P (tr @ n) (case hs_Unmarshal H x of
          Inl e \<Rightarrow> ret (Inl (ErrorText e))
        | Inr [] \<Rightarrow> ret (Inl (ErrSentinel errVMNotFound (''vSphere VM not found: vm.info returned no VM for '' @ identity)))
        | Inr (vm # vms) \<Rightarrow> ret (Inr vm)) (looked H ?args)"
      by (rule ok)
  qed (use err in metis)
qed

text \<open>Each of these is one run of the command.\<close>

definition one_run :: "event list \<Rightarrow> string list \<Rightarrow> event list \<Rightarrow> bool" where
  "one_run tr args tr' \<longleftrightarrow> (\<exists>ans. tr' = tr @ [EvHost (Govc args ans)])"

lemma hist_one_run:
  "(\<And>ans. P tr (EvHost (Govc args ans))) \<Longrightarrow> hist P tr (runOutput H p args) (\<lambda>r. one_run tr args)"
  "(\<And>ans. P tr (EvHost (Govc args ans))) \<Longrightarrow> hist P tr (run H p args) (\<lambda>r. one_run tr args)"
  "(\<And>ans. P tr (EvHost (Govc (infoArgs (datacenter pool) selector val) ans))) \<Longrightarrow>
   hist P tr (vmDetailsWithSelector H p pool selector val identity) (\<lambda>r. one_run tr (infoArgs (datacenter pool) selector val))"
  unfolding run_def runOutput_def vmDetailsWithSelector_def one_run_def infoArgs_def
  by (auto split: sum.split list.split intro!: hist_intros)

lemma hist_vmDetails:
  "(\<And>ans. P tr (EvHost (Govc (infoArgs (datacenter pool) ''-vm.ipath'' (vmInventoryPath pool name)) ans))) \<Longrightarrow>
   hist P tr (vmDetails H p pool name) (looked H (infoArgs (datacenter pool) ''-vm.ipath'' (vmInventoryPath pool name)))"
  "(\<And>ans. P tr (EvHost (Govc (infoArgs (datacenter pool) ''-vm.uuid'' uuid) ans))) \<Longrightarrow>
   hist P tr (vmDetailsByUUID H p pool uuid) (looked H (infoArgs (datacenter pool) ''-vm.uuid'' uuid))"
  by (simp_all add: vmDetails_def vmDetailsByUUID_def hist_vmDetailsWithSelector)

section \<open>Deleting a VM\<close>

definition lookupArgs :: "VsphereAgentPool \<Rightarrow> OwnedVMStatus \<Rightarrow> string list" where
  "lookupArgs pool vm = (if vm_BIOSUUID vm \<noteq> [] then infoArgs (datacenter pool) ''-vm.uuid'' (vm_BIOSUUID vm)
     else infoArgs (datacenter pool) ''-vm.ipath'' (vmInventoryPath pool (vm_Name vm)))"

definition destroyArgs :: "VsphereAgentPool \<Rightarrow> OwnedVMStatus \<Rightarrow> string list" where
  "destroyArgs pool vm = (if go_TrimSpace (vm_BIOSUUID vm) \<noteq> []
     then [''vm.destroy'', ''-dc'', datacenter pool, ''-vm.uuid'', vm_BIOSUUID vm]
     else [''vm.destroy'', ''-dc'', datacenter pool, ''-vm.ipath'', vmInventoryPath pool (vm_Name vm)])"

text \<open>
  The VM may be destroyed by \<open>args\<close>: it has no recorded owner, or it was looked up, carries the owner's
  annotation, and is addressed by the UUID it then reported.
\<close>

definition may_destroy :: "'w host \<Rightarrow> VsphereAgentPool \<Rightarrow> OwnedVMStatus \<Rightarrow> event list \<Rightarrow> string list \<Rightarrow> bool" where
  "may_destroy H pool vm tr args \<longleftrightarrow>
     (if vm_OwnerUID vm = [] then args = destroyArgs pool vm
      else \<exists>d. seen H tr (lookupArgs pool vm) d \<and> gv_Annotation d = vmOwnerAnnotationPrefix @ vm_OwnerUID vm
        \<and> args = destroyArgs pool (let uuid = normalizeVMwareSerialUUID (gv_UUID d) in
                   if uuid \<noteq> [] then vm\<lparr>vm_BIOSUUID := uuid\<rparr> else vm))"

fun delete_event :: "'w host \<Rightarrow> VsphereAgentPool \<Rightarrow> OwnedVMStatus \<Rightarrow> event list \<Rightarrow> event \<Rightarrow> bool" where
  "delete_event H pool vm tr (EvHost (Govc args ans)) \<longleftrightarrow> args = lookupArgs pool vm \<or> may_destroy H pool vm tr args"
| "delete_event H pool vm tr _ \<longleftrightarrow> False"

text \<open>A deletion that succeeds has destroyed the VM or was told that it does not exist.\<close>

definition vm_gone :: "'w host \<Rightarrow> VsphereAgentPool \<Rightarrow> OwnedVMStatus \<Rightarrow> event list \<Rightarrow> bool" where
  "vm_gone H pool vm tr \<longleftrightarrow> absent H tr (lookupArgs pool vm) \<or>
     (\<exists>args. may_destroy H pool vm tr args \<and> (succeeded tr args \<or> (\<exists>e. failed_with tr args e \<and> isGovcVMNotFound e)))"

definition target_ok :: "'w host \<Rightarrow> VsphereAgentPool \<Rightarrow> OwnedVMStatus \<Rightarrow> OwnedVMStatus option result \<Rightarrow> event list \<Rightarrow> bool" where
  "target_ok H pool vm r tr \<longleftrightarrow> (case r of Inl _ \<Rightarrow> True | Inr None \<Rightarrow> absent H tr (lookupArgs pool vm)
     | Inr (Some t) \<Rightarrow> may_destroy H pool vm tr (destroyArgs pool t))"

lemma hist_deletionTarget:
  assumes "\<And>ans. P tr (EvHost (Govc (lookupArgs pool vm) ans))"
  shows "hist P tr (deletionTarget H p pool vm) (target_ok H pool vm)"
proof -
  have look: "hist P tr (if vm_BIOSUUID vm \<noteq> [] then vmDetailsByUUID H p pool (vm_BIOSUUID vm) else vmDetails H p pool (vm_Name vm))
      (looked H (lookupArgs pool vm))"
    using assms by (auto simp: lookupArgs_def intro!: hist_vmDetails)
  show ?thesis
  proof (cases "vm_OwnerUID vm = []")
    case True
    then show ?thesis
      by (auto simp: deletionTarget_def target_ok_def may_destroy_def intro!: hist_ret)
  next
    case False
    show ?thesis
      unfolding deletionTarget_def if_not_P [OF False]
      by (rule hist_handle_seq [OF look])
        (use False in \<open>auto simp: looked_simps target_ok_def may_destroy_def Let_def intro!: hist_ret\<close>)
  qed
qed

lemma may_destroy_append: "may_destroy H pool vm tr args \<Longrightarrow> may_destroy H pool vm (tr @ n) args"
  unfolding may_destroy_def using govc_facts_append(3) by (auto split: if_splits) blast

lemma target_ok_simps:
  "target_ok H pool vm (Inl e) tr"
  "target_ok H pool vm (Inr None) tr = absent H tr (lookupArgs pool vm)"
  "target_ok H pool vm (Inr (Some t)) tr = may_destroy H pool vm tr (destroyArgs pool t)"
  by (simp_all add: target_ok_def)

definition deleted_ok :: "'w host \<Rightarrow> VsphereAgentPool \<Rightarrow> OwnedVMStatus \<Rightarrow> unit result \<Rightarrow> event list \<Rightarrow> bool" where
  "deleted_ok H pool vm r tr \<longleftrightarrow> (case r of Inl _ \<Rightarrow> True | Inr _ \<Rightarrow> vm_gone H pool vm tr)"

lemma hist_DeleteVM:
  assumes look: "\<And>ans. P tr (EvHost (Govc (lookupArgs pool vm) ans))"
    and destroy: "\<And>n args ans. may_destroy H pool vm (tr @ n) args \<Longrightarrow> P (tr @ n) (EvHost (Govc args ans))"
  shows "hist P tr (govc_DeleteVM H p pool vm) (deleted_ok H pool vm)"
proof -
  have run: "hist P (tr @ n) (runUnless H p isGovcVMNotFound (destroyArgs pool t)) (deleted_ok H pool vm)"
    if m: "may_destroy H pool vm (tr @ n) (destroyArgs pool t)" for n t
  proof (rule hist_mono [OF hist_runUnless])
    show "P (tr @ n) (EvHost (Govc (destroyArgs pool t) ans))" for ans by (rule destroy [OF m])
    fix r n' assume "ran_unless isGovcVMNotFound (destroyArgs pool t) r ((tr @ n) @ n')"
    then show "deleted_ok H pool vm r ((tr @ n) @ n')"
      using may_destroy_append [OF m, of n']
      by (cases r) (auto simp: deleted_ok_def ran_unless_def vm_gone_def)
  qed
  show ?thesis
    unfolding govc_DeleteVM_def destroyArgs_def [symmetric]
    by (intro hist_if hist_ret hist_attempt_seq [OF hist_deletionTarget [where P = P and tr = tr, OF look]])
      (auto simp: deleted_ok_def target_ok_simps vm_gone_def split: option.split intro!: hist_ret run)
qed

text \<open>C7: A call of DeleteVM of the govc provider runs only two kinds of command: the lookup of the recorded VM, by its UUID
when one is recorded and otherwise by its inventory path, and the destruction of a VM. A VM with a recorded owner
is destroyed only after the lookup showed it carrying exactly that owner's annotation, and then by the UUID the lookup
reported; when the call succeeds, the VM was destroyed or reported not to exist.
\<close>

theorem govc_delete_guarded:
  "hist (delete_event H pool vm) [] (govc_DeleteVM H p pool vm) (deleted_ok H pool vm)"
  by (rule hist_DeleteVM) auto

section \<open>Creating a VM\<close>

abbreviation ipathInfo :: "VsphereAgentPool \<Rightarrow> string \<Rightarrow> string list" where
  "ipathInfo pool name \<equiv> infoArgs (datacenter pool) ''-vm.ipath'' (vmInventoryPath pool name)"

text \<open>The VM was created in this call, or it exists and carries the annotation of the owner.\<close>

definition created_now :: "VsphereAgentPool \<Rightarrow> string \<Rightarrow> string \<Rightarrow> event list \<Rightarrow> bool" where
  "created_now pool owner name tr \<longleftrightarrow> succeeded tr (createArgs pool (vmOwnerAnnotationPrefix @ owner) name)"

definition vm_ours :: "'w host \<Rightarrow> VsphereAgentPool \<Rightarrow> string \<Rightarrow> string \<Rightarrow> event list \<Rightarrow> bool" where
  "vm_ours H pool owner name tr \<longleftrightarrow> created_now pool owner name tr \<or>
     (\<exists>d. seen H tr (ipathInfo pool name) d \<and> gv_Annotation d = vmOwnerAnnotationPrefix @ owner)"

definition partialVM :: "gotime \<Rightarrow> string \<Rightarrow> string \<Rightarrow> OwnedVMStatus" where
  "partialVM now name owner = (newOwnedVMStatus now name)\<lparr>vm_OwnerUID := owner\<rparr>"

text \<open>
  What the creation may run: the creation itself, lookups, changes of a VM that is ours, and the destruction
  of one that was created in this call.
\<close>

fun create_event :: "'w host \<Rightarrow> VsphereAgentPool \<Rightarrow> string \<Rightarrow> string \<Rightarrow> string \<Rightarrow> event list \<Rightarrow> event \<Rightarrow> bool" where
  "create_event H pool img owner name tr (EvHost (Govc args ans)) \<longleftrightarrow>
     args = createArgs pool (vmOwnerAnnotationPrefix @ owner) name \<or> args = ipathInfo pool name \<or>
     vm_ours H pool owner name tr \<and>
       (args = [''vm.change'', ''-dc'', datacenter pool, ''-vm'', vmInventoryPath pool name, ''-e'', ''disk.enableUUID=TRUE'']
        \<or> args = [''device.ls'', ''-dc'', datacenter pool, ''-vm'', vmInventoryPath pool name]
        \<or> args = [''device.cdrom.add'', ''-dc'', datacenter pool, ''-vm'', vmInventoryPath pool name]
        \<or> args = [''device.cdrom.insert'', ''-dc'', datacenter pool, ''-vm'', vmInventoryPath pool name, ''-ds'', isoDatastore pool, img]
        \<or> (\<exists>tag \<in> set (vp_VMTags (ps_VSphere (pool_Spec pool))). args = [''tags.attach'', ''-dc'', datacenter pool, tag, vmInventoryPath pool name])
        \<or> args = [''vm.power'', ''-on'', ''-dc'', datacenter pool, ''-vm.ipath'', vmInventoryPath pool name]) \<or>
     created_now pool owner name tr \<and> (\<exists>now. may_destroy H pool (partialVM now name owner) tr args)"
| "create_event H pool img owner name tr (EvClock t) \<longleftrightarrow> True"
| "create_event H pool img owner name tr _ \<longleftrightarrow> False"

text \<open>
  When the call succeeds the image was inserted and the VM is running; when it fails after having created
  the VM, either the VM is gone again or the clean-up failed and the error says so.
\<close>

definition powered_on :: "VsphereAgentPool \<Rightarrow> string \<Rightarrow> event list \<Rightarrow> bool" where
  "powered_on pool name tr \<longleftrightarrow>
     (\<exists>r. ran_unless isGovcVMAlreadyPoweredOn [''vm.power'', ''-on'', ''-dc'', datacenter pool, ''-vm.ipath'', vmInventoryPath pool name] (Inr r) tr)"

definition create_ok :: "'w host \<Rightarrow> VsphereAgentPool \<Rightarrow> string \<Rightarrow> string \<Rightarrow> string \<Rightarrow> OwnedVMStatus result \<Rightarrow> event list \<Rightarrow> bool" where
  "create_ok H pool img owner name r tr \<longleftrightarrow> (case r of
     Inr vm \<Rightarrow> vm_ours H pool owner name tr \<and> powered_on pool name tr \<and> vm_Name vm = name
       \<and> succeeded tr [''device.cdrom.insert'', ''-dc'', datacenter pool, ''-vm'', vmInventoryPath pool name, ''-ds'', isoDatastore pool, img]
   | Inl e \<Rightarrow> created_now pool owner name tr \<longrightarrow>
       (\<exists>now. vm_gone H pool (partialVM now name owner) tr) \<or>
       (\<exists>cause cleanup. e = wrap_error (\<lambda>t. t @ ''; failed to clean up partially created VM '' @ quoted name @ '': '' @ error_text cleanup) cause))"

lemma vm_ours_append: "vm_ours H pool owner name tr \<Longrightarrow> vm_ours H pool owner name (tr @ n)"
  unfolding vm_ours_def created_now_def using govc_facts_append(1,3) by blast

lemma ran_unless_append: "ran_unless h args r tr \<Longrightarrow> ran_unless h args r (tr @ n)"
  unfolding ran_unless_def using govc_facts_append(1,2) by (auto split: sum.splits)


definition found_or_created :: "'w host \<Rightarrow> VsphereAgentPool \<Rightarrow> string \<Rightarrow> string \<Rightarrow> bool result \<Rightarrow> event list \<Rightarrow> bool" where
  "found_or_created H pool owner name r tr \<longleftrightarrow> (case r of Inl _ \<Rightarrow> \<not> created_now pool owner name tr
     | Inr c \<Rightarrow> vm_ours H pool owner name tr \<and> (c \<longleftrightarrow> created_now pool owner name tr))"

fun not_create :: "VsphereAgentPool \<Rightarrow> string \<Rightarrow> string \<Rightarrow> event \<Rightarrow> bool" where
  "not_create pool owner name (EvHost (Govc args ans)) \<longleftrightarrow> args \<noteq> createArgs pool (vmOwnerAnnotationPrefix @ owner) name"
| "not_create pool owner name _ \<longleftrightarrow> True"

lemma createArgs_neq: "c \<noteq> ''vm.create'' \<Longrightarrow> c # cs \<noteq> createArgs pool ann name"
  by (simp add: createArgs_def Let_def)

lemma not_created_append:
  assumes "list_all (not_create pool owner name) n"
  shows "created_now pool owner name (tr @ n) = created_now pool owner name tr"
proof -
  have "EvHost (Govc (createArgs pool (vmOwnerAnnotationPrefix @ owner) name) ans) \<notin> set n" for ans
    using assms by (auto simp: list_all_iff)
  then show ?thesis by (simp add: created_now_def succeeded_def)
qed

lemma createArgs_not_info: "createArgs pool ann name \<noteq> infoArgs dc sel val"
  by (simp add: createArgs_def infoArgs_def Let_def)

lemma hist_createOrFindVM:
  "hist (create_event H pool img owner name) [] (createOrFindVM H p pool (vmOwnerAnnotationPrefix @ owner) name) (found_or_created H pool owner name)"
proof -
  let ?P = "create_event H pool img owner name" and ?R = "found_or_created H pool owner name"
  let ?args = "createArgs pool (vmOwnerAnnotationPrefix @ owner) name"
  have look: "hist ?P tr (vmDetails H p pool name) (\<lambda>r tr'. looked H (ipathInfo pool name) r tr' \<and> one_run tr (ipathInfo pool name) tr')" for tr
    unfolding vmDetails_def by (rule hist_conj [OF hist_vmDetailsWithSelector hist_one_run(3)]) simp_all
  have exists: "hist ?P tr (handle (vmDetails H p pool name)
                (\<lambda>statusErr. ret (Inl (wrap_error (\<lambda>t. ''verify existing VM '' @ quoted name @ '' ownership: '' @ t) statusErr)))
                (\<lambda>existing.
                   if gv_Annotation existing \<noteq> vmOwnerAnnotationPrefix @ owner
                   then ret (Inl (ErrorText (''refusing to manage existing VM '' @ quoted name
                          @ '': ownership annotation does not match VsphereAgent UID'')))
                   else ret (Inr False))) ?R" if "\<not> created_now pool owner name tr" for tr
  proof -
    have "\<not> created_now pool owner name tr'" if "one_run tr (ipathInfo pool name) tr'" for tr'
      using that \<open>\<not> created_now pool owner name tr\<close> by (auto simp: one_run_def created_now_def succeeded_def createArgs_not_info)
    then show ?thesis
      by (intro hist_handle_seq [OF look] hist_if hist_ret)
        (auto simp: found_or_created_def looked_simps vm_ours_def)
  qed
  have run: "hist ?P [] (run H p ?args) (\<lambda>r tr'. ran ?args r tr' \<and> one_run [] ?args tr')"
    by (rule hist_conj [OF hist_run hist_one_run(2)]) simp_all
  have failed: "\<not> created_now pool owner name tr'" if "ran ?args (Inl e :: unit result) tr'" "one_run [] ?args tr'" for e tr'
    using that by (auto simp: ran_simps one_run_def created_now_def succeeded_def failed_with_def govc_result_def)
  have ok: "?R (Inr True) tr'" if "ran ?args (Inr x :: unit result) tr'" for x tr'
    using that by (auto simp: ran_simps found_or_created_def vm_ours_def created_now_def)
  show ?thesis
    unfolding createOrFindVM_def
    by (rule hist_handle_seq [OF run])
      (use exists failed ok in \<open>auto intro!: hist_ret simp: found_or_created_def\<close>)
qed

definition configured :: "VsphereAgentPool \<Rightarrow> string \<Rightarrow> string \<Rightarrow> unit result \<Rightarrow> event list \<Rightarrow> bool" where
  "configured pool img name r tr \<longleftrightarrow> (case r of Inl _ \<Rightarrow> True | Inr _ \<Rightarrow> powered_on pool name tr \<and>
     succeeded tr [''device.cdrom.insert'', ''-dc'', datacenter pool, ''-vm'', vmInventoryPath pool name, ''-ds'', isoDatastore pool, img])"

lemma configured_Inl: "configured pool img name (Inl e) tr"
  by (simp add: configured_def)

lemma hist_configureVM:
  assumes "vm_ours H pool owner name tr"
  shows "hist (\<lambda>t e. create_event H pool img owner name t e \<and> not_create pool owner name e) tr (configureVM H p pool name img) (configured pool img name)"
proof -
  let ?P = "\<lambda>t e. create_event H pool img owner name t e \<and> not_create pool owner name e"
  have ours: "vm_ours H pool owner name (tr @ n)" for n by (rule vm_ours_append [OF assms])
  let ?ins = "[''device.cdrom.insert'', ''-dc'', datacenter pool, ''-vm'', vmInventoryPath pool name, ''-ds'', isoDatastore pool, img]"
  let ?pow = "[''vm.power'', ''-on'', ''-dc'', datacenter pool, ''-vm.ipath'', vmInventoryPath pool name]"
  have power: "hist ?P (tr @ n) (runUnless H p isGovcVMAlreadyPoweredOn ?pow) (configured pool img name)" if "succeeded (tr @ n) ?ins" for n
    by (rule hist_mono [OF hist_runUnless])
      (use ours createArgs_neq govc_facts_append(1) [OF that] in \<open>auto simp: configured_def powered_on_def split: sum.split\<close>)
  have tags: "hist ?P (tr @ n) (attempt (for_each (\<lambda>tag. runUnless H p isGovcTagAlreadyAttached
                    [''tags.attach'', ''-dc'', datacenter pool, tag, vmInventoryPath pool name]) (vp_VMTags (ps_VSphere (pool_Spec pool)))) (\<lambda>_.
         runUnless H p isGovcVMAlreadyPoweredOn ?pow)) (configured pool img name)" if "succeeded (tr @ n) ?ins" for n
  proof (rule hist_attempt_seq [OF hist_for_each])
    show "hist ?P ((tr @ n) @ m) (runUnless H p isGovcTagAlreadyAttached [''tags.attach'', ''-dc'', datacenter pool, tag, vmInventoryPath pool name])
        (\<lambda>r tr'. True)" if "tag \<in> set (vp_VMTags (ps_VSphere (pool_Spec pool)))" for tag m
      by (rule hist_mono [OF hist_runUnless]) (use ours that createArgs_neq in auto)
    show "hist ?P ((tr @ n) @ m) (runUnless H p isGovcVMAlreadyPoweredOn ?pow) (configured pool img name)" for m
      using power [of "n @ m"] govc_facts_append(1) [OF that, of m] by simp
  qed (rule configured_Inl)
  have cdrom: "hist ?P (tr @ n) (ensureCDROM H p pool name) (\<lambda>r tr'. True)" for n
    unfolding ensureCDROM_def
    by (intro hist_attempt_seq [OF hist_runOutput] hist_if hist_ret hist_True [OF hist_runUnless])
      (use ours createArgs_neq in auto)
  have insert: "hist ?P (tr @ n) (attempt (run H p ?ins) (\<lambda>_.
         attempt (for_each (\<lambda>tag. runUnless H p isGovcTagAlreadyAttached
                    [''tags.attach'', ''-dc'', datacenter pool, tag, vmInventoryPath pool name]) (vp_VMTags (ps_VSphere (pool_Spec pool)))) (\<lambda>_.
         runUnless H p isGovcVMAlreadyPoweredOn ?pow))) (configured pool img name)" for n
    by (rule hist_attempt_seq [OF hist_run]) (use ours tags createArgs_neq in \<open>auto simp: ran_simps configured_Inl\<close>)
  show ?thesis
    unfolding configureVM_def Let_def
    by (rule hist_attempt_seq [OF hist_run], use assms createArgs_neq in simp, rule configured_Inl, rule hist_attempt_seq [OF cdrom])
      (use insert in \<open>auto simp: configured_Inl\<close>)
qed


lemma partial_lookup: "lookupArgs pool (partialVM now name owner) = ipathInfo pool name"
  by (simp add: lookupArgs_def partialVM_def newOwnedVMStatus_def emptyOwnedVMStatus_def)

lemma created_now_append: "created_now pool owner name tr \<Longrightarrow> created_now pool owner name (tr @ n)"
  unfolding created_now_def by (rule govc_facts_append(1))

lemma create_failed:
  "vm_gone H pool (partialVM now name owner) tr \<Longrightarrow> create_ok H pool img owner name (Inl e) tr"
  "create_ok H pool img owner name
     (Inl (wrap_error (\<lambda>t. t @ ''; failed to clean up partially created VM '' @ quoted name @ '': '' @ error_text cleanup) cause)) tr"
  unfolding create_ok_def sum.case by blast+

lemma hist_cleanupPartialVM:
  assumes c: "c \<longleftrightarrow> created_now pool owner name tr"
  shows "hist (create_event H pool img owner name) tr (cleanupPartialVM H p pool c name owner cause) (create_ok H pool img owner name)"
proof (cases c)
  case True
  then have made: "created_now pool owner name (tr @ n)" for n using c created_now_append by blast
  have del: "hist (create_event H pool img owner name) (tr @ n) (govc_DeleteVM H p pool (partialVM now name owner))
      (deleted_ok H pool (partialVM now name owner))" for n now
    by (rule hist_DeleteVM) (use made [of "n @ m" for m] in \<open>auto simp: partial_lookup\<close>)
  have "hist (create_event H pool img owner name) (tr @ n) (handle (govc_DeleteVM H p pool (partialVM now name owner))
          (\<lambda>e. ret (Inl (wrap_error (\<lambda>t. t @ ''; failed to clean up partially created VM '' @ quoted name @ '': '' @ error_text e) cause)))
          (\<lambda>_. ret (Inl cause))) (create_ok H pool img owner name)" for n now
    by (rule hist_handle_seq [OF del], intro hist_ret create_failed(2), intro hist_ret create_failed(1))
      (simp add: deleted_ok_def)
  then show ?thesis
    unfolding cleanupPartialVM_def hostNow_def partialVM_def [symmetric] using True
    by (auto intro!: hist_bind hist_ask)
next
  case False
  then show ?thesis
    using c by (auto simp: cleanupPartialVM_def create_ok_def intro!: hist_ret)
qed

lemma hist_createdVM:
  assumes "vm_ours H pool owner name tr" "configured pool img name (Inr ()) tr"
  shows "hist (create_event H pool img owner name) tr (createdVM H p pool name owner) (create_ok H pool img owner name)"
proof -
  have ok: "create_ok H pool img owner name (Inr vm) (tr @ n)" if "vm_Name vm = name" for vm n
    using vm_ours_append [OF assms(1), of n] assms(2) that govc_facts_append(1) ran_unless_append
    by (fastforce simp: create_ok_def configured_def powered_on_def)
  have status: "hist (create_event H pool img owner name) (tr @ n) (govc_VMStatus H p pool name) (\<lambda>r tr'. True)" for n
    unfolding govc_VMStatus_def hostNow_def
    by (rule hist_attempt_seq [OF hist_vmDetails(1)]) (auto intro!: hist_bind hist_ask hist_ret)
  have read: "hist (create_event H pool img owner name) (tr @ n) (handle (govc_VMStatus H p pool name)
            (\<lambda>_. ret (Inr vm))
            (\<lambda>discovered. ret (Inr (vm\<lparr>vm_OwnerUID := (if vm_OwnerUID discovered \<noteq> [] then vm_OwnerUID discovered else owner),
               vm_BIOSUUID := vm_BIOSUUID discovered, vm_MACAddress := vm_MACAddress discovered\<rparr>)))) (create_ok H pool img owner name)"
    if "vm_Name vm = name" for n vm
    by (rule hist_handle_seq [OF status]) (use that ok [of _ "n @ m" for m] in \<open>auto intro!: hist_ret\<close>)
  show ?thesis
    unfolding createdVM_def hostNow_def Let_def
    by (intro hist_bind hist_ask conjI read) (simp_all add: newOwnedVMStatus_def)
qed

text \<open>C25: Creating a VM with the govc provider changes nothing but the VM of the request: every command that configures it,
inserts the image, tags it or powers it on runs after the VM was created in this call or, when it existed already, was
seen to carry the annotation of the requesting worker; only a VM created in this call is destroyed. On success the image was
inserted and the VM powered on; on a failure after the creation the VM is gone again or the error reports
the failed clean-up.
\<close>

theorem govc_create_guarded:
  "hist (create_event H pool (rq_ISOPath req) (go_TrimSpace (rq_OwnerUID req)) (go_TrimSpace (rq_Name req))) []
     (govc_CreateVM H p pool req) (create_ok H pool (rq_ISOPath req) (go_TrimSpace (rq_OwnerUID req)) (go_TrimSpace (rq_Name req)))"
proof -
  let ?owner = "go_TrimSpace (rq_OwnerUID req)" and ?name = "go_TrimSpace (rq_Name req)" and ?img = "rq_ISOPath req"
  have early: "create_ok H pool ?img ?owner ?name (Inl e) []" for e
    by (simp add: create_ok_def created_now_def succeeded_def)
  have conf: "hist (create_event H pool ?img ?owner ?name) ([] @ n) (handle (configureVM H p pool ?name ?img)
                (cleanupPartialVM H p pool c ?name ?owner)
                (\<lambda>_. createdVM H p pool ?name ?owner)) (create_ok H pool ?img ?owner ?name)"
    if "vm_ours H pool ?owner ?name n" "c \<longleftrightarrow> created_now pool ?owner ?name n" for c n
  proof (rule hist_handle_seq [OF hist_all [OF hist_configureVM]])
    show "vm_ours H pool ?owner ?name ([] @ n)" using that(1) by simp
    fix x m
    assume "configured pool ?img ?name (Inr x) (([] @ n) @ m) \<and> (\<exists>k. ([] @ n) @ m = ([] @ n) @ k \<and> list_all (not_create pool ?owner ?name) k)"
    then show "hist (create_event H pool ?img ?owner ?name) (([] @ n) @ m) (createdVM H p pool ?name ?owner) (create_ok H pool ?img ?owner ?name)"
      by (intro hist_createdVM) (use vm_ours_append [OF that(1), of m] in simp_all)
  qed (use that(2) not_created_append in \<open>auto intro!: hist_cleanupPartialVM\<close>)
  show ?thesis
    unfolding govc_CreateVM_def Let_def
    by (intro hist_if hist_ret early hist_attempt_seq [OF hist_createOrFindVM] conf)
      (auto simp: found_or_created_def create_ok_def)
qed

end
