(* ===== verification/GovcISO.thy ===== *)
theory GovcISO
  imports GovcSafety
begin

text \<open>
  The discovery image of the \<open>govc\<close> provider: an image is used only when its content was read back and has
  the digest that names it.
\<close>

section \<open>Specification vocabulary\<close>

definition downloadArgs :: "VsphereAgentPool \<Rightarrow> string \<Rightarrow> string \<Rightarrow> string list" where
  "downloadArgs pool remote local = [''datastore.download'', ''-dc'', datacenter pool, ''-ds'', isoDatastore pool, remote, local]"

text \<open>The object at \<open>remote\<close> was downloaded and the file read back has the digest.\<close>

definition verified :: "VsphereAgentPool \<Rightarrow> string \<Rightarrow> string \<Rightarrow> event list \<Rightarrow> bool" where
  "verified pool remote digest tr \<longleftrightarrow> (\<exists>local content. succeeded tr (downloadArgs pool remote local) \<and>
     EvHost (ReadFile local (Inr content)) \<in> set tr \<and> sha256hex content = digest)"

definition stagingPath :: "VsphereAgentPool \<Rightarrow> string \<Rightarrow> string \<Rightarrow> string" where
  "stagingPath pool sha tmp = isoContentPath pool sha @ ''.'' @ filepath_Base tmp @ ''.partial''"

definition uploadArgs :: "VsphereAgentPool \<Rightarrow> string \<Rightarrow> string \<Rightarrow> string list" where
  "uploadArgs pool local remote = [''datastore.upload'', ''-dc'', datacenter pool, ''-ds'', isoDatastore pool, local, remote]"

definition moveArgs :: "VsphereAgentPool \<Rightarrow> string \<Rightarrow> string \<Rightarrow> string list" where
  "moveArgs pool src dst = [''datastore.mv'', ''-f=true'', ''-dc'', datacenter pool, ''-ds'', isoDatastore pool, src, dst]"

definition removeArgs :: "VsphereAgentPool \<Rightarrow> string \<Rightarrow> string list" where
  "removeArgs pool path = [''datastore.rm'', ''-f'', ''-dc'', datacenter pool, ''-ds'', isoDatastore pool, path]"

definition mkdirArgs :: "VsphereAgentPool \<Rightarrow> string \<Rightarrow> string list" where
  "mkdirArgs pool path = [''datastore.mkdir'', ''-dc'', datacenter pool, ''-ds'', isoDatastore pool, path]"

text \<open>
  What ensuring an image may do: look, download, make directories; write and remove a partial object, which
  is never a cached image; and move a partial object to the place of its digest after verifying it.
\<close>

fun ensure_event :: "VsphereAgentPool \<Rightarrow> event list \<Rightarrow> event \<Rightarrow> bool" where
  "ensure_event pool tr (EvHost (Govc args ans)) \<longleftrightarrow>
     (\<exists>selector val. args = infoArgs (datacenter pool) selector val) \<or> (\<exists>remote local. args = downloadArgs pool remote local)
     \<or> (\<exists>dir. args = mkdirArgs pool dir)
     \<or> (\<exists>sha tmp. EvHost (MkdirTemp (Inr tmp)) \<in> set tr \<and> (\<forall>s. stagingPath pool sha tmp \<noteq> isoContentPath pool s) \<and>
          (args = uploadArgs pool (path_Join [tmp, ''discovery.iso'']) (stagingPath pool sha tmp)
           \<or> args = removeArgs pool (stagingPath pool sha tmp)
           \<or> args = moveArgs pool (stagingPath pool sha tmp) (isoContentPath pool sha) \<and> verified pool (stagingPath pool sha tmp) sha tr))"
| "ensure_event pool tr (EvHost (GovcStart args)) \<longleftrightarrow> False"
| "ensure_event pool tr (EvHost (GovcWait w)) \<longleftrightarrow> False"
| "ensure_event pool tr (EvHost (CreateTemp r)) \<longleftrightarrow> False"
| "ensure_event pool tr (EvHost (RemoveFile path)) \<longleftrightarrow> False"
| "ensure_event pool tr (EvHost (RemoveAll path)) \<longleftrightarrow> EvHost (MkdirTemp (Inr path)) \<in> set tr"
| "ensure_event pool tr (EvHost (MkdirTemp r)) \<longleftrightarrow> tr = []"
| "ensure_event pool tr (EvHost h) \<longleftrightarrow> True"
| "ensure_event pool tr _ \<longleftrightarrow> False"

definition fetched :: "isoDownloadResult \<Rightarrow> event list \<Rightarrow> bool" where
  "fetched d tr \<longleftrightarrow> (\<exists>path body. EvHost (CopyFile path body None) \<in> set tr \<and> dl_SHA256 d = sha256hex body
     \<and> dl_SizeBytes d = int (length body) \<and> length body \<le> maxISODownloadSize)"

definition unchanged :: "string \<Rightarrow> event list \<Rightarrow> bool" where
  "unchanged url tr \<longleftrightarrow> (\<exists>since n m b. since \<noteq> [] \<and> EvHost (HttpGet url since (HttpResponse 304 n m b)) \<in> set tr)"

text \<open>
  The image of a result: at the path its digest names, and either known to be unchanged at the source and
  in use, or verified there, or verified in its partial form and moved there.
\<close>

definition image_ok :: "VsphereAgentPool \<Rightarrow> string \<Rightarrow> ISOEnsureResult \<Rightarrow> event list \<Rightarrow> bool" where
  "image_ok pool url res tr \<longleftrightarrow> ir_Path res = isoContentPath pool (ir_SHA256 res) \<and>
     (ir_VerificationDeferred res \<and> ir_Path res = ic_Path (pst_ISO (pool_Status pool)) \<and> unchanged url tr
      \<or> verified pool (ir_Path res) (ir_SHA256 res) tr
      \<or> (\<exists>tmp. verified pool (stagingPath pool (ir_SHA256 res) tmp) (ir_SHA256 res) tr \<and>
            succeeded tr (moveArgs pool (stagingPath pool (ir_SHA256 res) tmp) (ir_Path res))))"

definition ensure_ok :: "VsphereAgentPool \<Rightarrow> string \<Rightarrow> ISOEnsureResult result \<Rightarrow> event list \<Rightarrow> bool" where
  "ensure_ok pool url r tr \<longleftrightarrow> (case r of Inl _ \<Rightarrow> True | Inr res \<Rightarrow> image_ok pool url res tr)"

text \<open>The scratch directory, made first, is removed last.\<close>

definition scratch_removed :: "event list \<Rightarrow> bool" where
  "scratch_removed tr \<longleftrightarrow> (case tr of EvHost (MkdirTemp (Inr tmp)) # rest \<Rightarrow> last tr = EvHost (RemoveAll tmp) | _ \<Rightarrow> True)"

section \<open>Lemmas\<close>

lemma staging_not_content: "stagingPath pool sha tmp \<noteq> isoContentPath pool s"
proof
  assume "stagingPath pool sha tmp = isoContentPath pool s"
  then have "last (stagingPath pool sha tmp) = last (isoContentPath pool s)" by simp
  then show False by (simp add: stagingPath_def isoContentPath_def)
qed

lemma iso_facts_append:
  "verified pool remote digest tr \<Longrightarrow> verified pool remote digest (tr @ n)"
  "unchanged url tr \<Longrightarrow> unchanged url (tr @ n)"
  "fetched d tr \<Longrightarrow> fetched d (tr @ n)"
  using govc_facts_append(1) by (fastforce simp: verified_def unchanged_def fetched_def)+

lemma image_ok_append: "image_ok pool url res tr \<Longrightarrow> image_ok pool url res (tr @ n)"
  unfolding image_ok_def using iso_facts_append(1,2) govc_facts_append(1) by blast

lemma ensure_ok_append: "ensure_ok pool url r tr \<Longrightarrow> ensure_ok pool url r (tr @ n)"
  using image_ok_append by (auto simp: ensure_ok_def split: sum.splits)

definition verify_ok :: "VsphereAgentPool \<Rightarrow> string \<Rightarrow> string \<Rightarrow> bool result \<Rightarrow> event list \<Rightarrow> bool" where
  "verify_ok pool remote digest r tr \<longleftrightarrow> (r = Inr True \<longrightarrow> verified pool remote digest tr)"

lemma hist_verifyISO: "hist (ensure_event pool) tr (verifyISO H p pool remote local digest) (verify_ok pool remote digest)"
proof -
  have got: "verified pool remote digest (tr2 @ [EvHost (ReadFile local (Inr content))])"
    if "succeeded tr2 (downloadArgs pool remote local)" "sha256hex content = digest" for tr2 content
    unfolding verified_def using that govc_facts_append(1)
    by (intro exI [of _ local] exI [of _ content]) simp
  have read: "hist (ensure_event pool) tr2 (attempt (ask (hs_ReadFile H local) (\<lambda>r. EvHost (ReadFile local r))) (\<lambda>content.
              ret (Inr (sha256hex content = digest)))) (verify_ok pool remote digest)" if "succeeded tr2 (downloadArgs pool remote local)" for tr2
    using got [OF that] by (auto simp: verify_ok_def split: sum.split intro!: hist_attempt hist_ask hist_ret)
  have "ensure_event pool tr (EvHost (Govc (downloadArgs pool remote local) ans))" for ans
    by auto
  then show ?thesis
    unfolding verifyISO_def downloadArgs_def [symmetric]
    by (intro hist_handle_seq [OF hist_run]) (use read in \<open>auto simp: ran_simps verify_ok_def intro!: hist_ret\<close>)
qed

definition download_ok :: "string \<Rightarrow> string \<Rightarrow> isoDownloadResult result \<Rightarrow> event list \<Rightarrow> bool" where
  "download_ok url since r tr \<longleftrightarrow> (case r of Inl _ \<Rightarrow> True
     | Inr d \<Rightarrow> if dl_NotModified d then since \<noteq> [] \<and> unchanged url tr else fetched d tr)"

lemma hist_downloadISO: "hist (ensure_event pool) tr (downloadISO H L url path lastModified) (download_ok url (validHTTPDate L lastModified))"
proof -
  let ?R = "download_ok url (validHTTPDate L lastModified)"
  have save: "hist (ensure_event pool) tr2 (saveBody H L safe path modified body) ?R" for tr2 safe modified body
  proof -
    have "fetched \<lparr>dl_SHA256 = sha256hex b, dl_SizeBytes = int (length b), dl_LastModified = x, dl_NotModified = False\<rparr>
        tr3" if "EvHost (CopyFile path b None) \<in> set tr3" "\<not> maxISODownloadSize < length b" for b x tr3
      unfolding fetched_def using that by (intro exI [of _ path] exI [of _ b]) simp
    then show ?thesis
      unfolding saveBody_def Let_def
      by (auto simp: download_ok_def split: sum.split option.split copy_failure.split
          intro!: hist_attempt hist_ask hist_bind hist_ret)
  qed
  have same: "unchanged url (tr @ [EvHost (HttpGet url since (HttpResponse 304 n m b))])" if "since \<noteq> []" for since n m b
    unfolding unchanged_def using that by (intro exI [of _ since] exI [of _ n] exI [of _ m] exI [of _ b]) simp
  show ?thesis
    unfolding downloadISO_def Let_def
    using save same by (auto split: http_answer.split intro!: hist_bind hist_ask hist_ret simp: download_ok_def)
qed


lemma hist_DeleteISO:
  "(\<And>ans. P tr (EvHost (Govc (removeArgs pool path) ans))) \<Longrightarrow> hist P tr (govc_DeleteISO H p pool path) (\<lambda>r tr'. True)"
  unfolding govc_DeleteISO_def removeArgs_def [symmetric] by (intro hist_if hist_ret hist_True [OF hist_runUnless]) simp_all

lemma hist_ensureDatastoreDirectory: "hist (ensure_event pool) tr (ensureDatastoreDirectory H p pool dir) (\<lambda>r tr'. True)"
proof -
  have "hist (ensure_event pool) tr (makeDirs H p pool cur parts) (\<lambda>r tr'. True)" for cur parts
  proof (induction parts arbitrary: cur tr)
    case (Cons part parts)
    have "ensure_event pool tr (EvHost (Govc (mkdirArgs pool dir) ans))" for dir ans tr by auto
    then show ?case
      unfolding makeDirs.simps Let_def mkdirArgs_def [symmetric]
      by (intro hist_attempt_seq [OF hist_runUnless] Cons.IH) simp_all
  qed (simp add: hist_ret)
  then show ?thesis unfolding ensureDatastoreDirectory_def .
qed

lemma ensure_ok_Inl: "ensure_ok pool url (Inl e) tr"
  by (simp add: ensure_ok_def)

lemma stage_event:
  assumes "EvHost (MkdirTemp (Inr tmp)) \<in> set tr"
  shows "ensure_event pool tr (EvHost (Govc (uploadArgs pool (path_Join [tmp, ''discovery.iso'']) (stagingPath pool sha tmp)) ans))"
    "ensure_event pool tr (EvHost (Govc (removeArgs pool (stagingPath pool sha tmp)) ans))"
    "verified pool (stagingPath pool sha tmp) sha tr \<Longrightarrow>
     ensure_event pool tr (EvHost (Govc (moveArgs pool (stagingPath pool sha tmp) (isoContentPath pool sha)) ans))"
  unfolding ensure_event.simps using assms staging_not_content by blast+

lemma hist_uploadISO:
  assumes tmp: "EvHost (MkdirTemp (Inr tmp)) \<in> set tr"
  shows "hist (ensure_event pool) tr (uploadISO H p pool tmp (stagingPath pool (dl_SHA256 d) tmp) (isoContentPath pool (dl_SHA256 d)) d)
     (ensure_ok pool url)"
proof -
  let ?sha = "dl_SHA256 d"
  let ?st = "stagingPath pool ?sha tmp"
  have in_tr: "EvHost (MkdirTemp (Inr tmp)) \<in> set (tr @ n)" for n using tmp by simp
  have move: "hist (ensure_event pool) (tr @ n) (attempt (run H p (moveArgs pool ?st (isoContentPath pool ?sha))) (\<lambda>_.
     ret (Inr \<lparr>ir_VerificationDeferred = False, ir_LastModified = dl_LastModified d, ir_Path = isoContentPath pool ?sha,
       ir_SHA256 = ?sha, ir_SizeBytes = dl_SizeBytes d, ir_Uploaded = True\<rparr>))) (ensure_ok pool url)"
    if v: "verified pool ?st ?sha (tr @ n)" for n
  proof (rule hist_attempt_seq [OF hist_run])
    show "ensure_event pool (tr @ n) (EvHost (Govc (moveArgs pool ?st (isoContentPath pool ?sha)) ans))" for ans
      by (rule stage_event(3) [OF in_tr v])
    fix x :: unit and m
    assume "ran (moveArgs pool ?st (isoContentPath pool ?sha)) (Inr x) ((tr @ n) @ m)"
    then show "hist (ensure_event pool) ((tr @ n) @ m) (ret (Inr \<lparr>ir_VerificationDeferred = False, ir_LastModified = dl_LastModified d, ir_Path = isoContentPath pool ?sha,
       ir_SHA256 = ?sha, ir_SizeBytes = dl_SizeBytes d, ir_Uploaded = True\<rparr>)) (ensure_ok pool url)"
      using iso_facts_append(1) [OF v, of m] by (auto simp: ran_simps ensure_ok_def image_ok_def intro!: hist_ret)
  qed (rule ensure_ok_Inl)
  have check: "hist (ensure_event pool) (tr @ n) (attempt (verifyISO H p pool ?st (path_Join [tmp, ''uploaded.iso'']) ?sha) (\<lambda>valid.
     if \<not> valid then ret (Inl (ErrorText ''uploaded ISO failed content verification''))
     else attempt (run H p (moveArgs pool ?st (isoContentPath pool ?sha))) (\<lambda>_.
     ret (Inr \<lparr>ir_VerificationDeferred = False, ir_LastModified = dl_LastModified d, ir_Path = isoContentPath pool ?sha,
       ir_SHA256 = ?sha, ir_SizeBytes = dl_SizeBytes d, ir_Uploaded = True\<rparr>)))) (ensure_ok pool url)" for n
    by (rule hist_attempt_seq [OF hist_verifyISO])
      (use move in \<open>auto simp: verify_ok_def ensure_ok_Inl intro!: hist_ret\<close>)
  show ?thesis
    unfolding uploadISO_def uploadArgs_def [symmetric] moveArgs_def [symmetric]
    by (intro hist_attempt_seq [OF hist_run] stage_event(1) tmp ensure_ok_Inl check)
qed

lemma hist_storeISO:
  assumes tmp: "EvHost (MkdirTemp (Inr tmp)) \<in> set tr"
  shows "hist (ensure_event pool) tr (storeISO H p pool tmp d) (ensure_ok pool url)"
proof -
  let ?sha = "dl_SHA256 d"
  let ?st = "stagingPath pool ?sha tmp"
  have in_tr: "EvHost (MkdirTemp (Inr tmp)) \<in> set (tr @ n)" for n using tmp by simp
  have rm: "hist (ensure_event pool) (tr @ n) (do { _ \<leftarrow> govc_DeleteISO H p pool ?st; ret r }) (ensure_ok pool url)"
    if "ensure_ok pool url r (tr @ n)" for n r
    by (intro hist_bind_seq [OF hist_DeleteISO] stage_event(2) in_tr hist_ret ensure_ok_append that)
  have up: "hist (ensure_event pool) (tr @ n) (do { r \<leftarrow> uploadISO H p pool tmp ?st (isoContentPath pool ?sha) d;
         _ \<leftarrow> govc_DeleteISO H p pool ?st; ret r }) (ensure_ok pool url)" for n
    by (rule hist_bind_seq [OF hist_uploadISO [OF in_tr]]) (use rm in auto)
  have dir: "hist (ensure_event pool) (tr @ n) (attempt (ensureDatastoreDirectory H p pool (path_Dir (isoContentPath pool ?sha))) (\<lambda>_.
       do { r \<leftarrow> uploadISO H p pool tmp ?st (isoContentPath pool ?sha) d;
            _ \<leftarrow> govc_DeleteISO H p pool ?st; ret r })) (ensure_ok pool url)" for n
    by (rule hist_attempt_seq [OF hist_ensureDatastoreDirectory]) (use up in \<open>auto simp: ensure_ok_Inl\<close>)
  show ?thesis
    unfolding storeISO_def Let_def stagingPath_def [symmetric]
    by (rule hist_attempt_seq [OF hist_verifyISO])
      (use dir in \<open>auto simp: ensure_ok_Inl verify_ok_def ensure_ok_def image_ok_def intro!: hist_ret\<close>)
qed

lemma hist_cachedISOInUse: "hist (ensure_event pool) tr (cachedISOInUse H p pool remote) (\<lambda>r tr'. True)"
proof -
  have info: "hist (ensure_event pool) tr (if vm_BIOSUUID vm \<noteq> [] then vmDetailsByUUID H p pool (vm_BIOSUUID vm) else vmDetails H p pool (vm_Name vm))
     (\<lambda>r tr'. True)" for tr vm
    by (intro hist_if hist_True [OF hist_vmDetails(1)] hist_True [OF hist_vmDetails(2)]) auto
  have "hist (ensure_event pool) tr (backingInUse H p pool backing vms) (\<lambda>r tr'. True)" for backing vms
  proof (induction vms arbitrary: tr)
    case (Cons vm vms)
    show ?case
      unfolding backingInUse.simps
      by (intro hist_if hist_ret hist_handle_seq [OF info] Cons.IH) simp_all
  qed (simp add: hist_ret)
  then show ?thesis unfolding cachedISOInUse_def .
qed


lemma nothing_made: "scratch_removed []" "scratch_removed [EvHost (MkdirTemp (Inl e))]"
  by (simp_all add: scratch_removed_def)

lemma hist_ensureISOIn:
  assumes date: "gl_http_ParseTime L [] = None" and tmp: "EvHost (MkdirTemp (Inr tmp)) \<in> set tr"
  shows "hist (ensure_event pool) tr (ensureISOIn H L p pool url tmp) (ensure_ok pool url)"
proof -
  let ?iso = "pst_ISO (pool_Status pool)" and ?v = "isoValidator L pool url" and ?file = "path_Join [tmp, ''discovery.iso'']"
  let ?result = "\<lparr>ir_VerificationDeferred = False, ir_LastModified = ?v, ir_Path = ic_Path ?iso,
            ir_SHA256 = ic_SHA256 ?iso, ir_SizeBytes = ic_SizeBytes ?iso, ir_Uploaded = False\<rparr>"
  have in_tr: "EvHost (MkdirTemp (Inr tmp)) \<in> set (tr @ n)" for n using tmp by simp
  have path: "ic_Path ?iso = isoContentPath pool (ic_SHA256 ?iso)" if "validHTTPDate L ?v \<noteq> []"
    using that date by (auto simp: isoValidator_def validHTTPDate_def Let_def split: if_splits)
  have again: "hist (ensure_event pool) (tr @ n) (attempt (downloadISO H L url ?file []) (storeISO H p pool tmp)) (ensure_ok pool url)" for n
    by (intro hist_attempt_seq [OF hist_downloadISO] ensure_ok_Inl hist_storeISO) (use tmp in simp)
  have check: "hist (ensure_event pool) (tr @ n) (handle (verifyISO H p pool (ic_Path ?iso) (path_Join [tmp, ''cached.iso'']) (ic_SHA256 ?iso))
                (\<lambda>e. ret (Inl (wrap_error (\<lambda>t. ''verify cached ISO: '' @ t) e)))
                (\<lambda>valid. if valid then ret (Inr ?result)
                 else attempt (downloadISO H L url ?file []) (storeISO H p pool tmp))) (ensure_ok pool url)"
    if "validHTTPDate L ?v \<noteq> []" for n
    by (rule hist_handle_seq [OF hist_verifyISO])
      (use again path [OF that] in \<open>auto simp: verify_ok_def ensure_ok_def image_ok_def intro!: hist_ret\<close>)
  have reuse: "hist (ensure_event pool) (tr @ n) (handle (cachedISOInUse H p pool (ic_Path ?iso))
             (\<lambda>e. ret (Inl (wrap_error (\<lambda>t. ''inspect cached ISO references: '' @ t) e)))
             (\<lambda>inUse. if inUse then ret (Inr (?result\<lparr>ir_VerificationDeferred := True\<rparr>))
              else handle (verifyISO H p pool (ic_Path ?iso) (path_Join [tmp, ''cached.iso'']) (ic_SHA256 ?iso))
                (\<lambda>e. ret (Inl (wrap_error (\<lambda>t. ''verify cached ISO: '' @ t) e)))
                (\<lambda>valid. if valid then ret (Inr ?result)
                 else attempt (downloadISO H L url ?file []) (storeISO H p pool tmp)))) (ensure_ok pool url)"
    if "validHTTPDate L ?v \<noteq> []" "unchanged url (tr @ n)" for n
  proof (intro hist_handle_seq [OF hist_cachedISOInUse] hist_ret ensure_ok_Inl hist_if)
    show "ensure_ok pool url (Inr (?result\<lparr>ir_VerificationDeferred := True\<rparr>)) ((tr @ n) @ m)" for m
      using path [OF that(1)] iso_facts_append(2) [OF that(2), of m] by (simp add: ensure_ok_def image_ok_def)
  qed (use check [OF that(1)] in simp)
  show ?thesis
    unfolding ensureISOIn_def Let_def
  proof (intro hist_attempt_seq [OF hist_downloadISO] ensure_ok_Inl hist_if)
    fix d n
    assume "download_ok url (validHTTPDate L ?v) (Inr d) (tr @ n)"
    then show "hist (ensure_event pool) (tr @ n) (handle (cachedISOInUse H p pool (ic_Path ?iso))
             (\<lambda>e. ret (Inl (wrap_error (\<lambda>t. ''inspect cached ISO references: '' @ t) e)))
             (\<lambda>inUse. if inUse then ret (Inr (?result\<lparr>ir_VerificationDeferred := True\<rparr>))
              else handle (verifyISO H p pool (ic_Path ?iso) (path_Join [tmp, ''cached.iso'']) (ic_SHA256 ?iso))
                (\<lambda>e. ret (Inl (wrap_error (\<lambda>t. ''verify cached ISO: '' @ t) e)))
                (\<lambda>valid. if valid then ret (Inr ?result)
                 else attempt (downloadISO H L url ?file []) (storeISO H p pool tmp)))) (ensure_ok pool url)" if "dl_NotModified d"
      using that by (intro reuse) (simp_all add: download_ok_def)
  qed (rule hist_storeISO [OF in_tr])
qed

text \<open>C26: Ensuring the discovery image with the govc provider. A successful result names the path derived from the image's digest,
and the image there is the right one: it was downloaded from the datastore and its content has that digest, or the upload
was verified that way before it was moved into place, or (when verification is deferred) the source declared the
recorded image unchanged. The datastore is written only through a partial object, which is never a cached image and
is moved into place only when verified; and the scratch directory is removed at the end, whatever happened.
\<close>

theorem govc_image_verified:
  assumes "gl_http_ParseTime L [] = None"
  shows "hist (ensure_event pool) [] (govc_EnsureISO H L p pool url) (\<lambda>r tr. ensure_ok pool url r tr \<and> scratch_removed tr)"
proof -
  have main: "hist (ensure_event pool) [EvHost (MkdirTemp (Inr tmp))] (do { r \<leftarrow> ensureISOIn H L p pool url tmp;
             _ \<leftarrow> ask (hs_RemoveAll H tmp) (\<lambda>_. EvHost (RemoveAll tmp));
             ret r }) (\<lambda>r tr. ensure_ok pool url r tr \<and> scratch_removed tr)" for tmp
  proof (intro hist_bind_seq [OF hist_ensureISOIn [OF assms]] hist_bind hist_ask conjI hist_ret)
    fix r n
    assume "ensure_ok pool url r ([EvHost (MkdirTemp (Inr tmp))] @ n)"
    then show "ensure_ok pool url r (([EvHost (MkdirTemp (Inr tmp))] @ n) @ [EvHost (RemoveAll tmp)])"
      by (rule ensure_ok_append)
  qed (simp_all add: scratch_removed_def)
  show ?thesis
    unfolding govc_EnsureISO_def using main
    by (auto simp: ensure_ok_Inl nothing_made split: sum.split intro!: hist_attempt hist_ask hist_ret)
qed

lemma govc_image_verified_witness:
  "\<forall>(H :: unit host) p url. hist (ensure_event samplePool) [] (govc_EnsureISO H sampleLib p samplePool url)
     (\<lambda>r tr. ensure_ok samplePool url r tr \<and> scratch_removed tr)"
proof -
  have "gl_http_ParseTime sampleLib [] = None" by (simp add: sampleLib_def)
  from govc_image_verified [OF this] show ?thesis by blast
qed

end
