(* ===== verification/GovcEject.thy ===== *)
theory GovcEject
  imports GovcSafety
begin

text \<open>
  The ejection of the \<open>govc\<close> provider: it touches the recorded device of the recorded VM and nothing else, and
  disconnects and answers questions only after its caller's checkpoint. What a checkpoint establishes is the
  caller's business: \<open>C op tr\<close> stands for "after the history \<open>tr\<close> the record \<open>op\<close> is durable".
\<close>

section \<open>Specification vocabulary\<close>

definition same_target :: "ISOEjectionStatus \<Rightarrow> ISOEjectionStatus \<Rightarrow> bool" where
  "same_target op op' \<longleftrightarrow> op'\<lparr>ej_DisconnectStarted := False, ej_QuestionID := []\<rparr> = op\<lparr>ej_DisconnectStarted := False, ej_QuestionID := []\<rparr>"

definition ejectInfo :: "ISOEjectionStatus \<Rightarrow> string list" where
  "ejectInfo op = infoArgs (ej_Datacenter op) ''-vm.uuid'' (ej_BIOSUUID op)"

definition disconnectArgs :: "ISOEjectionStatus \<Rightarrow> string list" where
  "disconnectArgs op = [''device.disconnect'', ''-dc'', ej_Datacenter op, ''-vm.uuid'', ej_BIOSUUID op, cdromName op]"

definition ejectArgs :: "ISOEjectionStatus \<Rightarrow> string list" where
  "ejectArgs op = [''device.cdrom.eject'', ''-dc'', ej_Datacenter op, ''-vm.uuid'', ej_BIOSUUID op, ''-device'', cdromName op]"

definition questionArgs :: "ISOEjectionStatus \<Rightarrow> string \<Rightarrow> string list" where
  "questionArgs op answer = [''vm.question'', ''-dc'', ej_Datacenter op, ''-vm.uuid'', ej_BIOSUUID op, ''-answer'', answer]"

text \<open>The recorded VM was seen, it is the owner's, and its recorded device holds the recorded image.\<close>

definition same_vm :: "govcVirtualMachine \<Rightarrow> string \<Rightarrow> string \<Rightarrow> bool" where
  "same_vm d uuid ownerUID \<longleftrightarrow> normalizeVMwareSerialUUID (gv_UUID d) = uuid
     \<and> (ownerUID = [] \<or> gv_Annotation d = vmOwnerAnnotationPrefix @ ownerUID)"

definition target_seen :: "'w host \<Rightarrow> ISOEjectionStatus \<Rightarrow> event list \<Rightarrow> bool" where
  "target_seen H op tr \<longleftrightarrow> (\<exists>d target. seen H tr (ejectInfo op) d \<and> same_vm d (ej_BIOSUUID op) (ej_OwnerUID op)
     \<and> find (\<lambda>device. gd_Key device = ej_DeviceKey op) (gv_Device d) = Some target \<and> gd_FileName target = ej_ISOPath op)"

definition started :: "(ISOEjectionStatus \<Rightarrow> event list \<Rightarrow> bool) \<Rightarrow> ISOEjectionStatus \<Rightarrow> event list \<Rightarrow> bool" where
  "started C op tr \<longleftrightarrow> ej_DisconnectStarted op \<or> (\<exists>op'. same_target op op' \<and> ej_DisconnectStarted op' \<and> C op' tr)"

definition asked :: "(ISOEjectionStatus \<Rightarrow> event list \<Rightarrow> bool) \<Rightarrow> ISOEjectionStatus \<Rightarrow> string \<Rightarrow> event list \<Rightarrow> bool" where
  "asked C op q tr \<longleftrightarrow> ej_QuestionID op = q \<or> (\<exists>op'. same_target op op' \<and> ej_QuestionID op' = q \<and> C op' tr)"

text \<open>The question is about a locked CD drive, and the answer is the choice that is labelled yes.\<close>

definition unlock_choice :: "govcVMQuestion \<Rightarrow> string \<Rightarrow> bool" where
  "unlock_choice q answer \<longleftrightarrow> ''msg.cdromdisconnect.locked'' \<in> set (qu_Message q) \<and> answer \<noteq> []
     \<and> (\<exists>label. (answer, label) \<in> set (qu_ChoiceInfo q)
          \<and> (go_EqualFold (go_TrimSpace label) ''button.yes'' \<or> go_EqualFold (go_TrimSpace label) ''Yes''))"

fun eject_host :: "'w host \<Rightarrow> (ISOEjectionStatus \<Rightarrow> event list \<Rightarrow> bool) \<Rightarrow> ISOEjectionStatus \<Rightarrow> event list \<Rightarrow> host_event \<Rightarrow> bool" where
  "eject_host H C op tr (Govc args ans) \<longleftrightarrow> args = ejectInfo op
     \<or> target_seen H op tr \<and> (\<exists>d q answer. seen H tr (ejectInfo op) d \<and> gv_Question d = Some q \<and> unlock_choice q answer
          \<and> args = questionArgs op answer \<and> asked C op (qu_ID q) tr)
     \<or> target_seen H op tr \<and> args = ejectArgs op \<and> (\<exists>out. EvHost (GovcWait (WaitDone (GovcOK out))) \<in> set tr)"
| "eject_host H C op tr (GovcStart args) \<longleftrightarrow> target_seen H op tr \<and> args = disconnectArgs op \<and> started C op tr"
| "eject_host H C op tr (GovcWait w) \<longleftrightarrow> EvHost (GovcStart (disconnectArgs op)) \<in> set tr"
| "eject_host H C op tr _ \<longleftrightarrow> False"

text \<open>When the ejection succeeds the VM is gone, or the recorded device was seen without the image.\<close>

definition eject_done :: "'w host \<Rightarrow> ISOEjectionStatus \<Rightarrow> event list \<Rightarrow> bool" where
  "eject_done H op tr \<longleftrightarrow> absent H tr (ejectInfo op) \<or> (\<exists>d. seen H tr (ejectInfo op) d \<and>
     (case find (\<lambda>device. gd_Key device = ej_DeviceKey op) (gv_Device d) of None \<Rightarrow> True
      | Some device \<Rightarrow> gd_FileName device \<noteq> ej_ISOPath op))"

section \<open>Lemmas\<close>

lemma same_vm_iff: "(\<not> ejectionForeign d uuid owner) = same_vm d uuid owner"
  by (auto simp: ejectionForeign_def same_vm_def)

lemma cdromLockAnswer_choice:
  assumes "cdromLockAnswer q \<noteq> []" shows "unlock_choice q (cdromLockAnswer q)"
proof -
  obtain choice where c: "''msg.cdromdisconnect.locked'' \<in> set (qu_Message q)" "cdromLockAnswer q = fst choice"
    "find (\<lambda>choice. go_EqualFold (go_TrimSpace (snd choice)) ''button.yes''
                  \<or> go_EqualFold (go_TrimSpace (snd choice)) ''Yes'') (qu_ChoiceInfo q) = Some choice"
    using assms by (auto simp: cdromLockAnswer_def split: if_splits option.splits)
  from c(3) have "choice \<in> set (qu_ChoiceInfo q)"
    "go_EqualFold (go_TrimSpace (snd choice)) ''button.yes'' \<or> go_EqualFold (go_TrimSpace (snd choice)) ''Yes''"
    unfolding find_Some_iff by auto
  with assms c(1,2) show ?thesis unfolding unlock_choice_def by (metis prod.collapse)
qed

text \<open>The state of a running ejection: the record in hand is about the same target, and what it says is durable.\<close>

definition tracked :: "(ISOEjectionStatus \<Rightarrow> event list \<Rightarrow> bool) \<Rightarrow> ISOEjectionStatus \<Rightarrow> ISOEjectionStatus \<Rightarrow> event list \<Rightarrow> bool" where
  "tracked C op0 op tr \<longleftrightarrow> same_target op0 op \<and> (ej_DisconnectStarted op \<longrightarrow> started C op0 tr)
     \<and> (ej_QuestionID op \<noteq> [] \<longrightarrow> asked C op0 (ej_QuestionID op) tr)"

definition stepped ::
  "(ISOEjectionStatus \<Rightarrow> event list \<Rightarrow> bool) \<Rightarrow> ISOEjectionStatus \<Rightarrow> (eject_state \<times> ISOEjectionStatus) \<times> unit result \<Rightarrow> event list \<Rightarrow> bool" where
  "stepped C op0 x tr \<longleftrightarrow> same_target op0 (snd (fst x)) \<and> (snd x = Inr () \<longrightarrow> tracked C op0 (snd (fst x)) tr)"

text \<open>The assumptions about the caller: its checkpoint, and what is allowed to happen.\<close>

definition caller_ok ::
  "'w host \<Rightarrow> (ISOEjectionStatus \<Rightarrow> event list \<Rightarrow> bool) \<Rightarrow> ISOEjectionStatus \<Rightarrow> (event list \<Rightarrow> event \<Rightarrow> bool) \<Rightarrow> 'w checkpoint \<Rightarrow> event list \<Rightarrow> bool" where
  "caller_ok H C op0 Q cp tr \<longleftrightarrow> (\<forall>op t n. C op t \<longrightarrow> C op (t @ n)) \<and>
     (\<forall>n st op. hist Q (tr @ n) (cp st op) (\<lambda>r t. snd r = Inr () \<longrightarrow> C op t)) \<and>
     (\<forall>n h. eject_host H C op0 (tr @ n) h \<longrightarrow> Q (tr @ n) (EvHost h))"

lemma caller_append: "caller_ok H C op0 Q cp tr \<Longrightarrow> caller_ok H C op0 Q cp (tr @ n)"
  unfolding caller_ok_def by (metis append_assoc)

lemma caller_host: "caller_ok H C op0 Q cp tr \<Longrightarrow> eject_host H C op0 tr h \<Longrightarrow> Q tr (EvHost h)"
  unfolding caller_ok_def by (metis append_Nil2)

lemma caller_cp: "caller_ok H C op0 Q cp tr \<Longrightarrow> hist Q tr (cp st op) (\<lambda>r t. snd r = Inr () \<longrightarrow> C op t)"
  unfolding caller_ok_def by (metis append_Nil2)

lemma caller_mono: "caller_ok H C op0 Q cp tr \<Longrightarrow> C op t \<Longrightarrow> C op (t @ n)"
  unfolding caller_ok_def by blast

lemma target_fields:
  assumes "same_target op0 op"
  shows "ej_BIOSUUID op = ej_BIOSUUID op0" "ej_Datacenter op = ej_Datacenter op0" "ej_OwnerUID op = ej_OwnerUID op0"
    "ej_DeviceKey op = ej_DeviceKey op0" "ej_ISOPath op = ej_ISOPath op0" "ej_VMName op = ej_VMName op0"
    "cdromName op = cdromName op0" "ejectInfo op = ejectInfo op0"
  using assms unfolding same_target_def by (cases op; cases op0; simp add: cdromName_def ejectInfo_def)+

lemma same_target_upd: "same_target op0 op \<Longrightarrow> same_target op0 (op\<lparr>ej_QuestionID := q\<rparr>)"
  "same_target op0 op \<Longrightarrow> same_target op0 (op\<lparr>ej_DisconnectStarted := b\<rparr>)" "same_target op op"
  unfolding same_target_def by simp_all

lemma target_seen_append: "target_seen H op tr \<Longrightarrow> target_seen H op (tr @ n)"
  unfolding target_seen_def using govc_facts_append(3) by blast

lemma eject_done_append: "eject_done H op tr \<Longrightarrow> eject_done H op (tr @ n)"
  unfolding eject_done_def using govc_facts_append(3,4) by blast

lemma tracked_append:
  assumes "caller_ok H C op0 Q cp tr" "tracked C op0 op t"
  shows "tracked C op0 op (t @ n)"
proof -
  have "started C op0 t \<Longrightarrow> started C op0 (t @ n)" "asked C op0 q t \<Longrightarrow> asked C op0 q (t @ n)" for q
    unfolding started_def asked_def using caller_mono [OF assms(1)] by blast+
  then show ?thesis using assms(2) unfolding tracked_def by blast
qed

lemma hist_ejectInfo:
  assumes "caller_ok H C op0 Q cp tr" "datacenter pool = ej_Datacenter op0" "ej_BIOSUUID op = ej_BIOSUUID op0"
  shows "hist Q tr (vmDetailsByUUID H p pool (ej_BIOSUUID op)) (looked H (ejectInfo op0))"
  unfolding assms(3) ejectInfo_def assms(2) [symmetric]
  by (rule hist_vmDetails(2)) (rule caller_host [OF assms(1)], simp add: ejectInfo_def assms(2))

lemma hist_checkpointed:
  assumes ok: "caller_ok H C op0 Q cp tr" and same: "same_target op0 op"
    and next_ok: "\<And>n st. C op (tr @ n) \<Longrightarrow> hist Q (tr @ n) (f st) R"
    and fail_ok: "\<And>n st e. R ((st, op), Inl e) (tr @ n)"
  shows "hist Q tr (checkpointed cp st op f) R"
  unfolding checkpointed_def
  by (rule hist_bind_seq [OF caller_cp [OF ok]])
    (use next_ok fail_ok in \<open>auto split: prod.split sum.split intro!: hist_ret\<close>)

lemma hist_answerISOLock:
  assumes ok: "caller_ok H C op0 Q cp tr" and t: "tracked C op0 op tr" and seen: "target_seen H op0 tr"
    and dc: "datacenter pool = ej_Datacenter op0"
    and q: "seen H tr (ejectInfo op0) d" "gv_Question d = Some q"
  shows "hist Q tr (answerISOLock H p pool q cp st op) (stepped C op0)"
proof -
  have same: "same_target op0 op" using t unfolding tracked_def by blast
  let ?ans = "cdromLockAnswer q"
  have reply: "hist Q (tr @ n) (do { r \<leftarrow> run H p [''vm.question'', ''-dc'', datacenter pool, ''-vm.uuid'', ej_BIOSUUID op', ''-answer'', ?ans];
       ret ((st, op'), r) }) (stepped C op0)"
    if "?ans \<noteq> []" "tracked C op0 op' (tr @ n)" "asked C op0 (qu_ID q) (tr @ n)" for n st op'
  proof -
    have same': "same_target op0 op'" using that(2) unfolding tracked_def by blast
    have args: "[''vm.question'', ''-dc'', datacenter pool, ''-vm.uuid'', ej_BIOSUUID op', ''-answer'', ?ans] = questionArgs op0 ?ans"
      by (simp add: questionArgs_def dc target_fields [OF same'])
    have "eject_host H C op0 (tr @ n) (Govc (questionArgs op0 ?ans) ans)" for ans
      unfolding eject_host.simps using target_seen_append [OF seen] govc_facts_append(3) [OF q(1)] q(2) cdromLockAnswer_choice [OF that(1)] that(3) by blast
    then show ?thesis
      unfolding args
      by (intro hist_bind_seq [OF hist_run] hist_ret caller_host [OF caller_append [OF ok]])
        (use tracked_append [OF ok that(2)] same' in \<open>auto simp: stepped_def\<close>)
  qed
  have next_op: "tracked C op0 (op\<lparr>ej_QuestionID := qu_ID q\<rparr>) (tr @ n)" "asked C op0 (qu_ID q) (tr @ n)"
    if "C (op\<lparr>ej_QuestionID := qu_ID q\<rparr>) (tr @ n)" for n
  proof -
    show a: "asked C op0 (qu_ID q) (tr @ n)"
      unfolding asked_def using same_target_upd(1) [OF same, of "qu_ID q"] that by auto
    show "tracked C op0 (op\<lparr>ej_QuestionID := qu_ID q\<rparr>) (tr @ n)"
      using tracked_append [OF ok t, of n] a same_target_upd(1) [OF same] unfolding tracked_def by simp
  qed
  show ?thesis
    unfolding answerISOLock_def Let_def
  proof (intro hist_if)
    show "hist Q tr (ret ((st, op), Inl e)) (stepped C op0)" for e
      using same by (simp add: hist_ret stepped_def)
  next
    assume good: "\<not> (?ans = [] \<or> qu_ID q = [] \<or> ej_QuestionID op \<noteq> [] \<and> ej_QuestionID op \<noteq> qu_ID q)"
    then have ans: "?ans \<noteq> []" by simp
    let ?reply = "\<lambda>st op. do { r \<leftarrow> run H p [''vm.question'', ''-dc'', datacenter pool, ''-vm.uuid'', ej_BIOSUUID op, ''-answer'', ?ans];
       ret ((st, op), r) }"
    let ?op = "op\<lparr>ej_QuestionID := qu_ID q\<rparr>"
    show "hist Q tr (checkpointed cp st ?op (\<lambda>st. ?reply st ?op)) (stepped C op0)"
    proof (rule hist_checkpointed [OF ok same_target_upd(1) [OF same]])
      show "hist Q (tr @ n) (?reply st ?op) (stepped C op0)" if "C ?op (tr @ n)" for n st
        by (rule reply [OF ans next_op [OF that]])
      show "stepped C op0 ((st, ?op), Inl e) (tr @ n)" for n st e
        using same_target_upd(1) [OF same] by (simp add: stepped_def)
    qed
    show "hist Q tr (?reply st op) (stepped C op0)" if "ej_QuestionID op \<noteq> []"
    proof -
      have "ej_QuestionID op = qu_ID q" using good that by simp
      then have "asked C op0 (qu_ID q) tr" using t that unfolding tracked_def by simp
      then show ?thesis using reply [OF ans, of op "[]" st] t by simp
    qed
  qed
qed


lemma hist_answerPending:
  assumes ok: "caller_ok H C op0 Q cp tr" and t: "tracked C op0 op tr" and seen: "target_seen H op0 tr"
    and dc: "datacenter pool = ej_Datacenter op0" and d: "seen H tr (ejectInfo op0) d"
  shows "hist Q tr (answerPending H p pool (gv_Question d) cp st op) (stepped C op0)"
proof (cases "gv_Question d")
  case None
  then show ?thesis using t by (auto simp: answerPending_def stepped_def tracked_def intro!: hist_ret)
next
  case (Some q)
  then show ?thesis using hist_answerISOLock [OF ok t seen dc d Some] by (simp add: answerPending_def)
qed

definition waited ::
  "(ISOEjectionStatus \<Rightarrow> event list \<Rightarrow> bool) \<Rightarrow> ISOEjectionStatus \<Rightarrow> (eject_state \<times> ISOEjectionStatus) \<times> unit result \<Rightarrow> event list \<Rightarrow> bool" where
  "waited C op0 x tr \<longleftrightarrow> stepped C op0 x tr \<and> (snd x = Inr () \<longrightarrow> (\<exists>out. EvHost (GovcWait (WaitDone (GovcOK out))) \<in> set tr))"

lemma waited_Inl: "same_target op0 op \<Longrightarrow> waited C op0 ((st, op), Inl e) tr"
  by (simp add: waited_def stepped_def)

lemma waited_here:
  assumes "tracked C op0 op tr" "EvHost (GovcWait (WaitDone ans)) \<in> set tr"
  shows "waited C op0 ((st, op), case govc_result args ans of Inl e \<Rightarrow> Inl e | Inr _ \<Rightarrow> Inr ()) tr"
proof (cases ans)
  case (GovcOK out)
  then show ?thesis using assms by (auto simp: govc_result_def waited_def stepped_def tracked_def)
qed (use assms in \<open>auto simp: govc_result_def waited_def stepped_def tracked_def\<close>)

lemma hist_awaitDisconnect:
  assumes "caller_ok H C op0 Q cp tr" "tracked C op0 op tr" "target_seen H op0 tr" "datacenter pool = ej_Datacenter op0"
    "EvHost (GovcStart (disconnectArgs op0)) \<in> set tr"
  shows "hist Q tr (awaitDisconnect ticks H p pool args cp st op) (waited C op0)"
  using assms(1-3,5)
proof (induction ticks arbitrary: tr st op rule: less_induct)
  case (less ticks)
  note ok = less.prems(1) and t = less.prems(2) and seen = less.prems(3) and start = less.prems(4)
  have same: "same_target op0 op" using t unfolding tracked_def by blast
  let ?loop = "\<lambda>n st op. awaitDisconnect n H p pool args cp st op"
  have again: "hist Q (tr @ n) (do { ((st, op), r) \<leftarrow> answerPending H p pool (gv_Question d) cp st op;
                        case r of Inl e \<Rightarrow> ret ((st, op), Inl e) | Inr _ \<Rightarrow> ?loop k st op }) (waited C op0)"
    if d: "seen H (tr @ n) (ejectInfo op0) d" and k: "k < ticks" for n d k
  proof (rule hist_bind_seq [OF hist_answerPending [OF caller_append [OF ok] tracked_append [OF ok t] target_seen_append [OF seen] assms(4) d]])
    fix x m
    assume st: "stepped C op0 x ((tr @ n) @ m)"
    obtain st' op' r where x: "x = ((st', op'), r)" by (cases x) auto
    show "hist Q ((tr @ n) @ m) ((\<lambda>((st, op), r). case r of Inl e \<Rightarrow> ret ((st, op), Inl e) | Inr _ \<Rightarrow> ?loop k st op) x) (waited C op0)"
    proof (cases r)
      case (Inl e)
      then show ?thesis using st by (simp add: x stepped_def hist_ret waited_Inl)
    next
      case (Inr u)
      then have "tracked C op0 op' (tr @ n @ m)" using st by (simp add: x stepped_def)
      then show ?thesis
        using less.IH [OF k caller_append [OF ok], of op' "n @ m" st'] target_seen_append [OF seen] start by (simp add: x Inr)
    qed
  qed
  have tick: "hist Q (tr @ n) (handle (vmDetailsByUUID H p pool (ej_BIOSUUID op)) (\<lambda>e. ret ((st, op), Inl e)) (\<lambda>details.
                   do { ((st, op), r) \<leftarrow> answerPending H p pool (gv_Question details) cp st op;
                        case r of Inl e \<Rightarrow> ret ((st, op), Inl e) | Inr _ \<Rightarrow> ?loop k st op })) (waited C op0)" if "k < ticks" for n k
  proof (rule hist_handle_seq [OF hist_ejectInfo [OF caller_append [OF ok] assms(4)]])
    fix d m assume "looked H (ejectInfo op0) (Inr d) ((tr @ n) @ m)"
    then have "seen H (tr @ n @ m) (ejectInfo op0) d" by (simp add: looked_simps)
    from again [OF this that] show "hist Q ((tr @ n) @ m) (do { ((st, op), r) \<leftarrow> answerPending H p pool (gv_Question d) cp st op;
                        case r of Inl e \<Rightarrow> ret ((st, op), Inl e) | Inr _ \<Rightarrow> ?loop k st op }) (waited C op0)" by simp
  qed (use same in \<open>auto simp: target_fields intro!: hist_ret waited_Inl\<close>)
  have wait: "Q tr (EvHost (GovcWait w))" for w
    by (rule caller_host [OF ok]) (simp add: start)
  have fin: "waited C op0 ((st, op), case govc_result args ans of Inl e \<Rightarrow> Inl e | Inr _ \<Rightarrow> Inr ()) (tr @ [EvHost (GovcWait (WaitDone ans))])" for ans
    by (rule waited_here [OF tracked_append [OF ok t]]) simp
  show ?case
    by (subst awaitDisconnect.simps)
      (use wait fin tick same in \<open>auto split: govc_wait.split nat.split intro!: hist_bind hist_ask hist_ret waited_Inl\<close>)
qed


definition finished ::
  "'w host \<Rightarrow> ISOEjectionStatus \<Rightarrow> (eject_state \<times> ISOEjectionStatus) \<times> unit result \<Rightarrow> event list \<Rightarrow> bool" where
  "finished H op0 x tr \<longleftrightarrow> same_target op0 (snd (fst x)) \<and> (snd x = Inr () \<longrightarrow> eject_done H op0 tr)"

lemma finished_Inl: "same_target op0 op \<Longrightarrow> finished H op0 ((st, op), Inl e) tr"
  by (simp add: finished_def)

lemma released_done:
  "seen H tr (ejectInfo op) d \<Longrightarrow> (case find (\<lambda>device. gd_Key device = ej_DeviceKey op) (gv_Device d) of None \<Rightarrow> True
     | Some device \<Rightarrow> gd_FileName device \<noteq> ej_ISOPath op) \<Longrightarrow> eject_done H op tr"
  unfolding eject_done_def by blast

lemma gone_after_ejection:
  "\<not> list_ex (\<lambda>device. gd_Key device = ej_DeviceKey op \<and> gd_FileName device = ej_ISOPath op) (gv_Device d) \<Longrightarrow>
   seen H tr (ejectInfo op) d \<Longrightarrow> eject_done H op tr"
  by (erule released_done) (auto simp: find_Some_iff list_ex_iff split: option.split)

lemma hist_disconnectAndEject:
  assumes ok: "caller_ok H C op0 Q cp tr" and t: "tracked C op0 op tr" and seen: "target_seen H op0 tr"
    and dc: "datacenter pool = ej_Datacenter op0" and start: "ej_DisconnectStarted op"
  shows "hist Q tr (disconnectAndEject H p pool cp st op) (finished H op0)"
proof -
  have same: "same_target op0 op" using t unfolding tracked_def by blast
  have args: "[''device.disconnect'', ''-dc'', datacenter pool, ''-vm.uuid'', ej_BIOSUUID op, cdromName op] = disconnectArgs op0"
    by (simp add: disconnectArgs_def dc target_fields [OF same])
  have begun: "Q tr (EvHost (GovcStart (disconnectArgs op0)))"
    by (rule caller_host [OF ok]) (use t start seen in \<open>simp add: tracked_def\<close>)
  have wait: "hist Q tr (disconnectInstallationMedia H p pool (cdromName op) cp st op) (waited C op0)"
    unfolding disconnectInstallationMedia_def args Let_def
    by (intro hist_bind hist_ask conjI begun
        hist_awaitDisconnect [OF caller_append [OF ok] tracked_append [OF ok t] target_seen_append [OF seen] dc]) simp
  have look: "hist Q (tr @ n) (attempt (vmDetailsByUUID H p pool (ej_BIOSUUID op')) (\<lambda>observed.
       ret (if list_ex (\<lambda>device. gd_Key device = ej_DeviceKey op' \<and> gd_FileName device = ej_ISOPath op') (gv_Device observed)
            then Inl (ErrorText msg) else Inr ()))) (\<lambda>r t. r = Inr () \<longrightarrow> eject_done H op0 t)"
    if "same_target op0 op'" for n op' msg
    by (rule hist_attempt_seq [OF hist_ejectInfo [OF caller_append [OF ok] dc]])
      (use that gone_after_ejection [of op0] in \<open>auto simp: target_fields [OF that] looked_simps intro!: hist_ret\<close>)
  have eject: "hist Q (tr @ n) (do { r \<leftarrow> attempt (run H p [''device.cdrom.eject'', ''-dc'', datacenter pool, ''-vm.uuid'', ej_BIOSUUID op',
                                  ''-device'', cdromName op']) (\<lambda>_.
                        attempt (vmDetailsByUUID H p pool (ej_BIOSUUID op')) (\<lambda>observed.
                        ret (if list_ex (\<lambda>device. gd_Key device = ej_DeviceKey op' \<and> gd_FileName device = ej_ISOPath op') (gv_Device observed)
                             then Inl (ErrorText msg)
                             else Inr ())));
                   ret ((st', op'), r) }) (finished H op0)"
    if s: "same_target op0 op'" and "\<exists>out. EvHost (GovcWait (WaitDone (GovcOK out))) \<in> set (tr @ n)" for n op' st' msg
  proof -
    have "[''device.cdrom.eject'', ''-dc'', datacenter pool, ''-vm.uuid'', ej_BIOSUUID op', ''-device'', cdromName op'] = ejectArgs op0"
      by (simp add: ejectArgs_def dc target_fields [OF s])
    moreover have "Q (tr @ n) (EvHost (Govc (ejectArgs op0) ans))" for ans
      by (rule caller_host [OF caller_append [OF ok]]) (use that(2) target_seen_append [OF seen] in simp)
    ultimately show ?thesis
      by (intro hist_bind_seq [where Q = "\<lambda>r t. r = Inr () \<longrightarrow> eject_done H op0 t"] hist_attempt_seq [OF hist_run] hist_ret)
        (use s look [OF s, of "n @ m" for m] in \<open>auto simp: finished_def\<close>)
  qed
  show ?thesis
    unfolding disconnectAndEject_def
  proof (rule hist_bind_seq [OF wait])
    fix x n
    assume w: "waited C op0 x (tr @ n)"
    obtain st' op' r where x: "x = ((st', op'), r)" by (cases x) auto
    have s: "same_target op0 op'" using w by (simp add: x waited_def stepped_def)
    show "hist Q (tr @ n) ((\<lambda>((st, op), r). case r of
            Inl e \<Rightarrow> ret ((st, op), Inl e)
          | Inr _ \<Rightarrow>
              do { r \<leftarrow> attempt (run H p [''device.cdrom.eject'', ''-dc'', datacenter pool, ''-vm.uuid'', ej_BIOSUUID op,
                                  ''-device'', cdromName op]) (\<lambda>_.
                        attempt (vmDetailsByUUID H p pool (ej_BIOSUUID op)) (\<lambda>observed.
                        ret (if list_ex (\<lambda>device. gd_Key device = ej_DeviceKey op \<and> gd_FileName device = ej_ISOPath op) (gv_Device observed)
                             then Inl (ErrorText (''VM '' @ quoted (ej_VMName op) @ '' still references discovery ISO after ejection''))
                             else Inr ())));
                   ret ((st, op), r) }) x) (finished H op0)"
      using eject [OF s, of n] w s by (cases r) (auto simp: x waited_def intro!: hist_ret finished_Inl)
  qed
qed


lemma hist_startDisconnect:
  assumes ok: "caller_ok H C op0 Q cp tr" and t: "tracked C op0 op tr" and seen: "target_seen H op0 tr"
    and dc: "datacenter pool = ej_Datacenter op0"
  shows "hist Q tr (startDisconnect H p pool cp st op) (finished H op0)"
proof (cases "ej_DisconnectStarted op")
  case True
  then show ?thesis using hist_disconnectAndEject [OF ok t seen dc] by (simp add: startDisconnect_def)
next
  case False
  have same: "same_target op0 op" using t unfolding tracked_def by blast
  let ?op = "op\<lparr>ej_DisconnectStarted := True\<rparr>"
  have "hist Q tr (checkpointed cp st ?op (\<lambda>st. disconnectAndEject H p pool cp st ?op)) (finished H op0)"
  proof (rule hist_checkpointed [OF ok same_target_upd(2) [OF same]])
    fix n st assume "C ?op (tr @ n)"
    then have "started C op0 (tr @ n)" unfolding started_def using same_target_upd(2) [OF same, of True] by auto
    then have "tracked C op0 ?op (tr @ n)"
      using tracked_append [OF ok t, of n] same_target_upd(2) [OF same] unfolding tracked_def by simp
    then show "hist Q (tr @ n) (disconnectAndEject H p pool cp st ?op) (finished H op0)"
      by (intro hist_disconnectAndEject [OF caller_append [OF ok] _ target_seen_append [OF seen] dc]) simp_all
  qed (use same_target_upd(2) [OF same] in \<open>simp add: finished_def\<close>)
  then show ?thesis using False by (simp add: startDisconnect_def Let_def)
qed

lemma hist_ejectTarget:
  assumes ok: "caller_ok H C op0 Q cp tr" and d: "seen H tr (ejectInfo op0) d"
    and mine: "\<not> ejectionForeign d (ej_BIOSUUID op0) (ej_OwnerUID op0)" and dc: "datacenter pool = ej_Datacenter op0"
    and path: "ej_ISOPath op0 \<noteq> []"
  shows "hist Q tr (ejectTarget H p pool d cp st op0) (finished H op0)"
proof (cases "find (\<lambda>device. gd_Key device = ej_DeviceKey op0) (gv_Device d)")
  case None
  have "eject_done H op0 tr" by (rule released_done [OF d]) (simp add: None)
  then show ?thesis using None by (auto simp: ejectTarget_def finished_def same_target_upd intro!: hist_ret)
next
  case (Some target)
  have t0: "tracked C op0 op0 t" for t
    by (simp add: tracked_def same_target_upd started_def asked_def)
  show ?thesis
  proof (cases "gd_FileName target = ej_ISOPath op0")
    case True
    have seen: "target_seen H op0 tr" unfolding target_seen_def using d mine [unfolded same_vm_iff] Some True by blast
    have "hist Q tr (do { ((st, op), r) \<leftarrow> answerPending H p pool (gv_Question d) cp st op0;
                    case r of Inl e \<Rightarrow> ret ((st, op), Inl e) | Inr _ \<Rightarrow> startDisconnect H p pool cp st op }) (finished H op0)"
    proof (rule hist_bind_seq [OF hist_answerPending [OF ok t0 seen dc d]])
      fix x n
      assume st: "stepped C op0 x (tr @ n)"
      obtain st' op' r where x: "x = ((st', op'), r)" by (cases x) auto
      show "hist Q (tr @ n) ((\<lambda>((st, op), r). case r of Inl e \<Rightarrow> ret ((st, op), Inl e) | Inr _ \<Rightarrow> startDisconnect H p pool cp st op) x)
          (finished H op0)"
        using st hist_startDisconnect [OF caller_append [OF ok] _ target_seen_append [OF seen] dc]
        by (cases r) (auto simp: x stepped_def intro!: hist_ret finished_Inl)
    qed
    then show ?thesis
      using Some True path by (auto simp: ejectTarget_def finished_Inl same_target_upd intro!: hist_ret)
  next
    case False
    have "eject_done H op0 tr" by (rule released_done [OF d]) (simp add: Some False)
    then show ?thesis
      using Some False by (auto simp: ejectTarget_def finished_def same_target_upd intro!: hist_ret)
  qed
qed

lemma hist_EjectISO:
  assumes ok: "caller_ok H C op0 Q cp tr"
  shows "hist Q tr (govc_EjectISO H p pool op0 cp st) (finished H op0)"
proof -
  let ?pool = "inDatacenter (ej_Datacenter op0) pool"
  have dc: "datacenter ?pool = ej_Datacenter op0" by (simp add: inDatacenter_def)
  have "hist Q tr (handle (vmDetailsByUUID H p ?pool (ej_BIOSUUID op0))
                 (\<lambda>e. ret ((st, op0), if IsSentinel errVMNotFound e then Inr () else Inl e))
                 (\<lambda>details. if ejectionForeign details (ej_BIOSUUID op0) (ej_OwnerUID op0)
                    then ret ((st, op0), Inl (ejectionMismatch (ej_VMName op0)))
                    else ejectTarget H p ?pool details cp st op0)) (finished H op0)" if "ej_ISOPath op0 \<noteq> []"
    by (rule hist_handle_seq [OF hist_ejectInfo [OF ok dc refl]])
      (use hist_ejectTarget [OF caller_append [OF ok] _ _ dc that] in
        \<open>auto simp: looked_simps finished_def eject_done_def same_target_upd intro!: hist_ret\<close>)
  then show ?thesis
    by (auto simp: govc_EjectISO_def Let_def finished_Inl same_target_upd intro!: hist_ret)
qed

text \<open>C8: An ejection by the govc provider of the recorded operation \<open>op\<close>, with any caller whose checkpoint makes the record it
is given durable when it succeeds (\<open>C\<close>). Besides what the checkpoint does, only these commands run, all in the recorded datacenter and
on the recorded UUID: looking at the VM; starting the disconnect of the recorded CD-ROM after the VM was seen to be the owner's
with the recorded image in that device, and only once the start is recorded durably; answering a pending question of
the VM, only when it is the CD-ROM lock question and its identity is recorded durably; and ejecting the recorded device after the disconnect
finished. On success the VM is gone or the device was seen without the image.
\<close>

theorem govc_eject_guarded:
  assumes "\<And>op t n. C op t \<Longrightarrow> C op (t @ n)"
    and "\<And>n st op. hist P n (cp st op) (\<lambda>r t. snd r = Inr () \<longrightarrow> C op t)"
  shows "hist (\<lambda>tr e. P tr e \<or> (\<exists>h. e = EvHost h \<and> eject_host H C op tr h)) [] (govc_EjectISO H p pool op cp st) (finished H op)"
proof (rule hist_EjectISO)
  show "caller_ok H C op (\<lambda>tr e. P tr e \<or> (\<exists>h. e = EvHost h \<and> eject_host H C op tr h)) cp []"
    unfolding caller_ok_def using assms(1) hist_weaken [OF assms(2)] by auto
qed

lemma govc_eject_guarded_witness:
  "\<forall>(H :: unit host) p op st. hist (\<lambda>tr e. e = EvClock 0 \<or> (\<exists>h. e = EvHost h \<and> eject_host H (\<lambda>_ t. EvClock 0 \<in> set t) op tr h)) []
     (govc_EjectISO H p samplePool op (\<lambda>st op. do { emit (EvClock 0); ret (st, Inr ()) }) st) (finished H op)"
proof -
  let ?C = "\<lambda>(op :: ISOEjectionStatus) t. EvClock 0 \<in> set t"
  have "\<And>op t n. ?C op t \<Longrightarrow> ?C op (t @ n)" by simp
  moreover have "\<And>n (st :: eject_state) op. hist (\<lambda>tr e. e = EvClock 0) n (do { emit (EvClock 0); ret (st, Inr ()) })
      (\<lambda>r t. snd r = (Inr () :: unit result) \<longrightarrow> ?C op t)"
    by (auto intro!: hist_bind hist_emit hist_ret)
  ultimately show ?thesis by (intro allI) (rule govc_eject_guarded)
qed

section \<open>The provider satisfies its interface\<close>

interpretation govc: vm_provider "govcFactory H L"
proof
  fix pool pool' secret P Q tr op st and cp :: "'a checkpoint"
  assume F: "govcFactory H L pool secret = Inr P"
    and cp: "\<And>n st op. hist Q (tr @ n) (cp st op) (\<lambda>r tr'. True)" and host: "\<And>n h. Q (tr @ n) (EvHost h)"
    and "\<And>n t. Q (tr @ n) (EvClock t)"
  obtain p where P: "P = govcProvider H L p"
    using F by (auto simp: govcFactory_def split: sum.splits)
  have "caller_ok H (\<lambda>_ _. True) op Q cp tr"
    unfolding caller_ok_def using cp host by simp
  from hist_True [OF hist_EjectISO [OF this]]
  show "hist Q tr (pv_EjectISO P pool' op cp st) (\<lambda>r tr'. True)"
    by (simp add: P govcProvider_def)
qed



section \<open>What the controller's checkpoint makes durable\<close>

fun writes_record :: "ISOEjectionStatus option \<Rightarrow> event \<Rightarrow> bool" where
  "writes_record op (EvVAgent (StatusUpdate obj r)) \<longleftrightarrow> vast_ISOEjection (va_Status obj) = op"
| "writes_record op e \<longleftrightarrow> True"

definition durable :: "ISOEjectionStatus option \<Rightarrow> event list \<Rightarrow> bool" where
  "durable op tr \<longleftrightarrow> (\<exists>obj. vast_ISOEjection (va_Status obj) = op \<and>
     ((\<exists>x. EvVAgent (StatusUpdate obj (Inr x)) \<in> set tr) \<or> (\<exists>k. EvVAgent (Get Cached k (Inr obj)) \<in> set tr)))"

lemma durable_append: "durable op tr \<Longrightarrow> durable op (t1 @ tr @ t2)"
  unfolding durable_def by auto

lemma yields_RetryOnConflict:
  assumes "yields m (\<lambda>r new. list_all s new \<and> (case r of Inl _ \<Rightarrow> True | Inr _ \<Rightarrow> D new))"
    and "\<And>t1 t2. D t2 \<Longrightarrow> D (t1 @ t2)"
  shows "yields (RetryOnConflict n m) (\<lambda>r new. list_all s new \<and> (case r of Inl _ \<Rightarrow> True | Inr _ \<Rightarrow> D new))"
proof (induction n)
  case (Suc n)
  show ?case
    unfolding RetryOnConflict.simps
    by (rule yields_bind, rule yields_mono [OF assms(1)])
      (use assms(2) in \<open>auto split: sum.splits intro!: yields_ret yields_mono [OF Suc.IH]\<close>)
qed (simp add: assms(1))

lemma yields_updateStatus:
  "yields (VA_updateStatus K L agent) (\<lambda>r new. list_all (writes_record (vast_ISOEjection (va_Status agent))) new \<and>
     (case r of Inl _ \<Rightarrow> True | Inr a \<Rightarrow> durable (vast_ISOEjection (va_Status agent)) new \<and> a = agent\<lparr>va_Status := observedStatus agent\<rparr>))"
proof -
  let ?op = "vast_ISOEjection (va_Status agent)"
  have rec: "vast_ISOEjection (observedStatus agent) = ?op" by (simp add: observedStatus_def)
  have same: "durable ?op [EvVAgent (Get Cached k (Inr cur))]" if "va_Status cur = observedStatus agent" for k cur
    unfolding durable_def using rec that by (intro exI [of _ cur]) auto
  have put: "durable ?op [e, EvVAgent (StatusUpdate (cur\<lparr>va_Status := observedStatus agent\<rparr>) (Inr x))]" for e cur x
    unfolding durable_def using rec by (intro exI [of _ "cur\<lparr>va_Status := observedStatus agent\<rparr>"]) auto
  have "yields (writeVAStatus K (vaKey agent) (observedStatus agent))
      (\<lambda>r new. list_all (writes_record ?op) new \<and> (case r of Inl _ \<Rightarrow> True | Inr _ \<Rightarrow> durable ?op new))"
    unfolding writeVAStatus_def kget_def kstatus_update_def
    using rec by (auto split: sum.split intro!: yields_intros same put)
  from yields_RetryOnConflict [OF this, of "gl_RetrySteps L"] durable_append [of ?op _ _ "[]"]
  show ?thesis
    unfolding VA_updateStatus_def
    by (intro yields_attempt) (auto elim!: yields_mono split: sum.splits intro!: yields_ret)
qed


lemma yields_ejectCheckpoint:
  "yields (ejectCheckpoint K L (agent, True) op) (\<lambda>x new. list_all (writes_record (Some op)) new \<and>
     (case x of ((a, shared), r) \<Rightarrow> case r of Inl _ \<Rightarrow> True
        | Inr _ \<Rightarrow> \<not> shared \<and> durable (Some op) new \<and> vast_ISOEjection (va_Status a) = Some op))"
  "yields (ejectCheckpoint K L (agent, False) op) (\<lambda>x new. list_all (writes_record (vast_ISOEjection (va_Status agent))) new)"
  unfolding ejectCheckpoint_def Let_def
  by (auto simp: observedStatus_def split: sum.split
      intro!: yields_handle yields_mono [OF yields_updateStatus] yields_ret)

text \<open>C38: Two checkpoints of one ejection with the records \<open>op1\<close> and then \<open>op2\<close>. When the first succeeds \<open>op1\<close> is durable in the
worker's status; but every status written by either checkpoint carries \<open>op1\<close>: the second record is never written,
because the controller's object was replaced by a copy at the first. The provider relies on the second one when a question
appears during the disconnect.
\<close>

theorem second_checkpoint_writes_first_record:
  "yields (do { (st, r1) \<leftarrow> ejectCheckpoint K L (agent, True) op1;
                case r1 of Inl e \<Rightarrow> ret (st, Inl e) | Inr _ \<Rightarrow> ejectCheckpoint K L st op2 })
     (\<lambda>x new. list_all (writes_record (Some op1)) new \<and> (case snd x of Inl _ \<Rightarrow> True | Inr _ \<Rightarrow> durable (Some op1) new))"
proof (rule yields_bind, rule yields_mono [OF yields_ejectCheckpoint(1)])
  fix x :: "eject_state \<times> unit result" and n1
  assume first: "list_all (writes_record (Some op1)) n1 \<and> (case x of ((a, shared), r) \<Rightarrow> case r of Inl _ \<Rightarrow> True
        | Inr _ \<Rightarrow> \<not> shared \<and> durable (Some op1) n1 \<and> vast_ISOEjection (va_Status a) = Some op1)"
  obtain a shared r where x: "x = ((a, shared), r)" by (cases x) auto
  show "yields ((\<lambda>(st, r1). case r1 of Inl e \<Rightarrow> ret (st, Inl e) | Inr _ \<Rightarrow> ejectCheckpoint K L st op2) x)
    (\<lambda>b n2. list_all (writes_record (Some op1)) (n1 @ n2) \<and> (case snd b of Inl _ \<Rightarrow> True | Inr _ \<Rightarrow> durable (Some op1) (n1 @ n2)))"
  proof (cases r)
    case (Inr u)
    then have "yields (ejectCheckpoint K L (a, shared) op2) (\<lambda>x new. list_all (writes_record (Some op1)) new)"
      and "durable (Some op1) (n1 @ n2)" for n2
      using first yields_ejectCheckpoint(2) [of K L a op2] durable_append [of _ n1 "[]"] by (auto simp: x)
    then show ?thesis using first by (auto simp: x Inr elim!: yields_mono split: sum.split)
  qed (use first in \<open>simp add: x yields_ret\<close>)
qed

section \<open>Preparing an ejection\<close>

text \<open>
  A prepared operation: the VM has the recorded UUID and owner and no pending question, and the device named
  holds an image of the pool's cache, stored under a digest of 64 hexadecimal digits.
\<close>

definition prepared_ok :: "'w host \<Rightarrow> VsphereAgentPool \<Rightarrow> OwnedVMStatus \<Rightarrow> ISOEjectionStatus \<Rightarrow> event list \<Rightarrow> bool" where
  "prepared_ok H pool vm op tr \<longleftrightarrow> ej_BIOSUUID op = vm_BIOSUUID vm \<and> ej_OwnerUID op = vm_OwnerUID vm \<and> ej_Datacenter op = datacenter pool
     \<and> \<not> ej_DisconnectStarted op \<and> ej_QuestionID op = []
     \<and> (\<exists>digest. ej_ISOPath op = ''['' @ isoDatastore pool @ ''] '' @ isoContentPath pool digest \<and> length digest = 64 \<and> list_all is_hex digest)
     \<and> (\<exists>d device. seen H tr (ejectInfo op) d \<and> same_vm d (ej_BIOSUUID op) (ej_OwnerUID op) \<and> gv_Question d = None
          \<and> device \<in> set (gv_Device d) \<and> gd_Key device = ej_DeviceKey op \<and> gd_FileName device = ej_ISOPath op)"

fun prepare_event :: "VsphereAgentPool \<Rightarrow> OwnedVMStatus \<Rightarrow> event list \<Rightarrow> event \<Rightarrow> bool" where
  "prepare_event pool vm tr (EvHost (Govc args ans)) \<longleftrightarrow> args = infoArgs (datacenter pool) ''-vm.uuid'' (vm_BIOSUUID vm)"
| "prepare_event pool vm tr (EvClock t) \<longleftrightarrow> True"
| "prepare_event pool vm tr _ \<longleftrightarrow> False"

lemma isCachedISO_digest:
  assumes "isCachedISO pool f"
  shows "\<exists>digest. f = ''['' @ isoDatastore pool @ ''] '' @ isoContentPath pool digest \<and> length digest = 64 \<and> list_all is_hex digest"
proof -
  let ?pre = "''['' @ isoDatastore pool @ ''] '' @ isoPathPrefix pool @ ''/''"
  obtain t where f: "f = ?pre @ t"
    using assms unfolding isCachedISO_def Let_def go_HasPrefix_iff by blast
  have hex: "hex_bytes (go_TrimSuffix t ''.iso'') = Some 32" and suf: "go_HasSuffix f ''.iso''"
    using assms go_TrimPrefix_append [of ?pre t] unfolding isCachedISO_def Let_def f by simp_all
  let ?d = "go_TrimSuffix t ''.iso''"
  have d: "length ?d = 64" "list_all is_hex ?d"
    using hex by (auto simp: hex_bytes_def split: if_splits)
  have "go_HasSuffix t ''.iso''"
  proof (rule ccontr)
    assume no: "\<not> go_HasSuffix t ''.iso''"
    then have t: "t = ?d" by (simp add: go_TrimSuffix_def)
    then have "last t \<noteq> CHR ''o''" using d by (cases t rule: rev_cases) (auto simp: is_hex_def)
    moreover have "last f = CHR ''o''"
      using suf by (auto simp: go_HasSuffix_iff)
    moreover have "last f = last t" using d t f by (cases t) auto
    ultimately show False by simp
  qed
  then have "t = ?d @ ''.iso''"
    by (auto simp: go_HasSuffix_iff)
  then show ?thesis using d f by (intro exI [of _ ?d]) (simp add: isoContentPath_def)
qed


text \<open>C37: An ejection prepared by the govc provider for a VM targets an image of the pool's own cache: the VM with the recorded UUID was
looked at, carries the recorded owner's annotation and has no pending question, and one of its devices, the one
recorded, holds the image stored under a 64-digit digest in the pool's directory of the ISO datastore. Preparing runs no
other command than that lookup.
\<close>

theorem prepared_ejection_targets_cache:
  "hist (prepare_event pool vm) [] (govc_PrepareISOEjection H p pool vm)
     (\<lambda>r tr. case r of Inr (Some op) \<Rightarrow> prepared_ok H pool vm op tr | _ \<Rightarrow> True)"
proof -
  let ?args = "infoArgs (datacenter pool) ''-vm.uuid'' (vm_BIOSUUID vm)"
  let ?R = "\<lambda>r tr. case r of Inr (Some op) \<Rightarrow> prepared_ok H pool vm op tr | _ \<Rightarrow> True"
  have found: "prepared_ok H pool vm \<lparr>ej_VMName = vm_Name vm, ej_BIOSUUID = vm_BIOSUUID vm, ej_OwnerUID = vm_OwnerUID vm,
      ej_Datacenter = datacenter pool, ej_DeviceKey = gd_Key device, ej_ISOPath = gd_FileName device,
      ej_StartedAt = now, ej_DisconnectStarted = False, ej_QuestionID = []\<rparr> tr"
    if "seen H tr ?args d" "\<not> ejectionForeign d (vm_BIOSUUID vm) (vm_OwnerUID vm)" "gv_Question d = None"
      "find (\<lambda>device. isCachedISO pool (gd_FileName device)) (gv_Device d) = Some device" for tr d device now
  proof -
    have "isCachedISO pool (gd_FileName device)" "device \<in> set (gv_Device d)"
      using that(4) by (auto simp: find_Some_iff)
    then show ?thesis
      using that(1-3) isCachedISO_digest unfolding prepared_ok_def ejectInfo_def same_vm_iff by auto
  qed
  have inspect: "hist (prepare_event pool vm) tr (if ejectionForeign d (vm_BIOSUUID vm) (vm_OwnerUID vm) then ret (Inl (ejectionMismatch (vm_Name vm)))
        else if gv_Question d \<noteq> None
        then ret (Inl (ErrorText (''VM '' @ quoted (vm_Name vm) @ '' has a pending question; refusing new ISO ejection'')))
        else case find (\<lambda>device. isCachedISO pool (gd_FileName device)) (gv_Device d) of
               None \<Rightarrow> ret (Inr None)
             | Some device \<Rightarrow>
                 do { now \<leftarrow> hostNow H;
                      ret (Inr (Some \<lparr>ej_VMName = vm_Name vm, ej_BIOSUUID = vm_BIOSUUID vm, ej_OwnerUID = vm_OwnerUID vm,
                        ej_Datacenter = datacenter pool, ej_DeviceKey = gd_Key device, ej_ISOPath = gd_FileName device,
                        ej_StartedAt = now, ej_DisconnectStarted = False, ej_QuestionID = []\<rparr>)) }) ?R" if "seen H tr ?args d" for tr d
    unfolding hostNow_def using found [OF govc_facts_append(3) [OF that]]
    by (auto split: option.split intro!: hist_bind hist_ask hist_ret)
  show ?thesis
    unfolding govc_PrepareISOEjection_def
  proof (rule hist_if, simp add: hist_ret, rule hist_attempt_seq [OF hist_vmDetails(2)], simp, simp, rule inspect)
    fix d n assume "looked H ?args (Inr d) ([] @ n)"
    then show "seen H ([] @ n) ?args d" by (simp add: looked_simps)
  qed
qed

end
