(* ===== verification/OpenStackImages.thy ===== *)
theory OpenStackImages
  imports Govc
begin

text \<open>
  The cache of discovery images in Glance (\<open>openstack_iso_cache.go\<close>) and the status writer of
  \<open>openstackagent_controller.go\<close> it relies on. A ConfigMap per image counts its references: the workers that
  use the image are the keys of its data. The last worker to release it leaves a tombstone, after which no
  worker acquires it, and only then is the image deleted.

  The functions change the worker they are given; the changed worker is part of their result, also when they
  fail, because the reconciler then writes its status.
\<close>

section \<open>Steps on a worker\<close>

type_synonym ('w, 'x) osstep = "('w, OpenStackAgent \<times> 'x result) io"

definition onStatus :: "(OpenStackAgentStatus \<Rightarrow> OpenStackAgentStatus) \<Rightarrow> OpenStackAgent \<Rightarrow> OpenStackAgent" where
  "onStatus f a = a\<lparr>oa_Status := f (oa_Status a)\<rparr>"

abbreviation setPhase :: "string \<Rightarrow> OpenStackAgent \<Rightarrow> OpenStackAgent" where
  "setPhase p \<equiv> onStatus (oast_Phase_update (\<lambda>_. p))"

abbreviation setPending :: "string \<Rightarrow> OpenStackAgent \<Rightarrow> OpenStackAgent" where
  "setPending p \<equiv> onStatus (oast_PendingCreate_update (\<lambda>_. p))"

definition proceed ::
  "('w, 'x) osstep \<Rightarrow> (OpenStackAgent \<Rightarrow> 'x \<Rightarrow> ('w, 'y) osstep) \<Rightarrow> ('w, 'y) osstep" where
  "proceed m f = State_Monad.bind m (\<lambda>ar. case snd ar of Inl e \<Rightarrow> ret (fst ar, Inl e) | Inr x \<Rightarrow> f (fst ar) x)"

definition keeping :: "OpenStackAgent \<Rightarrow> ('w, 'x result) io \<Rightarrow> ('w, 'x) osstep" where
  "keeping a m = State_Monad.bind m (\<lambda>r. ret (a, r))"

definition failing :: "OpenStackAgent \<Rightarrow> OsError \<Rightarrow> ('w, 'x) osstep" where
  "failing a e = ret (a, Inl (OsErr e))"

section \<open>Writing the status\<close>

definition oaKey :: "OpenStackAgent \<Rightarrow> objkey" where
  "oaKey a = (om_Namespace (oa_Meta a), om_Name (oa_Meta a))"

definition oaUID :: "OpenStackAgent \<Rightarrow> string" where
  "oaUID a = om_UID (oa_Meta a)"

text \<open>
  A successful update decodes the answer into the object it was given. The update is conditional on the
  resource version, so that the answer is the object sent with a new version.
\<close>

definition stored :: "OpenStackAgent \<Rightarrow> OpenStackAgent \<Rightarrow> OpenStackAgent" where
  "stored a answer = a\<lparr>oa_Meta := (oa_Meta a)\<lparr>om_ResourceVersion := om_ResourceVersion (oa_Meta answer)\<rparr>\<rparr>"

definition observedOA :: "OpenStackAgent \<Rightarrow> OpenStackAgent" where
  "observedOA a = onStatus (oast_ObservedGeneration_update (\<lambda>_. om_Generation (oa_Meta a))) a"

definition OSA_status :: "'w kube \<Rightarrow> OpenStackAgent \<Rightarrow> ('w, unit) osstep" where
  "OSA_status K a0 =
     (let a = observedOA a0
      in handle (kget (k_osagents K) EvOsAgent Live (oaKey a)) (\<lambda>e. ret (a, Inl e)) (\<lambda>cur.
         if oa_Status cur = oa_Status a then ret (a, Inr ())
         else handle (kstatus_update (k_osagents K) EvOsAgent a) (\<lambda>e. ret (a, Inl e))
                (\<lambda>answer. ret (stored a answer, Inr ()))))"

section \<open>Identities\<close>

abbreviation imageCachePhase :: string where "imageCachePhase \<equiv> ''agent-forge.containeroo.ch/cache-phase''"
abbreviation imageCacheOwnedValue :: string where "imageCacheOwnedValue \<equiv> ''true''"
abbreviation openStackPhaseRefreshingImage :: string where "openStackPhaseRefreshingImage \<equiv> ''RefreshingDiscoveryImage''"
abbreviation openStackPhaseDeleting :: string where "openStackPhaseDeleting \<equiv> ''Deleting''"
abbreviation reasonCreateOutcomeUnknown :: string where "reasonCreateOutcomeUnknown \<equiv> ''CreateOutcomeUnknown''"

definition imageCacheKey :: "string \<Rightarrow> string \<Rightarrow> string \<Rightarrow> string" where
  "imageCacheKey scope infraEnvUID sha =
     ''os-image-'' @ take 48 (sha256hex (scope @ ''/'' @ infraEnvUID @ ''/'' @ sha))"

definition imageIDForCache :: "golib \<Rightarrow> ConfigMap \<Rightarrow> string" where
  "imageIDForCache L cache = gl_uuid_NewSHA1 L (om_UID (cm_Meta cache))"

section \<open>Downloading\<close>

definition removeFile :: "'w host \<Rightarrow> string \<Rightarrow> ('w, unit) io" where
  "removeFile H path = ask (hs_RemoveFile H path) (\<lambda>_. EvHost (RemoveFile path))"

definition downloadDiscovery ::
  "'w kube \<Rightarrow> 'w host \<Rightarrow> golib \<Rightarrow> OpenStackAgent \<Rightarrow> ('w, (string \<times> isoDownloadResult) result) io" where
  "downloadDiscovery K H L a =
     do { (available, url, message) \<leftarrow> discoveryISOAvailable K L Live (om_Namespace (oa_Meta a))
            (lor_Name (os_InfraEnvRef (oas_Configuration (oa_Spec a))));
          if \<not> available then ret (Inl (OsErr (mkOsError ''InfraEnvUnavailable'' True True)))
          else do {
            file \<leftarrow> ask (hs_CreateTemp H ''agent-forge-openstack-*.iso'') (\<lambda>r. EvHost (CreateTemp r));
            case file of
              TempFailed err \<Rightarrow> ret (Inl (OsErr (mkOsError ''ISOTemporaryStorageFailed'' True False)))
            | TempCloseFailed path err \<Rightarrow> do { removeFile H path; ret (Inl (ErrorText err)) }
            | TempFile path \<Rightarrow>
                handle (downloadISO H L url path [])
                  (\<lambda>e. do { removeFile H path; ret (Inl (OsErr (mkOsError ''ISODownloadFailed'' True False))) })
                  (\<lambda>result. if dl_SizeBytes result = 0
                     then do { removeFile H path; ret (Inl (OsErr (mkOsError ''EmptyDiscoveryImage'' False True))) }
                     else ret (Inr (path, result))) } }"

section \<open>References\<close>

definition newCache :: "OpenStackAgent \<Rightarrow> ConfigMap" where
  "newCache a = \<lparr>cm_Meta = emptyMeta\<lparr>om_Namespace := om_Namespace (oa_Meta a), om_Name := oast_ImageCacheName (oa_Status a),
       om_Labels := [(imageCacheLabel, imageCacheOwnedValue)], om_Annotations := [(imageCachePhase, ''Active'')]\<rparr>,
     cm_Data = [(oaUID a, ''reference'')]\<rparr>"

definition cacheKey :: "OpenStackAgent \<Rightarrow> objkey" where
  "cacheKey a = (om_Namespace (oa_Meta a), oast_ImageCacheName (oa_Status a))"

definition referenced :: "OpenStackAgent \<Rightarrow> ConfigMap \<Rightarrow> ConfigMap" where
  "referenced a cache = cache\<lparr>cm_Data := mput (cm_Data cache) (oaUID a) ''reference''\<rparr>"

definition acquireCache :: "'w kube \<Rightarrow> OpenStackAgent \<Rightarrow> ('w, ConfigMap result) io" where
  "acquireCache K a =
     handle (kget (k_configmaps K) EvConfigMap Live (cacheKey a))
       (\<lambda>e. if IsNotFound e then kcreate (k_configmaps K) EvConfigMap (newCache a) else ret (Inl e))
       (\<lambda>cache.
          if mget (om_Labels (cm_Meta cache)) imageCacheLabel \<noteq> imageCacheOwnedValue then ret (Inl (OsErr ErrOwnership))
          else if mget (om_Annotations (cm_Meta cache)) imageCachePhase \<noteq> ''Active''
                  \<or> om_DeletionTimestamp (cm_Meta cache) \<noteq> None
          then ret (Inl (OsErr (mkOsError ''ImageCacheDeleting'' True False)))
          else if mget (cm_Data cache) (oaUID a) = [] then kupdate (k_configmaps K) EvConfigMap (referenced a cache)
          else ret (Inr cache))"

definition canRefreshDiscoveryImage :: "OpenStackAgent \<Rightarrow> bool" where
  "canRefreshDiscoveryImage a \<longleftrightarrow> oast_ServerID (oa_Status a) = [] \<and> oast_DiscoveryVolumeID (oa_Status a) = []
     \<and> oast_PendingCreate (oa_Status a) = [] \<and> oast_AgentRef (oa_Status a) = None
     \<and> oast_InstanceCreatedAt (oa_Status a) = None"

section \<open>Uploading\<close>

text \<open>Opening the file and sending its content.\<close>

definition uploadFile :: "'w host \<Rightarrow> 'w os_client \<Rightarrow> OpenStackAgent \<Rightarrow> string \<Rightarrow> string \<Rightarrow> ('w, unit) osstep" where
  "uploadFile H P a path owner =
     keeping a (attempt (ask (hs_ReadFile H path) (\<lambda>r. EvHost (ReadFile path r))) (\<lambda>content.
       os_uploadImage P (oast_ImageID (oa_Status a)) owner content))"

definition uploadDiscoverySnapshot ::
  "'w kube \<Rightarrow> 'w host \<Rightarrow> golib \<Rightarrow> 'w os_client \<Rightarrow> OpenStackAgent \<Rightarrow> string \<Rightarrow> string \<Rightarrow> ('w, unit) osstep" where
  "uploadDiscoverySnapshot K H L P a path owner =
     (if path \<noteq> [] then uploadFile H P a path owner
      else handle (downloadDiscovery K H L a) (\<lambda>e. ret (a, Inl e)) (\<lambda>(downloaded, result).
        do { ar \<leftarrow> (if dl_SHA256 result \<noteq> oast_ISOSHA256 (oa_Status a) then
                      (if \<not> canRefreshDiscoveryImage a
                       then failing a (mkOsError ''DiscoveryImageRefreshBlocked'' False True)
                       else OSA_status K (setPhase openStackPhaseRefreshingImage a))
                    else uploadFile H P a downloaded owner);
             removeFile H downloaded;
             ret ar }))"

text \<open>The image as Glance has it: ready, being prepared, to be uploaded, or failed.\<close>

definition imageProgress ::
  "'w kube \<Rightarrow> 'w host \<Rightarrow> golib \<Rightarrow> 'w os_client \<Rightarrow> OpenStackAgent \<Rightarrow> string \<Rightarrow> string \<Rightarrow> Resource \<Rightarrow> ('w, bool) osstep" where
  "imageProgress K H L P a path owner im =
     (if rs_State im = ''active'' then
        (if rs_SizeBytes im \<noteq> oast_ISOSizeBytes (oa_Status a) then failing a (mkOsError ''ImageSizeMismatch'' False True)
         else ret (a, Inr True))
      else if rs_State im = ''saving'' \<or> rs_State im = ''importing'' then ret (a, Inr False)
      else if rs_State im = ''queued''
      then proceed (uploadDiscoverySnapshot K H L P a path owner) (\<lambda>a _. ret (a, Inr False))
      else failing a (mkOsError ''DiscoveryImageFailed'' False True))"

definition createdImage :: "Resource option result \<Rightarrow> Resource result" where
  "createdImage r = (case r of Inl e \<Rightarrow> Inl e
     | Inr None \<Rightarrow> Inl (Panic ''invalid memory address or nil pointer dereference'') | Inr (Some im) \<Rightarrow> Inr im)"

definition observeImage :: "'w os_client \<Rightarrow> OpenStackAgent \<Rightarrow> string \<Rightarrow> string \<Rightarrow> ('w, Resource result) io" where
  "observeImage P a i owner =
     handle (os_get P Image i owner)
       (\<lambda>e. if IsOs NotFoundSentinel e
            then do { r \<leftarrow> os_create P Image (oast_ImageCacheName (oa_Status a)) owner a; ret (createdImage r) }
            else ret (Inl e))
       (\<lambda>im. ret (Inr im))"

text \<open>The worker's image identity is written before the image is asked for.\<close>

definition pinImage :: "'w kube \<Rightarrow> OpenStackAgent \<Rightarrow> string \<Rightarrow> ('w, unit) osstep" where
  "pinImage K a i =
     (if oast_ImageID (oa_Status a) = [] then OSA_status K (onStatus (oast_ImageID_update (\<lambda>_. i)) a)
      else ret (a, Inr ()))"

definition ensureDiscoveryImage ::
  "'w kube \<Rightarrow> 'w host \<Rightarrow> golib \<Rightarrow> 'w os_client \<Rightarrow> OpenStackAgent \<Rightarrow> string \<Rightarrow> ('w, bool) osstep" where
  "ensureDiscoveryImage K H L P a path =
     handle (acquireCache K a) (\<lambda>e. ret (a, Inl e)) (\<lambda>cache.
       let i = imageIDForCache L cache; owner = om_UID (cm_Meta cache)
       in proceed (pinImage K a i) (\<lambda>a _.
          if oast_ImageID (oa_Status a) \<noteq> i then failing a (mkOsError ''ImageCacheIdentityChanged'' False True)
          else proceed (keeping a (observeImage P a i owner)) (\<lambda>a im. imageProgress K H L P a path owner im)))"

definition imageIdentified :: "string \<Rightarrow> InfraEnvObj \<Rightarrow> isoDownloadResult \<Rightarrow> OpenStackAgent \<Rightarrow> OpenStackAgent" where
  "imageIdentified scope infra result =
     onStatus (\<lambda>st. st\<lparr>oast_InfraEnvUID := om_UID (ie_Meta infra), oast_ISOSHA256 := dl_SHA256 result,
       oast_ISOSizeBytes := dl_SizeBytes result,
       oast_ImageCacheName := imageCacheKey scope (om_UID (ie_Meta infra)) (dl_SHA256 result)\<rparr>)"

definition prepareDiscoveryImage ::
  "'w kube \<Rightarrow> 'w host \<Rightarrow> golib \<Rightarrow> 'w os_client \<Rightarrow> OpenStackAgent \<Rightarrow> ('w, bool) osstep" where
  "prepareDiscoveryImage K H L P a =
     (if oast_ImageCacheName (oa_Status a) \<noteq> [] then ensureDiscoveryImage K H L P a []
      else handle (kget (k_infraenvs K) EvInfraEnv Live (om_Namespace (oa_Meta a),
               lor_Name (os_InfraEnvRef (oas_Configuration (oa_Spec a))))) (\<lambda>e. ret (a, Inl e)) (\<lambda>infra.
           handle (downloadDiscovery K H L a) (\<lambda>e. ret (a, Inl e)) (\<lambda>(path, result).
           do { ar \<leftarrow> proceed (OSA_status K (imageIdentified (oc_Scope P) infra result a))
                       (\<lambda>a _. ensureDiscoveryImage K H L P a path);
                removeFile H path;
                ret ar })))"

section \<open>Releasing\<close>

text \<open>Whether the image the worker was pinned to is gone, asked for under an owner that no cache has.\<close>

definition pinnedImageGone :: "'w os_client \<Rightarrow> OpenStackAgent \<Rightarrow> ('w, bool result) io" where
  "pinnedImageGone P a =
     handle (os_get P Image (oast_ImageID (oa_Status a)) ''missing-cache-owner'')
       (\<lambda>e. ret (if IsOs NotFoundSentinel e then Inr True else Inl e)) (\<lambda>_. ret (Inr False))"

text \<open>
  Dropping the worker's reference. The last one leaves the tombstone; writing it to a ConfigMap that has
  no annotations at all is an assignment to an entry of a nil map.
\<close>

definition dereferenced :: "OpenStackAgent \<Rightarrow> ConfigMap \<Rightarrow> ConfigMap" where
  "dereferenced a cache =
     (let data = mdel (cm_Data cache) (oaUID a)
      in if data = [] then cache\<lparr>cm_Data := data, cm_Meta := (cm_Meta cache)\<lparr>om_Annotations :=
             mput (om_Annotations (cm_Meta cache)) imageCachePhase openStackPhaseDeleting\<rparr>\<rparr>
         else cache\<lparr>cm_Data := data\<rparr>)"

definition dropReference :: "'w kube \<Rightarrow> OpenStackAgent \<Rightarrow> ConfigMap \<Rightarrow> ('w, bool result) io" where
  "dropReference K a cache =
     (if mdel (cm_Data cache) (oaUID a) = [] \<and> om_Annotations (cm_Meta cache) = []
      then ret (Inl (Panic ''assignment to entry in nil map''))
      else attempt (kupdate (k_configmaps K) EvConfigMap (dereferenced a cache)) (\<lambda>answer.
             ret (Inr (cm_Data answer \<noteq> []))))"

definition collectImage :: "'w kube \<Rightarrow> golib \<Rightarrow> 'w os_client \<Rightarrow> ConfigMap \<Rightarrow> ('w, bool result) io" where
  "collectImage K L P cache =
     (let i = imageIDForCache L cache; owner = om_UID (cm_Meta cache)
      in handle (os_get P Image i owner)
           (\<lambda>e. if \<not> IsOs NotFoundSentinel e then ret (Inl e)
                else handle (kdelete (k_configmaps K) EvConfigMap
                       (Some (om_UID (cm_Meta cache), Some (om_ResourceVersion (cm_Meta cache)))) cache)
                       (\<lambda>e. ret (if IsNotFound e then Inr True else Inl e)) (\<lambda>_. ret (Inr True)))
           (\<lambda>_. attempt (os_delete P Image i owner) (\<lambda>_. ret (Inr False))))"

definition releaseDiscoveryImage ::
  "'w kube \<Rightarrow> golib \<Rightarrow> 'w os_client \<Rightarrow> OpenStackAgent \<Rightarrow> ('w, bool result) io" where
  "releaseDiscoveryImage K L P a =
     (if oast_ImageCacheName (oa_Status a) = [] then ret (Inr True)
      else handle (kget (k_configmaps K) EvConfigMap Live (cacheKey a))
        (\<lambda>e. if IsNotFound e \<and> oast_ImageID (oa_Status a) = [] then ret (Inr True)
             else if IsNotFound e then pinnedImageGone P a else ret (Inl e))
        (\<lambda>cache.
           if mget (om_Labels (cm_Meta cache)) imageCacheLabel \<noteq> imageCacheOwnedValue then ret (Inl (OsErr ErrOwnership))
           else if oast_ImageID (oa_Status a) \<noteq> [] \<and> oast_ImageID (oa_Status a) \<noteq> imageIDForCache L cache
           then attempt (pinnedImageGone P a) (\<lambda>gone. ret (if gone then Inr True else Inl (OsErr ErrOwnership)))
           else if mget (om_Annotations (cm_Meta cache)) imageCachePhase \<noteq> openStackPhaseDeleting
           then dropReference K a cache
           else collectImage K L P cache))"

definition imageForgotten :: "OpenStackAgent \<Rightarrow> OpenStackAgent" where
  "imageForgotten = onStatus (\<lambda>st. st\<lparr>oast_ImageCacheName := [], oast_ImageID := [], oast_ISOSHA256 := [],
     oast_ISOSizeBytes := 0, oast_InfraEnvUID := [], oast_Phase := ''PreparingDiscoveryImage''\<rparr>)"

definition refreshDiscoveryImage ::
  "'w kube \<Rightarrow> golib \<Rightarrow> 'w os_client \<Rightarrow> OpenStackAgent \<Rightarrow> ('w, unit) osstep" where
  "refreshDiscoveryImage K L P a =
     (if \<not> canRefreshDiscoveryImage a then failing a (mkOsError ''DiscoveryImageRefreshBlocked'' False True)
      else proceed (keeping a (releaseDiscoveryImage K L P a)) (\<lambda>a released.
             ret (if released then imageForgotten a else a, Inr ())))"

end
