(* ===== verification/OpenStackWorkers.thy ===== *)
theory OpenStackWorkers
  imports OpenStackImages
begin

text \<open>
  The controller of an \<open>OpenStackAgent\<close> (\<open>openstackagent_controller.go\<close>). A worker is a port, an empty volume for
  the operating system, a volume with the discovery image, and a server that boots from them; each
  reconciliation advances the creation or the clean-up of one of them.

  \<open>kindOf\<close> is the conversion of a string to \<open>openstack.Kind\<close>; \<open>statusID\<close> and \<open>setStatusID\<close> are the field of the
  status that holds the identifier of a resource of a kind, which the code passes as a pointer.
\<close>

section \<open>Kinds of resources\<close>

definition kindOf :: "string \<Rightarrow> Kind" where
  "kindOf s = (if s = ''port'' then Port else if s = ''os-volume'' then OSVolume
     else if s = ''discovery-volume'' then DiscoveryVolume else if s = ''server'' then Server
     else if s = ''image'' then Image else OtherKind s)"

fun statusID :: "Kind \<Rightarrow> OpenStackAgent \<Rightarrow> string" where
  "statusID Port a = oast_PortID (oa_Status a)"
| "statusID OSVolume a = oast_OSVolumeID (oa_Status a)"
| "statusID DiscoveryVolume a = oast_DiscoveryVolumeID (oa_Status a)"
| "statusID Server a = oast_ServerID (oa_Status a)"
| "statusID k a = []"

fun setStatusID :: "Kind \<Rightarrow> string \<Rightarrow> OpenStackAgent \<Rightarrow> OpenStackAgent" where
  "setStatusID Port i a = onStatus (oast_PortID_update (\<lambda>_. i)) a"
| "setStatusID OSVolume i a = onStatus (oast_OSVolumeID_update (\<lambda>_. i)) a"
| "setStatusID DiscoveryVolume i a = onStatus (oast_DiscoveryVolumeID_update (\<lambda>_. i)) a"
| "setStatusID Server i a = onStatus (oast_ServerID_update (\<lambda>_. i)) a"
| "setStatusID k i a = a"

definition resourceName :: "OpenStackAgent \<Rightarrow> Kind \<Rightarrow> string" where
  "resourceName a k = ''agent-forge-'' @ oaUID a @ ''-'' @ kind_str k"

section \<open>The cloud\<close>

definition connect :: "'w os_factory \<Rightarrow> OpenStackPlacementSpec \<Rightarrow> Secret \<Rightarrow> ('w, 'w os_client result) io" where
  "connect F cfg secret = ask (F cfg secret) (\<lambda>r. EvOs (OsConnect (map_sum id oc_Scope r)))"

abbreviation placement :: "OpenStackAgent \<Rightarrow> OpenStackPlacementSpec" where
  "placement a \<equiv> os_OpenStack (oas_Configuration (oa_Spec a))"

definition OSA_provider :: "'w kube \<Rightarrow> 'w os_factory \<Rightarrow> OpenStackAgent \<Rightarrow> ('w, 'w os_client result) io" where
  "OSA_provider K F a =
     handle (kget (k_secrets K) EvSecret Live (om_Namespace (oa_Meta a), lor_Name (op_CredentialsSecretRef (placement a))))
       (\<lambda>e. ret (Inl (OsErr (mkOsError ''CredentialsUnavailable'' False True))))
       (\<lambda>secret. connect F (placement a) secret)"

section \<open>Demand\<close>

datatype demand = DemandGone | DemandPresent | DemandDeleting

definition demandPresent :: "'w kube \<Rightarrow> OpenStackAgent \<Rightarrow> ('w, demand result) io" where
  "demandPresent K a =
     (let ref = oas_AgentMachineRef (oa_Spec a)
      in if ref_UID ref = [] \<or> ref_Name ref = [] \<or> ref_Namespace ref = []
         then ret (Inl (ErrorText ''missing AgentMachine identity''))
         else handle (kget (k_agentmachines K) EvAgentMachine Live (ref_Namespace ref, ref_Name ref))
           (\<lambda>e. ret (if IsNotFound e then Inr DemandGone else Inl e))
           (\<lambda>am. ret (Inr (if om_UID (am_Meta am) \<noteq> ref_UID ref then DemandGone
                           else if om_DeletionTimestamp (am_Meta am) \<noteq> None then DemandDeleting else DemandPresent))))"

section \<open>Resources\<close>

definition createOutcomeUnknown :: OsError where
  "createOutcomeUnknown = mkOsError reasonCreateOutcomeUnknown True False"

text \<open>\<open>errors.As(err, &safe) && safe.Rejected\<close>\<close>

fun knownRejected :: "go_error \<Rightarrow> bool" where
  "knownRejected (OsErr safe) = er_Rejected safe"
| "knownRejected e = False"

definition adopted :: "Kind \<Rightarrow> Resource \<Rightarrow> OpenStackAgent \<Rightarrow> OpenStackAgent" where
  "adopted k found a = setPending [] (setStatusID k (rs_ID found) a)"

definition createResource :: "'w os_client \<Rightarrow> OpenStackAgent \<Rightarrow> Kind \<Rightarrow> ('w, Resource) osstep" where
  "createResource P a k =
     handle (os_create P k (resourceName a k) (oaUID a) a)
       (\<lambda>e. ret (if knownRejected e then setPending [] a else a, Inl e))
       (\<lambda>found. case found of
            None \<Rightarrow> failing a createOutcomeUnknown
          | Some r \<Rightarrow> if rs_ID r = [] then failing a createOutcomeUnknown else ret (adopted k r a, Inr r))"

definition ensureResource :: "'w kube \<Rightarrow> 'w os_client \<Rightarrow> OpenStackAgent \<Rightarrow> Kind \<Rightarrow> ('w, Resource) osstep" where
  "ensureResource K P a k =
     (if statusID k a \<noteq> [] then keeping a (os_get P k (statusID k a) (oaUID a))
      else handle (os_find P k (resourceName a k) (oaUID a))
        (\<lambda>e. if \<not> IsOs NotFoundSentinel e then ret (a, Inl e)
             else if oast_PendingCreate (oa_Status a) \<noteq> [] then failing a createOutcomeUnknown
             else proceed (OSA_status K (setPending (kind_str k) a)) (\<lambda>a _. createResource P a k))
        (\<lambda>found. ret (adopted k found a, Inr found)))"

definition resourceFailed :: "Resource \<Rightarrow> unit result" where
  "resourceFailed resource =
     (if go_Contains (go_ToLower (rs_State resource)) ''error''
      then Inl (OsErr (mkOsError ''InfrastructureResourceFailed'' False True)) else Inr ())"

section \<open>Discovered hosts\<close>

definition matchingHosts :: "'w kube \<Rightarrow> OpenStackAgent \<Rightarrow> ('w, AgentObj list result) io" where
  "matchingHosts K a =
     attempt (klist (k_agents K) EvAgent Live (InNamespace (om_Namespace (oa_Meta a))))
       (\<lambda>items. ret (Inr (filter (agentHardwareMatches a) items)))"

definition diskEligible :: "OpenStackAgent \<Rightarrow> UDisk \<Rightarrow> bool" where
  "diskEligible a disk \<longleftrightarrow>
     (let serial = di_serial disk; volume = oast_OSVolumeID (oa_Status a);
          serialMatches = (serial = volume \<or> (length serial \<ge> 20 \<and> go_HasPrefix volume serial))
      in di_id disk \<noteq> [] \<and> di_path disk = ot_InstallationDisk (os_Template (oas_Configuration (oa_Spec a)))
         \<and> di_eligible disk \<and> \<not> go_EqualFold (di_driveType disk) ''CDROM'' \<and> serialMatches)"

definition installationDisk :: "OpenStackAgent \<Rightarrow> AgentObj \<Rightarrow> string result" where
  "installationDisk a host =
     (case map di_id (filter (diskEligible a) (List.map_filter id (ao_disks host))) of
        [i] \<Rightarrow> Inr i
      | _ \<Rightarrow> Inl (OsErr (mkOsError ''InstallationDiskNotVerified'' False True)))"

definition hostReference :: "AgentObj \<Rightarrow> ObjectReference" where
  "hostReference host = \<lparr>ref_APIVersion = ao_APIVersion host, ref_Kind = ao_Kind host,
     ref_Namespace = om_Namespace (ao_Meta host), ref_Name = om_Name (ao_Meta host), ref_UID = om_UID (ao_Meta host)\<rparr>"

text \<open>The checks on the one matching host, the first that fails deciding the error.\<close>

definition hostConflict :: "OpenStackAgent \<Rightarrow> AgentObj \<Rightarrow> string option" where
  "hostConflict a host =
     (let ref = oas_AgentMachineRef (oa_Spec a);
          claim = mget (om_Labels (ao_Meta host)) agentMachineSelectionLabel;
          bound = mget (om_Labels (ao_Meta host)) agentMachineRefKey;
          boundNs = mget (om_Annotations (ao_Meta host)) ''agentMachineRefNamespace''
      in if om_DeletionTimestamp (ao_Meta host) \<noteq> None
            \<or> \<not> agentBelongsToInfraEnv host (lor_Name (os_InfraEnvRef (oas_Configuration (oa_Spec a))))
         then Some ''AgentIdentityConflict''
         else if (case oast_AgentRef (oa_Status a) of None \<Rightarrow> False | Some r \<Rightarrow> ref_UID r \<noteq> om_UID (ao_Meta host))
         then Some ''AgentIdentityChanged''
         else if claim \<noteq> [] \<and> claim \<noteq> ref_Name ref then Some ''AgentClaimConflict''
         else if bound \<noteq> [] \<and> (bound \<noteq> ref_Name ref \<or> (boundNs \<noteq> [] \<and> boundNs \<noteq> ref_Namespace ref))
         then Some ''AgentBindingConflict''
         else None)"

definition approveHost :: "'w kube \<Rightarrow> OpenStackAgent \<Rightarrow> AgentObj \<Rightarrow> ('w, unit) osstep" where
  "approveHost K a host =
     (case installationDisk a host of
        Inl e \<Rightarrow> ret (a, Inl e)
      | Inr disk \<Rightarrow>
          keeping (setPhase ''WaitingForAgent'' a)
            (patchDiscoveredAgent K (om_Namespace (oa_Meta a)) (os_Agent (oas_Configuration (oa_Spec a)))
               (om_Name (ao_Meta host)) (ref_Name (oas_AgentMachineRef (oa_Spec a)))
               (Some \<lparr>sf_UID = om_UID (ao_Meta host), sf_ResourceVersion = om_ResourceVersion (ao_Meta host),
                      sf_InstallationDiskID = disk\<rparr>)))"

definition reconcileHost :: "'w kube \<Rightarrow> OpenStackAgent \<Rightarrow> AgentObj \<Rightarrow> ('w, unit) osstep" where
  "reconcileHost K a host =
     (case hostConflict a host of
        Some reason \<Rightarrow> failing a (mkOsError reason False True)
      | None \<Rightarrow>
          (let bound = mget (om_Labels (ao_Meta host)) agentMachineRefKey;
               a = onStatus (oast_AgentRef_update (\<lambda>_. Some (hostReference host))) a
           in if objectConditionStatus (ao_conditions host) ''Installed'' = ConditionTrue then
                ret (setPhase (if bound = ref_Name (oas_AgentMachineRef (oa_Spec a)) then conditionReady else ''WaitingForAgent'') a,
                     Inr ())
              else if objectConditionReason (ao_conditions host) ''Installed'' = ''InstallationFailed''
              then failing a (mkOsError ''AgentInstallationFailed'' False True)
              else if bound \<noteq> [] then ret (setPhase ''WaitingForInstallation'' a, Inr ())
              else approveHost K a host))"

definition discoveryExpired :: "OpenStackAgent \<Rightarrow> gotime \<Rightarrow> gotime \<Rightarrow> bool" where
  "discoveryExpired a created now \<longleftrightarrow>
     now - created > sint (os_DiscoveryTimeoutSeconds (oas_Configuration (oa_Spec a))) * second"

definition awaitDiscovery :: "'w kube \<Rightarrow> OpenStackAgent \<Rightarrow> ('w, unit) osstep" where
  "awaitDiscovery K a =
     (case oast_InstanceCreatedAt (oa_Status a) of
        None \<Rightarrow> ret (a, Inr ())
      | Some created \<Rightarrow>
          do { now \<leftarrow> Now K;
               if discoveryExpired a created now then failing a (mkOsError ''AgentDiscoveryTimeout'' False True)
               else ret (a, Inr ()) })"

definition reconcileDiscoveredAgent :: "'w kube \<Rightarrow> OpenStackAgent \<Rightarrow> ('w, unit) osstep" where
  "reconcileDiscoveredAgent K a =
     (let a = setPhase ''WaitingForDiscovery'' a
      in handle (matchingHosts K a) (\<lambda>e. ret (a, Inl e)) (\<lambda>hosts.
           case hosts of
             [] \<Rightarrow> awaitDiscovery K a
           | [host] \<Rightarrow> reconcileHost K a host
           | _ \<Rightarrow> failing a (mkOsError ''AmbiguousAgentIdentity'' False True)))"

section \<open>Provisioning\<close>

definition recovered :: "Kind \<Rightarrow> Resource \<Rightarrow> gotime \<Rightarrow> OpenStackAgent \<Rightarrow> OpenStackAgent" where
  "recovered k found now a =
     setPhase ''RecoveringResource'' (setPending [] (
       case k of
         Port \<Rightarrow> onStatus (oast_MACAddress_update (\<lambda>_. normalizeMAC (rs_MAC found))) (setStatusID Port (rs_ID found) a)
       | Server \<Rightarrow> onStatus (oast_InstanceCreatedAt_update (\<lambda>_. Some now)) (setStatusID Server (rs_ID found) a)
       | _ \<Rightarrow> setStatusID k (rs_ID found) a))"

definition recoverPending :: "'w kube \<Rightarrow> 'w os_client \<Rightarrow> OpenStackAgent \<Rightarrow> ('w, unit) osstep" where
  "recoverPending K P a =
     (let k = kindOf (oast_PendingCreate (oa_Status a))
      in handle (os_find P k (resourceName a k) (oaUID a))
           (\<lambda>e. ret (a, Inl (if IsOs NotFoundSentinel e then OsErr createOutcomeUnknown else e)))
           (\<lambda>found. if k = Server then do { now \<leftarrow> Now K; ret (recovered k found now a, Inr ()) }
                    else ret (recovered k found 0 a, Inr ())))"

definition watchServer :: "'w kube \<Rightarrow> 'w os_client \<Rightarrow> OpenStackAgent \<Rightarrow> ('w, unit) osstep" where
  "watchServer K P a =
     proceed (keeping a (os_get P Server (oast_ServerID (oa_Status a)) (oaUID a))) (\<lambda>a server.
     case resourceFailed server of
       Inl e \<Rightarrow> ret (a, Inl e)
     | Inr _ \<Rightarrow>
         if rs_State server \<noteq> ''ACTIVE'' then ret (setPhase ''CreatingInstance'' a, Inr ())
         else reconcileDiscoveredAgent K a)"

definition provisionPort :: "'w kube \<Rightarrow> 'w os_client \<Rightarrow> OpenStackAgent \<Rightarrow> ('w, unit) osstep" where
  "provisionPort K P a =
     proceed (ensureResource K P (setPhase ''CreatingNetwork'' a) Port) (\<lambda>a port.
     ret (onStatus (oast_MACAddress_update (\<lambda>_. normalizeMAC (rs_MAC port))) a, Inr ()))"

definition provisionServer :: "'w kube \<Rightarrow> 'w os_client \<Rightarrow> OpenStackAgent \<Rightarrow> ('w, unit) osstep" where
  "provisionServer K P a =
     proceed (OSA_status K a) (\<lambda>a _.
     proceed (ensureResource K P (setPhase ''CreatingInstance'' a) Server) (\<lambda>a server.
     if oast_InstanceCreatedAt (oa_Status a) = None
     then do { now \<leftarrow> Now K;
               ret (onStatus (oast_InstanceCreatedAt_update (\<lambda>_. Some now)) a, resourceFailed server) }
     else ret (a, resourceFailed server)))"

definition provisionDiscoveryVolume :: "'w kube \<Rightarrow> 'w os_client \<Rightarrow> OpenStackAgent \<Rightarrow> ('w, unit) osstep" where
  "provisionDiscoveryVolume K P a =
     proceed (ensureResource K P (setPhase ''CreatingDiscoveryVolume'' a) DiscoveryVolume) (\<lambda>a disc.
     case resourceFailed disc of
       Inl e \<Rightarrow> ret (a, Inl e)
     | Inr _ \<Rightarrow> if rs_State disc \<noteq> ''available'' then ret (a, Inr ()) else provisionServer K P a)"

definition provisionVolumes :: "'w kube \<Rightarrow> 'w host \<Rightarrow> golib \<Rightarrow> 'w os_client \<Rightarrow> OpenStackAgent \<Rightarrow> ('w, unit) osstep" where
  "provisionVolumes K H L P a =
     proceed (ensureResource K P (setPhase ''CreatingOSVolume'' a) OSVolume) (\<lambda>a volume.
     case resourceFailed volume of
       Inl e \<Rightarrow> ret (a, Inl e)
     | Inr _ \<Rightarrow>
         if rs_State volume \<noteq> ''available'' then ret (a, Inr ())
         else if \<not> rs_Bootable volume then keeping a (os_setBootable P (rs_ID volume) (oaUID a))
         else proceed (prepareDiscoveryImage K H L P (setPhase ''PreparingDiscoveryImage'' a)) (\<lambda>a ready.
              if \<not> ready then ret (a, Inr ()) else provisionDiscoveryVolume K P a))"

definition provision :: "'w kube \<Rightarrow> 'w host \<Rightarrow> golib \<Rightarrow> 'w os_client \<Rightarrow> OpenStackAgent \<Rightarrow> ('w, unit) osstep" where
  "provision K H L P a =
     (if oast_Phase (oa_Status a) = openStackPhaseRefreshingImage then refreshDiscoveryImage K L P a
      else if oast_PendingCreate (oa_Status a) \<noteq> [] then recoverPending K P a
      else if oast_ServerID (oa_Status a) \<noteq> [] then watchServer K P a
      else if oast_PortID (oa_Status a) = [] \<or> oast_MACAddress (oa_Status a) = [] then provisionPort K P a
      else provisionVolumes K H L P a)"

section \<open>Clean-up\<close>

definition withdrawnHost :: "OpenStackAgent \<Rightarrow> AgentObj \<Rightarrow> AgentObj" where
  "withdrawnHost a host =
     host\<lparr>ao_approved := False,
          ao_Meta := (ao_Meta host)\<lparr>om_Annotations :=
            mput (om_Annotations (ao_Meta host)) agentCleanupAnnotation (om_Name (oa_Meta a))\<rparr>\<rparr>"

definition withdrawHost :: "'w kube \<Rightarrow> OpenStackAgent \<Rightarrow> AgentObj \<Rightarrow> ('w, unit result) io" where
  "withdrawHost K a host =
     (if agentDeletionBlocker host \<noteq> [] then ret (Inl (OsErr (mkOsError ''AgentStillBound'' True True)))
      else if \<not> ao_nestedSpecOK host then ret (Inl specNotMapError)
      else attempt (kpatch (k_agents K) EvAgent True host (withdrawnHost a host)) (\<lambda>_. ret (Inr ())))"

definition machineAbsent :: "'w kube \<Rightarrow> OpenStackAgent \<Rightarrow> ('w, unit result) io" where
  "machineAbsent K a =
     (case oas_MachineRef (oa_Spec a) of
        None \<Rightarrow> ret (Inr ())
      | Some ref \<Rightarrow>
          handle (kget (k_machines K) EvMachine Live (ref_Namespace ref, ref_Name ref))
            (\<lambda>e. ret (if IsNotFound e then Inr () else Inl e))
            (\<lambda>machine. ret (if ref_UID ref = [] \<or> ref_UID ref = om_UID (mo_Meta machine)
                            then Inl (OsErr (mkOsError ''MachineStillPresent'' True True)) else Inr ())))"

definition authorizeCleanup :: "'w kube \<Rightarrow> OpenStackAgent \<Rightarrow> bool \<Rightarrow> ('w, unit result) io" where
  "authorizeCleanup K a present =
     (if present then ret (Inl (OsErr (mkOsError ''AgentMachineStillPresent'' True True)))
      else attempt (machineAbsent K a) (\<lambda>_.
           attempt (matchingHosts K a) (\<lambda>hosts. for_each (withdrawHost K a) hosts)))"

definition deleteResource :: "'w os_client \<Rightarrow> OpenStackAgent \<Rightarrow> Kind \<Rightarrow> ('w, bool) osstep" where
  "deleteResource P a k =
     handle (if statusID k a = [] then os_find P k (resourceName a k) (oaUID a)
             else os_get P k (statusID k a) (oaUID a))
       (\<lambda>e. if IsOs NotFoundSentinel e
            then (if oast_PendingCreate (oa_Status a) = kind_str k then failing a createOutcomeUnknown
                  else ret (a, Inr True))
            else ret (a, Inl e))
       (\<lambda>resource.
          if rs_Attached resource then failing a (mkOsError ''ResourceStillAttachedOrBusy'' True False)
          else keeping (if oast_PendingCreate (oa_Status a) = kind_str k then setPending [] a else a)
                 (attempt (os_delete P k (rs_ID resource) (oaUID a)) (\<lambda>_. ret (Inr False))))"

text \<open>The step that follows a deletion runs when the resource has been observed absent.\<close>

definition onceGone :: "('w, bool) osstep \<Rightarrow> (OpenStackAgent \<Rightarrow> ('w, unit) osstep) \<Rightarrow> ('w, unit) osstep" where
  "onceGone m f = proceed m (\<lambda>a gone. if gone then f a else ret (a, Inr ()))"

definition removeOpenStackFinalizer :: "'w kube \<Rightarrow> golib \<Rightarrow> OpenStackAgent \<Rightarrow> ('w, unit) osstep" where
  "removeOpenStackFinalizer K L a =
     (let a = a\<lparr>oa_Meta := fst (gl_RemoveFinalizer L (oa_Meta a) openStackFinalizer)\<rparr>
      in handle (kupdate (k_osagents K) EvOsAgent a) (\<lambda>e. ret (a, Inl e)) (\<lambda>answer. ret (stored a answer, Inr ())))"

definition deleteHost :: "'w kube \<Rightarrow> AgentObj \<Rightarrow> ('w, unit result) io" where
  "deleteHost K host =
     (if agentDeletionBlocker host \<noteq> [] then ret (Inl (OsErr (mkOsError ''AgentStillBound'' True False)))
      else handle (kdelete (k_agents K) EvAgent (Some (om_UID (ao_Meta host), Some (om_ResourceVersion (ao_Meta host)))) host)
             (\<lambda>e. ret (if IsNotFound e then Inr () else Inl e)) (\<lambda>_. ret (Inr ())))"

definition deleteHosts :: "'w kube \<Rightarrow> golib \<Rightarrow> OpenStackAgent \<Rightarrow> ('w, unit) osstep" where
  "deleteHosts K L a =
     proceed (keeping a (matchingHosts K a)) (\<lambda>a hosts.
     proceed (keeping a (for_each (deleteHost K) hosts)) (\<lambda>a _. removeOpenStackFinalizer K L a))"

definition deleteOSVolume :: "'w os_client \<Rightarrow> OpenStackAgent \<Rightarrow> ('w, bool) osstep" where
  "deleteOSVolume P a =
     (if ot_OSVolumePolicy (os_Template (oas_Configuration (oa_Spec a))) \<noteq> CleanupPolicyRetain
      then deleteResource P a OSVolume else ret (a, Inr True))"

definition cleanup :: "'w kube \<Rightarrow> golib \<Rightarrow> 'w os_client \<Rightarrow> OpenStackAgent \<Rightarrow> bool \<Rightarrow> ('w, unit) osstep" where
  "cleanup K L P a0 present =
     (let a = setPhase openStackPhaseDeleting a0
      in if os_CleanupPolicy (oas_Configuration (oa_Spec a)) = CleanupPolicyRetain then removeOpenStackFinalizer K L a
         else proceed (keeping a (authorizeCleanup K a present)) (\<lambda>a _.
              onceGone (deleteResource P a Server) (\<lambda>a.
              onceGone (deleteResource P a DiscoveryVolume) (\<lambda>a.
              onceGone (deleteOSVolume P a) (\<lambda>a.
              onceGone (deleteResource P a Port) (\<lambda>a.
              onceGone (keeping a (releaseDiscoveryImage K L P a)) (\<lambda>a. deleteHosts K L a)))))))"

section \<open>The reconciler\<close>

fun asOsError :: "go_error \<Rightarrow> OsError" where
  "asOsError (OsErr safe) = safe"
| "asOsError e = mkOsError ''ReconcileFailed'' True False"

definition setOACondition ::
  "'w kube \<Rightarrow> golib \<Rightarrow> string \<Rightarrow> string \<Rightarrow> string \<Rightarrow> OpenStackAgent \<Rightarrow> ('w, OpenStackAgent) io" where
  "setOACondition K L status reason message a =
     do { now \<leftarrow> Now K;
          ret (onStatus (\<lambda>st. st\<lparr>oast_Conditions := gl_SetStatusCondition L now (oast_Conditions st)
                 (mkCondition conditionReady status (om_Generation (oa_Meta a)) reason message)\<rparr>) a) }"

definition reportFailure :: "'w kube \<Rightarrow> golib \<Rightarrow> OpenStackAgent \<Rightarrow> go_error \<Rightarrow> ('w, reconcile_result) io" where
  "reportFailure K L a e =
     (let safe = asOsError e
      in do { a \<leftarrow> setOACondition K L ConditionFalse (er_Reason safe) (OsError_Error safe) a;
              let a = (if \<not> er_Retryable safe \<and> oast_Phase (oa_Status a) \<noteq> openStackPhaseRefreshingImage
                       then setPhase ''Failed'' a else a);
              (a, r) \<leftarrow> OSA_status K a;
              case r of
                Inl statusErr \<Rightarrow> fail_result statusErr
              | Inr _ \<Rightarrow> if er_Retryable safe then fail_result (OsErr safe) else ok_result minute })"

definition reportSuccess :: "'w kube \<Rightarrow> golib \<Rightarrow> OpenStackAgent \<Rightarrow> ('w, reconcile_result) io" where
  "reportSuccess K L a =
     (if \<not> gl_ContainsFinalizer L (oa_Meta a) openStackFinalizer then ok_result 0
      else do { a \<leftarrow> setOACondition K L (conditionStatus (oast_Phase (oa_Status a) = conditionReady))
                       (oast_Phase (oa_Status a)) (oast_Phase (oa_Status a)) a;
                (a, r) \<leftarrow> OSA_status K a;
                ret (15 * second, case r of Inl e \<Rightarrow> Some e | Inr _ \<Rightarrow> None) })"

text \<open>A panic is not an error the code handles.\<close>

definition report :: "'w kube \<Rightarrow> golib \<Rightarrow> OpenStackAgent \<times> unit result \<Rightarrow> ('w, reconcile_result) io" where
  "report K L ar =
     (case snd ar of
        Inl (Panic m) \<Rightarrow> fail_result (Panic m)
      | Inl e \<Rightarrow> reportFailure K L (fst ar) e
      | Inr _ \<Rightarrow> reportSuccess K L (fst ar))"

abbreviation oaDeleting :: "OpenStackAgent \<Rightarrow> bool" where
  "oaDeleting a \<equiv> om_DeletionTimestamp (oa_Meta a) \<noteq> None"

definition advance ::
  "'w kube \<Rightarrow> 'w host \<Rightarrow> golib \<Rightarrow> 'w os_client \<Rightarrow> OpenStackAgent \<Rightarrow> bool \<Rightarrow> ('w, reconcile_result) io" where
  "advance K H L P a present =
     (if oast_ScopeHash (oa_Status a) = [] then
        do { (a, r) \<leftarrow> OSA_status K (onStatus (oast_ScopeHash_update (\<lambda>_. oc_Scope P)) a);
             ret (second, case r of Inl e \<Rightarrow> Some e | Inr _ \<Rightarrow> None) }
      else do { ar \<leftarrow> (if oast_ScopeHash (oa_Status a) \<noteq> oc_Scope P
                        then failing a (mkOsError ''CloudScopeChanged'' False True)
                        else if oaDeleting a then cleanup K L P a present else provision K H L P a);
                report K L ar })"

definition reconcileDemanded ::
  "'w kube \<Rightarrow> 'w host \<Rightarrow> golib \<Rightarrow> 'w os_factory \<Rightarrow> OpenStackAgent \<Rightarrow> demand \<Rightarrow> ('w, reconcile_result) io" where
  "reconcileDemanded K H L F a d =
     (if \<not> oaDeleting a \<and> d = DemandGone then
        do { r \<leftarrow> kdelete (k_osagents K) EvOsAgent None a; orResult 0 r }
      else if \<not> oaDeleting a \<and> d = DemandDeleting then ok_result (30 * second)
      else if oaDeleting a \<and> os_CleanupPolicy (oas_Configuration (oa_Spec a)) = CleanupPolicyRetain then
        do { (a, r) \<leftarrow> removeOpenStackFinalizer K L a; orResult 0 r }
      else handle (OSA_provider K F a) (\<lambda>e. report K L (a, Inl e)) (\<lambda>P. advance K H L P a (d \<noteq> DemandGone)))"

definition withDefaults :: "OpenStackAgent \<Rightarrow> OpenStackAgent" where
  "withDefaults a = a\<lparr>oa_Spec := (oa_Spec a)\<lparr>oas_Configuration := openStackDefaults (oas_Configuration (oa_Spec a))\<rparr>\<rparr>"

definition reconcileOA :: "'w kube \<Rightarrow> 'w host \<Rightarrow> golib \<Rightarrow> 'w os_factory \<Rightarrow> OpenStackAgent \<Rightarrow> ('w, reconcile_result) io" where
  "reconcileOA K H L F a =
     (if \<not> gl_ContainsFinalizer L (oa_Meta a) openStackFinalizer then ok_result 0
      else handle (demandPresent K a) fail_result (reconcileDemanded K H L F a))"

definition OSA_Reconcile :: "'w kube \<Rightarrow> 'w host \<Rightarrow> golib \<Rightarrow> 'w os_factory \<Rightarrow> objkey \<Rightarrow> ('w, reconcile_result) io" where
  "OSA_Reconcile K H L F req =
     handle (kget (k_osagents K) EvOsAgent Live req) ignore_not_found (\<lambda>a0.
       let a = withDefaults a0
       in if oaDeleting a then reconcileOA K H L F a
          else case gl_AddFinalizer L (oa_Meta a) openStackFinalizer of (meta, added) \<Rightarrow>
            (let a = a\<lparr>oa_Meta := meta\<rparr>
             in if added then handle (kupdate (k_osagents K) EvOsAgent a) fail_result (\<lambda>_. ok_result 0)
                else reconcileOA K H L F a))"

section \<open>Lemmas\<close>

lemma kindOf_kind_str:
  "kindOf (kind_str k) = k \<longleftrightarrow> (\<forall>s. k = OtherKind s \<longrightarrow> s \<notin> {''port'', ''os-volume'', ''discovery-volume'', ''server'', ''image''})"
  by (cases k) (auto simp: kindOf_def)

lemma kind_str_kindOf [simp]: "kind_str (kindOf s) = s"
  by (simp add: kindOf_def)

end
