(* ===== verification/OpenStackPools.thy ===== *)
theory OpenStackPools
  imports PoolSafety
begin

text \<open>
  The controller of an \<open>OpenStackAgentPool\<close> (\<open>OpenStackAgentPoolReconciler\<close> of \<open>openstackagentpool_controller.go\<close>).
  It reports the demand for workers and how many are ready, and on deletion deletes the workers of the pool
  and keeps the pool until none is left.

  The lemmas show that a pool is released only when no worker of it is left, that only workers of a pool in
  deletion are deleted, and that the reported numbers are the numbers of matching objects that were listed.
\<close>

section \<open>Workers of the pool\<close>

definition worker_of :: "OpenStackAgentPool \<Rightarrow> OpenStackAgent \<Rightarrow> bool" where
  "worker_of p a \<longleftrightarrow> oas_PoolUID (oa_Spec a) = om_UID (op_Meta p)"

text \<open>The loop over the workers. \<open>Inl\<close> is its early return.\<close>

fun poolWorkers ::
  "'w kube \<Rightarrow> OpenStackAgentPool \<Rightarrow> OpenStackAgent list \<Rightarrow> int32 \<times> int32 \<Rightarrow> ('w, reconcile_result + int32 \<times> int32) io" where
  "poolWorkers K p [] counts = ret (Inr counts)"
| "poolWorkers K p (a # as) (count, ready) =
     (if \<not> worker_of p a then poolWorkers K p as (count, ready)
      else let counts = (count + 1, incr_if (oast_Phase (oa_Status a) = conditionReady) ready)
           in if om_DeletionTimestamp (op_Meta p) \<noteq> None \<and> om_DeletionTimestamp (oa_Meta a) = None
              then handle (kdelete (k_osagents K) EvOsAgent None a)
                     (\<lambda>e. ret (Inl (0, if IsNotFound e then None else Some e)))
                     (\<lambda>_. poolWorkers K p as counts)
              else poolWorkers K p as counts)"

section \<open>Status\<close>

definition countDemand :: "OpenStackAgentPool \<Rightarrow> AgentMachineObj list \<Rightarrow> int32" where
  "countDemand p items =
     count_if (\<lambda>am. om_DeletionTimestamp (am_Meta am) = None \<and> openStackDemandMatches (am_Meta am) p) items"

definition poolObserved :: "golib \<Rightarrow> gotime \<Rightarrow> int32 \<Rightarrow> int32 \<Rightarrow> OpenStackAgentPool \<Rightarrow> OpenStackAgentPool" where
  "poolObserved L now desired ready p =
     (let gen = om_Generation (op_Meta p); st = op_Status p
      in p\<lparr>op_Status := st\<lparr>ost_ObservedGeneration := gen, ost_DesiredReplicas := desired, ost_ReadyReplicas := ready,
             ost_Conditions := gl_SetStatusCondition L now (ost_Conditions st)
               (mkCondition conditionReady (conditionStatus (ready = desired)) gen ''CapacityObserved''
                  (d_str ready @ '' installed workers for '' @ d_str desired @ '' AgentMachines''))\<rparr>\<rparr>)"

definition reportCapacity :: "'w kube \<Rightarrow> golib \<Rightarrow> OpenStackAgentPool \<Rightarrow> int32 \<Rightarrow> ('w, reconcile_result) io" where
  "reportCapacity K L p ready =
     handle (klist (k_agentmachines K) EvAgentMachine Live (InNamespace (os_ControlPlaneNamespace (op_Spec p))))
       fail_result
       (\<lambda>items. do {
          now \<leftarrow> Now K;
          let p' = poolObserved L now (countDemand p items) ready p;
          if op_Status p' = op_Status p then ok_result (30 * second)
          else handle (kstatus_update (k_ospools K) EvOsPool p')
                 (\<lambda>e. ret (30 * second, Some e)) (\<lambda>_. ok_result (30 * second)) })"

section \<open>The reconciler\<close>

definition releaseOsPool :: "'w kube \<Rightarrow> golib \<Rightarrow> OpenStackAgentPool \<Rightarrow> ('w, reconcile_result) io" where
  "releaseOsPool K L p =
     handle (kupdate (k_ospools K) EvOsPool (p\<lparr>op_Meta := fst (gl_RemoveFinalizer L (op_Meta p) openStackFinalizer)\<rparr>))
       fail_result (\<lambda>_. ok_result 0)"

definition reconcileOsPool :: "'w kube \<Rightarrow> golib \<Rightarrow> OpenStackAgentPool \<Rightarrow> ('w, reconcile_result) io" where
  "reconcileOsPool K L p =
     handle (klist (k_osagents K) EvOsAgent Live (InNamespace (om_Namespace (op_Meta p)))) fail_result (\<lambda>children.
       handle (poolWorkers K p children (0, 0)) ret (\<lambda>(count, ready).
         if om_DeletionTimestamp (op_Meta p) \<noteq> None
         then (if sint count > 0 then ok_result (15 * second) else releaseOsPool K L p)
         else reportCapacity K L p ready))"

definition OSP_Reconcile :: "'w kube \<Rightarrow> golib \<Rightarrow> objkey \<Rightarrow> ('w, reconcile_result) io" where
  "OSP_Reconcile K L req =
     handle (kget (k_ospools K) EvOsPool Live req) ignore_not_found (\<lambda>p.
       if om_DeletionTimestamp (op_Meta p) \<noteq> None then reconcileOsPool K L p
       else case gl_AddFinalizer L (op_Meta p) openStackFinalizer of (meta, added) \<Rightarrow>
         (let p = p\<lparr>op_Meta := meta\<rparr>
          in if added then handle (kupdate (k_ospools K) EvOsPool p) fail_result (\<lambda>_. ok_result 0)
             else reconcileOsPool K L p))"

section \<open>Specification vocabulary\<close>

definition ospool_read :: "event list \<Rightarrow> OpenStackAgentPool \<Rightarrow> bool" where
  "ospool_read tr p \<longleftrightarrow> (\<exists>k. EvOsPool (Get Live k (Inr p)) \<in> set tr)"

definition workers_listed :: "event list \<Rightarrow> OpenStackAgentPool \<Rightarrow> OpenStackAgent list \<Rightarrow> bool" where
  "workers_listed tr p items \<longleftrightarrow> EvOsAgent (ListAll Live (InNamespace (om_Namespace (op_Meta p))) (Inr items)) \<in> set tr"

text \<open>The pool is being deleted and no worker of it was listed, provided its workers fit a 32-bit counter.\<close>

definition ospool_drained :: "event list \<Rightarrow> OpenStackAgentPool \<Rightarrow> bool" where
  "ospool_drained tr p \<longleftrightarrow> ospool_read tr p \<and> om_DeletionTimestamp (op_Meta p) \<noteq> None \<and>
     (\<exists>items. workers_listed tr p items \<and> (length items < 2147483648 \<longrightarrow> (\<forall>a \<in> set items. \<not> worker_of p a)))"

definition ospool_write_ok :: "golib \<Rightarrow> event list \<Rightarrow> OpenStackAgentPool \<Rightarrow> bool" where
  "ospool_write_ok L tr obj \<longleftrightarrow> (\<exists>p. ospool_read tr p \<and> op_Spec obj = op_Spec p \<and> op_Status obj = op_Status p \<and>
     (om_DeletionTimestamp (op_Meta p) = None \<and> gl_ContainsFinalizer L (op_Meta obj) openStackFinalizer
      \<or> ospool_drained tr p))"

definition capacity_exact :: "event list \<Rightarrow> OpenStackAgentPool \<Rightarrow> bool" where
  "capacity_exact tr obj \<longleftrightarrow> (\<exists>p items ams. ospool_read tr p \<and> om_DeletionTimestamp (op_Meta p) = None
     \<and> op_Meta obj = op_Meta p \<and> op_Spec obj = op_Spec p \<and> workers_listed tr p items
     \<and> EvAgentMachine (ListAll Live (InNamespace (os_ControlPlaneNamespace (op_Spec p))) (Inr ams)) \<in> set tr
     \<and> ost_ReadyReplicas (op_Status obj) =
         of_nat (length (filter (\<lambda>a. worker_of p a \<and> oast_Phase (oa_Status a) = conditionReady) items))
     \<and> ost_DesiredReplicas (op_Status obj) = of_nat (length (filter (\<lambda>am. om_DeletionTimestamp (am_Meta am) = None
         \<and> openStackDemandMatches (am_Meta am) p) ams)))"

definition worker_removal_ok :: "event list \<Rightarrow> OpenStackAgent \<Rightarrow> bool" where
  "worker_removal_ok tr a \<longleftrightarrow> (\<exists>p items. ospool_read tr p \<and> om_DeletionTimestamp (op_Meta p) \<noteq> None
     \<and> workers_listed tr p items \<and> a \<in> set items \<and> worker_of p a \<and> om_DeletionTimestamp (oa_Meta a) = None)"

fun ospool_event :: "golib \<Rightarrow> event list \<Rightarrow> event \<Rightarrow> bool" where
  "ospool_event L tr (EvOsPool (Update obj r)) \<longleftrightarrow> ospool_write_ok L tr obj"
| "ospool_event L tr (EvOsPool (StatusUpdate obj r)) \<longleftrightarrow> capacity_exact tr obj"
| "ospool_event L tr (EvOsAgent (Delete pre a r)) \<longleftrightarrow> worker_removal_ok tr a"
| "ospool_event L tr (EvOsPool ev) \<longleftrightarrow> is_read ev"
| "ospool_event L tr (EvOsAgent ev) \<longleftrightarrow> is_read ev"
| "ospool_event L tr (EvAgentMachine ev) \<longleftrightarrow> is_read ev"
| "ospool_event L tr (EvClock t) \<longleftrightarrow> True"
| "ospool_event L tr _ \<longleftrightarrow> False"

section \<open>Lemmas\<close>

lemma ospool_append:
  "ospool_read tr p \<Longrightarrow> ospool_read (tr @ n) p"
  "workers_listed tr p items \<Longrightarrow> workers_listed (tr @ n) p items"
  by (auto simp: ospool_read_def workers_listed_def)

lemma hist_poolWorkers:
  assumes "ospool_read tr p" "workers_listed tr p items" "set as \<subseteq> set items"
  shows "hist (ospool_event L) tr (poolWorkers K p as (count, ready)) (\<lambda>r tr'. case r of Inl _ \<Rightarrow> True
    | Inr (c, d) \<Rightarrow> c = count + of_nat (length (filter (worker_of p) as)) \<and>
        d = ready + of_nat (length (filter (\<lambda>a. worker_of p a \<and> oast_Phase (oa_Status a) = conditionReady) as)))"
  using assms
proof (induction as arbitrary: tr count ready)
  case Nil
  then show ?case by (simp add: hist_ret)
next
  case (Cons a as)
  let ?next = "poolWorkers K p as (count + 1, incr_if (oast_Phase (oa_Status a) = conditionReady) ready)"
  let ?R = "\<lambda>r (tr' :: event list). case r of Inl (_ :: reconcile_result) \<Rightarrow> True
    | Inr (c, d) \<Rightarrow> c = count + of_nat (length (filter (worker_of p) (a # as))) \<and>
        d = ready + of_nat (length (filter (\<lambda>a. worker_of p a \<and> oast_Phase (oa_Status a) = conditionReady) (a # as)))"
  have loop: "hist (ospool_event L) (tr @ n) ?next ?R" if "worker_of p a" for n
    by (rule hist_mono [OF Cons.IH [of "tr @ n"]])
      (use Cons.prems ospool_append that in \<open>auto simp: incr_if_def split: sum.splits\<close>)
  have del: "hist (ospool_event L) tr (handle (kdelete (k_osagents K) EvOsAgent None a)
       (\<lambda>e. ret (Inl (0, if IsNotFound e then None else Some e))) (\<lambda>_. ?next)) ?R"
    if "worker_of p a" "om_DeletionTimestamp (op_Meta p) \<noteq> None" "om_DeletionTimestamp (oa_Meta a) = None"
    unfolding kdelete_def
    by (rule hist_handle_seq [where Q = "\<lambda>_ _. True"], rule hist_ask)
      (use that loop Cons.prems in \<open>auto simp: worker_removal_ok_def intro!: hist_ret\<close>)
  show ?case
  proof (cases "worker_of p a")
    case True
    then show ?thesis using loop [of "[]"] del by (simp add: Let_def)
  next
    case False
    have "hist (ospool_event L) tr (poolWorkers K p as (count, ready)) ?R"
      by (rule hist_mono [OF Cons.IH]) (use Cons.prems False in \<open>auto split: sum.splits\<close>)
    then show ?thesis using False by simp
  qed
qed

lemma hist_reportCapacity:
  assumes read: "ospool_read tr p" and alive: "om_DeletionTimestamp (op_Meta p) = None"
    and listed: "workers_listed tr p items"
    and ready: "ready = of_nat (length (filter (\<lambda>a. worker_of p a \<and> oast_Phase (oa_Status a) = conditionReady) items))"
  shows "hist (ospool_event L) tr (reportCapacity K L' p ready) (\<lambda>r tr'. True)"
proof -
  let ?tr = "\<lambda>ams t. tr @ [EvAgentMachine (ListAll Live (InNamespace (os_ControlPlaneNamespace (op_Spec p))) (Inr ams)), EvClock t]"
  have ok: "capacity_exact (?tr ams t) (poolObserved L' t' (countDemand p ams) ready p)" for ams t t'
    unfolding capacity_exact_def
    using ospool_append(1) [OF read] ospool_append(2) [OF listed] alive
    by (intro exI [of _ p] exI [of _ items] exI [of _ ams])
      (simp add: poolObserved_def Let_def countDemand_def count_if_eq ready)
  show ?thesis
    unfolding reportCapacity_def klist_def Now_def kstatus_update_def fail_result_def ok_result_def
    using ok by (auto simp: Let_def split: sum.split intro!: hist_intros)
qed

lemma hist_reconcileOsPool:
  assumes read: "ospool_read tr p"
  shows "hist (ospool_event L) tr (reconcileOsPool K L p) (\<lambda>r tr'. True)"
proof -
  let ?tr = "\<lambda>items. tr @ [EvOsAgent (ListAll Live (InNamespace (om_Namespace (op_Meta p))) (Inr items))]"
  have listed: "workers_listed (?tr items @ n) p items" for items n by (simp add: workers_listed_def)
  have release: "hist (ospool_event L) (?tr items @ n) (releaseOsPool K L p) (\<lambda>r tr'. True)"
    if "om_DeletionTimestamp (op_Meta p) \<noteq> None" "\<not> sint (of_nat (length (filter (worker_of p) items)) :: int32) > 0" for items n
  proof -
    have "\<forall>a \<in> set items. \<not> worker_of p a" if small: "length items < 2147483648"
    proof -
      have "length (filter (worker_of p) items) < 2147483648"
        using le_less_trans [OF length_filter_le small] .
      then have "filter (worker_of p) items = []"
        using that(1) \<open>\<not> sint _ > 0\<close> sint_of_nat_small by fastforce
      then show ?thesis by (simp add: filter_empty_conv)
    qed
    then have "ospool_drained (?tr items @ n) p"
      unfolding ospool_drained_def using that(1) listed ospool_append(1) [OF read] by auto
    then have "ospool_write_ok L (?tr items @ n) (p\<lparr>op_Meta := fst (gl_RemoveFinalizer L (op_Meta p) openStackFinalizer)\<rparr>)"
      unfolding ospool_write_ok_def by (intro exI [of _ p]) (simp add: ospool_drained_def)
    then show ?thesis
      unfolding releaseOsPool_def kupdate_def fail_result_def ok_result_def
      by (auto split: sum.split intro!: hist_intros)
  qed
  have loop: "hist (ospool_event L) (?tr items) (handle (poolWorkers K p items (0, 0)) ret (\<lambda>(count, ready).
         if om_DeletionTimestamp (op_Meta p) \<noteq> None
         then (if sint count > 0 then ok_result (15 * second) else releaseOsPool K L p)
         else reportCapacity K L p ready)) (\<lambda>r tr'. True)" for items
    by (rule hist_handle_seq [OF hist_poolWorkers [where items = items]])
      (use listed [of items "[]"] ospool_append(1) [OF read] listed release
        in \<open>auto simp: ok_result_def intro!: hist_ret hist_reportCapacity [where items = items]\<close>)
  show ?thesis
    unfolding reconcileOsPool_def klist_def fail_result_def
    using loop by (auto split: sum.split intro!: hist_handle hist_ask hist_ret)
qed

lemma ospool_reconcile_hist:
  assumes laws: "finalizer_laws L"
  shows "hist (ospool_event L) [] (OSP_Reconcile K L req) (\<lambda>r tr'. True)"
proof -
  have read: "ospool_read [EvOsPool (Get Live req (Inr p))] p" for p
    by (auto simp: ospool_read_def)
  have add: "ospool_write_ok L [EvOsPool (Get Live req (Inr p))]
      (p\<lparr>op_Meta := fst (gl_AddFinalizer L (op_Meta p) openStackFinalizer)\<rparr>)" if "om_DeletionTimestamp (op_Meta p) = None" for p
    unfolding ospool_write_ok_def using read that laws by (intro exI [of _ p]) (simp add: finalizer_laws_def)
  have same: "gl_AddFinalizer L m f = (m', False) \<Longrightarrow> m' = m" for m m' f
    using laws unfolding finalizer_laws_def by (metis fst_conv snd_conv)
  have alive: "hist (ospool_event L) [EvOsPool (Get Live req (Inr p))]
      (case gl_AddFinalizer L (op_Meta p) openStackFinalizer of (meta, added) \<Rightarrow>
         (let p = p\<lparr>op_Meta := meta\<rparr>
          in if added then handle (kupdate (k_ospools K) EvOsPool p) fail_result (\<lambda>_. ok_result 0)
             else reconcileOsPool K L p)) (\<lambda>r tr'. True)" if "om_DeletionTimestamp (op_Meta p) = None" for p
  proof (cases "gl_AddFinalizer L (op_Meta p) openStackFinalizer")
    case (Pair meta added)
    show ?thesis
    proof (cases added)
      case True
      then show ?thesis
        using add [OF that] Pair unfolding kupdate_def fail_result_def ok_result_def
        by (auto simp: Let_def split: sum.split intro!: hist_intros)
    next
      case False
      then show ?thesis using Pair same [of "op_Meta p" openStackFinalizer meta] hist_reconcileOsPool [OF read]
        by (simp add: Let_def)
    qed
  qed
  show ?thesis
    unfolding OSP_Reconcile_def kget_def ignore_not_found_def
    using alive hist_reconcileOsPool [OF read]
    by (auto split: sum.split split del: if_split intro!: hist_handle hist_ask hist_ret hist_if)
qed

end
