(* ===== verification/OpenStackClient.thy ===== *)
theory OpenStackClient
  imports Effects VMIdentity "HOL-Library.Multiset"
begin

text \<open>
  The OpenStack client (\<open>internal/openstack/client.go\<close>): authentication, look-up of resources with their ownership
  checks, creation and deletion, and the cache of authenticated clients.

  The SDK (gophercloud) is the parameter \<open>sdk\<close>: calls on a service client \<open>'s\<close>, each of which answers with a
  value or an error of the SDK and may change the world in any way. The client has its own trace, of calls
  of the SDK. Objects of the SDK are records of the fields the code reads; requests are records of what the
  code sends. A page that cannot be fetched and one that cannot be decoded are both an error of the listing.
\<close>

section \<open>Objects of the SDK\<close>

abbreviation OwnerKey :: string where "OwnerKey \<equiv> ''agent_forge_owner''"

record SdkPort =
  pt_ID :: string
  pt_Name :: string
  pt_Description :: string
  pt_Status :: string
  pt_MACAddress :: string
  pt_DeviceID :: string
  pt_ProjectID :: string

record SdkVolume =
  vo_ID :: string
  vo_Name :: string
  vo_Metadata :: strmap
  vo_Status :: string
  vo_Attachments :: nat
  vo_Bootable :: string
  vo_TenantID :: string

record SdkServer =
  sv_ID :: string
  sv_Name :: string
  sv_Metadata :: strmap
  sv_Status :: string
  sv_TenantID :: string

text \<open>\<open>im_OwnerProperty\<close> is the owner among the image's properties, \<open>None\<close> if there is none or it is not a string.\<close>

record SdkImage =
  im_ID :: string
  im_Name :: string
  im_OwnerProperty :: "string option"
  im_Status :: string
  im_SizeBytes :: int64
  im_Owner :: string

record SdkSubnet =
  sn_NetworkID :: string
  sn_EnableDHCP :: bool

section \<open>Requests\<close>

text \<open>The body of a request to create a port: the SDK's own part, to which the code adds two entries.\<close>

datatype json = JBool bool | JStrings "string list" | JText string

record PortCreateOpts =
  pco_Name :: string
  pco_NetworkID :: string
  pco_Description :: string
  pco_SecurityGroups :: "string list"
  pco_FixedIPs :: "(string \<times> string) list"

record portCreateOpts =
  pcx_CreateOpts :: PortCreateOpts
  pcx_Security :: bool
  pcx_Tags :: "string list"

record VolumeCreateOpts =
  vco_Name :: string
  vco_Size :: int
  vco_VolumeType :: string
  vco_AvailabilityZone :: string
  vco_Metadata :: strmap
  vco_ImageID :: string

record BlockDevice =
  bd_UUID :: string
  bd_SourceType :: string
  bd_DestinationType :: string
  bd_DeviceType :: string
  bd_DiskBus :: string
  bd_BootIndex :: int
  bd_DeleteOnTermination :: bool

record ServerCreateOpts =
  sco_Name :: string
  sco_FlavorRef :: string
  sco_Ports :: "string list"
  sco_AvailabilityZone :: string
  sco_Metadata :: strmap
  sco_BlockDevice :: "BlockDevice list"

record ImageCreateOpts =
  ico_ID :: string
  ico_Name :: string
  ico_DiskFormat :: string
  ico_ContainerFormat :: string
  ico_Visibility :: string
  ico_Properties :: strmap

section \<open>The SDK\<close>

type_synonym 'a sdk_result = "sdk_error + 'a"

record AuthURL =
  au_Scheme :: string
  au_Host :: string
  au_HasUser :: bool
  au_RawQuery :: string
  au_Fragment :: string

text \<open>
  What authentication leaves behind: the provider client \<open>'p\<close>, the project of the token, and its expiry.
  The outer \<open>None\<close> says that the result does not offer the extraction.
\<close>

record 'p AuthResult =
  ar_provider :: 'p
  ar_Project :: "string option sdk_result option"
  ar_ExpiresAt :: "gotime sdk_result option"

record TransportConfig =
  tc_allowInsecureHTTP :: bool
  tc_CACert :: string
  tc_Timeout :: duration

record ('p, 's, 'w) sdk =
  sd_url_Parse :: "string \<Rightarrow> AuthURL option"
  sd_NewClient :: "string \<Rightarrow> unit sdk_result"
  sd_AppendCertsFromPEM :: "string \<Rightarrow> bool"
  sd_Authenticate :: "TransportConfig \<Rightarrow> string \<Rightarrow> string \<Rightarrow> string \<Rightarrow> 'w \<Rightarrow> 'p AuthResult sdk_result \<times> 'w"
  sd_service :: "'p \<Rightarrow> string \<Rightarrow> string \<Rightarrow> 's sdk_result"
  sd_Allow :: "'w \<Rightarrow> bool \<times> 'w"
  sd_now :: "'w \<Rightarrow> gotime \<times> 'w"
  sd_order :: "(string \<times> gotime) list \<Rightarrow> (string \<times> gotime) list"
  sd_port_get :: "'s \<Rightarrow> string \<Rightarrow> 'w \<Rightarrow> SdkPort sdk_result \<times> 'w"
  sd_port_list :: "'s \<Rightarrow> string \<Rightarrow> string \<Rightarrow> 'w \<Rightarrow> SdkPort list sdk_result \<times> 'w"
  sd_port_body :: "PortCreateOpts \<Rightarrow> (string \<times> json) list sdk_result"
  sd_port_create :: "'s \<Rightarrow> (string \<times> json) list \<Rightarrow> 'w \<Rightarrow> SdkPort sdk_result \<times> 'w"
  sd_port_delete :: "'s \<Rightarrow> string \<Rightarrow> 'w \<Rightarrow> unit sdk_result \<times> 'w"
  sd_volume_get :: "'s \<Rightarrow> string \<Rightarrow> 'w \<Rightarrow> SdkVolume sdk_result \<times> 'w"
  sd_volume_list :: "'s \<Rightarrow> string \<Rightarrow> 'w \<Rightarrow> SdkVolume list sdk_result \<times> 'w"
  sd_volume_create :: "'s \<Rightarrow> VolumeCreateOpts \<Rightarrow> 'w \<Rightarrow> SdkVolume sdk_result \<times> 'w"
  sd_volume_setbootable :: "'s \<Rightarrow> string \<Rightarrow> 'w \<Rightarrow> unit sdk_result \<times> 'w"
  sd_volume_delete :: "'s \<Rightarrow> string \<Rightarrow> 'w \<Rightarrow> unit sdk_result \<times> 'w"
  sd_server_get :: "'s \<Rightarrow> string \<Rightarrow> 'w \<Rightarrow> SdkServer sdk_result \<times> 'w"
  sd_server_list :: "'s \<Rightarrow> string \<Rightarrow> 'w \<Rightarrow> SdkServer list sdk_result \<times> 'w"
  sd_server_create :: "'s \<Rightarrow> ServerCreateOpts \<Rightarrow> 'w \<Rightarrow> SdkServer sdk_result \<times> 'w"
  sd_server_delete :: "'s \<Rightarrow> string \<Rightarrow> 'w \<Rightarrow> unit sdk_result \<times> 'w"
  sd_image_get :: "'s \<Rightarrow> string \<Rightarrow> 'w \<Rightarrow> SdkImage sdk_result \<times> 'w"
  sd_image_create :: "'s \<Rightarrow> ImageCreateOpts \<Rightarrow> 'w \<Rightarrow> SdkImage sdk_result \<times> 'w"
  sd_image_upload :: "'s \<Rightarrow> string \<Rightarrow> string \<Rightarrow> 'w \<Rightarrow> unit sdk_result \<times> 'w"
  sd_image_delete :: "'s \<Rightarrow> string \<Rightarrow> 'w \<Rightarrow> unit sdk_result \<times> 'w"
  sd_network_list :: "'s \<Rightarrow> string \<Rightarrow> 'w \<Rightarrow> string list sdk_result \<times> 'w"
  sd_subnet_get :: "'s \<Rightarrow> string \<Rightarrow> 'w \<Rightarrow> SdkSubnet sdk_result \<times> 'w"
  sd_flavor_list :: "'s \<Rightarrow> 'w \<Rightarrow> (string \<times> string) list sdk_result \<times> 'w"

datatype sdk_event =
    SdkAuthenticate TransportConfig string string string bool
  | SdkClock gotime
  | SdkLimiter bool
  | SdkHttp string
  | PortGet string "SdkPort sdk_result"
  | PortList string string "SdkPort list sdk_result"
  | PortCreate "(string \<times> json) list" "SdkPort sdk_result"
  | PortDelete string "unit sdk_result"
  | VolumeGet string "SdkVolume sdk_result"
  | VolumeList string "SdkVolume list sdk_result"
  | VolumeCreate VolumeCreateOpts "SdkVolume sdk_result"
  | VolumeSetBootable string "unit sdk_result"
  | VolumeDelete string "unit sdk_result"
  | ServerGet string "SdkServer sdk_result"
  | ServerList string "SdkServer list sdk_result"
  | ServerCreate ServerCreateOpts "SdkServer sdk_result"
  | ServerDelete string "unit sdk_result"
  | ImageGet string "SdkImage sdk_result"
  | ImageCreate ImageCreateOpts "SdkImage sdk_result"
  | ImageUpload string string "unit sdk_result"
  | ImageDelete string "unit sdk_result"
  | NetworkList string "string list sdk_result"
  | SubnetGet string "SdkSubnet sdk_result"
  | FlavorList "(string \<times> string) list sdk_result"

type_synonym ('w, 'a) sdk_io = "(('w, sdk_event) sys, 'a) state"
type_synonym 'a os_result = "OsError + 'a"

section \<open>Errors\<close>

text \<open>A call of the SDK whose error is reduced with \<open>SafeError\<close>, and the deferred labelling of a function's error.\<close>

definition safe_call :: "('w, 'a sdk_result) sdk_io \<Rightarrow> ('w, 'a os_result) sdk_io" where
  "safe_call m = State_Monad.bind m (\<lambda>r. ret (map_sum SafeError id r))"

definition labelledAt :: "string \<Rightarrow> string \<Rightarrow> ('w, 'a os_result) sdk_io \<Rightarrow> ('w, 'a os_result) sdk_io" where
  "labelledAt service operation m =
     State_Monad.bind m (\<lambda>r. ret (map_sum (\<lambda>e. safeErrorAt (ourError e) service operation) id r))"

definition labelledResource :: "Kind \<Rightarrow> string \<Rightarrow> ('w, 'a os_result) sdk_io \<Rightarrow> ('w, 'a os_result) sdk_io" where
  "labelledResource kind action m =
     State_Monad.bind m (\<lambda>r. ret (map_sum (\<lambda>e. safeResourceError (ourError e) kind action) id r))"

section \<open>The transport\<close>

abbreviation schemeHTTP :: string where "schemeHTTP \<equiv> ''http''"
abbreviation schemeHTTPS :: string where "schemeHTTPS \<equiv> ''https''"

definition HTTPSRequired :: OsError where "HTTPSRequired = mkOsError ''HTTPSRequired'' False True"

text \<open>\<open>RoundTrip\<close> for a URL of the given scheme; \<open>base\<close> is the transport it wraps.\<close>

definition RoundTrip ::
  "('p, 's, 'w) sdk \<Rightarrow> (string \<Rightarrow> 'w \<Rightarrow> 'a \<times> 'w) \<Rightarrow> bool \<Rightarrow> string \<Rightarrow> ('w, 'a os_result) sdk_io" where
  "RoundTrip S base allowInsecureHTTP scheme =
     (if scheme \<noteq> schemeHTTPS \<and> (scheme \<noteq> schemeHTTP \<or> \<not> allowInsecureHTTP) then ret (Inl HTTPSRequired)
      else do { allowed \<leftarrow> ask (sd_Allow S) SdkLimiter;
                if \<not> allowed then ret (Inl ErrThrottle)
                else do { r \<leftarrow> ask (base scheme) (\<lambda>_. SdkHttp scheme); ret (Inr r) } })"

definition insecureHTTPPolicy :: "Secret \<Rightarrow> bool os_result" where
  "insecureHTTPPolicy secret =
     (case map_of (se_Data secret) ''allow-insecure-http'' of
        None \<Rightarrow> Inr False
      | Some v \<Rightarrow> if v = ''true'' then Inr True else if v = ''false'' then Inr False
                  else Inl (mkOsError ''InvalidHTTPPolicy'' False True))"

section \<open>Authentication\<close>

record 's cloud =
  cl_compute :: 's
  cl_network :: 's
  cl_storage :: 's
  cl_image :: 's
  cl_scope :: string
  cl_project :: string
  cl_expires :: gotime

definition trimRight :: "string \<Rightarrow> string" where
  "trimRight s = rev (dropWhile (\<lambda>c. c = CHR ''/'') (rev s))"

definition scopeOf :: "string \<Rightarrow> string \<Rightarrow> string \<Rightarrow> string" where
  "scopeOf authURL project region = sha256hex (trimRight authURL @ ''/'' @ project @ ''/'' @ region)"

definition authURLInvalid :: "AuthURL option \<Rightarrow> bool" where
  "authURLInvalid parsed \<longleftrightarrow> (case parsed of None \<Rightarrow> True
     | Some u \<Rightarrow> (au_Scheme u \<noteq> schemeHTTPS \<and> au_Scheme u \<noteq> schemeHTTP) \<or> au_Host u = [] \<or> au_HasUser u
         \<or> au_RawQuery u \<noteq> [] \<or> au_Fragment u \<noteq> [])"

text \<open>The checks of the Secret, before anything is sent: the policy, or the first error.\<close>

definition checkCredentials :: "('p, 's, 'w) sdk \<Rightarrow> Secret \<Rightarrow> bool os_result" where
  "checkCredentials S secret =
     (case insecureHTTPPolicy secret of
        Inl e \<Rightarrow> Inl e
      | Inr allow \<Rightarrow>
          (let authURL = mget (se_Data secret) ''auth-url''; parsed = sd_url_Parse S authURL
           in if authURLInvalid parsed then Inl (mkOsError ''InvalidAuthenticationURL'' False True)
              else if map_option au_Scheme parsed = Some schemeHTTP \<and> \<not> allow then Inl HTTPSRequired
              else if list_ex (\<lambda>key. mget (se_Data secret) key = [])
                        [''application-credential-id'', ''application-credential-secret'', ''project-id'']
              then Inl (mkOsError ''MissingCredentialKey'' False True)
              else (case sd_NewClient S authURL of
                      Inl e \<Rightarrow> Inl (SafeError e)
                    | Inr _ \<Rightarrow>
                        if mget (se_Data secret) ''ca.crt'' \<noteq> [] \<and> \<not> sd_AppendCertsFromPEM S (mget (se_Data secret) ''ca.crt'')
                        then Inl (mkOsError ''InvalidCACertificate'' False True)
                        else Inr allow)))"

definition transportConfig :: "OpenStackPlacementSpec \<Rightarrow> Secret \<Rightarrow> bool \<Rightarrow> TransportConfig" where
  "transportConfig cfg secret allow =
     (let timeout = sint (op_APITimeoutSeconds cfg) * second
      in \<lparr>tc_allowInsecureHTTP = allow, tc_CACert = mget (se_Data secret) ''ca.crt'',
          tc_Timeout = (if timeout = 0 then minute else timeout)\<rparr>)"

definition checkProject :: "'p AuthResult \<Rightarrow> Secret \<Rightarrow> string os_result" where
  "checkProject auth secret =
     (case ar_Project auth of
        None \<Rightarrow> Inl (mkOsError ''ProjectScopeUnavailable'' False True)
      | Some (Inr (Some project)) \<Rightarrow>
          if project \<noteq> mget (se_Data secret) ''project-id'' then Inl (mkOsError ''ProjectScopeMismatch'' False True)
          else Inr project
      | Some _ \<Rightarrow> Inl (mkOsError ''ProjectScopeMismatch'' False True))"

definition clientExpiry :: "gotime \<Rightarrow> 'p AuthResult \<Rightarrow> gotime os_result" where
  "clientExpiry now auth =
     (let limit = now + 5 * minute
      in case ar_ExpiresAt auth of
           None \<Rightarrow> Inr limit
         | Some (Inl e) \<Rightarrow> Inl (SafeError e)
         | Some (Inr t) \<Rightarrow> Inr (if t - minute < limit then t - minute else limit))"

text \<open>The endpoints of the four services, in the order they are looked up.\<close>

definition discoverServices :: "('p, 's, 'w) sdk \<Rightarrow> 'p \<Rightarrow> string \<Rightarrow> ('s \<times> 's \<times> 's \<times> 's) os_result" where
  "discoverServices S provider region =
     (let find = (\<lambda>service. map_sum (\<lambda>e. safeErrorAt e service ''discover-endpoint'') id (sd_service S provider service region))
      in case find ''nova'' of Inl e \<Rightarrow> Inl e | Inr compute \<Rightarrow>
        (case find ''neutron'' of Inl e \<Rightarrow> Inl e | Inr network \<Rightarrow>
         (case find ''cinder'' of Inl e \<Rightarrow> Inl e | Inr storage \<Rightarrow>
          (case find ''glance'' of Inl e \<Rightarrow> Inl e | Inr im \<Rightarrow> Inr (compute, network, storage, im)))))"

definition New :: "('p, 's, 'w) sdk \<Rightarrow> OpenStackPlacementSpec \<Rightarrow> Secret \<Rightarrow> ('w, 's cloud os_result) sdk_io" where
  "New S cfg secret =
     (let authURL = mget (se_Data secret) ''auth-url'';
          appID = mget (se_Data secret) ''application-credential-id'';
          appSecret = mget (se_Data secret) ''application-credential-secret''
      in attempt (labelledAt ''keystone'' ''initialize-client'' (ret (checkCredentials S secret))) (\<lambda>allow.
         attempt (labelledAt ''keystone'' ''authenticate'' (safe_call (
             ask (sd_Authenticate S (transportConfig cfg secret allow) authURL appID appSecret)
               (\<lambda>r. SdkAuthenticate (transportConfig cfg secret allow) authURL appID appSecret (\<not> isl r))))) (\<lambda>auth.
         attempt (labelledAt ''keystone'' ''validate-project-scope'' (ret (checkProject auth secret))) (\<lambda>project.
         State_Monad.bind (ask (sd_now S) SdkClock) (\<lambda>now.
         attempt (labelledAt ''keystone'' ''validate-project-scope'' (ret (clientExpiry now auth))) (\<lambda>expires.
         attempt (ret (discoverServices S (ar_provider auth) (op_Region cfg))) (\<lambda>(compute, network, storage, im).
         ret (Inr \<lparr>cl_compute = compute, cl_network = network, cl_storage = storage, cl_image = im,
           cl_scope = scopeOf authURL project (op_Region cfg), cl_project = project, cl_expires = expires\<rparr>))))))))"

section \<open>Observations\<close>

definition emptyResource :: Resource where
  "emptyResource = \<lparr>rs_ID = [], rs_Name = [], rs_Owner = [], rs_State = [], rs_MAC = [], rs_Attached = False,
     rs_Bootable = False, rs_SizeBytes = 0\<rparr>"

definition portResource :: "SdkPort \<Rightarrow> Resource" where
  "portResource p = emptyResource\<lparr>rs_ID := pt_ID p, rs_Name := pt_Name p,
     rs_Owner := (if go_HasPrefix (pt_Description p) (OwnerKey @ '':'')
                  then go_TrimPrefix (pt_Description p) (OwnerKey @ '':'') else []),
     rs_State := pt_Status p, rs_MAC := pt_MACAddress p, rs_Attached := pt_DeviceID p \<noteq> []\<rparr>"

definition volumeResource :: "SdkVolume \<Rightarrow> Resource" where
  "volumeResource v = emptyResource\<lparr>rs_ID := vo_ID v, rs_Name := vo_Name v, rs_Owner := mget (vo_Metadata v) OwnerKey,
     rs_State := vo_Status v, rs_Attached := vo_Attachments v > 0, rs_Bootable := vo_Bootable v = ''true''\<rparr>"

definition serverResource :: "SdkServer \<Rightarrow> Resource" where
  "serverResource s = emptyResource\<lparr>rs_ID := sv_ID s, rs_Name := sv_Name s, rs_Owner := mget (sv_Metadata s) OwnerKey,
     rs_State := sv_Status s\<rparr>"

definition imageResource :: "SdkImage \<Rightarrow> Resource" where
  "imageResource i = emptyResource\<lparr>rs_ID := im_ID i, rs_Name := im_Name i,
     rs_Owner := (case im_OwnerProperty i of None \<Rightarrow> [] | Some owner \<Rightarrow> owner),
     rs_State := im_Status i, rs_SizeBytes := im_SizeBytes i\<rparr>"

text \<open>The resource is there; \<open>r == nil\<close> does not occur.\<close>

definition owned :: "Resource \<Rightarrow> string \<Rightarrow> Resource os_result" where
  "owned r owner = (if owner = [] \<or> rs_Owner r \<noteq> owner then Inl ErrOwnership else Inr r)"

definition inProject :: "'s cloud \<Rightarrow> string \<Rightarrow> Resource \<Rightarrow> string \<Rightarrow> Resource os_result" where
  "inProject c project r owner = (if project \<noteq> cl_project c then Inl ErrOwnership else owned r owner)"

definition invalidKind :: OsError where "invalidKind = mkOsError ''InvalidResourceKind'' False True"

section \<open>Looking up\<close>

definition getResource :: "('p, 's, 'w) sdk \<Rightarrow> 's cloud \<Rightarrow> Kind \<Rightarrow> string \<Rightarrow> string \<Rightarrow> ('w, Resource os_result) sdk_io" where
  "getResource S c kind i owner =
     (let volume = attempt (safe_call (ask (sd_volume_get S (cl_storage c) i) (VolumeGet i)))
            (\<lambda>v. ret (inProject c (vo_TenantID v) (volumeResource v) owner))
      in case kind of
        Port \<Rightarrow> attempt (safe_call (ask (sd_port_get S (cl_network c) i) (PortGet i)))
          (\<lambda>p. ret (inProject c (pt_ProjectID p) (portResource p) owner))
      | OSVolume \<Rightarrow> volume
      | DiscoveryVolume \<Rightarrow> volume
      | Server \<Rightarrow> attempt (safe_call (ask (sd_server_get S (cl_compute c) i) (ServerGet i)))
          (\<lambda>s. ret (inProject c (sv_TenantID s) (serverResource s) owner))
      | Image \<Rightarrow> attempt (safe_call (ask (sd_image_get S (cl_image c) i) (ImageGet i)))
          (\<lambda>im. ret (inProject c (im_Owner im) (imageResource im) owner))
      | OtherKind s \<Rightarrow> ret (Inl invalidKind))"

definition cloud_Get :: "('p, 's, 'w) sdk \<Rightarrow> 's cloud \<Rightarrow> Kind \<Rightarrow> string \<Rightarrow> string \<Rightarrow> ('w, Resource os_result) sdk_io" where
  "cloud_Get S c kind i owner = labelledResource kind ''get'' (getResource S c kind i owner)"

definition uniqueOwned :: "Resource list \<Rightarrow> string \<Rightarrow> Resource os_result" where
  "uniqueOwned found owner =
     (case found of
        [] \<Rightarrow> Inl ErrNotFound
      | [r] \<Rightarrow> owned r owner
      | _ \<Rightarrow> Inl (mkOsError ''AmbiguousResourceIdentity'' False True))"

definition findResources :: "('p, 's, 'w) sdk \<Rightarrow> 's cloud \<Rightarrow> Kind \<Rightarrow> string \<Rightarrow> ('w, Resource list os_result) sdk_io" where
  "findResources S c kind name =
     (let volumes = attempt (safe_call (ask (sd_volume_list S (cl_storage c) name) (VolumeList name)))
            (\<lambda>vs. ret (Inr (map volumeResource (filter (\<lambda>v. vo_Name v = name \<and> vo_TenantID v = cl_project c) vs))))
      in case kind of
        Port \<Rightarrow> attempt (safe_call (ask (sd_port_list S (cl_network c) name (cl_project c)) (PortList name (cl_project c))))
          (\<lambda>ps. ret (Inr (map portResource (filter (\<lambda>p. pt_Name p = name) ps))))
      | OSVolume \<Rightarrow> volumes
      | DiscoveryVolume \<Rightarrow> volumes
      | Server \<Rightarrow> attempt (safe_call (ask (sd_server_list S (cl_compute c) name) (ServerList name)))
          (\<lambda>ss. ret (Inr (map serverResource (filter (\<lambda>s. sv_Name s = name \<and> sv_TenantID s = cl_project c) ss))))
      | _ \<Rightarrow> ret (Inl invalidKind))"

definition cloud_Find :: "('p, 's, 'w) sdk \<Rightarrow> 's cloud \<Rightarrow> Kind \<Rightarrow> string \<Rightarrow> string \<Rightarrow> ('w, Resource os_result) sdk_io" where
  "cloud_Find S c kind name owner =
     labelledResource kind ''find'' (attempt (findResources S c kind name) (\<lambda>found. ret (uniqueOwned found owner)))"

section \<open>Creating\<close>

definition networkID :: "('p, 's, 'w) sdk \<Rightarrow> 's cloud \<Rightarrow> OpenStackPlacementSpec \<Rightarrow> ('w, string os_result) sdk_io" where
  "networkID S c cfg =
     labelledAt ''neutron'' ''resolve-network''
       (if op_NetworkID cfg \<noteq> [] then ret (Inr (op_NetworkID cfg))
        else attempt (safe_call (ask (sd_network_list S (cl_network c) (op_NetworkName cfg)) (NetworkList (op_NetworkName cfg))))
               (\<lambda>ids. ret (case ids of [i] \<Rightarrow> Inr i | _ \<Rightarrow> Inl (mkOsError ''NetworkNotUnique'' False True))))"

definition flavorID :: "('p, 's, 'w) sdk \<Rightarrow> 's cloud \<Rightarrow> OpenStackPlacementSpec \<Rightarrow> ('w, string os_result) sdk_io" where
  "flavorID S c cfg =
     labelledAt ''nova'' ''resolve-flavor''
       (if op_FlavorID cfg \<noteq> [] then ret (Inr (op_FlavorID cfg))
        else attempt (safe_call (ask (sd_flavor_list S (cl_compute c)) FlavorList))
               (\<lambda>flavors. ret (case map fst (filter (\<lambda>(i, name). name = op_FlavorName cfg) flavors) of
                   [i] \<Rightarrow> Inr i | _ \<Rightarrow> Inl (mkOsError ''FlavorNotUnique'' False True))))"

definition ToPortCreateMap :: "('p, 's, 'w) sdk \<Rightarrow> portCreateOpts \<Rightarrow> (string \<times> json) list sdk_result" where
  "ToPortCreateMap S opts =
     (case sd_port_body S (pcx_CreateOpts opts) of
        Inl e \<Rightarrow> Inl e
      | Inr p \<Rightarrow>
          (let p = AList.update ''port_security_enabled'' (JBool (pcx_Security opts)) p
           in Inr (if pcx_Tags opts \<noteq> [] then AList.update ''tags'' (JStrings (pcx_Tags opts)) p else p)))"

definition BlockDevices :: "OpenStackAgent \<Rightarrow> BlockDevice list" where
  "BlockDevices a =
     (let t = os_Template (oas_Configuration (oa_Spec a)); st = oa_Status a
      in [\<lparr>bd_UUID = oast_OSVolumeID st, bd_SourceType = ''volume'', bd_DestinationType = ''volume'', bd_DeviceType = ''disk'',
           bd_DiskBus = ot_OSDiskBus t, bd_BootIndex = 0, bd_DeleteOnTermination = False\<rparr>,
          \<lparr>bd_UUID = oast_DiscoveryVolumeID st, bd_SourceType = ''volume'', bd_DestinationType = ''volume'', bd_DeviceType = ''cdrom'',
           bd_DiskBus = ot_DiscoveryDiskBus t, bd_BootIndex = 1, bd_DeleteOnTermination = False\<rparr>])"

text \<open>The subnet must be of the network and have DHCP as configured, when that is configured.\<close>

definition checkSubnet :: "('p, 's, 'w) sdk \<Rightarrow> 's cloud \<Rightarrow> OpenStackPlacementSpec \<Rightarrow> string \<Rightarrow> ('w, unit os_result) sdk_io" where
  "checkSubnet S c cfg network =
     (case op_DHCPEnabled cfg of
        None \<Rightarrow> ret (Inr ())
      | Some dhcp \<Rightarrow>
          attempt (labelledAt ''neutron'' ''get-subnet''
              (safe_call (ask (sd_subnet_get S (cl_network c) (op_SubnetID cfg)) (SubnetGet (op_SubnetID cfg))))) (\<lambda>subnet.
            ret (if sn_NetworkID subnet \<noteq> network \<or> sn_EnableDHCP subnet \<noteq> dhcp
                 then Inl (mkOsError ''SubnetDHCPMismatch'' False True) else Inr ())))"

definition portOpts :: "string \<Rightarrow> string \<Rightarrow> OpenStackAgent \<Rightarrow> string \<Rightarrow> portCreateOpts" where
  "portOpts name owner a network =
     (let cfg = os_OpenStack (oas_Configuration (oa_Spec a)); ip = oas_FixedIPAddress (oa_Spec a)
      in \<lparr>pcx_CreateOpts = \<lparr>pco_Name = name, pco_NetworkID = network, pco_Description = OwnerKey @ '':'' @ owner,
            pco_SecurityGroups = op_SecurityGroupIDs cfg,
            pco_FixedIPs = (if op_SubnetID cfg \<noteq> [] \<or> ip \<noteq> [] then [(op_SubnetID cfg, ip)] else [])\<rparr>,
          pcx_Security = (case op_PortSecurityEnabled cfg of None \<Rightarrow> True | Some b \<Rightarrow> b), pcx_Tags = op_PortTags cfg\<rparr>)"

text \<open>Whole GiB for a number of bytes, in 64-bit arithmetic with division towards zero.\<close>

definition ceilGiB :: "int64 \<Rightarrow> int" where
  "ceilGiB bytes =
     (let n = sint (word_of_int (bytes + 1073741823) :: 64 word)
      in if n < 0 then - ((- n) div 1073741824) else n div 1073741824)"

definition volumeOpts :: "Kind \<Rightarrow> string \<Rightarrow> string \<Rightarrow> OpenStackAgent \<Rightarrow> VolumeCreateOpts" where
  "volumeOpts kind name owner a =
     (let t = os_Template (oas_Configuration (oa_Spec a));
          opts = \<lparr>vco_Name = name, vco_Size = sint (ot_DiskGiB t), vco_VolumeType = ot_VolumeType t,
            vco_AvailabilityZone = ot_VolumeAvailabilityZone t, vco_Metadata = mput (ot_VolumeMetadata t) OwnerKey owner,
            vco_ImageID = []\<rparr>
      in if kind = DiscoveryVolume then
           opts\<lparr>vco_ImageID := oast_ImageID (oa_Status a), vco_VolumeType := ot_DiscoveryVolumeType t,
             vco_Size := max (sint (ot_DiscoveryVolumeMinGiB t)) (ceilGiB (oast_ISOSizeBytes (oa_Status a)))\<rparr>
         else opts)"

definition serverOpts :: "string \<Rightarrow> string \<Rightarrow> OpenStackAgent \<Rightarrow> string \<Rightarrow> ServerCreateOpts" where
  "serverOpts name owner a flavor =
     \<lparr>sco_Name = name, sco_FlavorRef = flavor, sco_Ports = [oast_PortID (oa_Status a)],
      sco_AvailabilityZone = op_AvailabilityZone (os_OpenStack (oas_Configuration (oa_Spec a))),
      sco_Metadata = [(OwnerKey, owner)], sco_BlockDevice = BlockDevices a\<rparr>"

definition imageOpts :: "string \<Rightarrow> string \<Rightarrow> OpenStackAgent \<Rightarrow> ImageCreateOpts" where
  "imageOpts name owner a =
     \<lparr>ico_ID = oast_ImageID (oa_Status a), ico_Name = name, ico_DiskFormat = ''iso'', ico_ContainerFormat = ''bare'',
      ico_Visibility = ''private'',
      ico_Properties = [(OwnerKey, owner), (''agent_forge_sha256'', oast_ISOSHA256 (oa_Status a))]\<rparr>"

definition createPort :: "('p, 's, 'w) sdk \<Rightarrow> 's cloud \<Rightarrow> string \<Rightarrow> string \<Rightarrow> OpenStackAgent \<Rightarrow> ('w, Resource os_result) sdk_io" where
  "createPort S c name owner a =
     (let cfg = os_OpenStack (oas_Configuration (oa_Spec a))
      in attempt (networkID S c cfg) (\<lambda>network.
         attempt (checkSubnet S c cfg network) (\<lambda>_.
         attempt (safe_call (ret (ToPortCreateMap S (portOpts name owner a network)))) (\<lambda>body.
         attempt (safe_call (ask (sd_port_create S (cl_network c) body) (PortCreate body))) (\<lambda>p.
         ret (Inr (portResource p)))))))"

definition createResourceOf ::
  "('p, 's, 'w) sdk \<Rightarrow> 's cloud \<Rightarrow> Kind \<Rightarrow> string \<Rightarrow> string \<Rightarrow> OpenStackAgent \<Rightarrow> ('w, Resource os_result) sdk_io" where
  "createResourceOf S c kind name owner a =
     (let volume = (let opts = volumeOpts kind name owner a
                    in attempt (safe_call (ask (sd_volume_create S (cl_storage c) opts) (VolumeCreate opts)))
                         (\<lambda>v. ret (Inr (volumeResource v))))
      in case kind of
        Port \<Rightarrow> createPort S c name owner a
      | OSVolume \<Rightarrow> volume
      | DiscoveryVolume \<Rightarrow> volume
      | Server \<Rightarrow> attempt (flavorID S c (os_OpenStack (oas_Configuration (oa_Spec a)))) (\<lambda>flavor.
          attempt (safe_call (ask (sd_server_create S (cl_compute c) (serverOpts name owner a flavor))
                     (ServerCreate (serverOpts name owner a flavor)))) (\<lambda>s. ret (Inr (serverResource s))))
      | Image \<Rightarrow> attempt (safe_call (ask (sd_image_create S (cl_image c) (imageOpts name owner a))
                     (ImageCreate (imageOpts name owner a)))) (\<lambda>i. ret (Inr (imageResource i)))
      | OtherKind s \<Rightarrow> ret (Inl invalidKind))"

definition cloud_Create ::
  "('p, 's, 'w) sdk \<Rightarrow> 's cloud \<Rightarrow> Kind \<Rightarrow> string \<Rightarrow> string \<Rightarrow> OpenStackAgent \<Rightarrow> ('w, Resource os_result) sdk_io" where
  "cloud_Create S c kind name owner a = labelledResource kind ''create'' (createResourceOf S c kind name owner a)"

section \<open>Changing and deleting\<close>

definition cloud_SetBootable :: "('p, 's, 'w) sdk \<Rightarrow> 's cloud \<Rightarrow> string \<Rightarrow> string \<Rightarrow> ('w, unit os_result) sdk_io" where
  "cloud_SetBootable S c i owner =
     labelledAt ''cinder'' ''set-bootable'' (attempt (cloud_Get S c OSVolume i owner) (\<lambda>_.
       safe_call (ask (sd_volume_setbootable S (cl_storage c) i) (VolumeSetBootable i))))"

definition cloud_UploadImage ::
  "('p, 's, 'w) sdk \<Rightarrow> 's cloud \<Rightarrow> string \<Rightarrow> string \<Rightarrow> string \<Rightarrow> ('w, unit os_result) sdk_io" where
  "cloud_UploadImage S c i owner content =
     labelledAt ''glance'' ''upload-image'' (attempt (cloud_Get S c Image i owner) (\<lambda>_.
       safe_call (ask (sd_image_upload S (cl_image c) i content) (ImageUpload i content))))"

definition sdkDelete :: "('p, 's, 'w) sdk \<Rightarrow> 's cloud \<Rightarrow> Kind \<Rightarrow> string \<Rightarrow> ('w, unit sdk_result) sdk_io" where
  "sdkDelete S c kind i =
     (let volume = ask (sd_volume_delete S (cl_storage c) i) (VolumeDelete i)
      in case kind of
        Port \<Rightarrow> ask (sd_port_delete S (cl_network c) i) (PortDelete i)
      | OSVolume \<Rightarrow> volume
      | DiscoveryVolume \<Rightarrow> volume
      | Server \<Rightarrow> ask (sd_server_delete S (cl_compute c) i) (ServerDelete i)
      | Image \<Rightarrow> ask (sd_image_delete S (cl_image c) i) (ImageDelete i)
      | OtherKind s \<Rightarrow> ret (Inr ()))"

definition ResponseCodeIs :: "sdk_error \<Rightarrow> int \<Rightarrow> bool" where
  "ResponseCodeIs e code \<longleftrightarrow> (case sdk_response e of None \<Rightarrow> False | Some r \<Rightarrow> rp_Actual r = code)"

definition resourceBusy :: "Kind \<Rightarrow> Resource \<Rightarrow> bool" where
  "resourceBusy kind r \<longleftrightarrow> rs_Attached r
     \<or> (kind = OSVolume \<or> kind = DiscoveryVolume) \<and> rs_State r \<noteq> ''available'' \<and> rs_State r \<noteq> ''error''"

definition deleteOwned :: "('p, 's, 'w) sdk \<Rightarrow> 's cloud \<Rightarrow> Kind \<Rightarrow> string \<Rightarrow> string \<Rightarrow> ('w, unit os_result) sdk_io" where
  "deleteOwned S c kind i owner =
     handle (cloud_Get S c kind i owner)
       (\<lambda>e. ret (if OsError_Is e NotFoundSentinel then Inr () else Inl e))
       (\<lambda>r. if resourceBusy kind r then ret (Inl (mkOsError ''ResourceStillAttachedOrBusy'' True True))
            else do { d \<leftarrow> sdkDelete S c kind i;
                      ret (case d of Inl e \<Rightarrow> if ResponseCodeIs e 404 then Inr () else Inl (SafeError e) | Inr _ \<Rightarrow> Inr ()) })"

definition cloud_Delete :: "('p, 's, 'w) sdk \<Rightarrow> 's cloud \<Rightarrow> Kind \<Rightarrow> string \<Rightarrow> string \<Rightarrow> ('w, unit os_result) sdk_io" where
  "cloud_Delete S c kind i owner = labelledResource kind ''delete'' (deleteOwned S c kind i owner)"

section \<open>The cache of clients\<close>

text \<open>
  \<open>NewCachedFactory\<close> keeps a map in the memory of the process, which is a part of the world: \<open>mm_get\<close> reads it and
  \<open>mm_put\<close> replaces it. Other reconcilers may change it while this one authenticates. \<open>sd_order\<close> is the order in which
  the map is iterated.
\<close>

type_synonym 's client_cache = "(string \<times> 's cloud) list"

record ('s, 'w) memory =
  mm_get :: "'w \<Rightarrow> 's client_cache"
  mm_put :: "'s client_cache \<Rightarrow> 'w \<Rightarrow> 'w"

definition peek :: "('s, 'w) memory \<Rightarrow> ('w, 's client_cache) sdk_io" where
  "peek M = State (\<lambda>s. (mm_get M (world s), s))"

definition poke :: "('s, 'w) memory \<Rightarrow> 's client_cache \<Rightarrow> ('w, unit) sdk_io" where
  "poke M cache = State (\<lambda>s. ((), s\<lparr>world := mm_put M cache (world s)\<rparr>))"

definition clientKey :: "OpenStackPlacementSpec \<Rightarrow> Secret \<Rightarrow> string" where
  "clientKey cfg secret =
     om_Namespace (se_Meta secret) @ ''/'' @ om_Name (se_Meta secret) @ ''/'' @ om_UID (se_Meta secret) @ ''/''
     @ om_ResourceVersion (se_Meta secret) @ ''/'' @ op_Region cfg @ ''/'' @ int_str (sint (op_APITimeoutSeconds cfg))"

fun evict :: "('p, 's, 'w) sdk \<Rightarrow> (string \<times> gotime) list \<Rightarrow> 's client_cache \<Rightarrow> ('w, 's client_cache) sdk_io" where
  "evict S [] cache = ret cache"
| "evict S ((k, expires) # entries) cache =
     do { now \<leftarrow> ask (sd_now S) SdkClock;
          evict S entries (if now > expires \<or> length cache \<ge> 128 then AList.delete k cache else cache) }"

definition cachedClient :: "('p, 's, 'w) sdk \<Rightarrow> 's client_cache \<Rightarrow> string \<Rightarrow> ('w, 's cloud option) sdk_io" where
  "cachedClient S cache key =
     (case map_of cache key of
        None \<Rightarrow> ret None
      | Some c \<Rightarrow> do { now \<leftarrow> ask (sd_now S) SdkClock; ret (if now < cl_expires c then Some c else None) })"

definition NewCachedFactory ::
  "('p, 's, 'w) sdk \<Rightarrow> ('s, 'w) memory \<Rightarrow> OpenStackPlacementSpec \<Rightarrow> Secret \<Rightarrow> ('w, 's cloud os_result) sdk_io" where
  "NewCachedFactory S M cfg secret =
     (let key = clientKey cfg secret
      in do {
        cache \<leftarrow> peek M;
        cached \<leftarrow> cachedClient S cache key;
        case cached of
          Some c \<Rightarrow> ret (Inr c)
        | None \<Rightarrow> attempt (New S cfg secret) (\<lambda>c. do {
            cache \<leftarrow> peek M;
            cache \<leftarrow> evict S (sd_order S (map (\<lambda>(k, c). (k, cl_expires c)) cache)) cache;
            poke M (AList.update key c cache);
            ret (Inr c) }) })"

section \<open>The interface of the controllers\<close>

text \<open>To the controllers a call of the client is one step of the world, and its errors are \<open>error\<close> values.\<close>

definition sdk_step :: "('w, 'a os_result) sdk_io \<Rightarrow> 'w \<Rightarrow> 'a result \<times> 'w" where
  "sdk_step m w = (case run_state m \<lparr>world = w, trace = []\<rparr> of (r, s) \<Rightarrow> (map_sum OsErr id r, world s))"

definition cloudClient :: "('p, 's, 'w) sdk \<Rightarrow> 's cloud \<Rightarrow> 'w os_client" where
  "cloudClient S c = \<lparr>
     oc_Scope = cl_scope c,
     oc_Find = (\<lambda>k name owner. sdk_step (cloud_Find S c k name owner)),
     oc_Get = (\<lambda>k i owner. sdk_step (cloud_Get S c k i owner)),
     oc_Create = (\<lambda>k name owner a w. case sdk_step (cloud_Create S c k name owner a) w of (r, w') \<Rightarrow> (map_sum id Some r, w')),
     oc_SetBootable = (\<lambda>i owner. sdk_step (cloud_SetBootable S c i owner)),
     oc_UploadImage = (\<lambda>i owner content. sdk_step (cloud_UploadImage S c i owner content)),
     oc_Delete = (\<lambda>k i owner. sdk_step (cloud_Delete S c k i owner))\<rparr>"

definition cloudFactory :: "('p, 's, 'w) sdk \<Rightarrow> ('s, 'w) memory \<Rightarrow> 'w os_factory" where
  "cloudFactory S M cfg secret w =
     (case sdk_step (NewCachedFactory S M cfg secret) w of (r, w') \<Rightarrow> (map_sum id (cloudClient S) r, w'))"

end
