(* ===== verification/OpenStackSamples.thy ===== *)
theory OpenStackSamples
  imports Samples
begin

text \<open>
  Concrete OpenStack objects for the witnesses: a worker that has its port, volumes and image but no server
  yet, and the credentials Secret. Nothing in the model depends on them.
\<close>

definition sampleOSSpec :: OpenStackAgentPoolSpec where
  "sampleOSSpec = \<lparr>
     os_HostedClusterRef = \<lparr>lor_Name = ''demo''\<rparr>,
     os_NodePoolRef = \<lparr>lor_Name = ''np''\<rparr>,
     os_InfraEnvRef = \<lparr>lor_Name = ''infra''\<rparr>,
     os_ControlPlaneNamespace = ''clusters-demo'',
     os_OpenStack = \<lparr>op_CredentialsSecretRef = \<lparr>lor_Name = ''cloud''\<rparr>, op_Region = ''r1'', op_NetworkID = ''net'',
       op_NetworkName = [], op_FlavorID = ''m1'', op_FlavorName = [], op_SubnetID = [], op_DHCPEnabled = None,
       op_PortSecurityEnabled = None, op_SecurityGroupIDs = [], op_PortTags = [], op_AvailabilityZone = [],
       op_APITimeoutSeconds = 60\<rparr>,
     os_Template = \<lparr>ot_DiskGiB = 120, ot_VolumeType = [], ot_VolumeAvailabilityZone = [], ot_VolumeMetadata = [],
       ot_DiscoveryVolumeMinGiB = 2, ot_DiscoveryVolumeType = [], ot_OSDiskBus = ''virtio'', ot_DiscoveryDiskBus = ''ide'',
       ot_InstallationDisk = ''/dev/vda'', ot_OSVolumePolicy = CleanupPolicyDelete\<rparr>,
     os_Agent = \<lparr>ab_Role = ''worker'', ab_Labels = [], ab_Approve = None\<rparr>,
     os_CleanupPolicy = CleanupPolicyDelete,
     os_DiscoveryTimeoutSeconds = 1800\<rparr>"

definition sampleOA :: OpenStackAgent where
  "sampleOA = \<lparr>oa_Meta = sampleMeta ''osa-1'',
     oa_Spec = \<lparr>oas_PoolRef = \<lparr>lor_Name = ''pool''\<rparr>, oas_PoolUID = ''uid-pool'',
       oas_AgentMachineRef = \<lparr>ref_APIVersion = [], ref_Kind = ''AgentMachine'', ref_Namespace = ''clusters-demo'', ref_Name = ''am'', ref_UID = ''uid-am''\<rparr>,
       oas_MachineRef = None, oas_Configuration = sampleOSSpec, oas_FixedIPAddress = []\<rparr>,
     oa_Status = \<lparr>oast_ObservedGeneration = 0, oast_Phase = ''CreatingInstance'', oast_ScopeHash = ''scope'', oast_PendingCreate = [],
       oast_PortID = ''p'', oast_MACAddress = ''fa:16:3e:00:00:01'', oast_OSVolumeID = ''v'', oast_DiscoveryVolumeID = ''d'', oast_ImageID = ''i'',
       oast_ImageCacheName = ''os-image-1'', oast_ISOSHA256 = ''ab'', oast_ISOSizeBytes = 1181116006, oast_InfraEnvUID = ''ie'',
       oast_ServerID = [], oast_AgentRef = None, oast_InstanceCreatedAt = None, oast_Conditions = []\<rparr>\<rparr>"

definition sampleSecret :: "string \<Rightarrow> Secret" where
  "sampleSecret version = \<lparr>se_Meta = (sampleMeta ''cloud'')\<lparr>om_ResourceVersion := version\<rparr>,
     se_Data = [(''auth-url'', ''https://keystone/v3''), (''application-credential-id'', ''id''),
       (''application-credential-secret'', ''secret''), (''project-id'', ''project'')]\<rparr>"

lemmas os_sample_defs = sampleOSSpec_def sampleOA_def sampleSecret_def sampleMeta_def emptyMeta_def

end
