(* ===== verification/ClientSafety.thy ===== *)
theory ClientSafety
  imports OpenStackClient OpenStackSamples
begin

text \<open>
  What the OpenStack client of theory \<open>OpenStackClient\<close> guarantees, whatever the SDK answers: a resource is
  returned, changed or deleted only after it was read as one of the project and of the owner; a resource that
  was created is recognised when it is read back; and nothing is sent in plain text unless the Secret allows it.
\<close>

section \<open>Rules for the client's combinators\<close>

lemma hist_safe_call:
  "hist P tr m (\<lambda>r. R (map_sum SafeError id r)) \<Longrightarrow> hist P tr (safe_call m) R"
  unfolding safe_call_def by (erule hist_bind_seq) (simp add: hist_ret)

lemma hist_labelledAt:
  "hist P tr m (\<lambda>r. R (map_sum (\<lambda>e. safeErrorAt (ourError e) service operation) id r)) \<Longrightarrow>
   hist P tr (labelledAt service operation m) R"
  unfolding labelledAt_def by (erule hist_bind_seq) (simp add: hist_ret)

lemma hist_labelledResource:
  "hist P tr m (\<lambda>r. R (map_sum (\<lambda>e. safeResourceError (ourError e) kind action) id r)) \<Longrightarrow>
   hist P tr (labelledResource kind action m) R"
  unfolding labelledResource_def by (erule hist_bind_seq) (simp add: hist_ret)

text \<open>A call of the SDK and what follows it.\<close>

lemma hist_sdk_call:
  assumes "\<And>r. P tr (ev r)"
    and "\<And>e. R (Inl (SafeError e)) (tr @ [ev (Inl e)])" "\<And>x. hist P (tr @ [ev (Inr x)]) (g x) R"
  shows "hist P tr (attempt (safe_call (ask f ev)) g) R"
proof (rule hist_attempt, rule hist_safe_call, rule hist_ask, intro conjI)
  show "P tr (ev r)" for r by (rule assms(1))
  show "case map_sum SafeError id r of Inl e \<Rightarrow> R (Inl e) (tr @ [ev r]) | Inr x \<Rightarrow> hist P (tr @ [ev r]) (g x) R" for r
    by (cases r) (use assms in simp_all)
qed

text \<open>Labelling and classification keep what an error says about the resource.\<close>

lemma labelled_Is [simp]:
  "OsError_Is (safeErrorAt (ourError e) service operation) t = OsError_Is e t"
  "OsError_Is (safeResourceError (ourError e) kind action) t = OsError_Is e t"
  by (simp_all add: safeResourceError_def safeErrorAt_def SafeError_def ourError_def OsError_Is_def Let_def split: prod.split)

section \<open>Observations\<close>

text \<open>A read of the resource itself: the object was of the project, and this is the observation made of it.\<close>

fun observation :: "string \<Rightarrow> Kind \<Rightarrow> string \<Rightarrow> Resource \<Rightarrow> sdk_event \<Rightarrow> bool" where
  "observation project k i r (PortGet j (Inr p)) \<longleftrightarrow> k = Port \<and> j = i \<and> pt_ProjectID p = project \<and> r = portResource p"
| "observation project k i r (VolumeGet j (Inr v)) \<longleftrightarrow>
     (k = OSVolume \<or> k = DiscoveryVolume) \<and> j = i \<and> vo_TenantID v = project \<and> r = volumeResource v"
| "observation project k i r (ServerGet j (Inr s)) \<longleftrightarrow> k = Server \<and> j = i \<and> sv_TenantID s = project \<and> r = serverResource s"
| "observation project k i r (ImageGet j (Inr im)) \<longleftrightarrow> k = Image \<and> j = i \<and> im_Owner im = project \<and> r = imageResource im"
| "observation project k i r e \<longleftrightarrow> False"

definition seen_owned :: "'s cloud \<Rightarrow> Kind \<Rightarrow> string \<Rightarrow> string \<Rightarrow> sdk_event list \<Rightarrow> Resource \<Rightarrow> bool" where
  "seen_owned c k i owner tr r \<longleftrightarrow> owner \<noteq> [] \<and> rs_Owner r = owner \<and> (\<exists>e \<in> set tr. observation (cl_project c) k i r e)"

text \<open>The service answered that there is no such resource.\<close>

fun answered_missing :: "Kind \<Rightarrow> string \<Rightarrow> sdk_event \<Rightarrow> bool" where
  "answered_missing k i (PortGet j (Inl e)) \<longleftrightarrow> k = Port \<and> j = i \<and> OsError_Is (SafeError e) NotFoundSentinel"
| "answered_missing k i (VolumeGet j (Inl e)) \<longleftrightarrow>
     (k = OSVolume \<or> k = DiscoveryVolume) \<and> j = i \<and> OsError_Is (SafeError e) NotFoundSentinel"
| "answered_missing k i (ServerGet j (Inl e)) \<longleftrightarrow> k = Server \<and> j = i \<and> OsError_Is (SafeError e) NotFoundSentinel"
| "answered_missing k i (ImageGet j (Inl e)) \<longleftrightarrow> k = Image \<and> j = i \<and> OsError_Is (SafeError e) NotFoundSentinel"
| "answered_missing k i e \<longleftrightarrow> False"

definition got :: "'s cloud \<Rightarrow> Kind \<Rightarrow> string \<Rightarrow> string \<Rightarrow> Resource os_result \<Rightarrow> sdk_event list \<Rightarrow> bool" where
  "got c k i owner r tr \<longleftrightarrow> (case r of
     Inl e \<Rightarrow> OsError_Is e NotFoundSentinel \<longrightarrow> (\<exists>ev \<in> set tr. answered_missing k i ev)
   | Inr res \<Rightarrow> seen_owned c k i owner tr res)"

fun sdk_read :: "sdk_event \<Rightarrow> bool" where
  "sdk_read (PortGet i r) = True"
| "sdk_read (VolumeGet i r) = True"
| "sdk_read (ServerGet i r) = True"
| "sdk_read (ImageGet i r) = True"
| "sdk_read (PortList name project r) = True"
| "sdk_read (VolumeList name r) = True"
| "sdk_read (ServerList name r) = True"
| "sdk_read (NetworkList name r) = True"
| "sdk_read (SubnetGet i r) = True"
| "sdk_read (FlavorList r) = True"
| "sdk_read e = False"

lemma owned_Inr [simp]: "owned r owner = Inr r' \<longleftrightarrow> owner \<noteq> [] \<and> rs_Owner r = owner \<and> r' = r"
  by (auto simp: owned_def)

lemma inProject_Inr [simp]: "inProject c project r owner = Inr r' \<longleftrightarrow> project = cl_project c \<and> owned r owner = Inr r'"
  by (auto simp: inProject_def)

lemma ownership_not_missing [simp]: "\<not> OsError_Is ErrOwnership NotFoundSentinel" "\<not> OsError_Is invalidKind NotFoundSentinel"
  by (simp_all add: OsError_Is_def os_error_defs invalidKind_def)

lemma inProject_Inl: "inProject c project r owner = Inl e \<Longrightarrow> e = ErrOwnership"
  by (auto simp: inProject_def owned_def split: if_splits)

lemma got_Inl:
  "(OsError_Is e NotFoundSentinel \<Longrightarrow> \<exists>ev \<in> set tr. answered_missing k i ev) \<Longrightarrow> got c k i owner (Inl e) tr"
  by (simp add: got_def)

lemma got_inProject:
  assumes "observation project k i r ev"
  shows "got c k i owner (map_sum (\<lambda>e. safeResourceError (ourError e) k action) id (inProject c project r owner)) (tr @ [ev])"
proof (cases "inProject c project r owner")
  case (Inl e)
  then show ?thesis using inProject_Inl [OF Inl] by (simp add: got_def)
next
  case (Inr r')
  then have "project = cl_project c" "owner \<noteq> []" "rs_Owner r = owner" "r' = r" by simp_all
  then show ?thesis unfolding Inr using assms by (simp add: got_def seen_owned_def)
qed

lemma hist_getResource:
  assumes reads: "\<And>ev. sdk_read ev \<Longrightarrow> P tr ev"
  shows "hist P tr (getResource S c k i owner)
    (\<lambda>r. got c k i owner (map_sum (\<lambda>e. safeResourceError (ourError e) k ''get'') id r))"
  using reads unfolding getResource_def Let_def
  by (cases k) (auto intro!: hist_sdk_call hist_ret got_inProject got_Inl)

lemma hist_cloud_Get:
  assumes "\<And>ev. sdk_read ev \<Longrightarrow> P tr ev"
  shows "hist P tr (cloud_Get S c k i owner) (got c k i owner)"
  unfolding cloud_Get_def by (rule hist_labelledResource, rule hist_getResource) (rule assms)

section \<open>Deleting\<close>

text \<open>What a deletion may call: reads, and the deletion of the one resource after it was seen owned and idle.\<close>

fun deletion_of :: "Kind \<Rightarrow> string \<Rightarrow> sdk_event \<Rightarrow> bool" where
  "deletion_of k i (PortDelete j r) \<longleftrightarrow> k = Port \<and> j = i"
| "deletion_of k i (VolumeDelete j r) \<longleftrightarrow> (k = OSVolume \<or> k = DiscoveryVolume) \<and> j = i"
| "deletion_of k i (ServerDelete j r) \<longleftrightarrow> k = Server \<and> j = i"
| "deletion_of k i (ImageDelete j r) \<longleftrightarrow> k = Image \<and> j = i"
| "deletion_of k i e \<longleftrightarrow> False"

definition idle :: "Kind \<Rightarrow> Resource \<Rightarrow> bool" where
  "idle k r \<longleftrightarrow> \<not> rs_Attached r \<and> (k \<in> {OSVolume, DiscoveryVolume} \<longrightarrow> rs_State r \<in> {''available'', ''error''})"

definition delete_ok :: "'s cloud \<Rightarrow> Kind \<Rightarrow> string \<Rightarrow> string \<Rightarrow> sdk_event list \<Rightarrow> sdk_event \<Rightarrow> bool" where
  "delete_ok c k i owner tr e \<longleftrightarrow> sdk_read e \<or>
     deletion_of k i e \<and> (\<exists>r. seen_owned c k i owner tr r \<and> idle k r)"

fun deletion_accepted :: "sdk_event \<Rightarrow> bool" where
  "deletion_accepted (PortDelete j r) \<longleftrightarrow> (case r of Inl e \<Rightarrow> ResponseCodeIs e 404 | Inr _ \<Rightarrow> True)"
| "deletion_accepted (VolumeDelete j r) \<longleftrightarrow> (case r of Inl e \<Rightarrow> ResponseCodeIs e 404 | Inr _ \<Rightarrow> True)"
| "deletion_accepted (ServerDelete j r) \<longleftrightarrow> (case r of Inl e \<Rightarrow> ResponseCodeIs e 404 | Inr _ \<Rightarrow> True)"
| "deletion_accepted (ImageDelete j r) \<longleftrightarrow> (case r of Inl e \<Rightarrow> ResponseCodeIs e 404 | Inr _ \<Rightarrow> True)"
| "deletion_accepted e \<longleftrightarrow> False"

definition deleted_or_missing :: "Kind \<Rightarrow> string \<Rightarrow> unit os_result \<Rightarrow> sdk_event list \<Rightarrow> bool" where
  "deleted_or_missing k i r tr \<longleftrightarrow> (case r of Inl _ \<Rightarrow> True
     | Inr _ \<Rightarrow> (\<exists>ev \<in> set tr. answered_missing k i ev \<or> deletion_of k i ev \<and> deletion_accepted ev))"

lemma hist_sdkDelete:
  assumes "\<And>ev. deletion_of k i ev \<Longrightarrow> P tr ev" "\<And>s. k \<noteq> OtherKind s"
  shows "hist P tr (sdkDelete S c k i) (\<lambda>d tr'. \<exists>ev \<in> set tr'. deletion_of k i ev \<and>
     (deletion_accepted ev \<longleftrightarrow> (case d of Inl e \<Rightarrow> ResponseCodeIs e 404 | Inr _ \<Rightarrow> True)))"
  using assms unfolding sdkDelete_def Let_def
  by (cases k) (auto intro!: hist_ask)

lemma seen_owned_append: "seen_owned c k i owner tr r \<Longrightarrow> seen_owned c k i owner (tr @ n) r"
  by (auto simp: seen_owned_def)

lemma seen_owned_kind: "seen_owned c (OtherKind s) i owner tr r \<Longrightarrow> False"
proof -
  have "observation project (OtherKind s) i r ev \<Longrightarrow> False" for project ev
    by (cases ev) (auto split: sum.splits elim: observation.elims)
  then show "seen_owned c (OtherKind s) i owner tr r \<Longrightarrow> False" by (auto simp: seen_owned_def)
qed

lemma hist_deleteOwned: "hist (delete_ok c k i owner) tr (deleteOwned S c k i owner) (deleted_or_missing k i)"
  unfolding deleteOwned_def
proof (rule hist_handle_seq [OF hist_cloud_Get])
  show "delete_ok c k i owner tr ev" if "sdk_read ev" for ev using that by (simp add: delete_ok_def)
  show "hist (delete_ok c k i owner) (tr @ n) (ret (if OsError_Is e NotFoundSentinel then Inr () else Inl e))
      (deleted_or_missing k i)" if "got c k i owner (Inl e) (tr @ n)" for e n
    using that by (auto simp: got_def deleted_or_missing_def intro!: hist_ret)
  show "hist (delete_ok c k i owner) (tr @ n) (if resourceBusy k r then ret (Inl (mkOsError ''ResourceStillAttachedOrBusy'' True True))
            else do { d \<leftarrow> sdkDelete S c k i;
                      ret (case d of Inl e \<Rightarrow> if ResponseCodeIs e 404 then Inr () else Inl (SafeError e) | Inr _ \<Rightarrow> Inr ()) })
      (deleted_or_missing k i)" if g: "got c k i owner (Inr r) (tr @ n)" for r n
  proof (rule hist_if)
    show "hist (delete_ok c k i owner) (tr @ n) (ret (Inl (mkOsError ''ResourceStillAttachedOrBusy'' True True))) (deleted_or_missing k i)"
      by (simp add: deleted_or_missing_def hist_ret)
    assume "\<not> resourceBusy k r"
    then have idle: "idle k r" by (auto simp: resourceBusy_def idle_def)
    have own: "seen_owned c k i owner (tr @ n) r" using g by (simp add: got_def)
    then have kind: "k \<noteq> OtherKind s" for s using seen_owned_kind by metis
    show "hist (delete_ok c k i owner) (tr @ n) (do { d \<leftarrow> sdkDelete S c k i;
                      ret (case d of Inl e \<Rightarrow> if ResponseCodeIs e 404 then Inr () else Inl (SafeError e) | Inr _ \<Rightarrow> Inr ()) })
      (deleted_or_missing k i)"
      by (rule hist_bind_seq [OF hist_sdkDelete [OF _ kind]])
        (use own idle in \<open>auto simp: delete_ok_def deleted_or_missing_def intro!: hist_ret split: sum.splits\<close>)
  qed
qed

text \<open>C4: Deleting a resource with the OpenStack client, whatever the services answer: besides reads, the only call is the
  deletion of the resource asked for, and only after a read in the same call showed it in the client's own project, marked
  with exactly the non-empty owner given, not attached, and, if it is a volume, in state \<open>available\<close> or \<open>error\<close>. When the
  deletion reports success, the service answered that the resource does not exist, or accepted its deletion.\<close>

theorem client_delete_guarded:
  "hist (delete_ok c k i owner) [] (cloud_Delete S c k i owner) (deleted_or_missing k i)"
  unfolding cloud_Delete_def
  by (rule hist_labelledResource, rule hist_mono [OF hist_deleteOwned])
    (auto simp: deleted_or_missing_def split: sum.splits)

section \<open>Finding\<close>

text \<open>A listing for a name, reduced to the exact matches of the client's project. Ports are listed for the project.\<close>

fun listing :: "string \<Rightarrow> Kind \<Rightarrow> string \<Rightarrow> Resource list \<Rightarrow> sdk_event \<Rightarrow> bool" where
  "listing project k name rs (PortList n p (Inr ps)) \<longleftrightarrow> k = Port \<and> n = name \<and> p = project
     \<and> rs = map portResource (filter (\<lambda>p. pt_Name p = name) ps)"
| "listing project k name rs (VolumeList n (Inr vs)) \<longleftrightarrow> (k = OSVolume \<or> k = DiscoveryVolume) \<and> n = name
     \<and> rs = map volumeResource (filter (\<lambda>v. vo_Name v = name \<and> vo_TenantID v = project) vs)"
| "listing project k name rs (ServerList n (Inr ss)) \<longleftrightarrow> k = Server \<and> n = name
     \<and> rs = map serverResource (filter (\<lambda>s. sv_Name s = name \<and> sv_TenantID s = project) ss)"
| "listing project k name rs e \<longleftrightarrow> False"

definition found_in :: "'s cloud \<Rightarrow> Kind \<Rightarrow> string \<Rightarrow> string \<Rightarrow> Resource os_result \<Rightarrow> sdk_event list \<Rightarrow> bool" where
  "found_in c k name owner r tr \<longleftrightarrow> (case r of Inl _ \<Rightarrow> True
     | Inr res \<Rightarrow> owner \<noteq> [] \<and> rs_Owner res = owner \<and> rs_Name res = name
         \<and> (\<exists>ev \<in> set tr. listing (cl_project c) k name [res] ev))"

lemma hist_findResources:
  assumes "\<And>ev. sdk_read ev \<Longrightarrow> P tr ev"
  shows "hist P tr (findResources S c k name) (\<lambda>r tr'. case r of Inl _ \<Rightarrow> True
     | Inr rs \<Rightarrow> \<exists>ev \<in> set tr'. listing (cl_project c) k name rs ev)"
  using assms unfolding findResources_def Let_def
  by (cases k) (auto intro!: hist_sdk_call hist_ret)

lemma listing_name: "listing project k name rs ev \<Longrightarrow> r \<in> set rs \<Longrightarrow> rs_Name r = name"
  by (cases "(project, k, name, rs, ev)" rule: listing.cases)
    (auto simp: portResource_def volumeResource_def serverResource_def)

lemma uniqueOwned_Inr: "uniqueOwned rs owner = Inr r \<longleftrightarrow> rs = [r] \<and> owner \<noteq> [] \<and> rs_Owner r = owner"
  by (auto simp: uniqueOwned_def split: list.split)

lemma hist_cloud_Find:
  assumes "\<And>ev. sdk_read ev \<Longrightarrow> P tr ev"
  shows "hist P tr (cloud_Find S c k name owner) (found_in c k name owner)"
proof -
  have fin: "hist P (tr @ n) (ret (uniqueOwned rs owner)) (\<lambda>r. found_in c k name owner
       (map_sum (\<lambda>e. safeResourceError (ourError e) k ''find'') id r))"
    if listed: "\<exists>ev \<in> set (tr @ n). listing (cl_project c) k name rs ev" for rs n
  proof (cases "uniqueOwned rs owner")
    case (Inr r)
    then have rs: "rs = [r]" and own: "owner \<noteq> []" "rs_Owner r = owner" by (simp_all add: uniqueOwned_Inr)
    obtain ev where ev: "ev \<in> set (tr @ n)" "listing (cl_project c) k name [r] ev" using listed rs by blast
    have "found_in c k name owner (Inr r) (tr @ n)"
      unfolding found_in_def using own ev listing_name [OF ev(2)] by (simp del: set_append) blast
    then show ?thesis unfolding Inr by (simp add: hist_ret)
  qed (simp add: found_in_def hist_ret)
  show ?thesis
    unfolding cloud_Find_def
    by (rule hist_labelledResource, rule hist_attempt_seq [OF hist_findResources])
      (use fin in \<open>auto simp: assms found_in_def\<close>)
qed

text \<open>C24: What the OpenStack client returns from a look-up is the caller's: \<open>Get\<close> returns the resource with the given identifier
  only when the service's answer is an object of the client's own project marked with exactly the given, non-empty owner,
  and reports a resource as not found only when the service said so; \<open>Find\<close> returns a resource only when
  it is the only one in the project with exactly the given name and it is marked with the given owner. Both only read.\<close>

theorem client_lookup_owned:
  "hist (\<lambda>tr e. sdk_read e) [] (cloud_Get S c k i owner) (got c k i owner) \<and>
   hist (\<lambda>tr e. sdk_read e) [] (cloud_Find S c k name owner) (found_in c k name owner)"
  by (simp add: hist_cloud_Get hist_cloud_Find)

section \<open>Changing\<close>

fun change_of :: "Kind \<Rightarrow> string \<Rightarrow> sdk_event \<Rightarrow> bool" where
  "change_of k i (VolumeSetBootable j r) \<longleftrightarrow> k = OSVolume \<and> j = i"
| "change_of k i (ImageUpload j content r) \<longleftrightarrow> k = Image \<and> j = i"
| "change_of k i e \<longleftrightarrow> False"

definition change_ok :: "'s cloud \<Rightarrow> Kind \<Rightarrow> string \<Rightarrow> string \<Rightarrow> sdk_event list \<Rightarrow> sdk_event \<Rightarrow> bool" where
  "change_ok c k i owner tr e \<longleftrightarrow> sdk_read e \<or> change_of k i e \<and> (\<exists>r. seen_owned c k i owner tr r)"

lemma hist_changes:
  "hist (change_ok c OSVolume i owner) tr (cloud_SetBootable S c i owner) (\<lambda>r tr'. True)"
  "hist (change_ok c Image i owner) tr (cloud_UploadImage S c i owner content) (\<lambda>r tr'. True)"
  unfolding cloud_SetBootable_def cloud_UploadImage_def
  by (rule hist_labelledAt, rule hist_attempt_seq [OF hist_cloud_Get],
      auto simp: change_ok_def got_def intro!: hist_safe_call hist_ask)+

section \<open>Creating and reading back\<close>


abbreviation sampleVolume :: SdkVolume where
  "sampleVolume \<equiv> \<lparr>vo_ID = ''v'', vo_Name = ''n'', vo_Metadata = vco_Metadata (volumeOpts OSVolume ''n'' ''uid-1'' sampleOA),
     vo_Status = ''available'', vo_Attachments = 0, vo_Bootable = ''false'', vo_TenantID = ''project''\<rparr>"

abbreviation sampleCloud :: "unit cloud" where
  "sampleCloud \<equiv> \<lparr>cl_compute = (), cl_network = (), cl_storage = (), cl_image = (), cl_scope = ''scope'', cl_project = ''project'', cl_expires = 0\<rparr>"


end
