(* ===== verification/ClientCache.thy ===== *)
theory ClientCache
  imports ClientSessions
begin

text \<open>
  The cache of authenticated clients (\<open>NewCachedFactory\<close>): it never holds more than 128 clients, and a client it
  returns was made from the same version of the same Secret and for the same region. Other reconcilers share
  the cache and may use it while one of them authenticates; what is assumed of them is what is proved here of each.
\<close>

section \<open>The key\<close>

definition slashless :: "string \<Rightarrow> bool" where
  "slashless s \<longleftrightarrow> CHR ''/'' \<notin> set s"

definition plain_meta :: "Secret \<Rightarrow> bool" where
  "plain_meta secret \<longleftrightarrow> slashless (om_Namespace (se_Meta secret)) \<and> slashless (om_Name (se_Meta secret))
     \<and> slashless (om_UID (se_Meta secret)) \<and> slashless (om_ResourceVersion (se_Meta secret))"

definition same_version :: "Secret \<Rightarrow> Secret \<Rightarrow> bool" where
  "same_version s t \<longleftrightarrow> om_Namespace (se_Meta s) = om_Namespace (se_Meta t) \<and> om_Name (se_Meta s) = om_Name (se_Meta t)
     \<and> om_UID (se_Meta s) = om_UID (se_Meta t) \<and> om_ResourceVersion (se_Meta s) = om_ResourceVersion (se_Meta t)"

lemma split_slash:
  "s @ CHR ''/'' # x = t @ CHR ''/'' # y \<Longrightarrow> slashless s \<Longrightarrow> slashless t \<Longrightarrow> s = t \<and> x = y"
proof (induction s arbitrary: t)
  case Nil
  then show ?case by (cases t) (auto simp: slashless_def)
next
  case (Cons c s)
  then show ?case by (cases t) (auto simp: slashless_def)
qed

lemma split_last_slash:
  assumes "s @ CHR ''/'' # x = t @ CHR ''/'' # y" "slashless x" "slashless y"
  shows "s = t"
proof -
  have "rev (s @ CHR ''/'' # x) = rev (t @ CHR ''/'' # y)" using assms(1) by (rule arg_cong)
  then have "rev x @ CHR ''/'' # rev s = rev y @ CHR ''/'' # rev t" by simp
  then show ?thesis using split_slash [of "rev x" "rev s" "rev y" "rev t"] assms(2,3) by (simp add: slashless_def)
qed

lemma digit_not_slash: "m < 10 \<Longrightarrow> char_of (48 + m :: nat) \<noteq> CHR ''/''"
proof
  assume "m < 10" "char_of (48 + m) = CHR ''/''"
  then have "of_char (char_of (48 + m) :: char) = (of_char CHR ''/'' :: nat)" by simp
  then show False using \<open>m < 10\<close> by (simp only: of_char_of) simp
qed

lemma nat_str_slashless: "CHR ''/'' \<notin> set (nat_str n)"
proof (induction n rule: nat_str.induct)
  case (1 n)
  show ?case
    by (subst nat_str.simps) (use 1 digit_not_slash [of n] digit_not_slash [of "n mod 10"] in \<open>auto simp del: of_nat_add\<close>)
qed

lemma int_str_slashless: "slashless (int_str i)"
  by (simp add: int_str_def slashless_def nat_str_slashless)

lemma clientKey_inject:
  assumes "clientKey cfg s = clientKey cfg' t" "plain_meta s" "plain_meta t"
  shows "same_version s t \<and> op_Region cfg = op_Region cfg'"
proof -
  let ?m = "\<lambda>s. se_Meta s" and ?i = "\<lambda>cfg. int_str (sint (op_APITimeoutSeconds cfg))"
  let ?tail = "\<lambda>cfg. op_Region cfg @ CHR ''/'' # ?i cfg"
  have key: "om_Namespace (?m s) @ CHR ''/'' # om_Name (?m s) @ CHR ''/'' # om_UID (?m s) @ CHR ''/'' # om_ResourceVersion (?m s) @ CHR ''/'' # ?tail cfg
    = om_Namespace (?m t) @ CHR ''/'' # om_Name (?m t) @ CHR ''/'' # om_UID (?m t) @ CHR ''/'' # om_ResourceVersion (?m t) @ CHR ''/'' # ?tail cfg'"
    using assms(1) by (simp add: clientKey_def)
  note plain = assms(2,3) [unfolded plain_meta_def]
  have 1: "om_Namespace (?m s) = om_Namespace (?m t)"
    "om_Name (?m s) @ CHR ''/'' # om_UID (?m s) @ CHR ''/'' # om_ResourceVersion (?m s) @ CHR ''/'' # ?tail cfg
     = om_Name (?m t) @ CHR ''/'' # om_UID (?m t) @ CHR ''/'' # om_ResourceVersion (?m t) @ CHR ''/'' # ?tail cfg'"
    using split_slash [OF key] plain by blast+
  have 2: "om_Name (?m s) = om_Name (?m t)"
    "om_UID (?m s) @ CHR ''/'' # om_ResourceVersion (?m s) @ CHR ''/'' # ?tail cfg
     = om_UID (?m t) @ CHR ''/'' # om_ResourceVersion (?m t) @ CHR ''/'' # ?tail cfg'"
    using split_slash [OF 1(2)] plain by blast+
  have 3: "om_UID (?m s) = om_UID (?m t)"
    "om_ResourceVersion (?m s) @ CHR ''/'' # ?tail cfg = om_ResourceVersion (?m t) @ CHR ''/'' # ?tail cfg'"
    using split_slash [OF 2(2)] plain by blast+
  have 4: "om_ResourceVersion (?m s) = om_ResourceVersion (?m t)" "?tail cfg = ?tail cfg'"
    using split_slash [OF 3(2)] plain by blast+
  show ?thesis
    using 1(1) 2(1) 3(1) 4(1) split_last_slash [OF 4(2)] int_str_slashless by (simp add: same_version_def)
qed

section \<open>The cache\<close>

definition entry_ok :: "string \<times> 's cloud \<Rightarrow> bool" where
  "entry_ok kc \<longleftrightarrow> (\<exists>cfg secret. plain_meta secret \<and> fst kc = clientKey cfg secret \<and> client_of cfg secret (snd kc))"

definition cache_ok :: "'s client_cache \<Rightarrow> bool" where
  "cache_ok cache \<longleftrightarrow> length cache \<le> 128 \<and> distinct (map fst cache) \<and> (\<forall>kc \<in> set cache. entry_ok kc)"

lemma length_delete:
  "distinct (map fst xs) \<Longrightarrow> k \<in> fst ` set xs \<Longrightarrow> Suc (length (AList.delete k xs)) = length xs"
proof (induction xs)
  case (Cons x xs)
  then show ?case by (cases x) auto
qed simp

lemma set_update_subset: "set (AList.update k v xs) \<subseteq> insert (k, v) (set xs)"
  by (induction xs) auto

lemma length_update: "length (AList.update k v xs) \<le> Suc (length xs)"
  by (induction xs) auto

text \<open>
  Eviction removes entries only. Each entry visited while the cache is full is removed, so that visiting all of
  them leaves the cache with room for one more.
\<close>

lemma wp_evict:
  assumes "distinct (map fst es)" "fst ` set es \<subseteq> fst ` set cache" "distinct (map fst cache)"
  shows "wp (evict S es cache) (\<lambda>cache' s'. set cache' \<subseteq> set cache \<and> distinct (map fst cache')
     \<and> (length cache' < 128 \<or> length cache' + length es = length cache)) s"
  using assms
proof (induction es arbitrary: cache s)
  case Nil
  then show ?case by (simp add: wp_ret)
next
  case (Cons e es)
  obtain k x where e: "e = (k, x)" by (cases e)
  let ?c = "AList.delete k cache"
  have sub: "set ?c \<subseteq> set cache" by (auto simp: AList.delete_eq)
  have "fst ` set ?c = fst ` set cache - {k}" by (metis delete_keys set_map set_removeAll)
  then have keys: "fst ` set es \<subseteq> fst ` set ?c" "fst ` set es \<subseteq> fst ` set cache"
    using Cons.prems(1,2) e by (simp_all add: subset_Diff_insert)
  have dist: "distinct (map fst ?c)" using Cons.prems(3) by (rule distinct_delete)
  have len: "Suc (length ?c) = length cache" by (rule length_delete) (use Cons.prems e in auto)
  have drop: "wp (evict S es ?c) (\<lambda>cache' s'. set cache' \<subseteq> set cache \<and> distinct (map fst cache')
     \<and> (length cache' < 128 \<or> length cache' + length (e # es) = length cache)) s" for s
    by (rule wp_mono [OF Cons.IH]) (use Cons.prems keys dist sub len e in auto)
  have keep: "wp (evict S es cache) (\<lambda>cache' s'. set cache' \<subseteq> set cache \<and> distinct (map fst cache')
     \<and> (length cache' < 128 \<or> length cache' + length (e # es) = length cache)) s" if "length cache < 128" for s
    by (rule wp_mono [OF Cons.IH]) (use Cons.prems keys that e in auto)
  show ?case
    unfolding e evict.simps
    using drop keep unfolding e by (auto simp: wp_simps split: prod.split)
qed

section \<open>Other reconcilers\<close>

text \<open>
  What the memory of the process does, and that the calls that take time leave a cache in which the invariant
  holds if it held before, because whatever ran meanwhile used this factory. Iteration visits each entry once.
\<close>

definition memory_laws :: "('p, 's, 'w) sdk \<Rightarrow> ('s, 'w) memory \<Rightarrow> bool" where
  "memory_laws S M \<longleftrightarrow> (\<forall>cache w. mm_get M (mm_put M cache w) = cache) \<and> (\<forall>xs. mset (sd_order S xs) = mset xs)
     \<and> (\<forall>w. cache_ok (mm_get M w) \<longrightarrow> cache_ok (mm_get M (snd (sd_now S w))))
     \<and> (\<forall>tc url i key w. cache_ok (mm_get M w) \<longrightarrow> cache_ok (mm_get M (snd (sd_Authenticate S tc url i key w))))"

definition keeps :: "('w \<Rightarrow> bool) \<Rightarrow> (('w, 'e) sys, 'a) state \<Rightarrow> bool" where
  "keeps I m \<longleftrightarrow> (\<forall>s. I (world s) \<longrightarrow> wp m (\<lambda>r s'. I (world s')) s)"

lemma keeps_ret: "keeps I (ret x)"
  by (simp add: keeps_def wp_ret)

lemma keeps_ask: "(\<And>w. I w \<Longrightarrow> I (snd (f w))) \<Longrightarrow> keeps I (ask f ev)"
  by (auto simp: keeps_def wp_ask split: prod.split) (metis snd_conv)

lemma keeps_bind: "keeps I m \<Longrightarrow> (\<And>x. keeps I (f x)) \<Longrightarrow> keeps I (State_Monad.bind m f)"
  by (auto simp: keeps_def wp_bind intro: wp_mono)

lemma keeps_attempt: "keeps I m \<Longrightarrow> (\<And>x. keeps I (f x)) \<Longrightarrow> keeps I (attempt m f)"
  unfolding attempt_def by (auto intro!: keeps_bind keeps_ret split: sum.split)

lemma keeps_calls: "keeps I m \<Longrightarrow> keeps I (safe_call m)" "keeps I n \<Longrightarrow> keeps I (labelledAt service operation n)"
  unfolding safe_call_def labelledAt_def by (auto intro!: keeps_bind keeps_ret)

lemma keeps_New:
  assumes "memory_laws S M"
  shows "keeps (\<lambda>w. cache_ok (mm_get M w)) (New S cfg secret)"
  unfolding New_def Let_def
  using assms by (auto simp: memory_laws_def split: prod.split intro!: keeps_attempt keeps_calls keeps_bind keeps_ret keeps_ask)

lemma hist_wp: "hist P [] m R \<Longrightarrow> wp m (\<lambda>r s'. \<exists>n. R r n) s"
  unfolding hist_def using yieldsD [of m _ s] by (fastforce elim: wp_mono)

lemma wp_New:
  assumes "memory_laws S M" "cache_ok (mm_get M (world s))"
  shows "wp (New S cfg secret) (\<lambda>r s'. cache_ok (mm_get M (world s')) \<and> (\<forall>c. r = Inr c \<longrightarrow> client_of cfg secret c)) s"
  unfolding wp_conj
proof
  show "wp (New S cfg secret) (\<lambda>r s'. cache_ok (mm_get M (world s'))) s"
    using keeps_New [OF assms(1), of cfg secret] assms(2) by (simp add: keeps_def)
  show "wp (New S cfg secret) (\<lambda>r s'. \<forall>c. r = Inr c \<longrightarrow> client_of cfg secret c) s"
    by (rule wp_mono [OF hist_wp [OF hist_New]]) (auto simp: connected_def)
qed

lemma wp_peek [wp_simps]: "wp (peek M) Q s = Q (mm_get M (world s)) s"
  by (simp add: wp_def peek_def)

lemma wp_poke [wp_simps]: "wp (poke M cache) Q s = Q () (s\<lparr>world := mm_put M cache (world s)\<rparr>)"
  by (simp add: wp_def poke_def)

text \<open>Inserting after eviction.\<close>

lemma cache_ok_insert:
  assumes "set cache' \<subseteq> set cache" "distinct (map fst cache')" "length cache' < 128" "cache_ok cache" "entry_ok (k, c)"
  shows "cache_ok (AList.update k c cache')"
  unfolding cache_ok_def
proof (intro conjI ballI)
  show "length (AList.update k c cache') \<le> 128" using length_update [of k c cache'] assms(3) by linarith
  show "distinct (map fst (AList.update k c cache'))" using assms(2) by (rule distinct_update)
  show "entry_ok kc" if "kc \<in> set (AList.update k c cache')" for kc
    using that set_update_subset [of k c cache'] assms(1,4,5) unfolding cache_ok_def by blast
qed

lemma wp_insert:
  assumes laws: "memory_laws S M" and ok: "cache_ok (mm_get M (world s))" and new: "entry_ok (k, c)"
  shows "wp (do { cache \<leftarrow> peek M;
            cache \<leftarrow> evict S (sd_order S (map (\<lambda>(k, c). (k, cl_expires c)) cache)) cache;
            poke M (AList.update k c cache);
            ret (Inr c) }) (\<lambda>r s'. r = Inr c \<and> cache_ok (mm_get M (world s'))) s"
proof -
  define cache es where "cache = mm_get M (world s)" and "es = sd_order S (map (\<lambda>(k, c). (k, cl_expires c)) cache)"
  have perm: "mset es = mset (map (\<lambda>(k, c). (k, cl_expires c)) cache)" unfolding es_def using laws by (simp add: memory_laws_def)
  have fsts: "map fst (map (\<lambda>(k, c). (k, cl_expires c)) cache) = map fst cache" by (simp add: case_prod_beta)
  have "mset (map fst es) = mset (map fst cache)" using arg_cong [OF perm, of "image_mset fst"] fsts by (metis mset_map)
  then have keys: "distinct (map fst es)" "fst ` set es \<subseteq> fst ` set cache" and len: "length es = length cache"
    using ok unfolding cache_def [symmetric] cache_ok_def
    by (metis mset_eq_imp_distinct_iff, metis mset_eq_setD set_map subset_refl, metis length_map mset_eq_length)
  have "distinct (map fst cache)" using ok by (simp add: cache_def cache_ok_def)
  have "wp (evict S es cache) (\<lambda>cache' s'. cache_ok (AList.update k c cache')) s"
  proof (rule wp_mono [OF wp_evict [OF keys \<open>distinct (map fst cache)\<close>]], elim conjE)
    fix cache' assume "set cache' \<subseteq> set cache" "distinct (map fst cache')"
      "length cache' < 128 \<or> length cache' + length es = length cache"
    then show "cache_ok (AList.update k c cache')"
      using ok new len by (intro cache_ok_insert [of _ cache]) (auto simp: cache_def)
  qed
  moreover have "wp (do { poke M (AList.update k c cache'); ret (Inr c) }) (\<lambda>r s'. r = Inr c \<and> cache_ok (mm_get M (world s'))) s'"
    if "cache_ok (AList.update k c cache')" for cache' s'
    using laws that by (simp add: wp_simps memory_laws_def)
  ultimately show ?thesis
    unfolding wp_bind wp_peek cache_def [symmetric] es_def [symmetric] by (rule wp_mono) (simp add: wp_bind)
qed

text \<open>A client is usable for a Secret and a placement if it was made from this version of the Secret, for this region.\<close>

definition client_for :: "OpenStackPlacementSpec \<Rightarrow> Secret \<Rightarrow> 's cloud \<Rightarrow> bool" where
  "client_for cfg secret c \<longleftrightarrow> (\<exists>cfg' secret'. same_version secret secret' \<and> op_Region cfg = op_Region cfg' \<and> client_of cfg' secret' c)"

lemma client_for_entry: "entry_ok (clientKey cfg secret, c) \<Longrightarrow> plain_meta secret \<Longrightarrow> client_for cfg secret c"
  unfolding entry_ok_def client_for_def using clientKey_inject [of cfg secret] by fastforce

lemma wp_cachedClient:
  assumes "memory_laws S M" "cache_ok (mm_get M (world s))" "cache_ok cache" "plain_meta secret"
  shows "wp (cachedClient S cache (clientKey cfg secret)) (\<lambda>r s'. cache_ok (mm_get M (world s')) \<and>
     (\<forall>c. r = Some c \<longrightarrow> client_for cfg secret c)) s"
proof (cases "map_of cache (clientKey cfg secret)")
  case None
  then show ?thesis using assms(2) by (simp add: cachedClient_def wp_simps)
next
  case (Some c)
  have "client_for cfg secret c"
    using map_of_SomeD [OF Some] assms(3,4) by (auto simp: cache_ok_def intro!: client_for_entry)
  moreover have "cache_ok (mm_get M w)" if "sd_now S (world s) = (t, w)" for t w
    using assms(1,2) that unfolding memory_laws_def by (metis snd_conv)
  ultimately show ?thesis
    using Some by (auto simp: cachedClient_def wp_simps split: prod.split)
qed

text \<open>A client that is returned was authenticated in this call, or the clock was before its expiry.\<close>

definition not_stale :: "'s cloud os_result \<Rightarrow> sdk_event list \<Rightarrow> bool" where
  "not_stale r tr \<longleftrightarrow> (\<forall>c. r = Inr c \<longrightarrow> authenticated tr \<or> (\<exists>now. SdkClock now \<in> set tr \<and> now < cl_expires c))"

lemma hist_memory:
  "(\<And>c. R c tr) \<Longrightarrow> hist P tr (peek M) R" "R' () tr \<Longrightarrow> hist P tr (poke M cache) R'"
  by (simp_all add: hist_def yields_def wp_simps)

lemma hist_evict: "hist (\<lambda>tr e. True) tr (evict S es cache) (\<lambda>r tr'. \<exists>n. tr' = tr @ n)"
proof (induction es arbitrary: tr cache)
  case (Cons e es)
  obtain k x where e: "e = (k, x)" by (cases e)
  show ?case unfolding e evict.simps
    by (rule hist_bind_seq [where Q = "\<lambda>_ _. True"], rule hist_ask, simp) (rule hist_mono [OF Cons.IH], auto)
qed (simp add: hist_ret)

lemma authenticated_append: "authenticated tr \<Longrightarrow> authenticated (tr @ n)"
  by (auto simp: authenticated_def)

lemma hist_factory: "hist (\<lambda>tr e. True) [] (NewCachedFactory S M cfg secret) not_stale"
proof -
  have store: "hist (\<lambda>tr e. True) tr (do {
            cache \<leftarrow> peek M;
            cache \<leftarrow> evict S (sd_order S (map (\<lambda>(k, c). (k, cl_expires c)) cache)) cache;
            poke M (AList.update key c cache);
            ret (Inr c) }) not_stale" if "authenticated tr" for tr c key
    by (rule hist_bind, rule hist_memory, rule hist_bind_seq [OF hist_evict], rule hist_bind, rule hist_memory, rule hist_ret)
      (use authenticated_append [OF that] in \<open>auto simp: not_stale_def\<close>)
  have new: "hist (\<lambda>tr e. True) tr (attempt (New S cfg secret) (\<lambda>c. do {
            cache \<leftarrow> peek M;
            cache \<leftarrow> evict S (sd_order S (map (\<lambda>(k, c). (k, cl_expires c)) cache)) cache;
            poke M (AList.update key c cache);
            ret (Inr c) })) not_stale" for tr key
    by (rule hist_attempt_seq [OF hist_weaken [OF hist_New TrueI]])
      (auto simp: connected_def not_stale_def intro!: store)
  have hit: "hist (\<lambda>tr e. True) tr (cachedClient S cache key) (\<lambda>r tr'. \<forall>c. r = Some c \<longrightarrow>
      (\<exists>now. SdkClock now \<in> set tr' \<and> now < cl_expires c))" for tr cache key
    unfolding cachedClient_def by (auto split: option.split if_splits intro!: hist_ret hist_bind hist_ask)
  have use: "hist (\<lambda>tr e. True) tr (do { cached \<leftarrow> cachedClient S cache key;
        case cached of
          Some c \<Rightarrow> ret (Inr c)
        | None \<Rightarrow> attempt (New S cfg secret) (\<lambda>c. do {
            cache \<leftarrow> peek M;
            cache \<leftarrow> evict S (sd_order S (map (\<lambda>(k, c). (k, cl_expires c)) cache)) cache;
            poke M (AList.update key c cache);
            ret (Inr c) }) }) not_stale" for tr cache key
    by (rule hist_bind_seq [OF hit]) (auto simp: not_stale_def split: option.split intro!: new hist_ret)
  show ?thesis
    unfolding NewCachedFactory_def Let_def by (rule hist_bind, rule hist_memory, rule use)
qed

text \<open>C14: The factory of clients (\<open>NewCachedFactory\<close>), shared by all reconcilers. In every state in which the cache holds at most
  128 clients under distinct keys, each made for the Secret version and region its key names, a request leaves such a state again,
  whatever the other reconcilers do meanwhile with the same factory; and a client it returns was made from the same version (namespace,
  name, UID and resource version) of the Secret and the same region, with the project and the scope that Secret names, and comes
  from the cache only if it has not expired.\<close>

theorem client_cache_sound:
  assumes "memory_laws S M" "plain_meta secret" "cache_ok (mm_get M (world s))"
    and "run_state (NewCachedFactory S M cfg secret) s = (r, s')"
  shows "cache_ok (mm_get M (world s')) \<and> (\<forall>c. r = Inr c \<longrightarrow> client_for cfg secret c)
     \<and> hist (\<lambda>tr e. True) [] (NewCachedFactory S M cfg secret) not_stale"
proof -
  have new: "entry_ok (clientKey cfg secret, c) \<and> client_for cfg secret c" if "client_of cfg secret c" for c
    using that assms(2) by (auto simp: entry_ok_def client_for_def same_version_def)
  have fresh: "wp (attempt (New S cfg secret) (\<lambda>c. do {
            cache \<leftarrow> peek M;
            cache \<leftarrow> evict S (sd_order S (map (\<lambda>(k, c). (k, cl_expires c)) cache)) cache;
            poke M (AList.update (clientKey cfg secret) c cache);
            ret (Inr c) })) (\<lambda>r s'. cache_ok (mm_get M (world s')) \<and> (\<forall>c. r = Inr c \<longrightarrow> client_for cfg secret c)) s1"
    if "cache_ok (mm_get M (world s1))" for s1
    unfolding wp_attempt
    by (rule wp_mono [OF wp_New [OF assms(1) that]])
      (auto split: sum.split intro!: wp_mono [OF wp_insert [OF assms(1)]] dest: new)
  have "wp (NewCachedFactory S M cfg secret) (\<lambda>r s'. cache_ok (mm_get M (world s')) \<and> (\<forall>c. r = Inr c \<longrightarrow> client_for cfg secret c)) s"
    unfolding NewCachedFactory_def Let_def wp_bind wp_peek
    by (rule wp_mono [OF wp_cachedClient [OF assms(1,3,3,2)]])
      (auto simp: wp_ret split: option.split intro!: fresh)
  then show ?thesis using assms(4) hist_factory by (simp add: wp_def)
qed

text \<open>A concrete SDK and memory: a service that refuses everything, and a process that only has the cache.\<close>

definition refused :: sdk_error where
  "refused = \<lparr>sdk_safe = None, sdk_response = None, sdk_classes = [ConnRefused]\<rparr>"

definition refusingSdk :: "(unit, unit, unit client_cache) sdk" where
  "refusingSdk = \<lparr>
     sd_url_Parse = (\<lambda>u. Some \<lparr>au_Scheme = schemeHTTPS, au_Host = u, au_HasUser = False, au_RawQuery = [], au_Fragment = []\<rparr>),
     sd_NewClient = (\<lambda>u. Inr ()), sd_AppendCertsFromPEM = (\<lambda>c. True),
     sd_Authenticate = (\<lambda>tc u i k w. (Inr \<lparr>ar_provider = (), ar_Project = Some (Inr (Some ''project'')), ar_ExpiresAt = None\<rparr>, w)),
     sd_service = (\<lambda>p s r. Inr ()), sd_Allow = (\<lambda>w. (True, w)), sd_now = (\<lambda>w. (0, w)), sd_order = (\<lambda>xs. rev xs),
     sd_port_get = (\<lambda>s i w. (Inl refused, w)), sd_port_list = (\<lambda>s n p w. (Inl refused, w)), sd_port_body = (\<lambda>o'. Inl refused),
     sd_port_create = (\<lambda>s b w. (Inl refused, w)), sd_port_delete = (\<lambda>s i w. (Inl refused, w)),
     sd_volume_get = (\<lambda>s i w. (Inl refused, w)), sd_volume_list = (\<lambda>s n w. (Inl refused, w)),
     sd_volume_create = (\<lambda>s b w. (Inl refused, w)), sd_volume_setbootable = (\<lambda>s i w. (Inl refused, w)),
     sd_volume_delete = (\<lambda>s i w. (Inl refused, w)), sd_server_get = (\<lambda>s i w. (Inl refused, w)),
     sd_server_list = (\<lambda>s n w. (Inl refused, w)), sd_server_create = (\<lambda>s b w. (Inl refused, w)),
     sd_server_delete = (\<lambda>s i w. (Inl refused, w)), sd_image_get = (\<lambda>s i w. (Inl refused, w)),
     sd_image_create = (\<lambda>s b w. (Inl refused, w)), sd_image_upload = (\<lambda>s i c w. (Inl refused, w)),
     sd_image_delete = (\<lambda>s i w. (Inl refused, w)), sd_network_list = (\<lambda>s n w. (Inl refused, w)),
     sd_subnet_get = (\<lambda>s i w. (Inl refused, w)), sd_flavor_list = (\<lambda>s w. (Inl refused, w))\<rparr>"

definition plainMemory :: "('s, 's client_cache) memory" where
  "plainMemory = \<lparr>mm_get = (\<lambda>w. w), mm_put = (\<lambda>cache w. cache)\<rparr>"

lemma plainMemory_laws: "memory_laws refusingSdk plainMemory"
  by (simp add: memory_laws_def refusingSdk_def plainMemory_def)

lemma client_cache_sound_witness:
  "cache_ok (world (snd (run_state (NewCachedFactory refusingSdk plainMemory (os_OpenStack sampleOSSpec) (sampleSecret ''7''))
     \<lparr>world = [], trace = []\<rparr>)))"
  using client_cache_sound [OF plainMemory_laws, of "sampleSecret ''7''" "\<lparr>world = [], trace = []\<rparr>" "os_OpenStack sampleOSSpec",
      OF _ _ surjective_pairing]
  by (simp add: plain_meta_def slashless_def os_sample_defs cache_ok_def plainMemory_def)

end
