(* ===== verification/OpenStackSpec.thy ===== *)
theory OpenStackSpec
  imports OpenStackWorkers PoolSafety
begin

text \<open>
  What the controller of an \<open>OpenStackAgent\<close> may do. \<open>osa_ok L a0 tr e\<close> says that the call \<open>e\<close> is justified by the
  calls \<open>tr\<close> before it in the same reconciliation of the worker \<open>a0\<close>: resources are created only for a live demand and
  after the intention was made durable, deleted only for a demand that is gone and in the order of their
  dependencies, and the shared images only by the last worker that refers to them.

  \<open>saw tr Q\<close> says that some call in \<open>tr\<close> satisfies \<open>Q\<close>; such evidence is never lost as the history grows.
\<close>

section \<open>Evidence\<close>

definition saw :: "event list \<Rightarrow> (event \<Rightarrow> bool) \<Rightarrow> bool" where
  "saw tr Q \<longleftrightarrow> (\<exists>e \<in> set tr. Q e)"

lemma saw_simps [simp]:
  "saw [] Q \<longleftrightarrow> False" "saw (e # tr) Q \<longleftrightarrow> Q e \<or> saw tr Q" "saw (tr @ n) Q \<longleftrightarrow> saw tr Q \<or> saw n Q"
  by (auto simp: saw_def)

lemma saw_mono: "saw tr Q \<Longrightarrow> (\<And>e. Q e \<Longrightarrow> Q' e) \<Longrightarrow> saw tr Q'"
  by (auto simp: saw_def)

definition demandKey :: "OpenStackAgent \<Rightarrow> objkey" where
  "demandKey a = (ref_Namespace (oas_AgentMachineRef (oa_Spec a)), ref_Name (oas_AgentMachineRef (oa_Spec a)))"

definition demandUID :: "OpenStackAgent \<Rightarrow> string" where
  "demandUID a = ref_UID (oas_AgentMachineRef (oa_Spec a))"

text \<open>The AgentMachine was read from the server and is wanted; or it is not there, or another one of its name is.\<close>

fun demand_live_ev :: "OpenStackAgent \<Rightarrow> event \<Rightarrow> bool" where
  "demand_live_ev a (EvAgentMachine (Get Live k (Inr am))) \<longleftrightarrow>
     k = demandKey a \<and> om_UID (am_Meta am) = demandUID a \<and> om_DeletionTimestamp (am_Meta am) = None"
| "demand_live_ev a e \<longleftrightarrow> False"

fun demand_gone_ev :: "OpenStackAgent \<Rightarrow> event \<Rightarrow> bool" where
  "demand_gone_ev a (EvAgentMachine (Get Live k r)) \<longleftrightarrow> k = demandKey a \<and>
     (case r of Inl e \<Rightarrow> IsNotFound e | Inr am \<Rightarrow> om_UID (am_Meta am) \<noteq> demandUID a)"
| "demand_gone_ev a e \<longleftrightarrow> False"

fun machine_gone_ev :: "ObjectReference \<Rightarrow> event \<Rightarrow> bool" where
  "machine_gone_ev ref (EvMachine (Get Live k r)) \<longleftrightarrow> k = (ref_Namespace ref, ref_Name ref) \<and>
     (case r of Inl e \<Rightarrow> IsNotFound e | Inr m \<Rightarrow> ref_UID ref \<noteq> [] \<and> ref_UID ref \<noteq> om_UID (mo_Meta m))"
| "machine_gone_ev ref e \<longleftrightarrow> False"

fun connected_ev :: "string \<Rightarrow> event \<Rightarrow> bool" where
  "connected_ev scope (EvOs (OsConnect r)) \<longleftrightarrow> r = Inr scope"
| "connected_ev scope e \<longleftrightarrow> False"

text \<open>The cloud showed the resource of the owner, answered that there is none, or created it.\<close>

fun observed_ev :: "Kind \<Rightarrow> string \<Rightarrow> Resource \<Rightarrow> event \<Rightarrow> bool" where
  "observed_ev k owner r (EvOs (OsGet k' i o' (Inr r'))) \<longleftrightarrow> k' = k \<and> o' = owner \<and> r' = r"
| "observed_ev k owner r (EvOs (OsFind k' n o' (Inr r'))) \<longleftrightarrow> k' = k \<and> o' = owner \<and> r' = r"
| "observed_ev k owner r e \<longleftrightarrow> False"

fun missing_ev :: "Kind \<Rightarrow> string \<Rightarrow> event \<Rightarrow> bool" where
  "missing_ev k owner (EvOs (OsGet k' i o' (Inl e))) \<longleftrightarrow> k' = k \<and> o' = owner \<and> IsOs NotFoundSentinel e"
| "missing_ev k owner (EvOs (OsFind k' n o' (Inl e))) \<longleftrightarrow> k' = k \<and> o' = owner \<and> IsOs NotFoundSentinel e"
| "missing_ev k owner e \<longleftrightarrow> False"

fun created_ev :: "Kind \<Rightarrow> string \<Rightarrow> Resource \<Rightarrow> event \<Rightarrow> bool" where
  "created_ev k owner r (EvOs (OsCreate k' n o' a (Inr (Some r')))) \<longleftrightarrow> k' = k \<and> o' = owner \<and> r' = r"
| "created_ev k owner r e \<longleftrightarrow> False"

definition has_resource :: "event list \<Rightarrow> Kind \<Rightarrow> string \<Rightarrow> Resource \<Rightarrow> bool" where
  "has_resource tr k owner r \<longleftrightarrow> saw tr (observed_ev k owner r) \<or> saw tr (created_ev k owner r)"

text \<open>A status that the API server holds, because it was read from there or written.\<close>

fun status_ev :: "OpenStackAgentStatus \<Rightarrow> event \<Rightarrow> bool" where
  "status_ev st (EvOsAgent (StatusUpdate obj (Inr x))) \<longleftrightarrow> oa_Status obj = st"
| "status_ev st (EvOsAgent (Get Live k (Inr obj))) \<longleftrightarrow> oa_Status obj = st"
| "status_ev st e \<longleftrightarrow> False"

section \<open>The worker\<close>

definition oa_read :: "event list \<Rightarrow> OpenStackAgent \<Rightarrow> bool" where
  "oa_read tr a0 \<longleftrightarrow> (\<exists>k a. EvOsAgent (Get Live k (Inr a)) \<in> set tr \<and> a0 = withDefaults a)"

text \<open>The same worker, apart from its status and its resource version.\<close>

definition same_worker :: "OpenStackAgent \<Rightarrow> OpenStackAgent \<Rightarrow> bool" where
  "same_worker a b \<longleftrightarrow> oa_Spec b = oa_Spec a \<and>
     (oa_Meta b)\<lparr>om_ResourceVersion := []\<rparr> = (oa_Meta a)\<lparr>om_ResourceVersion := []\<rparr>"

definition in_scope :: "OpenStackAgent \<Rightarrow> event list \<Rightarrow> bool" where
  "in_scope a0 tr \<longleftrightarrow> oast_ScopeHash (oa_Status a0) \<noteq> [] \<and> saw tr (connected_ev (oast_ScopeHash (oa_Status a0)))"

definition working :: "OpenStackAgent \<Rightarrow> event list \<Rightarrow> bool" where
  "working a0 tr \<longleftrightarrow> \<not> oaDeleting a0 \<and> saw tr (demand_live_ev a0) \<and> in_scope a0 tr"

section \<open>Creating\<close>

definition server_ready :: "OpenStackAgent \<Rightarrow> event list \<Rightarrow> OpenStackAgent \<Rightarrow> bool" where
  "server_ready a0 tr a \<longleftrightarrow> oast_PortID (oa_Status a) \<noteq> [] \<and> oast_MACAddress (oa_Status a) \<noteq> []
     \<and> (\<exists>r. has_resource tr OSVolume (oaUID a0) r \<and> rs_State r = ''available'' \<and> rs_Bootable r)
     \<and> (\<exists>r. has_resource tr DiscoveryVolume (oaUID a0) r \<and> rs_State r = ''available'')"

fun find_missing_ev :: "Kind \<Rightarrow> string \<Rightarrow> string \<Rightarrow> event \<Rightarrow> bool" where
  "find_missing_ev k name owner (EvOs (OsFind k' n o' (Inl e))) \<longleftrightarrow>
     k' = k \<and> n = name \<and> o' = owner \<and> IsOs NotFoundSentinel e"
| "find_missing_ev k name owner e \<longleftrightarrow> False"

definition create_ok :: "OpenStackAgent \<Rightarrow> event list \<Rightarrow> Kind \<Rightarrow> string \<Rightarrow> string \<Rightarrow> OpenStackAgent \<Rightarrow> bool" where
  "create_ok a0 tr k name owner a \<longleftrightarrow> k \<in> {Port, OSVolume, DiscoveryVolume, Server}
     \<and> oast_PendingCreate (oa_Status a0) = [] \<and> oast_ServerID (oa_Status a0) = []
     \<and> name = resourceName a0 k \<and> owner = oaUID a0 \<and> statusID k a = []
     \<and> saw tr (find_missing_ev k name owner)
     \<and> oast_PendingCreate (oa_Status a) = kind_str k \<and> saw tr (status_ev (oa_Status a))
     \<and> (k = Server \<longrightarrow> server_ready a0 tr a)"

section \<open>Images\<close>

text \<open>The ConfigMap of an image as the worker acquired it: with the worker's reference, active, and not being deleted.\<close>

definition active_cache :: "ConfigMap \<Rightarrow> bool" where
  "active_cache cache \<longleftrightarrow> mget (om_Labels (cm_Meta cache)) imageCacheLabel = imageCacheOwnedValue
     \<and> mget (om_Annotations (cm_Meta cache)) imageCachePhase = ''Active'' \<and> om_DeletionTimestamp (cm_Meta cache) = None"

fun acquired_ev :: "OpenStackAgent \<Rightarrow> ConfigMap \<Rightarrow> event \<Rightarrow> bool" where
  "acquired_ev a cache (EvConfigMap (Get Live k (Inr c))) \<longleftrightarrow> c = cache \<and> active_cache c \<and> mget (cm_Data c) (oaUID a) \<noteq> []"
| "acquired_ev a cache (EvConfigMap (Create obj (Inr c))) \<longleftrightarrow> c = cache \<and> active_cache obj \<and> mget (cm_Data obj) (oaUID a) \<noteq> []"
| "acquired_ev a cache (EvConfigMap (Update obj (Inr c))) \<longleftrightarrow> c = cache \<and> active_cache obj \<and> mget (cm_Data obj) (oaUID a) \<noteq> []"
| "acquired_ev a cache e \<longleftrightarrow> False"

definition holds_image :: "golib \<Rightarrow> OpenStackAgent \<Rightarrow> event list \<Rightarrow> string \<Rightarrow> string \<Rightarrow> bool" where
  "holds_image L a0 tr i owner \<longleftrightarrow> (\<exists>cache. saw tr (acquired_ev a0 cache) \<and> owner = om_UID (cm_Meta cache)
     \<and> i = imageIDForCache L cache)"

definition pinned :: "event list \<Rightarrow> string \<Rightarrow> bool" where
  "pinned tr i \<longleftrightarrow> (\<exists>st. saw tr (status_ev st) \<and> oast_ImageID st = i)"

definition image_create_ok :: "golib \<Rightarrow> OpenStackAgent \<Rightarrow> event list \<Rightarrow> string \<Rightarrow> string \<Rightarrow> OpenStackAgent \<Rightarrow> bool" where
  "image_create_ok L a0 tr name owner a \<longleftrightarrow> name = oast_ImageCacheName (oa_Status a)
     \<and> holds_image L a0 tr (oast_ImageID (oa_Status a)) owner \<and> pinned tr (oast_ImageID (oa_Status a))
     \<and> saw tr (missing_ev Image owner)"

text \<open>What is uploaded is the content of a file that was downloaded in this run with the digest the worker records.\<close>

fun downloaded_ev :: "string \<Rightarrow> string \<Rightarrow> event \<Rightarrow> bool" where
  "downloaded_ev path sha (EvHost (CopyFile p body None)) \<longleftrightarrow> p = path \<and> sha256hex body = sha"
| "downloaded_ev path sha e \<longleftrightarrow> False"

definition upload_ok :: "golib \<Rightarrow> OpenStackAgent \<Rightarrow> event list \<Rightarrow> string \<Rightarrow> string \<Rightarrow> string \<Rightarrow> bool" where
  "upload_ok L a0 tr i owner content \<longleftrightarrow> holds_image L a0 tr i owner \<and> pinned tr i
     \<and> (\<exists>path st. saw tr ((=) (EvHost (ReadFile path (Inr content)))) \<and> saw tr (downloaded_ev path (oast_ISOSHA256 st))
          \<and> saw tr (status_ev st))"

section \<open>Cleaning up\<close>

fun withdrawn_ev :: "OpenStackAgent \<Rightarrow> AgentObj \<Rightarrow> event \<Rightarrow> bool" where
  "withdrawn_ev a host (EvAgent (Patch lock before after (Inr x))) \<longleftrightarrow> lock \<and> before = host \<and> after = withdrawnHost a host"
| "withdrawn_ev a host e \<longleftrightarrow> False"

fun deleted_ev :: "AgentObj \<Rightarrow> event \<Rightarrow> bool" where
  "deleted_ev host (EvAgent (Delete pre h r)) \<longleftrightarrow> h = host \<and> (case r of Inl e \<Rightarrow> IsNotFound e | Inr _ \<Rightarrow> True)"
| "deleted_ev host e \<longleftrightarrow> False"

definition all_hosts :: "OpenStackAgent \<Rightarrow> event list \<Rightarrow> (AgentObj \<Rightarrow> event \<Rightarrow> bool) \<Rightarrow> bool" where
  "all_hosts a0 tr Q \<longleftrightarrow> (\<exists>items. saw tr ((=) (EvAgent (ListAll Live (InNamespace (om_Namespace (oa_Meta a0))) (Inr items))))
     \<and> (\<forall>h \<in> set items. agentHardwareMatches a0 h \<longrightarrow> saw tr (Q h)))"

definition cleaning :: "OpenStackAgent \<Rightarrow> event list \<Rightarrow> bool" where
  "cleaning a0 tr \<longleftrightarrow> oaDeleting a0 \<and> os_CleanupPolicy (oas_Configuration (oa_Spec a0)) \<noteq> CleanupPolicyRetain
     \<and> saw tr (demand_gone_ev a0) \<and> in_scope a0 tr
     \<and> (case oas_MachineRef (oa_Spec a0) of None \<Rightarrow> True | Some ref \<Rightarrow> saw tr (machine_gone_ev ref))
     \<and> all_hosts a0 tr (withdrawn_ev a0)"

definition keeps_OSVolume :: "OpenStackAgent \<Rightarrow> bool" where
  "keeps_OSVolume a0 \<longleftrightarrow> ot_OSVolumePolicy (os_Template (oas_Configuration (oa_Spec a0))) = CleanupPolicyRetain"

text \<open>The resources that must have been observed absent before one of the kind is deleted.\<close>

fun gone_before :: "OpenStackAgent \<Rightarrow> event list \<Rightarrow> Kind \<Rightarrow> bool" where
  "gone_before a0 tr Server \<longleftrightarrow> True"
| "gone_before a0 tr DiscoveryVolume \<longleftrightarrow> saw tr (missing_ev Server (oaUID a0))"
| "gone_before a0 tr OSVolume \<longleftrightarrow> saw tr (missing_ev Server (oaUID a0)) \<and> saw tr (missing_ev DiscoveryVolume (oaUID a0))
     \<and> \<not> keeps_OSVolume a0"
| "gone_before a0 tr Port \<longleftrightarrow> saw tr (missing_ev Server (oaUID a0)) \<and> saw tr (missing_ev DiscoveryVolume (oaUID a0))
     \<and> (keeps_OSVolume a0 \<or> saw tr (missing_ev OSVolume (oaUID a0)))"
| "gone_before a0 tr k \<longleftrightarrow> False"

definition all_gone :: "OpenStackAgent \<Rightarrow> event list \<Rightarrow> bool" where
  "all_gone a0 tr \<longleftrightarrow> gone_before a0 tr Port \<and> saw tr (missing_ev Port (oaUID a0))"

definition delete_resource_ok :: "OpenStackAgent \<Rightarrow> event list \<Rightarrow> Kind \<Rightarrow> string \<Rightarrow> string \<Rightarrow> bool" where
  "delete_resource_ok a0 tr k i owner \<longleftrightarrow> cleaning a0 tr \<and> gone_before a0 tr k \<and> owner = oaUID a0
     \<and> (\<exists>r. saw tr (observed_ev k owner r) \<and> rs_ID r = i \<and> rs_Owner r = owner \<and> \<not> rs_Attached r)"

text \<open>The worker may give up its image: it is cleaned up, or it is refreshing an image that nothing was made from.\<close>

definition releasing :: "OpenStackAgent \<Rightarrow> event list \<Rightarrow> bool" where
  "releasing a0 tr \<longleftrightarrow> cleaning a0 tr \<and> all_gone a0 tr
     \<or> working a0 tr \<and> canRefreshDiscoveryImage a0 \<and> oast_Phase (oa_Status a0) = openStackPhaseRefreshingImage"

fun cache_read_ev :: "ConfigMap \<Rightarrow> event \<Rightarrow> bool" where
  "cache_read_ev cache (EvConfigMap (Get Live k (Inr c))) \<longleftrightarrow> c = cache"
| "cache_read_ev cache e \<longleftrightarrow> False"

definition tombstone :: "event list \<Rightarrow> ConfigMap \<Rightarrow> bool" where
  "tombstone tr cache \<longleftrightarrow> saw tr (cache_read_ev cache)
     \<and> mget (om_Labels (cm_Meta cache)) imageCacheLabel = imageCacheOwnedValue
     \<and> mget (om_Annotations (cm_Meta cache)) imageCachePhase = openStackPhaseDeleting"

definition image_delete_ok :: "golib \<Rightarrow> OpenStackAgent \<Rightarrow> event list \<Rightarrow> string \<Rightarrow> string \<Rightarrow> bool" where
  "image_delete_ok L a0 tr i owner \<longleftrightarrow> releasing a0 tr \<and>
     (\<exists>cache. tombstone tr cache \<and> i = imageIDForCache L cache \<and> owner = om_UID (cm_Meta cache))"

text \<open>
  The ConfigMap with one more reference, or one fewer; the references of other workers stay, and only with the
  last one the ConfigMap is marked for deletion.
\<close>

definition others_kept :: "OpenStackAgent \<Rightarrow> ConfigMap \<Rightarrow> ConfigMap \<Rightarrow> bool" where
  "others_kept a cache obj \<longleftrightarrow> (\<forall>k. k \<noteq> oaUID a \<longrightarrow> map_of (cm_Data obj) k = map_of (cm_Data cache) k)"

definition takes_reference :: "OpenStackAgent \<Rightarrow> ConfigMap \<Rightarrow> ConfigMap \<Rightarrow> bool" where
  "takes_reference a cache obj \<longleftrightarrow> others_kept a cache obj \<and> mget (cm_Data obj) (oaUID a) \<noteq> [] \<and> cm_Meta obj = cm_Meta cache"

definition drops_reference :: "OpenStackAgent \<Rightarrow> ConfigMap \<Rightarrow> ConfigMap \<Rightarrow> bool" where
  "drops_reference a cache obj \<longleftrightarrow> others_kept a cache obj \<and> map_of (cm_Data obj) (oaUID a) = None
     \<and> (if cm_Data obj = [] then mget (om_Annotations (cm_Meta obj)) imageCachePhase = openStackPhaseDeleting
        else cm_Meta obj = cm_Meta cache)"

definition cache_update_ok :: "OpenStackAgent \<Rightarrow> event list \<Rightarrow> ConfigMap \<Rightarrow> bool" where
  "cache_update_ok a0 tr obj \<longleftrightarrow> (\<exists>cache. saw tr (cache_read_ev cache) \<and>
     (working a0 tr \<and> active_cache cache \<and> takes_reference a0 cache obj
      \<or> releasing a0 tr \<and> mget (om_Labels (cm_Meta cache)) imageCacheLabel = imageCacheOwnedValue
        \<and> mget (om_Annotations (cm_Meta cache)) imageCachePhase \<noteq> openStackPhaseDeleting \<and> drops_reference a0 cache obj))"

definition cache_delete_ok :: "golib \<Rightarrow> OpenStackAgent \<Rightarrow> event list \<Rightarrow> preconditions \<Rightarrow> ConfigMap \<Rightarrow> bool" where
  "cache_delete_ok L a0 tr pre cache \<longleftrightarrow> releasing a0 tr \<and> tombstone tr cache
     \<and> pre = Some (om_UID (cm_Meta cache), Some (om_ResourceVersion (cm_Meta cache)))
     \<and> saw tr (missing_ev Image (om_UID (cm_Meta cache)))"

text \<open>
  The finalizer may go when the policy is to retain everything, or when the resources were observed absent, the
  image was released and every Agent of the worker was deleted.
\<close>

definition released_image :: "OpenStackAgent \<Rightarrow> event list \<Rightarrow> bool" where
  "released_image a0 tr \<longleftrightarrow> oast_ImageCacheName (oa_Status a0) = []
     \<or> saw tr (\<lambda>e. \<exists>m. e = EvConfigMap (Get Live (cacheKey a0) (Inl (ApiNotFound m)))) \<and> oast_ImageID (oa_Status a0) = []
     \<or> saw tr (missing_ev Image ''missing-cache-owner'')
     \<or> (\<exists>obj x. saw tr ((=) (EvConfigMap (Update obj (Inr x)))) \<and> map_of (cm_Data obj) (oaUID a0) = None \<and> cm_Data x \<noteq> [])
     \<or> (\<exists>cache. tombstone tr cache \<and> saw tr (missing_ev Image (om_UID (cm_Meta cache))))"

definition finalizer_ok :: "golib \<Rightarrow> OpenStackAgent \<Rightarrow> event list \<Rightarrow> OpenStackAgent \<Rightarrow> bool" where
  "finalizer_ok L a0 tr obj \<longleftrightarrow> oa_Spec obj = oa_Spec a0 \<and>
     (\<not> oaDeleting a0 \<and> gl_ContainsFinalizer L (oa_Meta obj) openStackFinalizer
      \<or> oaDeleting a0 \<and> os_CleanupPolicy (oas_Configuration (oa_Spec a0)) = CleanupPolicyRetain
      \<or> cleaning a0 tr \<and> all_gone a0 tr \<and> released_image a0 tr \<and> all_hosts a0 tr deleted_ev)"

section \<open>Hosts\<close>

text \<open>
  The host that is approved: the only one listed that is this worker's hardware, in the version approved, in
  nobody else's use, with the one disk that is the worker's OS volume.
\<close>

definition host_free :: "OpenStackAgent \<Rightarrow> AgentObj \<Rightarrow> bool" where
  "host_free a host \<longleftrightarrow> (let ref = oas_AgentMachineRef (oa_Spec a) in om_DeletionTimestamp (ao_Meta host) = None
     \<and> agentBelongsToInfraEnv host (lor_Name (os_InfraEnvRef (oas_Configuration (oa_Spec a))))
     \<and> (\<forall>r. oast_AgentRef (oa_Status a) = Some r \<longrightarrow> ref_UID r = om_UID (ao_Meta host))
     \<and> mget (om_Labels (ao_Meta host)) agentMachineSelectionLabel \<in> {[], ref_Name ref}
     \<and> mget (om_Labels (ao_Meta host)) agentMachineRefKey \<in> {[], ref_Name ref})"

definition volume_disk :: "OpenStackAgent \<Rightarrow> UDisk \<Rightarrow> bool" where
  "volume_disk a d \<longleftrightarrow> di_path d = ot_InstallationDisk (os_Template (oas_Configuration (oa_Spec a))) \<and> di_eligible d
     \<and> (di_serial d = oast_OSVolumeID (oa_Status a)
        \<or> length (di_serial d) \<ge> 20 \<and> (\<exists>rest. oast_OSVolumeID (oa_Status a) = di_serial d @ rest))"

definition verified_disk :: "OpenStackAgent \<Rightarrow> AgentObj \<Rightarrow> string \<Rightarrow> bool" where
  "verified_disk a host i \<longleftrightarrow> (\<exists>d. Some d \<in> set (ao_disks host) \<and> di_id d = i \<and> i \<noteq> [] \<and> volume_disk a d)"

definition approve_ok :: "OpenStackAgent \<Rightarrow> event list \<Rightarrow> AgentObj \<Rightarrow> AgentObj \<Rightarrow> bool" where
  "approve_ok a0 tr before after \<longleftrightarrow> working a0 tr \<and> (\<exists>host items.
     saw tr ((=) (EvAgent (ListAll Live (InNamespace (om_Namespace (oa_Meta a0))) (Inr items))))
     \<and> filter (agentHardwareMatches a0) items = [host] \<and> host_free a0 host \<and> verified_disk a0 host (ao_installationDiskID after)
     \<and> om_UID (ao_Meta before) = om_UID (ao_Meta host) \<and> om_ResourceVersion (ao_Meta before) = om_ResourceVersion (ao_Meta host)
     \<and> unbound_agent before \<and> mget (om_Annotations (ao_Meta before)) agentCleanupAnnotation = []
     \<and> ao_hostname after = ref_Name (oas_AgentMachineRef (oa_Spec a0)))"

definition withdraw_ok :: "OpenStackAgent \<Rightarrow> event list \<Rightarrow> AgentObj \<Rightarrow> AgentObj \<Rightarrow> bool" where
  "withdraw_ok a0 tr before after \<longleftrightarrow> oaDeleting a0 \<and> saw tr (demand_gone_ev a0)
     \<and> (case oas_MachineRef (oa_Spec a0) of None \<Rightarrow> True | Some ref \<Rightarrow> saw tr (machine_gone_ev ref))
     \<and> agentHardwareMatches a0 before \<and> unbound_agent before \<and> after = withdrawnHost a0 before
     \<and> withdrawn_for (om_Name (oa_Meta a0)) after"

definition host_delete_ok :: "OpenStackAgent \<Rightarrow> event list \<Rightarrow> preconditions \<Rightarrow> AgentObj \<Rightarrow> bool" where
  "host_delete_ok a0 tr pre host \<longleftrightarrow> cleaning a0 tr \<and> all_gone a0 tr \<and> agentHardwareMatches a0 host
     \<and> unbound_agent host \<and> pre = Some (om_UID (ao_Meta host), Some (om_ResourceVersion (ao_Meta host)))"

section \<open>The specification\<close>

fun host_ok :: "host_event \<Rightarrow> bool" where
  "host_ok (HttpGet u s r) = True"
| "host_ok (CreateFile p r) = True"
| "host_ok (CopyFile p b r) = True"
| "host_ok (ReadFile p r) = True"
| "host_ok (CreateTemp r) = True"
| "host_ok (RemoveFile p) = True"
| "host_ok e = False"

fun osa_ok :: "golib \<Rightarrow> OpenStackAgent \<Rightarrow> event list \<Rightarrow> event \<Rightarrow> bool" where
  "osa_ok L a0 tr (EvOs (OsCreate k name owner a r)) \<longleftrightarrow> working a0 tr \<and> same_worker a0 a \<and>
     (if k = Image then image_create_ok L a0 tr name owner a else create_ok a0 tr k name owner a)"
| "osa_ok L a0 tr (EvOs (OsSetBootable i owner r)) \<longleftrightarrow> working a0 tr \<and> owner = oaUID a0 \<and>
     oast_ServerID (oa_Status a0) = [] \<and>
     (\<exists>res. has_resource tr OSVolume owner res \<and> rs_ID res = i \<and> rs_State res = ''available'' \<and> \<not> rs_Bootable res)"
| "osa_ok L a0 tr (EvOs (OsUploadImage i owner content r)) \<longleftrightarrow> working a0 tr \<and> upload_ok L a0 tr i owner content"
| "osa_ok L a0 tr (EvOs (OsDelete k i owner r)) \<longleftrightarrow>
     (if k = Image then image_delete_ok L a0 tr i owner else delete_resource_ok a0 tr k i owner)"
| "osa_ok L a0 tr (EvOs ev) \<longleftrightarrow> True"
| "osa_ok L a0 tr (EvConfigMap (Create obj r)) \<longleftrightarrow> working a0 tr \<and> active_cache obj \<and> mget (cm_Data obj) (oaUID a0) \<noteq> []"
| "osa_ok L a0 tr (EvConfigMap (Update obj r)) \<longleftrightarrow> cache_update_ok a0 tr obj"
| "osa_ok L a0 tr (EvConfigMap (Delete pre obj r)) \<longleftrightarrow> cache_delete_ok L a0 tr pre obj"
| "osa_ok L a0 tr (EvConfigMap ev) \<longleftrightarrow> is_read ev"
| "osa_ok L a0 tr (EvAgent (Patch lock before after r)) \<longleftrightarrow> lock \<and> (approve_ok a0 tr before after \<or> withdraw_ok a0 tr before after)"
| "osa_ok L a0 tr (EvAgent (Delete pre host r)) \<longleftrightarrow> host_delete_ok a0 tr pre host"
| "osa_ok L a0 tr (EvAgent ev) \<longleftrightarrow> is_read ev"
| "osa_ok L a0 tr (EvOsAgent (StatusUpdate obj r)) \<longleftrightarrow> oa_Spec obj = oa_Spec a0"
| "osa_ok L a0 tr (EvOsAgent (Update obj r)) \<longleftrightarrow> finalizer_ok L a0 tr obj"
| "osa_ok L a0 tr (EvOsAgent (Delete pre obj r)) \<longleftrightarrow> \<not> oaDeleting a0 \<and> saw tr (demand_gone_ev a0) \<and> obj = a0"
| "osa_ok L a0 tr (EvOsAgent ev) \<longleftrightarrow> is_read ev"
| "osa_ok L a0 tr (EvAgentMachine ev) \<longleftrightarrow> is_read ev"
| "osa_ok L a0 tr (EvMachine ev) \<longleftrightarrow> is_read ev"
| "osa_ok L a0 tr (EvInfraEnv ev) \<longleftrightarrow> is_read ev"
| "osa_ok L a0 tr (EvSecret ev) \<longleftrightarrow> is_read ev"
| "osa_ok L a0 tr (EvHost ev) \<longleftrightarrow> host_ok ev"
| "osa_ok L a0 tr (EvClock t) \<longleftrightarrow> True"
| "osa_ok L a0 tr _ \<longleftrightarrow> False"

text \<open>The specification of a whole reconciliation: the worker is read first, and every later call is justified for it.\<close>

definition osa_event :: "golib \<Rightarrow> event list \<Rightarrow> event \<Rightarrow> bool" where
  "osa_event L tr e \<longleftrightarrow> (tr = [] \<and> (\<exists>k r. e = EvOsAgent (Get Live k r))) \<or> (\<exists>a0. oa_read tr a0 \<and> osa_ok L a0 tr e)"

section \<open>Lemmas\<close>

lemma withdrawnHost_withdrawn [simp]: "withdrawn_for (om_Name (oa_Meta a)) (withdrawnHost a host)"
  by (simp add: withdrawn_for_def withdrawnHost_def)

lemma referenced_takes: "takes_reference a cache (referenced a cache)"
  by (simp add: takes_reference_def others_kept_def referenced_def mput_def update_conv' mget_def)

lemma dereferenced_drops: "drops_reference a cache (dereferenced a cache)"
proof -
  have data: "cm_Data (dereferenced a cache) = AList.delete (oaUID a) (cm_Data cache)"
    by (simp add: dereferenced_def mdel_def Let_def)
  then have "others_kept a cache (dereferenced a cache) \<and> map_of (cm_Data (dereferenced a cache)) (oaUID a) = None"
    unfolding others_kept_def data delete_conv' by simp
  then show ?thesis unfolding drops_reference_def by (simp add: data) (simp add: dereferenced_def mdel_def Let_def)
qed

lemma same_worker_refl [simp]: "same_worker a a"
  by (simp add: same_worker_def)

lemma same_worker_trans: "same_worker a b \<Longrightarrow> same_worker b c \<Longrightarrow> same_worker a c"
  by (simp add: same_worker_def)

lemma same_worker_onStatus [simp]:
  "same_worker a (onStatus f b) \<longleftrightarrow> same_worker a b" "same_worker (onStatus f a) b \<longleftrightarrow> same_worker a b"
  by (simp_all add: same_worker_def onStatus_def)

lemma same_worker_stored [simp]: "same_worker a (stored b answer) \<longleftrightarrow> same_worker a b"
  by (simp add: same_worker_def stored_def)

lemma same_worker_setStatusID [simp]: "same_worker a (setStatusID k i b) \<longleftrightarrow> same_worker a b"
  by (cases k) simp_all

lemma same_meta:
  assumes "m\<lparr>om_ResourceVersion := []\<rparr> = n\<lparr>om_ResourceVersion := []\<rparr>"
  shows "om_UID m = om_UID n" "om_Namespace m = om_Namespace n" "om_Name m = om_Name n" "om_DeletionTimestamp m = om_DeletionTimestamp n"
    "om_Finalizers m = om_Finalizers n" "om_Generation m = om_Generation n"
  using assms by (cases m; cases n; simp)+

lemma same_worker_fields:
  assumes "same_worker a b"
  shows "oaUID b = oaUID a" "oa_Spec b = oa_Spec a" "om_Namespace (oa_Meta b) = om_Namespace (oa_Meta a)"
    "om_Name (oa_Meta b) = om_Name (oa_Meta a)" "om_DeletionTimestamp (oa_Meta b) = om_DeletionTimestamp (oa_Meta a)"
    "resourceName b k = resourceName a k"
  using assms same_meta [of "oa_Meta b" "oa_Meta a"] by (simp_all add: same_worker_def oaUID_def resourceName_def)

lemma evidence_append:
  "in_scope a0 tr \<Longrightarrow> in_scope a0 (tr @ n)"
  "working a0 tr \<Longrightarrow> working a0 (tr @ n)"
  "has_resource tr k owner r \<Longrightarrow> has_resource (tr @ n) k owner r"
  "holds_image L a0 tr i owner \<Longrightarrow> holds_image L a0 (tr @ n) i owner"
  "pinned tr i \<Longrightarrow> pinned (tr @ n) i"
  by (auto simp: in_scope_def working_def has_resource_def holds_image_def pinned_def)

lemma all_hosts_append: "all_hosts a0 tr Q \<Longrightarrow> all_hosts a0 (tr @ n) Q"
  by (auto simp: all_hosts_def)

lemma gone_append: "gone_before a0 tr k \<Longrightarrow> gone_before a0 (tr @ n) k" "all_gone a0 tr \<Longrightarrow> all_gone a0 (tr @ n)"
  by (cases k; auto simp: all_gone_def)+

lemma cleaning_append: "cleaning a0 tr \<Longrightarrow> cleaning a0 (tr @ n)"
  by (auto simp: cleaning_def evidence_append all_hosts_append split: option.splits)

lemma releasing_append: "releasing a0 tr \<Longrightarrow> releasing a0 (tr @ n)" "tombstone tr cache \<Longrightarrow> tombstone (tr @ n) cache"
  by (auto simp: releasing_def tombstone_def cleaning_append gone_append evidence_append)

lemma released_append: "released_image a0 tr \<Longrightarrow> released_image a0 (tr @ n)"
  unfolding released_image_def by (auto dest: releasing_append(2))

lemma server_ready_append: "server_ready a0 tr a \<Longrightarrow> server_ready a0 (tr @ n) a"
  unfolding server_ready_def by (meson evidence_append(3))

lemmas osa_append = evidence_append all_hosts_append gone_append cleaning_append releasing_append released_append server_ready_append

section \<open>Rules for the worker's steps\<close>

lemma hist_proceed:
  "hist P tr m Q \<Longrightarrow> (\<And>a e n. Q (a, Inl e) (tr @ n) \<Longrightarrow> R (a, Inl e) (tr @ n)) \<Longrightarrow>
   (\<And>a x n. Q (a, Inr x) (tr @ n) \<Longrightarrow> hist P (tr @ n) (f a x) R) \<Longrightarrow> hist P tr (proceed m f) R"
  unfolding proceed_def by (erule hist_bind_seq) (auto split: sum.split intro!: hist_ret)

lemma hist_keeping: "hist P tr m (\<lambda>r. R (a, r)) \<Longrightarrow> hist P tr (keeping a m) R"
  unfolding keeping_def by (erule hist_bind_seq) (simp add: hist_ret)

lemma hist_failing: "R (a, Inl (OsErr e)) tr \<Longrightarrow> hist P tr (failing a e) R"
  by (simp add: failing_def hist_ret)

lemma hist_ask_step:
  assumes "\<And>w r w'. f w = (r, w') \<Longrightarrow> P tr (ev r) \<and> R r (tr @ [ev r])"
  shows "hist P tr (ask f ev) R"
  using assms by (simp add: hist_def yields_def wp_ask split: prod.split)

end
