(* ===== verification/OpenStackProvision.thy ===== *)
theory OpenStackProvision
  imports OpenStackSpec
begin

text \<open>
  Every call the controller makes while it provisions a worker satisfies the specification of theory
  \<open>OpenStackSpec\<close>, for any OpenStack client that returns only resources of the owner asked for.
\<close>

section \<open>The client\<close>

definition lawful_client :: "'w os_client \<Rightarrow> bool" where
  "lawful_client P \<longleftrightarrow> (\<forall>k i owner w r w'. oc_Get P k i owner w = (Inr r, w') \<longrightarrow> rs_Owner r = owner)
     \<and> (\<forall>k name owner w r w'. oc_Find P k name owner w = (Inr r, w') \<longrightarrow> rs_Owner r = owner)"

definition looked_up :: "Kind \<Rightarrow> string \<Rightarrow> Resource result \<Rightarrow> event list \<Rightarrow> bool" where
  "looked_up k owner r tr \<longleftrightarrow> (case r of
     Inl e \<Rightarrow> IsOs NotFoundSentinel e \<longrightarrow> saw tr (missing_ev k owner)
   | Inr res \<Rightarrow> rs_Owner res = owner \<and> saw tr (observed_ev k owner res))"

lemma lawful_lookup:
  "lawful_client P \<Longrightarrow> oc_Get P k i owner w = (Inr r, w') \<Longrightarrow> rs_Owner r = owner"
  "lawful_client P \<Longrightarrow> oc_Find P k name owner w = (Inr r, w') \<Longrightarrow> rs_Owner r = owner"
  unfolding lawful_client_def by blast+

lemma hist_os_get:
  assumes "lawful_client P"
  shows "hist (osa_ok L a0) tr (os_get P k i owner) (looked_up k owner)"
  unfolding os_get_def
  by (rule hist_ask_step) (auto simp: looked_up_def split: sum.split dest: lawful_lookup [OF assms])

lemma hist_os_find:
  assumes "lawful_client P"
  shows "hist (osa_ok L a0) tr (os_find P k name owner) (\<lambda>r tr'. looked_up k owner r tr' \<and>
    (case r of Inl e \<Rightarrow> IsOs NotFoundSentinel e \<longrightarrow> saw tr' (find_missing_ev k name owner) | Inr _ \<Rightarrow> True))"
  unfolding os_find_def
  by (rule hist_ask_step) (auto simp: looked_up_def split: sum.split dest: lawful_lookup [OF assms])

section \<open>What the steps keep\<close>

definition moves :: "Kind set \<Rightarrow> OpenStackAgent \<Rightarrow> OpenStackAgent \<Rightarrow> bool" where
  "moves ks a b \<longleftrightarrow> same_worker a b \<and> oast_MACAddress (oa_Status b) = oast_MACAddress (oa_Status a)
     \<and> (\<forall>k. k \<notin> ks \<longrightarrow> statusID k b = statusID k a)"

definition same_image :: "OpenStackAgent \<Rightarrow> OpenStackAgent \<Rightarrow> bool" where
  "same_image a b \<longleftrightarrow> oast_ImageID (oa_Status b) = oast_ImageID (oa_Status a)
     \<and> oast_ISOSHA256 (oa_Status b) = oast_ISOSHA256 (oa_Status a)
     \<and> oast_ImageCacheName (oa_Status b) = oast_ImageCacheName (oa_Status a)"

lemma moves_refl [simp]: "moves ks a a" "same_image a a"
  by (simp_all add: moves_def same_image_def)

lemma moves_trans: "moves ks a b \<Longrightarrow> moves ks' b c \<Longrightarrow> moves (ks \<union> ks') a c"
  by (auto simp: moves_def intro: same_worker_trans)

lemma same_image_trans: "same_image a b \<Longrightarrow> same_image b c \<Longrightarrow> same_image a c"
  by (simp add: same_image_def)

lemma moves_mono: "moves ks a b \<Longrightarrow> ks \<subseteq> ks' \<Longrightarrow> moves ks' a b"
  by (auto simp: moves_def)

lemma moves_worker: "moves ks a b \<Longrightarrow> same_worker a b"
  by (simp add: moves_def)

text \<open>Changes of the status that concern neither identifiers nor the image.\<close>

definition bookkeeping :: "(OpenStackAgentStatus \<Rightarrow> OpenStackAgentStatus) \<Rightarrow> bool" where
  "bookkeeping f \<longleftrightarrow> (\<forall>st. oast_MACAddress (f st) = oast_MACAddress st \<and> oast_PortID (f st) = oast_PortID st
     \<and> oast_OSVolumeID (f st) = oast_OSVolumeID st \<and> oast_DiscoveryVolumeID (f st) = oast_DiscoveryVolumeID st
     \<and> oast_ServerID (f st) = oast_ServerID st \<and> oast_ImageID (f st) = oast_ImageID st
     \<and> oast_ISOSHA256 (f st) = oast_ISOSHA256 st \<and> oast_ImageCacheName (f st) = oast_ImageCacheName st)"

lemma bookkeeping_simps [simp]:
  "bookkeeping (oast_Phase_update g)" "bookkeeping (oast_PendingCreate_update g)" "bookkeeping (oast_ObservedGeneration_update h)"
  by (simp_all add: bookkeeping_def)

lemma moves_onStatus [simp]:
  "bookkeeping f \<Longrightarrow> moves ks a (onStatus f b) \<longleftrightarrow> moves ks a b" "bookkeeping f \<Longrightarrow> moves ks (onStatus f a) b \<longleftrightarrow> moves ks a b"
  "bookkeeping f \<Longrightarrow> same_image a (onStatus f b) \<longleftrightarrow> same_image a b" "bookkeeping f \<Longrightarrow> same_image (onStatus f a) b \<longleftrightarrow> same_image a b"
  "bookkeeping f \<Longrightarrow> statusID k (onStatus f b) = statusID k b"
proof -
  show id: "bookkeeping f \<Longrightarrow> statusID k (onStatus f b) = statusID k b" for k
    by (cases k) (simp_all add: bookkeeping_def onStatus_def)
  have mac: "bookkeeping f \<Longrightarrow> oast_MACAddress (oa_Status (onStatus f b)) = oast_MACAddress (oa_Status b)" for b
    by (simp add: bookkeeping_def onStatus_def)
  have id': "bookkeeping f \<Longrightarrow> statusID k (onStatus f a) = statusID k a" for k
    by (cases k) (simp_all add: bookkeeping_def onStatus_def)
  show "bookkeeping f \<Longrightarrow> moves ks a (onStatus f b) \<longleftrightarrow> moves ks a b" "bookkeeping f \<Longrightarrow> moves ks (onStatus f a) b \<longleftrightarrow> moves ks a b"
    using id id' mac by (simp_all add: moves_def)
  show "bookkeeping f \<Longrightarrow> same_image a (onStatus f b) \<longleftrightarrow> same_image a b" "bookkeeping f \<Longrightarrow> same_image (onStatus f a) b \<longleftrightarrow> same_image a b"
    by (simp_all add: bookkeeping_def same_image_def onStatus_def)
qed

lemma moves_setStatusID [simp]:
  "k \<in> ks \<Longrightarrow> moves ks a (setStatusID k i b) \<longleftrightarrow> moves ks a b" "same_image a (setStatusID k i b) \<longleftrightarrow> same_image a b"
proof -
  have "statusID k' (setStatusID k i b) = statusID k' b" if "k' \<noteq> k" for k'
    using that by (cases k; cases k') (simp_all add: onStatus_def)
  moreover have "oast_MACAddress (oa_Status (setStatusID k i b)) = oast_MACAddress (oa_Status b)" by (cases k) (simp_all add: onStatus_def)
  ultimately show "k \<in> ks \<Longrightarrow> moves ks a (setStatusID k i b) \<longleftrightarrow> moves ks a b"
    unfolding moves_def same_worker_setStatusID by metis
  show "same_image a (setStatusID k i b) \<longleftrightarrow> same_image a b" by (cases k) (simp_all add: same_image_def onStatus_def)
qed

lemma moves_stored [simp]: "moves ks a (stored b x) \<longleftrightarrow> moves ks a b" "same_image a (stored b x) \<longleftrightarrow> same_image a b"
proof -
  have "statusID k (stored b x) = statusID k b" for k by (cases k) (simp_all add: stored_def)
  then show "moves ks a (stored b x) \<longleftrightarrow> moves ks a b" by (simp add: moves_def) (simp add: stored_def)
  show "same_image a (stored b x) \<longleftrightarrow> same_image a b" by (simp add: same_image_def stored_def)
qed

section \<open>Writing the status\<close>

definition status_post :: "OpenStackAgent \<Rightarrow> OpenStackAgent \<times> unit result \<Rightarrow> event list \<Rightarrow> bool" where
  "status_post a ar tr \<longleftrightarrow> moves {} a (fst ar) \<and> same_image a (fst ar)
     \<and> oast_PendingCreate (oa_Status (fst ar)) = oast_PendingCreate (oa_Status a)
     \<and> (snd ar = Inr () \<longrightarrow> saw tr (status_ev (oa_Status (fst ar))))"

lemma stored_Status [simp]: "oa_Status (stored a x) = oa_Status a" "oa_Spec (stored a x) = oa_Spec a"
  by (simp_all add: stored_def)

lemma observed_simps [simp]: "moves ks b (observedOA a) \<longleftrightarrow> moves ks b a" "same_image b (observedOA a) \<longleftrightarrow> same_image b a"
  "oast_PendingCreate (oa_Status (observedOA a)) = oast_PendingCreate (oa_Status a)" "oa_Spec (observedOA a) = oa_Spec a"
  by (simp_all add: observedOA_def) (simp_all add: onStatus_def)

lemma hist_status:
  assumes "oa_Spec a = oa_Spec a0"
  shows "hist (osa_ok L a0) tr (OSA_status K a) (status_post a)"
  unfolding OSA_status_def kget_def kstatus_update_def Let_def
  using assms by (auto simp: status_post_def split: sum.split intro!: hist_intros)

section \<open>Resources\<close>

definition ensured :: "OpenStackAgent \<Rightarrow> Kind \<Rightarrow> OpenStackAgent \<Rightarrow> OpenStackAgent \<times> Resource result \<Rightarrow> event list \<Rightarrow> bool" where
  "ensured a0 k a ar tr \<longleftrightarrow> moves {k} a (fst ar) \<and> same_image a (fst ar)
     \<and> (\<forall>r. snd ar = Inr r \<longrightarrow> has_resource tr k (oaUID a0) r)"

definition fresh_worker :: "OpenStackAgent \<Rightarrow> bool" where
  "fresh_worker a0 \<longleftrightarrow> oast_PendingCreate (oa_Status a0) = [] \<and> oast_ServerID (oa_Status a0) = []"

lemma adopted_moves [simp]: "moves {k} a (adopted k r b) \<longleftrightarrow> moves {k} a b" "same_image a (adopted k r b) \<longleftrightarrow> same_image a b"
  by (simp_all add: adopted_def)

lemma hist_createResource:
  assumes ok: "working a0 tr" "same_worker a0 a" "create_ok a0 tr k (resourceName a0 k) (oaUID a0) a"
  shows "hist (osa_ok L a0) tr (createResource P a k) (ensured a0 k a)"
proof -
  have k: "k \<noteq> Image" using ok(3) by (auto simp: create_ok_def)
  have "hist (osa_ok L a0) tr (os_create P k (resourceName a k) (oaUID a) a) (\<lambda>r tr'. \<forall>res. r = Inr (Some res) \<longrightarrow>
     saw tr' (created_ev k (oaUID a0) res))"
    unfolding os_create_def using ok k same_worker_fields [OF ok(2)] by (auto intro!: hist_ask)
  then show ?thesis
    unfolding createResource_def
    by (rule hist_handle_seq)
      (auto simp: ensured_def has_resource_def split: option.split intro!: hist_ret hist_failing)
qed

lemma hist_ensureResource:
  assumes P: "lawful_client P" and ctx: "working a0 tr" "same_worker a0 a" "fresh_worker a0"
    and k: "k \<in> {Port, OSVolume, DiscoveryVolume, Server}" and server: "k = Server \<Longrightarrow> server_ready a0 tr a"
  shows "hist (osa_ok L a0) tr (ensureResource K P a k) (ensured a0 k a)"
proof -
  note fields = same_worker_fields [OF ctx(2)]
  have get: "hist (osa_ok L a0) tr (keeping a (os_get P k (statusID k a) (oaUID a))) (ensured a0 k a)"
    by (rule hist_keeping, rule hist_mono [OF hist_os_get [OF P]])
      (auto simp: ensured_def looked_up_def has_resource_def fields)
  have create: "hist (osa_ok L a0) (tr @ n) (proceed (OSA_status K (setPending (kind_str k) a)) (\<lambda>a _. createResource P a k)) (ensured a0 k a)"
    if none: "statusID k a = []" and find: "saw (tr @ n) (find_missing_ev k (resourceName a0 k) (oaUID a0))" for n
  proof (rule hist_proceed [OF hist_status])
    show "oa_Spec (setPending (kind_str k) a) = oa_Spec a0" using fields(2) by (simp add: onStatus_def)
    show "ensured a0 k a (b, Inl e) ((tr @ n) @ m)"
      if "status_post (setPending (kind_str k) a) (b, Inl e) ((tr @ n) @ m)" for b e m
      using that moves_mono by (auto simp: status_post_def ensured_def)
    fix b m and x :: unit
    assume post: "status_post (setPending (kind_str k) a) (b, Inr x) ((tr @ n) @ m)"
    have moved: "moves {} a b" "same_image a b" and pending: "oast_PendingCreate (oa_Status b) = kind_str k"
      and durable: "saw ((tr @ n) @ m) (status_ev (oa_Status b))"
      using post by (simp_all add: status_post_def) (simp add: onStatus_def)
    have ready: "k = Server \<Longrightarrow> server_ready a0 ((tr @ n) @ m) b"
      using server_ready_append [OF server, of "n @ m"] moved(1) by (auto simp: server_ready_def moves_def dest: spec [of _ Port])
    have "create_ok a0 ((tr @ n) @ m) k (resourceName a0 k) (oaUID a0) b"
      unfolding create_ok_def
      using k ctx(3) none find moved pending durable ready by (auto simp: fresh_worker_def moves_def)
    then have "hist (osa_ok L a0) ((tr @ n) @ m) (createResource P b k) (ensured a0 k b)"
      using ctx moved same_worker_trans moves_worker
      by (intro hist_createResource) (auto simp: evidence_append)
    then show "hist (osa_ok L a0) ((tr @ n) @ m) (createResource P b k) (ensured a0 k a)"
      by (rule hist_mono) (use moved in \<open>auto simp: ensured_def dest: moves_trans same_image_trans\<close>)
  qed
  have find: "hist (osa_ok L a0) tr (handle (os_find P k (resourceName a k) (oaUID a))
        (\<lambda>e. if \<not> IsOs NotFoundSentinel e then ret (a, Inl e)
             else if oast_PendingCreate (oa_Status a) \<noteq> [] then failing a createOutcomeUnknown
             else proceed (OSA_status K (setPending (kind_str k) a)) (\<lambda>a _. createResource P a k))
        (\<lambda>found. ret (adopted k found a, Inr found))) (ensured a0 k a)" if "statusID k a = []"
    by (rule hist_handle_seq [OF hist_os_find [OF P]])
      (use that in \<open>auto simp: ensured_def looked_up_def has_resource_def fields intro!: hist_ret hist_failing create\<close>)
  show ?thesis
    unfolding ensureResource_def using get find by simp
qed

end
