(* ===== verification/ImageSafety.thy ===== *)
theory ImageSafety
  imports OpenStackProvision
begin

text \<open>
  The calls that prepare and release a discovery image (theory \<open>OpenStackImages\<close>) satisfy the specification of
  theory \<open>OpenStackSpec\<close>.
\<close>

section \<open>Downloading\<close>

lemma hist_downloadISO_os:
  "hist (osa_ok L' a0) tr (downloadISO H L url path since) (\<lambda>r tr'. \<forall>d. r = Inr d \<longrightarrow>
     dl_SizeBytes d = 0 \<or> saw tr' (downloaded_ev path (dl_SHA256 d)))"
proof -
  have "hist (osa_ok L' a0) tr (saveBody H L safeURL path modified body) (\<lambda>r tr'. \<forall>d. r = Inr d \<longrightarrow>
     dl_SizeBytes d = 0 \<or> saw tr' (downloaded_ev path (dl_SHA256 d)))" for tr safeURL modified body
    unfolding saveBody_def Let_def
    by (auto split: sum.split option.split copy_failure.split intro!: hist_intros)
  then show ?thesis
    unfolding downloadISO_def Let_def
    by (auto split: http_answer.split intro!: hist_bind hist_ask hist_ret hist_if)
qed

definition download_post :: "(string \<times> isoDownloadResult) result \<Rightarrow> event list \<Rightarrow> bool" where
  "download_post r tr \<longleftrightarrow> (\<forall>path d. r = Inr (path, d) \<longrightarrow> saw tr (downloaded_ev path (dl_SHA256 d)))"

lemma hist_downloadDiscovery: "hist (osa_ok L' a0) tr (downloadDiscovery K H L a) download_post"
proof -
  have fetch: "hist (osa_ok L' a0) tr (handle (downloadISO H L url path [])
                  (\<lambda>e. do { removeFile H path; ret (Inl (OsErr (mkOsError ''ISODownloadFailed'' True False))) })
                  (\<lambda>result. if dl_SizeBytes result = 0
                     then do { removeFile H path; ret (Inl (OsErr (mkOsError ''EmptyDiscoveryImage'' False True))) }
                     else ret (Inr (path, result)))) download_post" for tr url path
    by (rule hist_handle_seq [OF hist_downloadISO_os])
      (auto simp: removeFile_def download_post_def intro!: hist_bind hist_ask hist_ret)
  have temp: "hist (osa_ok L' a0) tr (do { file \<leftarrow> ask (hs_CreateTemp H pattern) (\<lambda>r. EvHost (CreateTemp r));
            case file of
              TempFailed err \<Rightarrow> ret (Inl (OsErr (mkOsError ''ISOTemporaryStorageFailed'' True False)))
            | TempCloseFailed path err \<Rightarrow> do { removeFile H path; ret (Inl (ErrorText err)) }
            | TempFile path \<Rightarrow>
                handle (downloadISO H L url path [])
                  (\<lambda>e. do { removeFile H path; ret (Inl (OsErr (mkOsError ''ISODownloadFailed'' True False))) })
                  (\<lambda>result. if dl_SizeBytes result = 0
                     then do { removeFile H path; ret (Inl (OsErr (mkOsError ''EmptyDiscoveryImage'' False True))) }
                     else ret (Inr (path, result))) }) download_post" for tr url pattern
    unfolding removeFile_def
    by (auto simp: download_post_def split: temp_answer.split intro!: hist_bind hist_ask hist_ret fetch [unfolded removeFile_def])
  have "hist (osa_ok L' a0) tr (discoveryISOAvailable K L Live ns name) (\<lambda>r tr'. True)" for ns name
    unfolding discoveryISOAvailable_def kget_def by (auto split: sum.split intro!: hist_intros)
  then show ?thesis
    unfolding downloadDiscovery_def
    by (rule hist_bind_seq) (auto simp: download_post_def split: prod.split intro!: hist_ret temp)
qed

section \<open>Acquiring\<close>

definition acquired :: "OpenStackAgent \<Rightarrow> ConfigMap result \<Rightarrow> event list \<Rightarrow> bool" where
  "acquired a0 r tr \<longleftrightarrow> (\<forall>cache. r = Inr cache \<longrightarrow> saw tr (acquired_ev a0 cache))"

lemma active_referenced: "active_cache cache \<Longrightarrow> active_cache (referenced a cache) \<and> mget (cm_Data (referenced a cache)) (oaUID a) = ''reference''"
  by (simp add: active_cache_def referenced_def)

lemma active_newCache: "active_cache (newCache a) \<and> mget (cm_Data (newCache a)) (oaUID a) = ''reference''"
  by (simp add: active_cache_def newCache_def emptyMeta_def mget_def)

lemma referenced_same: "same_worker a0 a \<Longrightarrow> referenced a cache = referenced a0 cache"
  by (simp add: referenced_def same_worker_fields(1))

lemma hist_acquireCache:
  assumes ctx: "working a0 tr" "same_worker a0 a"
  shows "hist (osa_ok L a0) tr (acquireCache K a) (acquired a0)"
proof -
  note uid = same_worker_fields(1) [OF ctx(2)]
  have create: "hist (osa_ok L a0) (tr @ n) (kcreate (k_configmaps K) EvConfigMap (newCache a)) (acquired a0)" for n
    unfolding kcreate_def using evidence_append(2) [OF ctx(1)] active_newCache [of a] uid
    by (auto simp: acquired_def intro!: hist_ask)
  have update: "hist (osa_ok L a0) (tr @ [EvConfigMap (Get Live key (Inr cache))])
      (kupdate (k_configmaps K) EvConfigMap (referenced a cache)) (acquired a0)" if "active_cache cache" for key cache
  proof -
    have "cache_update_ok a0 (tr @ [EvConfigMap (Get Live key (Inr cache))]) (referenced a0 cache)"
      unfolding cache_update_ok_def
      using that evidence_append(2) [OF ctx(1)] referenced_takes by (intro exI [of _ cache]) simp
    then show ?thesis
      unfolding kupdate_def referenced_same [OF ctx(2)]
      using active_referenced [OF that, of a0] by (auto simp: acquired_def intro!: hist_ask)
  qed
  show ?thesis
    unfolding acquireCache_def kget_def
    by (auto simp: uid active_cache_def split: sum.split intro!: hist_handle hist_ask hist_ret hist_if create update)
      (simp_all add: acquired_def active_cache_def)
qed

section \<open>Uploading\<close>

text \<open>The digest the worker records is on the server, and the file, when there is one, has it.\<close>

definition sha_durable :: "event list \<Rightarrow> OpenStackAgent \<Rightarrow> bool" where
  "sha_durable tr a \<longleftrightarrow> (\<exists>st. saw tr (status_ev st) \<and> oast_ISOSHA256 st = oast_ISOSHA256 (oa_Status a))"

definition file_ready :: "event list \<Rightarrow> string \<Rightarrow> OpenStackAgent \<Rightarrow> bool" where
  "file_ready tr path a \<longleftrightarrow> saw tr (downloaded_ev path (oast_ISOSHA256 (oa_Status a)))"

lemma snapshot_append: "sha_durable tr a \<Longrightarrow> sha_durable (tr @ n) a" "file_ready tr path a \<Longrightarrow> file_ready (tr @ n) path a"
  by (auto simp: sha_durable_def file_ready_def)

lemma hist_uploadFile:
  assumes ctx: "working a0 tr" "holds_image L a0 tr (oast_ImageID (oa_Status a)) owner" "pinned tr (oast_ImageID (oa_Status a))"
    "sha_durable tr a" "file_ready tr path a"
  shows "hist (osa_ok L a0) tr (uploadFile H P a path owner) (\<lambda>ar tr'. fst ar = a)"
proof -
  have "upload_ok L a0 (tr @ [EvHost (ReadFile path (Inr content))]) (oast_ImageID (oa_Status a)) owner content" for content
  proof -
    obtain st where "saw tr (status_ev st)" "oast_ISOSHA256 st = oast_ISOSHA256 (oa_Status a)" using ctx(4) by (auto simp: sha_durable_def)
    then show ?thesis
      unfolding upload_ok_def using ctx(5) evidence_append(4) [OF ctx(2)] evidence_append(5) [OF ctx(3)]
      by (intro conjI exI [of _ path] exI [of _ st]) (auto simp: file_ready_def)
  qed
  then show ?thesis
    unfolding uploadFile_def os_uploadImage_def
    using evidence_append(2) [OF ctx(1)]
    by (auto split: sum.split intro!: hist_keeping hist_attempt hist_ask hist_ret)
qed

lemma hist_removeFile: "R () (tr @ [EvHost (RemoveFile path)]) \<Longrightarrow> hist (osa_ok L a0) tr (removeFile H path) R"
  unfolding removeFile_def by (auto intro!: hist_ask)

lemma hist_with_file:
  "hist (osa_ok L a0) tr m (\<lambda>ar tr'. R ar (tr' @ [EvHost (RemoveFile path)])) \<Longrightarrow>
   hist (osa_ok L a0) tr (do { ar \<leftarrow> m; removeFile H path; ret ar }) R"
  by (erule hist_bind_seq) (rule hist_bind, rule hist_removeFile, rule hist_ret)

lemma hist_uploadSnapshot:
  assumes ctx: "working a0 tr" "same_worker a0 a" "holds_image L a0 tr (oast_ImageID (oa_Status a)) owner"
    "pinned tr (oast_ImageID (oa_Status a))" "sha_durable tr a" "path \<noteq> [] \<Longrightarrow> file_ready tr path a"
  shows "hist (osa_ok L a0) tr (uploadDiscoverySnapshot K H L' P a path owner) (\<lambda>ar tr'. moves {} a (fst ar))"
proof (cases "path = []")
  case False
  show ?thesis
    unfolding uploadDiscoverySnapshot_def if_P [OF False]
    by (rule hist_mono [OF hist_uploadFile]) (use ctx False in auto)
next
  case True
  have step: "hist (osa_ok L a0) (tr @ n) (do { ar \<leftarrow> (if dl_SHA256 result \<noteq> oast_ISOSHA256 (oa_Status a) then
                      (if \<not> canRefreshDiscoveryImage a
                       then failing a (mkOsError ''DiscoveryImageRefreshBlocked'' False True)
                       else OSA_status K (setPhase openStackPhaseRefreshingImage a))
                    else uploadFile H P a downloaded owner);
             removeFile H downloaded;
             ret ar }) (\<lambda>ar tr'. moves {} a (fst ar))"
    if "download_post (Inr (downloaded, result)) (tr @ n)" for downloaded result n
  proof (intro hist_with_file hist_if)
    show "hist (osa_ok L a0) (tr @ n) (failing a (mkOsError ''DiscoveryImageRefreshBlocked'' False True)) (\<lambda>ar tr'. moves {} a (fst ar))"
      by (simp add: hist_failing)
    show "hist (osa_ok L a0) (tr @ n) (OSA_status K (setPhase openStackPhaseRefreshingImage a)) (\<lambda>ar tr'. moves {} a (fst ar))"
      by (rule hist_mono [OF hist_status]) (use same_worker_fields(2) [OF ctx(2)] in \<open>simp_all add: status_post_def\<close>, simp add: onStatus_def)
    show "hist (osa_ok L a0) (tr @ n) (uploadFile H P a downloaded owner) (\<lambda>ar tr'. moves {} a (fst ar))"
      if "\<not> dl_SHA256 result \<noteq> oast_ISOSHA256 (oa_Status a)"
      by (rule hist_mono [OF hist_uploadFile])
        (use ctx that \<open>download_post _ _\<close> evidence_append snapshot_append in \<open>auto simp: file_ready_def download_post_def\<close>)
  qed
  show ?thesis
    unfolding uploadDiscoverySnapshot_def
    by (rule hist_if, simp add: True, rule hist_handle_seq [OF hist_downloadDiscovery])
      (auto split del: if_split intro!: hist_ret step)
qed

section \<open>Ensuring the image\<close>

lemma hist_observeImage:
  assumes P: "lawful_client P" and ctx: "working a0 tr" "same_worker a0 a"
    "holds_image L a0 tr (oast_ImageID (oa_Status a)) owner" "pinned tr (oast_ImageID (oa_Status a))"
  shows "hist (osa_ok L a0) tr (observeImage P a (oast_ImageID (oa_Status a)) owner) (\<lambda>r tr'. True)"
proof -
  have "image_create_ok L a0 (tr @ n) (oast_ImageCacheName (oa_Status a)) owner a" if "saw (tr @ n) (missing_ev Image owner)" for n
    unfolding image_create_ok_def using that evidence_append(4) [OF ctx(3)] evidence_append(5) [OF ctx(4)] by simp
  then have "hist (osa_ok L a0) (tr @ n) (do { r \<leftarrow> os_create P Image (oast_ImageCacheName (oa_Status a)) owner a; ret (createdImage r) }) (\<lambda>r tr'. True)"
    if "saw (tr @ n) (missing_ev Image owner)" for n
    unfolding os_create_def using that ctx evidence_append(2) [OF ctx(1)] by (auto intro!: hist_bind hist_ask hist_ret)
  then show ?thesis
    unfolding observeImage_def
    by (intro hist_handle_seq [OF hist_os_get [OF P]]) (auto simp: looked_up_def intro!: hist_ret)
qed

lemma hist_imageProgress:
  assumes ctx: "working a0 tr" "same_worker a0 a" "holds_image L a0 tr (oast_ImageID (oa_Status a)) owner"
    "pinned tr (oast_ImageID (oa_Status a))" "sha_durable tr a" "path \<noteq> [] \<Longrightarrow> file_ready tr path a"
  shows "hist (osa_ok L a0) tr (imageProgress K H L' P a path owner im) (\<lambda>ar tr'. moves {} a (fst ar))"
  unfolding imageProgress_def
  by (intro hist_if hist_failing hist_ret hist_proceed [OF hist_uploadSnapshot [OF ctx]]) simp_all

definition pin_post :: "string \<Rightarrow> OpenStackAgent \<Rightarrow> OpenStackAgent \<times> unit result \<Rightarrow> event list \<Rightarrow> bool" where
  "pin_post i a ar tr \<longleftrightarrow> moves {} a (fst ar) \<and> oast_ISOSHA256 (oa_Status (fst ar)) = oast_ISOSHA256 (oa_Status a)
     \<and> (snd ar = Inr () \<longrightarrow> pinned tr (oast_ImageID (oa_Status (fst ar))))"

lemma moves_ImageID [simp]: "moves ks a (onStatus (oast_ImageID_update f) b) \<longleftrightarrow> moves ks a b"
   "moves ks (onStatus (oast_ImageID_update f) a) b \<longleftrightarrow> moves ks a b"
proof -
  have "statusID k (onStatus (oast_ImageID_update f) a) = statusID k a" for k a by (cases k) (simp_all add: onStatus_def)
  then show "moves ks a (onStatus (oast_ImageID_update f) b) \<longleftrightarrow> moves ks a b" "moves ks (onStatus (oast_ImageID_update f) a) b \<longleftrightarrow> moves ks a b"
    by (simp_all add: moves_def) (simp_all add: onStatus_def)
qed

lemma hist_pinImage:
  assumes ctx: "same_worker a0 a" "oast_ImageID (oa_Status a) = [] \<or> pinned tr (oast_ImageID (oa_Status a))"
  shows "hist (osa_ok L a0) tr (pinImage K a i) (pin_post i a)"
proof -
  have "hist (osa_ok L a0) tr (OSA_status K (onStatus (oast_ImageID_update (\<lambda>_. i)) a)) (pin_post i a)"
  proof (rule hist_mono [OF hist_status])
    show "oa_Spec (onStatus (oast_ImageID_update (\<lambda>_. i)) a) = oa_Spec a0"
      using same_worker_fields(2) [OF ctx(1)] by (simp add: onStatus_def)
    show "pin_post i a ar (tr @ n)" if post: "status_post (onStatus (oast_ImageID_update (\<lambda>_. i)) a) ar (tr @ n)" for ar n
    proof -
      have "moves {} a (fst ar)" "oast_ISOSHA256 (oa_Status (fst ar)) = oast_ISOSHA256 (oa_Status a)"
        using post by (simp_all add: status_post_def) (simp add: same_image_def onStatus_def)
      moreover have "snd ar = Inr () \<Longrightarrow> pinned (tr @ n) (oast_ImageID (oa_Status (fst ar)))"
        using post unfolding status_post_def pinned_def by blast
      ultimately show ?thesis by (simp add: pin_post_def)
    qed
  qed
  then show ?thesis
    unfolding pinImage_def using ctx(2) by (auto simp: pin_post_def intro!: hist_ret)
qed

lemma hist_observedImage:
  assumes P: "lawful_client P" and ctx: "working a0 tr" "same_worker a0 b" "holds_image L a0 tr (oast_ImageID (oa_Status b)) owner"
    "pinned tr (oast_ImageID (oa_Status b))" "sha_durable tr b" "path \<noteq> [] \<Longrightarrow> file_ready tr path b"
  shows "hist (osa_ok L a0) tr (proceed (keeping b (observeImage P b (oast_ImageID (oa_Status b)) owner))
     (\<lambda>a im. imageProgress K H L P a path owner im)) (\<lambda>ar tr'. moves {} b (fst ar))"
proof (rule hist_proceed)
  show "hist (osa_ok L a0) tr (keeping b (observeImage P b (oast_ImageID (oa_Status b)) owner)) (\<lambda>ar tr'. fst ar = b)"
    by (rule hist_keeping, rule hist_mono [OF hist_observeImage [OF P ctx(1-4)]]) simp
  fix c im m assume "fst (c, Inr im :: Resource result) = b"
  then have c: "c = b" by simp
  show "hist (osa_ok L a0) (tr @ m) (imageProgress K H L P c path owner im) (\<lambda>ar tr'. moves {} b (fst ar))"
    unfolding c using ctx by (intro hist_imageProgress evidence_append snapshot_append)
qed simp

lemma hist_ensureDiscoveryImage:
  assumes P: "lawful_client P" and ctx: "working a0 tr" "same_worker a0 a"
    "oast_ImageID (oa_Status a) = [] \<or> pinned tr (oast_ImageID (oa_Status a))"
    "sha_durable tr a" "path \<noteq> [] \<Longrightarrow> file_ready tr path a"
  shows "hist (osa_ok L a0) tr (ensureDiscoveryImage K H L P a path) (\<lambda>ar tr'. moves {} a (fst ar))"
proof -
  have pin: "hist (osa_ok L a0) (tr @ n) (proceed (pinImage K a (imageIDForCache L cache)) (\<lambda>a _.
          if oast_ImageID (oa_Status a) \<noteq> imageIDForCache L cache then failing a (mkOsError ''ImageCacheIdentityChanged'' False True)
          else proceed (keeping a (observeImage P a (imageIDForCache L cache) (om_UID (cm_Meta cache))))
                 (\<lambda>a im. imageProgress K H L P a path (om_UID (cm_Meta cache)) im))) (\<lambda>ar tr'. moves {} a (fst ar))"
    if "acquired a0 (Inr cache) (tr @ n)" for n cache
  proof (rule hist_proceed [OF hist_pinImage [OF ctx(2)]])
    have "holds_image L a0 ((tr @ n) @ m) (imageIDForCache L cache) (om_UID (cm_Meta cache))" for m
      using that unfolding holds_image_def acquired_def by (intro exI [of _ cache]) auto
    note held = this
    show "hist (osa_ok L a0) ((tr @ n) @ m) (if oast_ImageID (oa_Status b) \<noteq> imageIDForCache L cache
          then failing b (mkOsError ''ImageCacheIdentityChanged'' False True)
          else proceed (keeping b (observeImage P b (imageIDForCache L cache) (om_UID (cm_Meta cache))))
                 (\<lambda>a im. imageProgress K H L P a path (om_UID (cm_Meta cache)) im)) (\<lambda>ar tr'. moves {} a (fst ar))"
      if post: "pin_post (imageIDForCache L cache) a (b, Inr x) ((tr @ n) @ m)" for b x m
    proof (rule hist_if)
      have b: "moves {} a b" "oast_ISOSHA256 (oa_Status b) = oast_ISOSHA256 (oa_Status a)" "pinned ((tr @ n) @ m) (oast_ImageID (oa_Status b))"
        using post by (simp_all add: pin_post_def)
      show "hist (osa_ok L a0) ((tr @ n) @ m) (failing b (mkOsError ''ImageCacheIdentityChanged'' False True)) (\<lambda>ar tr'. moves {} a (fst ar))"
        using b(1) by (simp add: hist_failing)
      assume "\<not> oast_ImageID (oa_Status b) \<noteq> imageIDForCache L cache"
      then have i: "imageIDForCache L cache = oast_ImageID (oa_Status b)" by simp
      have "sha_durable ((tr @ n) @ m) b" "path \<noteq> [] \<Longrightarrow> file_ready ((tr @ n) @ m) path b"
        using snapshot_append(1) [OF snapshot_append(1) [OF ctx(4)], of n m] snapshot_append(2) [OF snapshot_append(2) [OF ctx(5)], of n m] b(2)
        by (simp_all add: sha_durable_def file_ready_def)
      then have "hist (osa_ok L a0) ((tr @ n) @ m) (proceed (keeping b (observeImage P b (oast_ImageID (oa_Status b)) (om_UID (cm_Meta cache))))
                 (\<lambda>a im. imageProgress K H L P a path (om_UID (cm_Meta cache)) im)) (\<lambda>ar tr'. moves {} b (fst ar))"
        using same_worker_trans [OF ctx(2) moves_worker [OF b(1)]] b(3) held [of m] i
        evidence_append(2) [OF ctx(1), of "n @ m"]
        by (intro hist_observedImage [OF P]) simp_all
      then show "hist (osa_ok L a0) ((tr @ n) @ m) (proceed (keeping b (observeImage P b (imageIDForCache L cache) (om_UID (cm_Meta cache))))
                 (\<lambda>a im. imageProgress K H L P a path (om_UID (cm_Meta cache)) im)) (\<lambda>ar tr'. moves {} a (fst ar))"
        unfolding i by (rule hist_mono) (use moves_trans [OF b(1)] in auto)
    qed
  qed (use ctx(3) evidence_append(5) in \<open>auto simp: pin_post_def\<close>)
  show ?thesis
    unfolding ensureDiscoveryImage_def Let_def
    by (rule hist_handle_seq [OF hist_acquireCache [OF ctx(1,2)]]) (auto intro!: hist_ret pin)
qed

lemma hist_prepareDiscoveryImage:
  assumes P: "lawful_client P" and ctx: "working a0 tr" "same_worker a0 a" "same_image a0 a" "oa_read tr a0"
  shows "hist (osa_ok L a0) tr (prepareDiscoveryImage K H L P a) (\<lambda>ar tr'. moves {} a (fst ar))"
proof -
  have read: "saw tr (status_ev (oa_Status a0))"
    using ctx(4) unfolding oa_read_def saw_def by (auto simp: withDefaults_def intro!: bexI)
  have known: "hist (osa_ok L a0) tr (ensureDiscoveryImage K H L P a []) (\<lambda>ar tr'. moves {} a (fst ar))"
    by (rule hist_ensureDiscoveryImage [OF P ctx(1,2)])
      (use read ctx(3) in \<open>auto simp: pinned_def sha_durable_def same_image_def\<close>)
  have fresh: "hist (osa_ok L a0) (tr @ n) (proceed (OSA_status K (imageIdentified scope infra result a))
                       (\<lambda>a _. ensureDiscoveryImage K H L P a path)) (\<lambda>ar tr'. moves {} a (fst ar))"
    if "download_post (Inr (path, result)) (tr @ n)" for n path result infra scope
  proof (rule hist_proceed [OF hist_status])
    let ?b = "imageIdentified scope infra result a"
    have mv: "moves {} a ?b" and sha: "oast_ISOSHA256 (oa_Status ?b) = dl_SHA256 result"
      and image_id: "oast_ImageID (oa_Status ?b) = oast_ImageID (oa_Status a)"
    proof -
      have "statusID k ?b = statusID k a" for k by (cases k) (simp_all add: imageIdentified_def onStatus_def)
      then show "moves {} a ?b" by (simp add: moves_def) (simp add: imageIdentified_def, simp add: onStatus_def)
    qed (simp_all add: imageIdentified_def onStatus_def)
    show "oa_Spec ?b = oa_Spec a0" using same_worker_fields(2) [OF ctx(2)] by (simp add: imageIdentified_def onStatus_def)
    show "moves {} a (fst (c, Inl e))" if "status_post ?b (c, Inl e) ((tr @ n) @ m)" for c m and e :: go_error
      using that moves_trans [OF mv] by (auto simp: status_post_def)
    fix c m and x :: unit
    assume post: "status_post ?b (c, Inr x) ((tr @ n) @ m)"
    have c: "moves {} a c" "oast_ISOSHA256 (oa_Status c) = dl_SHA256 result" "oast_ImageID (oa_Status c) = oast_ImageID (oa_Status a)"
      and written: "saw ((tr @ n) @ m) (status_ev (oa_Status c))"
      using post moves_trans [OF mv] sha image_id by (auto simp: status_post_def same_image_def)
    have "oast_ImageID (oa_Status c) = [] \<or> pinned ((tr @ n) @ m) (oast_ImageID (oa_Status c))"
      using written unfolding pinned_def by blast
    moreover have "sha_durable ((tr @ n) @ m) c" using written unfolding sha_durable_def by blast
    moreover have "file_ready ((tr @ n) @ m) path c" using that c(2) by (auto simp: file_ready_def download_post_def)
    ultimately have "hist (osa_ok L a0) ((tr @ n) @ m) (ensureDiscoveryImage K H L P c path) (\<lambda>ar tr'. moves {} c (fst ar))"
      using same_worker_trans [OF ctx(2) moves_worker [OF c(1)]] evidence_append(2) [OF ctx(1)]
      by (intro hist_ensureDiscoveryImage [OF P]) auto
    then show "hist (osa_ok L a0) ((tr @ n) @ m) (ensureDiscoveryImage K H L P c path) (\<lambda>ar tr'. moves {} a (fst ar))"
      by (rule hist_mono) (use moves_trans [OF c(1)] in auto)
  qed
  have load: "hist (osa_ok L a0) (tr @ n) (handle (downloadDiscovery K H L a) (\<lambda>e. ret (a, Inl e)) (\<lambda>(path, result).
           do { ar \<leftarrow> proceed (OSA_status K (imageIdentified (oc_Scope P) infra result a))
                       (\<lambda>a _. ensureDiscoveryImage K H L P a path);
                removeFile H path;
                ret ar })) (\<lambda>ar tr'. moves {} a (fst ar))" for n infra
    by (rule hist_handle_seq [OF hist_downloadDiscovery])
      (use fresh in \<open>auto intro!: hist_ret hist_with_file\<close>)
  show ?thesis
    unfolding prepareDiscoveryImage_def kget_def
    using known load by (auto split: sum.split split del: if_split intro!: hist_if hist_handle hist_ask hist_ret)
qed

section \<open>Releasing\<close>

definition release_post :: "OpenStackAgent \<Rightarrow> bool result \<Rightarrow> event list \<Rightarrow> bool" where
  "release_post a0 r tr \<longleftrightarrow> (r = Inr True \<longrightarrow> released_image a0 tr)"

lemma release_post_simps [simp]: "release_post a0 (Inl e) tr" "release_post a0 (Inr False) tr"
  "release_post a0 (Inr True) tr \<longleftrightarrow> released_image a0 tr"
  by (simp_all add: release_post_def)

lemma hist_pinnedImageGone:
  assumes P: "lawful_client P"
  shows "hist (osa_ok L a0) tr (pinnedImageGone P a) (release_post a0)"
  unfolding pinnedImageGone_def
  by (rule hist_handle_seq [OF hist_os_get [OF P]])
    (auto simp: looked_up_def released_image_def intro!: hist_ret)

lemma hist_dropReference:
  assumes ctx: "releasing a0 tr" "same_worker a0 a" "saw tr (cache_read_ev cache)"
    "mget (om_Labels (cm_Meta cache)) imageCacheLabel = imageCacheOwnedValue"
    "mget (om_Annotations (cm_Meta cache)) imageCachePhase \<noteq> openStackPhaseDeleting"
  shows "hist (osa_ok L a0) tr (dropReference K a cache) (release_post a0)"
proof -
  have same: "dereferenced a cache = dereferenced a0 cache" by (simp add: dereferenced_def same_worker_fields(1) [OF ctx(2)])
  have ok: "cache_update_ok a0 tr (dereferenced a0 cache)"
    unfolding cache_update_ok_def using ctx dereferenced_drops by (intro exI [of _ cache]) simp
  have none: "map_of (cm_Data (dereferenced a0 cache)) (oaUID a0) = None"
    using dereferenced_drops [of a0 cache] by (simp add: drops_reference_def)
  have "released_image a0 (tr @ [EvConfigMap (Update (dereferenced a0 cache) (Inr x))])" if "cm_Data x \<noteq> []" for x
  proof -
    have "\<exists>obj y. saw (tr @ [EvConfigMap (Update (dereferenced a0 cache) (Inr x))]) ((=) (EvConfigMap (Update obj (Inr y))))
        \<and> map_of (cm_Data obj) (oaUID a0) = None \<and> cm_Data y \<noteq> []"
      using that none by (intro exI [of _ "dereferenced a0 cache"] exI [of _ x]) simp
    then show ?thesis unfolding released_image_def by blast
  qed
  then show ?thesis
    unfolding dropReference_def kupdate_def same
    using ok by (auto simp: release_post_def split: sum.split intro!: hist_if hist_attempt hist_ask hist_ret)
qed

lemma hist_collectImage:
  assumes P: "lawful_client P" and ctx: "releasing a0 tr" "tombstone tr cache"
  shows "hist (osa_ok L a0) tr (collectImage K L P cache) (release_post a0)"
proof -
  have delete: "hist (osa_ok L a0) (tr @ n) (handle (kdelete (k_configmaps K) EvConfigMap
                       (Some (om_UID (cm_Meta cache), Some (om_ResourceVersion (cm_Meta cache)))) cache)
                       (\<lambda>e. ret (if IsNotFound e then Inr True else Inl e)) (\<lambda>_. ret (Inr True))) (release_post a0)"
    if "saw (tr @ n) (missing_ev Image (om_UID (cm_Meta cache)))" for n
  proof -
    have rel: "released_image a0 ((tr @ n) @ m)" for m
    proof (rule released_append)
      show "released_image a0 (tr @ n)"
        unfolding released_image_def using that releasing_append(2) [OF ctx(2), of n] by blast
    qed
    have "cache_delete_ok L a0 (tr @ n) (Some (om_UID (cm_Meta cache), Some (om_ResourceVersion (cm_Meta cache)))) cache"
      unfolding cache_delete_ok_def using that releasing_append(1) [OF ctx(1)] releasing_append(2) [OF ctx(2)] by blast
    then show ?thesis
      unfolding kdelete_def using rel by (auto simp: release_post_def split: sum.split intro!: hist_handle hist_ask hist_ret)
  qed
  have image_delete: "hist (osa_ok L a0) (tr @ n) (attempt (os_delete P Image (imageIDForCache L cache) (om_UID (cm_Meta cache)))
     (\<lambda>_. ret (Inr False))) (release_post a0)" for n
  proof -
    have "image_delete_ok L a0 (tr @ n) (imageIDForCache L cache) (om_UID (cm_Meta cache))"
      unfolding image_delete_ok_def using releasing_append(1) [OF ctx(1)] releasing_append(2) [OF ctx(2)] by blast
    then show ?thesis unfolding os_delete_def by (auto split: sum.split intro!: hist_attempt hist_ask hist_ret)
  qed
  show ?thesis
    unfolding collectImage_def Let_def
    by (rule hist_handle_seq [OF hist_os_get [OF P]])
      (auto simp: looked_up_def intro!: hist_ret delete image_delete)
qed

lemma hist_releaseDiscoveryImage:
  assumes P: "lawful_client P" and ctx: "releasing a0 tr" "same_worker a0 a" "same_image a0 a"
  shows "hist (osa_ok L a0) tr (releaseDiscoveryImage K L P a) (release_post a0)"
proof -
  have key: "cacheKey a = cacheKey a0" using ctx(2,3) by (simp add: cacheKey_def same_worker_fields same_image_def)
  have missing: "hist (osa_ok L a0) (tr @ [EvConfigMap (Get Live (cacheKey a0) (Inl e))])
      (if IsNotFound e \<and> oast_ImageID (oa_Status a) = [] then ret (Inr True)
             else if IsNotFound e then pinnedImageGone P a else ret (Inl e)) (release_post a0)" for e
  proof (intro hist_if hist_pinnedImageGone [OF P] hist_ret)
    assume "IsNotFound e \<and> oast_ImageID (oa_Status a) = []"
    then show "release_post a0 (Inr True) (tr @ [EvConfigMap (Get Live (cacheKey a0) (Inl e))])"
      using ctx(3) by (auto simp: released_image_def IsNotFound_iff same_image_def)
  qed simp
  have found: "hist (osa_ok L a0) (tr @ [EvConfigMap (Get Live (cacheKey a0) (Inr cache))])
      (if mget (om_Labels (cm_Meta cache)) imageCacheLabel \<noteq> imageCacheOwnedValue then ret (Inl (OsErr ErrOwnership))
           else if oast_ImageID (oa_Status a) \<noteq> [] \<and> oast_ImageID (oa_Status a) \<noteq> imageIDForCache L cache
           then attempt (pinnedImageGone P a) (\<lambda>gone. ret (if gone then Inr True else Inl (OsErr ErrOwnership)))
           else if mget (om_Annotations (cm_Meta cache)) imageCachePhase \<noteq> openStackPhaseDeleting
           then dropReference K a cache
           else collectImage K L P cache) (release_post a0)" for cache
  proof (intro hist_if hist_ret hist_attempt_seq [OF hist_pinnedImageGone [OF P]] hist_dropReference hist_collectImage [OF P])
    show "tombstone (tr @ [EvConfigMap (Get Live (cacheKey a0) (Inr cache))]) cache"
      if "\<not> mget (om_Labels (cm_Meta cache)) imageCacheLabel \<noteq> imageCacheOwnedValue"
        "\<not> mget (om_Annotations (cm_Meta cache)) imageCachePhase \<noteq> openStackPhaseDeleting"
      using that by (simp add: tombstone_def)
  qed (use releasing_append(1) [OF ctx(1)] ctx(2) in \<open>simp_all add: release_post_def\<close>)
  show ?thesis
    unfolding releaseDiscoveryImage_def kget_def key
  proof (rule hist_if)
    show "hist (osa_ok L a0) tr (ret (Inr True)) (release_post a0)" if "oast_ImageCacheName (oa_Status a) = []"
      using that ctx(3) by (intro hist_ret) (simp add: released_image_def same_image_def)
  qed (auto split: sum.split split del: if_split intro!: hist_handle hist_ask missing found)
qed

lemma hist_refreshDiscoveryImage:
  assumes P: "lawful_client P" and ctx: "working a0 tr" "oast_Phase (oa_Status a0) = openStackPhaseRefreshingImage"
  shows "hist (osa_ok L a0) tr (refreshDiscoveryImage K L P a0) (\<lambda>ar tr'. same_worker a0 (fst ar))"
  unfolding refreshDiscoveryImage_def
proof (rule hist_if)
  assume "\<not> \<not> canRefreshDiscoveryImage a0"
  then have "releasing a0 tr" using ctx by (simp add: releasing_def)
  then have "hist (osa_ok L a0) tr (keeping a0 (releaseDiscoveryImage K L P a0)) (\<lambda>ar tr'. fst ar = a0)"
    by (intro hist_keeping hist_mono [OF hist_releaseDiscoveryImage [OF P]]) simp_all
  then show "hist (osa_ok L a0) tr (proceed (keeping a0 (releaseDiscoveryImage K L P a0)) (\<lambda>a released.
             ret (if released then imageForgotten a else a, Inr ()))) (\<lambda>ar tr'. same_worker a0 (fst ar))"
    by (rule hist_proceed) (auto simp: imageForgotten_def intro!: hist_ret)
qed (simp add: hist_failing)

end
