(* ===== verification/ProvisionSafety.thy ===== *)
theory ProvisionSafety
  imports ImageSafety
begin

text \<open>
  Every call the controller makes while it provisions a worker and waits for its host satisfies the specification of
  theory \<open>OpenStackSpec\<close>.
\<close>

section \<open>Hosts\<close>

text \<open>The worker object itself was written: its watch triggers the next reconciliation, if any is needed.\<close>

fun written_ev :: "event \<Rightarrow> bool" where
  "written_ev (EvOsAgent (Update obj r)) \<longleftrightarrow> (\<exists>x. r = Inr x)"
| "written_ev (EvOsAgent (Delete pre obj r)) \<longleftrightarrow> (\<exists>x. r = Inr x)"
| "written_ev e \<longleftrightarrow> False"

text \<open>
  What a step leaves to the report: the worker with its spec, and, unless the step failed or wrote the worker, with its
  metadata but for the resource version.
\<close>

definition spec_kept :: "OpenStackAgent \<Rightarrow> OpenStackAgent \<times> unit result \<Rightarrow> event list \<Rightarrow> bool" where
  "spec_kept a0 ar tr \<longleftrightarrow> oa_Spec (fst ar) = oa_Spec a0
     \<and> (snd ar = Inr () \<longrightarrow> same_worker a0 (fst ar) \<or> saw tr written_ev)"

lemma spec_kept_worker: "same_worker a0 (fst ar) \<Longrightarrow> spec_kept a0 ar tr"
  by (simp add: spec_kept_def same_worker_fields)

lemma spec_kept_onStatus [simp]: "spec_kept a0 (onStatus f a, r) tr \<longleftrightarrow> spec_kept a0 (a, r) tr"
  by (auto simp: spec_kept_def) (simp_all add: onStatus_def)

lemma hist_matchingHosts:
  "hist (osa_ok L a0) tr (matchingHosts K a) (\<lambda>r tr'. \<forall>hosts. r = Inr hosts \<longrightarrow> (\<exists>items.
     saw tr' ((=) (EvAgent (ListAll Live (InNamespace (om_Namespace (oa_Meta a))) (Inr items)))) \<and> hosts = filter (agentHardwareMatches a) items))"
  unfolding matchingHosts_def klist_def
  by (auto split: sum.split intro!: hist_attempt hist_ask hist_ret) blast

lemma patchedAgent_fields [simp]:
  "ao_installationDiskID (patchedAgent binding hostname (Some c) b) = sf_InstallationDiskID c"
  "ao_hostname (patchedAgent binding hostname checks b) = hostname"
  by (simp_all add: patchedAgent_def Let_def split: option.split bool.split)

lemma installationDisk_onStatus [simp]:
  "(\<And>st. oast_OSVolumeID (f st) = oast_OSVolumeID st) \<Longrightarrow> installationDisk (onStatus f a) host = installationDisk a host"
proof -
  assume "\<And>st. oast_OSVolumeID (f st) = oast_OSVolumeID st"
  then have "diskEligible (onStatus f a) = diskEligible a" by (intro ext) (simp add: diskEligible_def onStatus_def)
  then show ?thesis by (simp add: installationDisk_def)
qed

lemma hostConflict_free: "hostConflict a host = None \<Longrightarrow> host_free a host"
  by (auto simp: hostConflict_def host_free_def Let_def split: if_splits option.splits)

lemma installationDisk_verified:
  assumes "installationDisk a host = Inr disk"
  shows "verified_disk a host disk"
proof -
  let ?ds = "filter (diskEligible a) (List.map_filter id (ao_disks host))"
  obtain d where d: "?ds = [d]" "di_id d = disk"
    using assms by (auto simp: installationDisk_def map_eq_Cons_conv split: list.splits)
  then have "d \<in> set ?ds" by simp
  then have mem: "Some d \<in> set (ao_disks host)" and ok: "diskEligible a d" by (auto simp: map_filter_def)
  have "go_HasPrefix volume (di_serial d) \<Longrightarrow> \<exists>rest. volume = di_serial d @ rest" for volume
    unfolding go_HasPrefix_def by (metis append_take_drop_id)
  then have "volume_disk a d" "disk \<noteq> []" using ok d(2) by (auto simp: diskEligible_def volume_disk_def Let_def)
  then show ?thesis unfolding verified_disk_def using mem d(2) by blast
qed

lemma phase_irrelevant [simp]:
  "hostConflict (setPhase p a) host = hostConflict a host" "agentHardwareMatches (setPhase p a) = agentHardwareMatches a"
proof -
  show "hostConflict (setPhase p a) host = hostConflict a host" by (simp add: hostConflict_def onStatus_def Let_def)
  show "agentHardwareMatches (setPhase p a) = agentHardwareMatches a" by (intro ext) (simp add: agentHardwareMatches_def onStatus_def)
qed

lemma hist_approveHost:
  assumes ctx: "working a0 tr" "same_worker a0 b"
    "saw tr ((=) (EvAgent (ListAll Live (InNamespace (om_Namespace (oa_Meta a0))) (Inr items))))"
    "filter (agentHardwareMatches a0) items = [host]" "hostConflict a0 host = None" "installationDisk b host = installationDisk a0 host"
  shows "hist (osa_ok L a0) tr (approveHost K b host) (spec_kept a0)"
proof (cases "installationDisk a0 host")
  case (Inl e)
  then show ?thesis unfolding approveHost_def ctx(6) using ctx(2) by (simp add: hist_ret spec_kept_worker)
next
  case (Inr disk)
  let ?c = "\<lparr>sf_UID = om_UID (ao_Meta host), sf_ResourceVersion = om_ResourceVersion (ao_Meta host), sf_InstallationDiskID = disk\<rparr>"
  let ?ns = "om_Namespace (oa_Meta b)" and ?bind = "os_Agent (oas_Configuration (oa_Spec b))"
  let ?name = "ref_Name (oas_AgentMachineRef (oa_Spec b))"
  have ok: "approve_ok a0 (tr @ [e]) x (patchedAgent ?bind ?name (Some ?c) x)"
    if "om_UID (ao_Meta x) = om_UID (ao_Meta host)" "om_ResourceVersion (ao_Meta x) = om_ResourceVersion (ao_Meta host)"
      "unbound_agent x" "mget (om_Annotations (ao_Meta x)) agentCleanupAnnotation = []" for x e
    unfolding approve_ok_def
    using that ctx evidence_append(2) [OF ctx(1)] same_worker_fields(2) [OF ctx(2)] hostConflict_free [OF ctx(5)] installationDisk_verified [OF Inr]
    by (intro conjI exI [of _ host] exI [of _ items]) auto
  have "hist (osa_ok L a0) tr (patchDiscoveredAgent K ?ns ?bind (om_Name (ao_Meta host)) ?name (Some ?c)) (\<lambda>r tr'. True)"
    unfolding patchDiscoveredAgent_def kget_def kpatch_def
    using ok by (auto split: sum.split intro!: hist_attempt hist_ask hist_ret)
  then show ?thesis
    unfolding approveHost_def ctx(6) using Inr ctx(2)
    by (auto intro!: hist_keeping spec_kept_worker elim!: hist_mono)
qed

lemma hist_reconcileHost:
  assumes ctx: "working a0 tr" "a = setPhase p a0"
    "saw tr ((=) (EvAgent (ListAll Live (InNamespace (om_Namespace (oa_Meta a0))) (Inr items))))"
    "filter (agentHardwareMatches a0) items = [host]"
  shows "hist (osa_ok L a0) tr (reconcileHost K a host) (spec_kept a0)"
proof (cases "hostConflict a host")
  case (Some reason)
  then show ?thesis unfolding reconcileHost_def using ctx(2) by (simp add: hist_failing spec_kept_worker)
next
  case None
  have free: "hostConflict a0 host = None" using None ctx(2) by simp
  have approve: "hist (osa_ok L a0) tr (approveHost K (onStatus (oast_AgentRef_update f) a) host) (spec_kept a0)" for f
    by (rule hist_approveHost [OF ctx(1) _ ctx(3,4) free]) (use ctx(2) in simp_all)
  have "same_worker a0 a" using ctx(2) by simp
  then show ?thesis
    unfolding reconcileHost_def None Let_def option.case
    by (auto intro!: hist_if hist_ret hist_failing approve spec_kept_worker)
qed

lemma hist_awaitDiscovery: "same_worker a0 a \<Longrightarrow> hist (osa_ok L a0) tr (awaitDiscovery K a) (spec_kept a0)"
  unfolding awaitDiscovery_def Now_def
  by (auto split: option.split intro!: hist_ret hist_bind hist_ask hist_failing spec_kept_worker)

lemma hist_reconcileDiscoveredAgent:
  assumes ctx: "working a0 tr"
  shows "hist (osa_ok L a0) tr (reconcileDiscoveredAgent K a0) (spec_kept a0)"
proof -
  let ?a = "setPhase ''WaitingForDiscovery'' a0"
  have ns: "om_Namespace (oa_Meta ?a) = om_Namespace (oa_Meta a0)" by (simp add: onStatus_def)
  have one: "hist (osa_ok L a0) (tr @ n) (reconcileHost K ?a host) (spec_kept a0)"
    if "saw (tr @ n) ((=) (EvAgent (ListAll Live (InNamespace (om_Namespace (oa_Meta ?a))) (Inr items))))"
      "[host] = filter (agentHardwareMatches ?a) items" for host items n
    by (rule hist_reconcileHost [OF evidence_append(2) [OF ctx] refl]) (use that in \<open>simp_all only: ns phase_irrelevant\<close>)
  show ?thesis
    unfolding reconcileDiscoveredAgent_def Let_def
  proof (rule hist_handle_seq [OF hist_matchingHosts])
    fix hosts n
    assume "\<forall>hs. Inr hosts = (Inr hs :: AgentObj list result) \<longrightarrow> (\<exists>items.
       saw (tr @ n) ((=) (EvAgent (ListAll Live (InNamespace (om_Namespace (oa_Meta ?a))) (Inr items)))) \<and> hs = filter (agentHardwareMatches ?a) items)"
    then obtain items where "saw (tr @ n) ((=) (EvAgent (ListAll Live (InNamespace (om_Namespace (oa_Meta ?a))) (Inr items))))"
      "hosts = filter (agentHardwareMatches ?a) items" by blast
    then show "hist (osa_ok L a0) (tr @ n) (case hosts of
             [] \<Rightarrow> awaitDiscovery K ?a
           | [host] \<Rightarrow> reconcileHost K ?a host
           | _ \<Rightarrow> failing ?a (mkOsError ''AmbiguousAgentIdentity'' False True)) (spec_kept a0)"
      using one by (auto split: list.split intro!: hist_awaitDiscovery hist_failing spec_kept_worker)
  qed (simp add: hist_ret spec_kept_worker)
qed

section \<open>Provisioning\<close>

lemma hist_recoverPending:
  assumes P: "lawful_client P"
  shows "hist (osa_ok L a0) tr (recoverPending K P a0) (spec_kept a0)"
proof -
  have "same_worker a0 (recovered k found now a0)" for k found now
    by (cases k) (simp_all add: recovered_def)
  then have kept: "spec_kept a0 (recovered k found now a0, r) tr" for k found now r tr
    by (intro spec_kept_worker) simp
  show ?thesis
    unfolding recoverPending_def Let_def Now_def
    by (rule hist_handle_seq [OF hist_os_find [OF P]])
      (auto split del: if_split intro!: hist_if hist_ret hist_bind hist_ask kept spec_kept_worker)
qed

lemma hist_watchServer:
  assumes P: "lawful_client P" and ctx: "working a0 tr"
  shows "hist (osa_ok L a0) tr (watchServer K P a0) (spec_kept a0)"
proof -
  have "hist (osa_ok L a0) tr (keeping a0 (os_get P Server (oast_ServerID (oa_Status a0)) (oaUID a0))) (\<lambda>ar tr'. fst ar = a0)"
    by (rule hist_keeping, rule hist_mono [OF hist_os_get [OF P]]) simp
  moreover have "hist (osa_ok L a0) (tr @ n) (reconcileDiscoveredAgent K a0) (spec_kept a0)" for n
    by (rule hist_reconcileDiscoveredAgent [OF evidence_append(2) [OF ctx]])
  ultimately show ?thesis
    unfolding watchServer_def
    by (elim hist_proceed) (auto simp: spec_kept_worker split: sum.split intro!: hist_ret)
qed

lemma hist_provisionPort:
  assumes P: "lawful_client P" and ctx: "working a0 tr" "fresh_worker a0"
  shows "hist (osa_ok L a0) tr (provisionPort K P a0) (spec_kept a0)"
  unfolding provisionPort_def
  by (rule hist_proceed [OF hist_ensureResource [OF P ctx(1) _ ctx(2)]])
    (auto simp: ensured_def moves_def intro!: hist_ret spec_kept_worker)

text \<open>While volumes and image are prepared, the port and the server stay as they were read.\<close>

definition prepared :: "OpenStackAgent \<Rightarrow> OpenStackAgent \<Rightarrow> bool" where
  "prepared a0 a \<longleftrightarrow> moves {OSVolume, DiscoveryVolume} a0 a"

lemma prepared_step: "prepared a0 a \<Longrightarrow> moves ks a b \<Longrightarrow> ks \<subseteq> {OSVolume, DiscoveryVolume} \<Longrightarrow> prepared a0 b"
  unfolding prepared_def by (metis moves_mono moves_trans sup.idem)

lemma prepared_facts:
  assumes "prepared a0 a"
  shows "same_worker a0 a" "oast_PortID (oa_Status a) = oast_PortID (oa_Status a0)" "oast_MACAddress (oa_Status a) = oast_MACAddress (oa_Status a0)"
  using assms by (auto simp: prepared_def moves_def dest: spec [of _ Port])

lemma hist_provisionServer:
  assumes P: "lawful_client P" and ctx: "working a0 tr" "fresh_worker a0" "prepared a0 a"
    and ready: "\<And>b n. prepared a0 b \<Longrightarrow> server_ready a0 (tr @ n) b"
  shows "hist (osa_ok L a0) tr (provisionServer K P a) (spec_kept a0)"
  unfolding provisionServer_def
proof (rule hist_proceed [OF hist_status])
  show "oa_Spec a = oa_Spec a0" by (rule same_worker_fields(2) [OF prepared_facts(1) [OF ctx(3)]])
  show "spec_kept a0 (b, Inl e) (tr @ n)" if "status_post a (b, Inl e) (tr @ n)" for b e n
    using that prepared_step [OF ctx(3)] prepared_facts(1) by (auto simp: status_post_def intro!: spec_kept_worker)
  fix b n and x :: unit
  assume "status_post a (b, Inr x) (tr @ n)"
  then have b: "prepared a0 b" using prepared_step [OF ctx(3)] by (auto simp: status_post_def)
  then have b': "prepared a0 (setPhase ''CreatingInstance'' b)" by (simp add: prepared_def)
  show "hist (osa_ok L a0) (tr @ n) (proceed (ensureResource K P (setPhase ''CreatingInstance'' b) Server) (\<lambda>a server.
     if oast_InstanceCreatedAt (oa_Status a) = None
     then do { now \<leftarrow> Now K;
               ret (onStatus (oast_InstanceCreatedAt_update (\<lambda>_. Some now)) a, resourceFailed server) }
     else ret (a, resourceFailed server))) (spec_kept a0)"
    unfolding Now_def
    by (rule hist_proceed [OF hist_ensureResource [OF P evidence_append(2) [OF ctx(1)] prepared_facts(1) [OF b'] ctx(2)]])
      (use ready [OF b'] prepared_facts(1) [OF b] in
        \<open>auto simp: ensured_def moves_def intro!: hist_ret hist_bind hist_ask spec_kept_worker intro: same_worker_trans\<close>)
qed

definition os_volume_ready :: "OpenStackAgent \<Rightarrow> event list \<Rightarrow> bool" where
  "os_volume_ready a0 tr \<longleftrightarrow> oast_PortID (oa_Status a0) \<noteq> [] \<and> oast_MACAddress (oa_Status a0) \<noteq> []
     \<and> (\<exists>r. has_resource tr OSVolume (oaUID a0) r \<and> rs_State r = ''available'' \<and> rs_Bootable r)"

lemma os_volume_append: "os_volume_ready a0 tr \<Longrightarrow> os_volume_ready a0 (tr @ n)"
  unfolding os_volume_ready_def by (meson evidence_append(3))

lemma hist_provisionDiscoveryVolume:
  assumes P: "lawful_client P" and ctx: "working a0 tr" "fresh_worker a0" "prepared a0 a" "os_volume_ready a0 tr"
  shows "hist (osa_ok L a0) tr (provisionDiscoveryVolume K P a) (spec_kept a0)"
proof -
  let ?a = "setPhase ''CreatingDiscoveryVolume'' a"
  have a: "prepared a0 ?a" using ctx(3) by (simp add: prepared_def)
  show ?thesis
    unfolding provisionDiscoveryVolume_def
  proof (rule hist_proceed [OF hist_ensureResource [OF P ctx(1) prepared_facts(1) [OF a] ctx(2)]])
    have step: "prepared a0 b" if "ensured a0 DiscoveryVolume ?a (b, r) tr'" for b r tr'
      using that by (intro prepared_step [OF a]) (auto simp: ensured_def)
    show "spec_kept a0 (b, Inl e) (tr @ n)" if "ensured a0 DiscoveryVolume ?a (b, Inl e) (tr @ n)" for b e n
      by (rule spec_kept_worker) (simp add: prepared_facts(1) [OF step [OF that]])
    fix b disc n
    assume post: "ensured a0 DiscoveryVolume ?a (b, Inr disc) (tr @ n)"
    have has: "has_resource (tr @ n) DiscoveryVolume (oaUID a0) disc" using post by (simp add: ensured_def)
    have server: "hist (osa_ok L a0) (tr @ n) (provisionServer K P b) (spec_kept a0)" if "rs_State disc = ''available''"
    proof (rule hist_provisionServer [OF P evidence_append(2) [OF ctx(1)] ctx(2) step [OF post]])
      fix c m
      assume c: "prepared a0 c"
      show "server_ready a0 ((tr @ n) @ m) c"
        unfolding server_ready_def prepared_facts(2,3) [OF c]
        using os_volume_append [OF ctx(4), of "n @ m"] evidence_append(3) [OF has, of m] that
        by (auto simp: os_volume_ready_def)
    qed
    have "spec_kept a0 (b, r) tr'" for r tr' by (rule spec_kept_worker) (simp add: prepared_facts(1) [OF step [OF post]])
    then show "hist (osa_ok L a0) (tr @ n) (case resourceFailed disc of Inl e \<Rightarrow> ret (b, Inl e)
      | Inr _ \<Rightarrow> if rs_State disc \<noteq> ''available'' then ret (b, Inr ()) else provisionServer K P b) (spec_kept a0)"
      using server by (auto split: sum.split intro!: hist_ret)
  qed simp_all
qed

lemma hist_provisionImage:
  assumes P: "lawful_client P" and ctx: "working a0 tr" "fresh_worker a0" "prepared a0 a" "os_volume_ready a0 tr"
    "same_image a0 a" "oa_read tr a0"
  shows "hist (osa_ok L a0) tr (proceed (prepareDiscoveryImage K H L P a) (\<lambda>a ready.
           if \<not> ready then ret (a, Inr ()) else provisionDiscoveryVolume K P a)) (spec_kept a0)"
proof (rule hist_proceed [OF hist_prepareDiscoveryImage [OF P ctx(1) prepared_facts(1) [OF ctx(3)] ctx(5,6)]])
  have step: "prepared a0 b" if "moves {} a (fst (b, r))" for b and r :: "bool result"
    using that by (intro prepared_step [OF ctx(3), of "{}"]) simp_all
  have kept: "spec_kept a0 (b, r) tr'" if "prepared a0 b" for b r tr'
    by (rule spec_kept_worker) (simp add: prepared_facts(1) [OF that])
  show "spec_kept a0 (b, Inl e) (tr @ n)" if "moves {} a (fst (b, Inl e :: bool result))" for b e n
    by (rule kept [OF step [OF that]])
  show "hist (osa_ok L a0) (tr @ n) (if \<not> ready then ret (b, Inr ()) else provisionDiscoveryVolume K P b) (spec_kept a0)"
    if "moves {} a (fst (b, Inr ready :: bool result))" for b ready n
    by (intro hist_if hist_ret kept step [OF that]
        hist_provisionDiscoveryVolume [OF P evidence_append(2) [OF ctx(1)] ctx(2) step [OF that] os_volume_append [OF ctx(4)]])
qed

lemma hist_provisionVolumes:
  assumes P: "lawful_client P" and ctx: "working a0 tr" "fresh_worker a0" "oa_read tr a0"
    and port: "oast_PortID (oa_Status a0) \<noteq> []" "oast_MACAddress (oa_Status a0) \<noteq> []"
  shows "hist (osa_ok L a0) tr (provisionVolumes K H L P a0) (spec_kept a0)"
proof -
  let ?a = "setPhase ''CreatingOSVolume'' a0"
  have a: "prepared a0 ?a" by (simp add: prepared_def)
  show ?thesis
    unfolding provisionVolumes_def
  proof (rule hist_proceed [OF hist_ensureResource [OF P ctx(1) prepared_facts(1) [OF a] ctx(2)]])
    have step: "prepared a0 b" if "ensured a0 OSVolume ?a (b, r) tr'" for b r tr'
      using that by (intro prepared_step [OF a]) (auto simp: ensured_def)
    have kept: "spec_kept a0 (b, r) tr'" if "prepared a0 b" for b r tr'
      by (rule spec_kept_worker) (simp add: prepared_facts(1) [OF that])
    show "spec_kept a0 (b, Inl e) (tr @ n)" if "ensured a0 OSVolume ?a (b, Inl e) (tr @ n)" for b e n
      by (rule kept [OF step [OF that]])
    fix b volume n
    assume post: "ensured a0 OSVolume ?a (b, Inr volume) (tr @ n)"
    note b = step [OF post]
    have has: "has_resource (tr @ n) OSVolume (oaUID a0) volume" and img: "same_image a0 b" using post by (simp_all add: ensured_def)
    have bootable: "hist (osa_ok L a0) (tr @ n) (keeping b (os_setBootable P (rs_ID volume) (oaUID b))) (spec_kept a0)"
      if "rs_State volume = ''available''" "\<not> rs_Bootable volume"
      unfolding os_setBootable_def same_worker_fields(1) [OF prepared_facts(1) [OF b]]
      using that has evidence_append(2) [OF ctx(1), of n] ctx(2)
      by (intro hist_keeping hist_ask conjI kept [OF b]) (auto simp: fresh_worker_def)
    have images: "hist (osa_ok L a0) (tr @ n) (proceed (prepareDiscoveryImage K H L P (setPhase ''PreparingDiscoveryImage'' b))
        (\<lambda>a ready. if \<not> ready then ret (a, Inr ()) else provisionDiscoveryVolume K P a)) (spec_kept a0)"
      if "rs_State volume = ''available''" "rs_Bootable volume"
    proof (rule hist_provisionImage [OF P evidence_append(2) [OF ctx(1)] ctx(2)])
      show "prepared a0 (setPhase ''PreparingDiscoveryImage'' b)" using b by (simp add: prepared_def)
      show "os_volume_ready a0 (tr @ n)" using has that port by (auto simp: os_volume_ready_def)
      show "same_image a0 (setPhase ''PreparingDiscoveryImage'' b)" using img by simp
      show "oa_read (tr @ n) a0" using ctx(3) by (auto simp: oa_read_def)
    qed
    show "hist (osa_ok L a0) (tr @ n) (case resourceFailed volume of Inl e \<Rightarrow> ret (b, Inl e)
       | Inr _ \<Rightarrow>
         if rs_State volume \<noteq> ''available'' then ret (b, Inr ())
         else if \<not> rs_Bootable volume then keeping b (os_setBootable P (rs_ID volume) (oaUID b))
         else proceed (prepareDiscoveryImage K H L P (setPhase ''PreparingDiscoveryImage'' b)) (\<lambda>a ready.
              if \<not> ready then ret (a, Inr ()) else provisionDiscoveryVolume K P a)) (spec_kept a0)"
      using bootable images by (auto split: sum.split intro!: hist_ret kept [OF b])
  qed simp_all
qed

lemma hist_provision:
  assumes P: "lawful_client P" and ctx: "working a0 tr" "oa_read tr a0"
  shows "hist (osa_ok L a0) tr (provision K H L P a0) (spec_kept a0)"
  unfolding provision_def
proof (intro hist_if)
  show "hist (osa_ok L a0) tr (refreshDiscoveryImage K L P a0) (spec_kept a0)"
    if "oast_Phase (oa_Status a0) = openStackPhaseRefreshingImage"
    by (rule hist_mono [OF hist_refreshDiscoveryImage [OF P ctx(1) that]]) (rule spec_kept_worker)
qed (auto simp: fresh_worker_def intro!: hist_recoverPending [OF P] hist_watchServer [OF P ctx(1)]
       hist_provisionPort [OF P ctx(1)] hist_provisionVolumes [OF P ctx(1) _ ctx(2)])

end
