(* ===== verification/CleanupSafety.thy ===== *)
theory CleanupSafety
  imports ProvisionSafety
begin

text \<open>
  Every call the controller makes while it cleans up a worker satisfies the specification of theory
  \<open>OpenStackSpec\<close>: it withdraws the hosts, then deletes server, discovery volume, OS volume and port, each once the
  one before it was observed absent, releases the image, deletes the hosts and only then gives up the finalizer.
\<close>

section \<open>What the steps keep\<close>

text \<open>The worker as it was read, apart from phase, pending creation and resource version.\<close>

definition unchanged :: "OpenStackAgent \<Rightarrow> OpenStackAgent \<Rightarrow> bool" where
  "unchanged a0 a \<longleftrightarrow> moves {} a0 a \<and> same_image a0 a"

lemma unchanged_onStatus [simp]:
  "unchanged a0 a0" "bookkeeping f \<Longrightarrow> unchanged a0 (onStatus f a) \<longleftrightarrow> unchanged a0 a"
  by (simp_all add: unchanged_def)

lemma unchanged_facts:
  assumes "unchanged a0 a"
  shows "same_worker a0 a" "same_image a0 a" "oaUID a = oaUID a0" "oa_Spec a = oa_Spec a0" "resourceName a k = resourceName a0 k"
    "om_Namespace (oa_Meta a) = om_Namespace (oa_Meta a0)" "agentHardwareMatches a = agentHardwareMatches a0"
    "withdrawnHost a = withdrawnHost a0"
proof -
  show same: "same_worker a0 a" "same_image a0 a" using assms by (simp_all add: unchanged_def moves_def)
  note fields = same_worker_fields [OF same(1)]
  show "oaUID a = oaUID a0" "oa_Spec a = oa_Spec a0" "resourceName a k = resourceName a0 k" "om_Namespace (oa_Meta a) = om_Namespace (oa_Meta a0)"
    by (rule fields)+
  have "oast_MACAddress (oa_Status a) = oast_MACAddress (oa_Status a0)" "statusID Server a = statusID Server a0"
    using assms unfolding unchanged_def moves_def by blast+
  then show "agentHardwareMatches a = agentHardwareMatches a0" by (intro ext) (simp add: agentHardwareMatches_def)
  show "withdrawnHost a = withdrawnHost a0" by (intro ext) (simp add: withdrawnHost_def fields(4))
qed

text \<open>A loop that leaves evidence of every iteration.\<close>

lemma hist_for_each_saw:
  assumes "\<And>x n. x \<in> set xs \<Longrightarrow> hist P (tr @ n) (f x) (\<lambda>r tr'. r = Inr () \<longrightarrow> saw tr' (D x))"
  shows "hist P tr (for_each f xs) (\<lambda>r tr'. r = Inr () \<longrightarrow> (\<forall>x \<in> set xs. saw tr' (D x)))"
  using assms
proof (induction xs arbitrary: tr)
  case Nil
  show ?case by (simp add: hist_ret)
next
  case (Cons x xs)
  have rest: "hist P (tr @ n) (for_each f xs) (\<lambda>r tr'. r = Inr () \<longrightarrow> (\<forall>y \<in> set xs. saw tr' (D y)))" for n
    by (rule Cons.IH) (use Cons.prems in simp)
  have "hist P (tr @ n) (for_each f xs) (\<lambda>r tr'. r = Inr () \<longrightarrow> (\<forall>y \<in> set (x # xs). saw tr' (D y)))" if "saw (tr @ n) (D x)" for n
    by (rule hist_mono [OF rest]) (use that in auto)
  then show ?case
    unfolding for_each.simps
    by (intro hist_attempt_seq [OF Cons.prems [of x "[]", simplified]]) auto
qed

text \<open>The hosts of the worker that were listed, each treated in turn.\<close>

lemma hist_all_hosts:
  assumes a: "unchanged a0 a"
    and listed: "saw tr ((=) (EvAgent (ListAll Live (InNamespace (om_Namespace (oa_Meta a))) (Inr items))))"
    and step: "\<And>h n. agentHardwareMatches a0 h \<Longrightarrow> hist P (tr @ n) (f h) (\<lambda>r tr'. r = Inr () \<longrightarrow> saw tr' (D h))"
  shows "hist P tr (for_each f (filter (agentHardwareMatches a) items)) (\<lambda>r tr'. r = Inr () \<longrightarrow> all_hosts a0 tr' D)"
proof -
  note facts = unchanged_facts [OF a]
  have "hist P tr (for_each f (filter (agentHardwareMatches a) items))
      (\<lambda>r tr'. r = Inr () \<longrightarrow> (\<forall>h \<in> set (filter (agentHardwareMatches a) items). saw tr' (D h)))"
    by (rule hist_for_each_saw) (rule step, simp add: facts)
  then show ?thesis
    by (rule hist_mono) (use listed in \<open>auto simp: all_hosts_def facts\<close>)
qed

section \<open>Authorization\<close>

definition worker_machine_gone :: "OpenStackAgent \<Rightarrow> event list \<Rightarrow> bool" where
  "worker_machine_gone a0 tr \<longleftrightarrow> (case oas_MachineRef (oa_Spec a0) of None \<Rightarrow> True | Some ref \<Rightarrow> saw tr (machine_gone_ev ref))"

lemma worker_machine_gone_append: "worker_machine_gone a0 tr \<Longrightarrow> worker_machine_gone a0 (tr @ n)"
  by (simp add: worker_machine_gone_def split: option.splits)

lemma hist_machineAbsent:
  assumes "unchanged a0 a"
  shows "hist (osa_ok L a0) tr (machineAbsent K a) (\<lambda>r tr'. r = Inr () \<longrightarrow> worker_machine_gone a0 tr')"
  unfolding machineAbsent_def unchanged_facts(4) [OF assms] kget_def
  by (auto simp: worker_machine_gone_def split: option.split sum.split intro!: hist_ret hist_handle hist_ask)

lemma hist_withdrawHost:
  assumes ctx: "unchanged a0 a" "oaDeleting a0" "saw tr (demand_gone_ev a0)" "worker_machine_gone a0 tr" "agentHardwareMatches a0 host"
  shows "hist (osa_ok L a0) tr (withdrawHost K a host) (\<lambda>r tr'. r = Inr () \<longrightarrow> saw tr' (withdrawn_ev a0 host))"
  unfolding withdrawHost_def unchanged_facts(8) [OF ctx(1)] kpatch_def
  using ctx by (auto simp: withdraw_ok_def worker_machine_gone_def split: sum.split intro!: hist_ret hist_attempt hist_ask)

lemma hist_authorizeCleanup:
  assumes ctx: "unchanged a0 a" "oaDeleting a0" "present \<or> saw tr (demand_gone_ev a0)" "in_scope a0 tr"
    "os_CleanupPolicy (oas_Configuration (oa_Spec a0)) \<noteq> CleanupPolicyRetain"
  shows "hist (osa_ok L a0) tr (authorizeCleanup K a present) (\<lambda>r tr'. r = Inr () \<longrightarrow> cleaning a0 tr')"
proof (cases present)
  case True
  then show ?thesis by (simp add: authorizeCleanup_def hist_ret)
next
  case False
  have gone: "saw tr (demand_gone_ev a0)" using False ctx(3) by simp
  have hosts: "hist (osa_ok L a0) (tr @ n) (attempt (matchingHosts K a) (for_each (withdrawHost K a))) (\<lambda>r tr'. r = Inr () \<longrightarrow> cleaning a0 tr')"
    if m: "worker_machine_gone a0 (tr @ n)" for n
  proof (rule hist_attempt_seq [OF hist_matchingHosts], simp, elim allE impE, rule refl, elim exE conjE)
    fix hosts p items
    assume listed: "saw ((tr @ n) @ p) ((=) (EvAgent (ListAll Live (InNamespace (om_Namespace (oa_Meta a))) (Inr items))))"
      and eq: "hosts = filter (agentHardwareMatches a) items"
    have "hist (osa_ok L a0) ((tr @ n) @ p) (for_each (withdrawHost K a) hosts) (\<lambda>r tr'. r = Inr () \<longrightarrow> all_hosts a0 tr' (withdrawn_ev a0))"
      unfolding eq
      using gone worker_machine_gone_append [OF m, of "p @ _"] by (intro hist_all_hosts [OF ctx(1) listed] hist_withdrawHost ctx) auto
    then show "hist (osa_ok L a0) ((tr @ n) @ p) (for_each (withdrawHost K a) hosts) (\<lambda>r tr'. r = Inr () \<longrightarrow> cleaning a0 tr')"
      by (rule hist_mono)
        (use ctx gone worker_machine_gone_append [OF m, of "p @ _"] evidence_append(1) [OF ctx(4), of "n @ p @ _"] in
          \<open>simp add: cleaning_def worker_machine_gone_def\<close>)
  qed
  show ?thesis
    unfolding authorizeCleanup_def
    using False hosts by (auto intro!: hist_attempt_seq [OF hist_machineAbsent [OF ctx(1)]])
qed

section \<open>Deleting resources\<close>

definition deletion_post :: "OpenStackAgent \<Rightarrow> Kind \<Rightarrow> OpenStackAgent \<times> bool result \<Rightarrow> event list \<Rightarrow> bool" where
  "deletion_post a0 k ar tr \<longleftrightarrow> unchanged a0 (fst ar) \<and> (snd ar = Inr True \<longrightarrow> saw tr (missing_ev k (oaUID a0)))"

lemma hist_deleteResource:
  assumes P: "lawful_client P" and ctx: "unchanged a0 a" "cleaning a0 tr" "gone_before a0 tr k" and k: "k \<noteq> Image"
  shows "hist (osa_ok L a0) tr (deleteResource P a k) (deletion_post a0 k)"
proof -
  note facts = unchanged_facts [OF ctx(1)]
  have lookup: "hist (osa_ok L a0) tr (if statusID k a = [] then os_find P k (resourceName a k) (oaUID a)
             else os_get P k (statusID k a) (oaUID a)) (looked_up k (oaUID a0))"
    unfolding facts(3) by (intro hist_if hist_os_get [OF P] hist_mono [OF hist_os_find [OF P]]) simp
  have del: "hist (osa_ok L a0) (tr @ n) (keeping b (attempt (os_delete P k (rs_ID res) (oaUID a)) (\<lambda>_. ret (Inr False)))) (deletion_post a0 k)"
    if "looked_up k (oaUID a0) (Inr res) (tr @ n)" "\<not> rs_Attached res" "unchanged a0 b" for b res n
  proof -
    have "delete_resource_ok a0 (tr @ n) k (rs_ID res) (oaUID a0)"
      unfolding delete_resource_ok_def
      using that cleaning_append [OF ctx(2)] gone_append(1) [OF ctx(3)] by (auto simp: looked_up_def)
    then show ?thesis
      unfolding os_delete_def facts(3) using k that(3)
      by (auto simp: deletion_post_def split: sum.split intro!: hist_keeping hist_attempt hist_ask hist_ret)
  qed
  have missing: "deletion_post a0 k (a, Inr True) tr'" if "looked_up k (oaUID a0) (Inl e) tr'" "IsOs NotFoundSentinel e" for e tr'
    using that ctx(1) by (simp add: deletion_post_def looked_up_def)
  have kept: "deletion_post a0 k (b, Inl e) tr'" if "unchanged a0 b" for b e tr' using that by (simp add: deletion_post_def)
  show ?thesis
    unfolding deleteResource_def
    by (rule hist_handle_seq [OF lookup]) (use ctx(1) in \<open>auto intro!: hist_ret hist_failing kept missing del\<close>)
qed

lemma hist_onceGone:
  assumes "hist P tr m (deletion_post a0 k)" "\<And>a r n. unchanged a0 a \<Longrightarrow> R (a, r) (tr @ n)"
    "\<And>a n. unchanged a0 a \<Longrightarrow> saw (tr @ n) (missing_ev k (oaUID a0)) \<Longrightarrow> hist P (tr @ n) (f a) R"
  shows "hist P tr (onceGone m f) R"
  unfolding onceGone_def
  by (rule hist_proceed [OF assms(1)]) (auto simp: deletion_post_def intro!: hist_ret assms(2,3))

section \<open>The finalizer\<close>

lemma hist_removeFinalizer_written:
  assumes "\<And>meta. finalizer_ok L a0 tr (a\<lparr>oa_Meta := meta\<rparr>)" "oa_Spec a = oa_Spec a0"
  shows "hist (osa_ok L a0) tr (removeOpenStackFinalizer K L a)
    (\<lambda>ar tr'. oa_Spec (fst ar) = oa_Spec a0 \<and> (snd ar = Inr () \<longrightarrow> saw tr' written_ev))"
  unfolding removeOpenStackFinalizer_def Let_def kupdate_def
  using assms by (auto split: sum.split intro!: hist_handle hist_ask hist_ret)

lemma hist_removeOpenStackFinalizer:
  assumes "\<And>meta. finalizer_ok L a0 tr (a\<lparr>oa_Meta := meta\<rparr>)" "oa_Spec a = oa_Spec a0"
  shows "hist (osa_ok L a0) tr (removeOpenStackFinalizer K L a) (spec_kept a0)"
  by (rule hist_mono [OF hist_removeFinalizer_written [OF assms]]) (auto simp: spec_kept_def)

lemma hist_deleteHost:
  assumes "cleaning a0 tr" "all_gone a0 tr" "agentHardwareMatches a0 host"
  shows "hist (osa_ok L a0) tr (deleteHost K host) (\<lambda>r tr'. r = Inr () \<longrightarrow> saw tr' (deleted_ev host))"
  unfolding deleteHost_def kdelete_def
  using assms by (auto simp: host_delete_ok_def split: sum.split intro!: hist_handle hist_ask hist_ret)

lemma unchanged_kept: "unchanged a0 a \<Longrightarrow> spec_kept a0 (a, r) tr"
  by (rule spec_kept_worker) (simp add: unchanged_facts(1))

lemma hist_deleteHosts:
  assumes ctx: "unchanged a0 a" "cleaning a0 tr" "all_gone a0 tr" "released_image a0 tr"
  shows "hist (osa_ok L a0) tr (deleteHosts K L a) (spec_kept a0)"
  unfolding deleteHosts_def
proof (rule hist_proceed [OF hist_keeping])
  let ?listed = "\<lambda>tr items. saw tr ((=) (EvAgent (ListAll Live (InNamespace (om_Namespace (oa_Meta a))) (Inr items))))"
  show "hist (osa_ok L a0) tr (matchingHosts K a) (\<lambda>r tr'. (\<lambda>ar tr'. fst ar = a \<and> (\<forall>hosts. snd ar = Inr hosts \<longrightarrow>
      (\<exists>items. ?listed tr' items \<and> hosts = filter (agentHardwareMatches a) items))) (a, r) tr')"
    by (rule hist_mono [OF hist_matchingHosts]) simp
  fix b :: OpenStackAgent and hosts n
  assume "fst (b, Inr hosts :: AgentObj list result) = a \<and> (\<forall>hs. snd (b, Inr hosts :: AgentObj list result) = Inr hs \<longrightarrow>
      (\<exists>items. ?listed (tr @ n) items \<and> hs = filter (agentHardwareMatches a) items))"
  then obtain items where b: "b = a" and items: "?listed (tr @ n) items" "hosts = filter (agentHardwareMatches a) items" by auto
  have each: "hist (osa_ok L a0) (tr @ n) (for_each (deleteHost K) hosts) (\<lambda>r tr'. r = Inr () \<longrightarrow> all_hosts a0 tr' deleted_ev)"
    unfolding items(2) using cleaning_append [OF ctx(2), of "n @ _"] gone_append(2) [OF ctx(3), of "n @ _"]
    by (intro hist_all_hosts [OF ctx(1) items(1)] hist_deleteHost) simp_all
  have fin: "hist (osa_ok L a0) ((tr @ n) @ m) (removeOpenStackFinalizer K L a) (spec_kept a0)"
    if "all_hosts a0 ((tr @ n) @ m) deleted_ev" for m
    using that cleaning_append [OF ctx(2), of "n @ m"] gone_append(2) [OF ctx(3), of "n @ m"] released_append [OF ctx(4), of "n @ m"]
    by (intro hist_removeOpenStackFinalizer) (simp_all add: finalizer_ok_def unchanged_facts(4) [OF ctx(1)])
  show "hist (osa_ok L a0) (tr @ n) (proceed (keeping b (for_each (deleteHost K) hosts)) (\<lambda>a _. removeOpenStackFinalizer K L a)) (spec_kept a0)"
    unfolding b
    by (rule hist_proceed [OF hist_keeping, where Q = "\<lambda>ar tr'. fst ar = a \<and> (snd ar = Inr () \<longrightarrow> all_hosts a0 tr' deleted_ev)"],
        rule hist_mono [OF each]) (auto intro: fin [simplified append_assoc] unchanged_kept [OF ctx(1)])
qed (auto intro: unchanged_kept [OF ctx(1)])

section \<open>The whole clean-up\<close>

lemma hist_deleteOSVolume:
  assumes P: "lawful_client P" and ctx: "unchanged a0 a" "cleaning a0 tr"
    "saw tr (missing_ev Server (oaUID a0))" "saw tr (missing_ev DiscoveryVolume (oaUID a0))"
  shows "hist (osa_ok L a0) tr (deleteOSVolume P a) (\<lambda>ar tr'. unchanged a0 (fst ar) \<and> (snd ar = Inr True \<longrightarrow> gone_before a0 tr' Port))"
proof (cases "keeps_OSVolume a0")
  case True
  then show ?thesis using ctx
    by (auto simp: deleteOSVolume_def keeps_OSVolume_def unchanged_facts(4) [OF ctx(1)] intro!: hist_ret)
next
  case False
  then have "hist (osa_ok L a0) tr (deleteResource P a OSVolume) (deletion_post a0 OSVolume)"
    using ctx by (intro hist_deleteResource [OF P]) simp_all
  then have "hist (osa_ok L a0) tr (deleteResource P a OSVolume)
      (\<lambda>ar tr'. unchanged a0 (fst ar) \<and> (snd ar = Inr True \<longrightarrow> gone_before a0 tr' Port))"
    by (rule hist_mono) (use ctx in \<open>auto simp: deletion_post_def\<close>)
  then show ?thesis using False by (simp add: deleteOSVolume_def keeps_OSVolume_def unchanged_facts(4) [OF ctx(1)])
qed

lemma hist_cleanImage:
  assumes P: "lawful_client P" and ctx: "unchanged a0 a" "cleaning a0 tr" "all_gone a0 tr"
  shows "hist (osa_ok L a0) tr (onceGone (keeping a (releaseDiscoveryImage K L P a)) (\<lambda>a. deleteHosts K L a)) (spec_kept a0)"
proof -
  have "hist (osa_ok L a0) tr (keeping a (releaseDiscoveryImage K L P a)) (\<lambda>ar tr'. fst ar = a \<and> release_post a0 (snd ar) tr')"
    using ctx by (intro hist_keeping hist_mono [OF hist_releaseDiscoveryImage [OF P]]) (auto simp: releasing_def unchanged_facts)
  then show ?thesis
    unfolding onceGone_def
    by (rule hist_proceed)
      (auto simp: release_post_def intro!: hist_ret unchanged_kept [OF ctx(1)]
        hist_deleteHosts [OF ctx(1) cleaning_append [OF ctx(2)] gone_append(2) [OF ctx(3)]])
qed

lemma hist_cleanPort:
  assumes P: "lawful_client P" and ctx: "unchanged a0 a" "cleaning a0 tr" "gone_before a0 tr Port"
  shows "hist (osa_ok L a0) tr (onceGone (deleteResource P a Port) (\<lambda>a.
           onceGone (keeping a (releaseDiscoveryImage K L P a)) (\<lambda>a. deleteHosts K L a))) (spec_kept a0)"
  by (rule hist_onceGone [OF hist_deleteResource [OF P ctx]])
    (use ctx(3) in \<open>auto simp: all_gone_def intro!: unchanged_kept hist_cleanImage [OF P _ cleaning_append [OF ctx(2)]]\<close>)

lemma hist_cleanOSVolume:
  assumes P: "lawful_client P" and ctx: "unchanged a0 a" "cleaning a0 tr"
    "saw tr (missing_ev Server (oaUID a0))" "saw tr (missing_ev DiscoveryVolume (oaUID a0))"
  shows "hist (osa_ok L a0) tr (onceGone (deleteOSVolume P a) (\<lambda>a. onceGone (deleteResource P a Port) (\<lambda>a.
           onceGone (keeping a (releaseDiscoveryImage K L P a)) (\<lambda>a. deleteHosts K L a)))) (spec_kept a0)"
  unfolding onceGone_def [of "deleteOSVolume P a"]
  by (rule hist_proceed [OF hist_deleteOSVolume [OF P ctx]])
    (auto simp del: gone_before.simps intro!: hist_ret unchanged_kept hist_cleanPort [OF P _ cleaning_append [OF ctx(2)]])

lemma hist_cleanup:
  assumes P: "lawful_client P" and ctx: "oaDeleting a0" "present \<or> saw tr (demand_gone_ev a0)" "in_scope a0 tr"
  shows "hist (osa_ok L a0) tr (cleanup K L P a0 present) (spec_kept a0)"
proof (cases "os_CleanupPolicy (oas_Configuration (oa_Spec a0)) = CleanupPolicyRetain")
  case True
  have "hist (osa_ok L a0) tr (removeOpenStackFinalizer K L (setPhase openStackPhaseDeleting a0)) (spec_kept a0)"
    by (rule hist_removeOpenStackFinalizer) (use ctx True in \<open>simp_all add: finalizer_ok_def onStatus_def\<close>)
  then show ?thesis using True by (simp add: cleanup_def onStatus_def)
next
  case False
  let ?a = "setPhase openStackPhaseDeleting a0"
  have policy: "os_CleanupPolicy (oas_Configuration (oa_Spec ?a)) \<noteq> CleanupPolicyRetain" using False by (simp add: onStatus_def)
  have auth: "hist (osa_ok L a0) tr (keeping ?a (authorizeCleanup K ?a present)) (\<lambda>ar tr'. fst ar = ?a \<and> (snd ar = Inr () \<longrightarrow> cleaning a0 tr'))"
    by (intro hist_keeping hist_mono [OF hist_authorizeCleanup [OF _ ctx False]]) simp_all
  have volume: "hist (osa_ok L a0) tr (onceGone (deleteResource P a DiscoveryVolume) (\<lambda>a. onceGone (deleteOSVolume P a) (\<lambda>a.
      onceGone (deleteResource P a Port) (\<lambda>a. onceGone (keeping a (releaseDiscoveryImage K L P a)) (\<lambda>a. deleteHosts K L a))))) (spec_kept a0)"
    if "unchanged a0 a" "cleaning a0 tr" "saw tr (missing_ev Server (oaUID a0))" for a tr
    by (rule hist_onceGone [OF hist_deleteResource [OF P that(1,2)]])
      (use that(3) in \<open>auto intro!: unchanged_kept hist_cleanOSVolume [OF P _ cleaning_append [OF that(2)]]\<close>)
  have server: "hist (osa_ok L a0) tr (onceGone (deleteResource P a Server) (\<lambda>a. onceGone (deleteResource P a DiscoveryVolume) (\<lambda>a.
      onceGone (deleteOSVolume P a) (\<lambda>a. onceGone (deleteResource P a Port) (\<lambda>a.
      onceGone (keeping a (releaseDiscoveryImage K L P a)) (\<lambda>a. deleteHosts K L a)))))) (spec_kept a0)"
    if "unchanged a0 a" "cleaning a0 tr" for a tr
    by (rule hist_onceGone [OF hist_deleteResource [OF P that]])
      (auto intro!: unchanged_kept volume cleaning_append [OF that(2)])
  show ?thesis
    unfolding cleanup_def Let_def if_not_P [OF policy]
    by (rule hist_proceed [OF auth]) (auto intro!: server unchanged_kept)
qed

end
