(* ===== verification/OpenStackReconcile.thy ===== *)
theory OpenStackReconcile
  imports CleanupSafety
begin

text \<open>
  A whole reconciliation of an \<open>OpenStackAgent\<close> satisfies the specification of theory \<open>OpenStackSpec\<close>. What the
  controller relies on of the OpenStack client is the locale \<open>os_provider\<close>.
\<close>

section \<open>Scheduling\<close>

text \<open>
  A reconciliation that ends without an error and without asking to be repeated must have settled the worker: it is
  gone, it was released before, or it was written, so that its watch reports the change.
\<close>

fun settled_ev :: "golib \<Rightarrow> event \<Rightarrow> bool" where
  "settled_ev L (EvOsAgent (Get Live k r)) \<longleftrightarrow> (case r of Inl e \<Rightarrow> IsNotFound e
     | Inr a \<Rightarrow> oaDeleting a \<and> \<not> gl_ContainsFinalizer L (oa_Meta a) openStackFinalizer)"
| "settled_ev L e \<longleftrightarrow> written_ev e"

definition rescheduled :: "golib \<Rightarrow> reconcile_result \<Rightarrow> event list \<Rightarrow> bool" where
  "rescheduled L r tr \<longleftrightarrow> snd r \<noteq> None \<or> fst r > 0 \<or> saw tr (settled_ev L)"

text \<open>\<open>controllerutil.ContainsFinalizer\<close> looks for the finalizer in the metadata.\<close>

definition finalizer_member :: "golib \<Rightarrow> bool" where
  "finalizer_member L \<longleftrightarrow> (\<forall>m f. gl_ContainsFinalizer L m f \<longleftrightarrow> f \<in> set (om_Finalizers m))"

lemma written_settled: "written_ev e \<Longrightarrow> settled_ev L e"
  by (cases e rule: written_ev.cases) auto

lemma rescheduled_simps [simp]:
  "rescheduled L (d, Some e) tr" "d > 0 \<Longrightarrow> rescheduled L (d, e') tr" "saw tr written_ev \<Longrightarrow> rescheduled L r tr"
  by (auto simp: rescheduled_def intro: saw_mono written_settled)

section \<open>Reporting\<close>

lemma hist_OSA_status: "oa_Spec a = oa_Spec a0 \<Longrightarrow> hist (osa_ok L a0) tr (OSA_status K a) (\<lambda>_ _. True)"
  by (rule hist_True, rule hist_status)

lemma hist_setOACondition:
  "hist (osa_ok L a0) tr (setOACondition K L status reason message a) (\<lambda>b tr'. oa_Spec b = oa_Spec a)"
  unfolding setOACondition_def Now_def by (auto simp: onStatus_def intro!: hist_bind hist_ask hist_ret)

lemma setPhase_Spec [simp]: "oa_Spec (onStatus f a) = oa_Spec a"
  by (simp add: onStatus_def)

lemma hist_reportFailure:
  assumes "oa_Spec a = oa_Spec a0"
  shows "hist (osa_ok L a0) tr (reportFailure K L a e) (rescheduled L)"
  unfolding reportFailure_def Let_def fail_result_def ok_result_def
  by (rule hist_bind_seq [OF hist_setOACondition])
    (rule hist_bind_seq [OF hist_OSA_status]; use assms in \<open>auto split: sum.split intro!: hist_ret\<close>)

lemma hist_reportSuccess:
  assumes "oa_Spec a = oa_Spec a0" "gl_ContainsFinalizer L (oa_Meta a) openStackFinalizer \<or> saw tr written_ev"
  shows "hist (osa_ok L a0) tr (reportSuccess K L a) (rescheduled L)"
proof -
  have "hist (osa_ok L a0) tr (do { a \<leftarrow> setOACondition K L (conditionStatus (oast_Phase (oa_Status a) = conditionReady))
           (oast_Phase (oa_Status a)) (oast_Phase (oa_Status a)) a;
         (a, r) \<leftarrow> OSA_status K a;
         ret (15 * second, case r of Inl e \<Rightarrow> Some e | Inr _ \<Rightarrow> None) }) (rescheduled L)"
    by (rule hist_bind_seq [OF hist_setOACondition])
      (rule hist_bind_seq [OF hist_OSA_status]; use assms in \<open>auto intro!: hist_ret\<close>)
  then show ?thesis using assms(2) by (auto simp: reportSuccess_def ok_result_def hist_ret)
qed

lemma hist_report:
  assumes "spec_kept a0 ar tr" "finalizer_member L" "gl_ContainsFinalizer L (oa_Meta a0) openStackFinalizer"
  shows "hist (osa_ok L a0) tr (report K L ar) (rescheduled L)"
proof -
  have spec: "oa_Spec (fst ar) = oa_Spec a0" using assms(1) by (simp add: spec_kept_def)
  have "gl_ContainsFinalizer L (oa_Meta (fst ar)) openStackFinalizer \<or> saw tr written_ev" if "snd ar = Inr ()"
    using assms that same_meta(5) [of "oa_Meta (fst ar)" "oa_Meta a0"] by (auto simp: spec_kept_def finalizer_member_def same_worker_def)
  then show ?thesis
    unfolding report_def fail_result_def using spec
    by (auto split: sum.split go_error.split intro!: hist_ret hist_reportFailure hist_reportSuccess)
qed

section \<open>Demand\<close>

definition demand_post :: "OpenStackAgent \<Rightarrow> demand result \<Rightarrow> event list \<Rightarrow> bool" where
  "demand_post a0 r tr \<longleftrightarrow> (r = Inr DemandGone \<longrightarrow> saw tr (demand_gone_ev a0)) \<and> (r = Inr DemandPresent \<longrightarrow> saw tr (demand_live_ev a0))"

lemma hist_demandPresent: "hist (osa_ok L a0) tr (demandPresent K a0) (demand_post a0)"
  unfolding demandPresent_def Let_def kget_def
  by (auto simp: demand_post_def demandKey_def demandUID_def split: sum.split intro!: hist_handle hist_ask hist_ret)

lemma oa_read_append: "oa_read tr a0 \<Longrightarrow> oa_read (tr @ n) a0"
  by (auto simp: oa_read_def)

section \<open>The interface to OpenStack\<close>

text \<open>
  The controller relies on one law of the clients that a factory makes: a lookup returns only resources of the
  owner it was asked for.
\<close>

locale os_provider =
  fixes F :: "'w os_factory"
  assumes lawful: "F cfg secret w = (Inr P, w') \<Longrightarrow> lawful_client P"
begin

lemma hist_connect:
  "hist (osa_ok L a0) tr (connect F cfg secret) (\<lambda>r tr'. \<forall>P. r = Inr P \<longrightarrow> lawful_client P \<and> saw tr' (connected_ev (oc_Scope P)))"
  unfolding connect_def by (rule hist_ask_step) (auto dest: lawful)

lemma hist_OSA_provider:
  "hist (osa_ok L a0) tr (OSA_provider K F a) (\<lambda>r tr'. \<forall>P. r = Inr P \<longrightarrow> lawful_client P \<and> saw tr' (connected_ev (oc_Scope P)))"
  unfolding OSA_provider_def kget_def
  by (auto split: sum.split intro!: hist_handle hist_ask hist_ret hist_connect)

end

section \<open>The reconciler\<close>

lemma hist_advance:
  assumes P: "lawful_client P" "saw tr (connected_ev (oc_Scope P))" and read: "oa_read tr a0"
    and live: "\<not> oaDeleting a0 \<Longrightarrow> saw tr (demand_live_ev a0)" and gone: "oaDeleting a0 \<Longrightarrow> present \<or> saw tr (demand_gone_ev a0)"
    and fin: "finalizer_member L" "gl_ContainsFinalizer L (oa_Meta a0) openStackFinalizer"
  shows "hist (osa_ok L a0) tr (advance K H L P a0 present) (rescheduled L)"
proof -
  have step: "hist (osa_ok L a0) tr (if oast_ScopeHash (oa_Status a0) \<noteq> oc_Scope P
        then failing a0 (mkOsError ''CloudScopeChanged'' False True)
        else if oaDeleting a0 then cleanup K L P a0 present else provision K H L P a0) (spec_kept a0)"
    if "oast_ScopeHash (oa_Status a0) \<noteq> []"
    using that P read live gone
    by (auto simp: working_def in_scope_def intro!: hist_if hist_failing spec_kept_worker hist_cleanup hist_provision)
  have first: "hist (osa_ok L a0) tr (do { (a, r) \<leftarrow> OSA_status K (onStatus (oast_ScopeHash_update (\<lambda>_. oc_Scope P)) a0);
      ret (second, case r of Inl e \<Rightarrow> Some e | Inr _ \<Rightarrow> None) }) (rescheduled L)"
    by (rule hist_bind_seq [OF hist_OSA_status]) (auto intro!: hist_ret)
  show ?thesis
    unfolding advance_def
    by (intro hist_if first) (rule hist_bind_seq [OF step], auto intro: hist_report [OF _ fin])
qed

context os_provider
begin

lemma hist_reconcileDemanded:
  assumes d: "demand_post a0 (Inr d) tr" and read: "oa_read tr a0"
    and fin: "finalizer_member L" "gl_ContainsFinalizer L (oa_Meta a0) openStackFinalizer"
  shows "hist (osa_ok L a0) tr (reconcileDemanded K H L F a0 d) (rescheduled L)"
proof -
  let ?retain = "os_CleanupPolicy (oas_Configuration (oa_Spec a0)) = CleanupPolicyRetain"
  have evidence: "d = DemandGone \<Longrightarrow> saw tr (demand_gone_ev a0)" "d = DemandPresent \<Longrightarrow> saw tr (demand_live_ev a0)"
    using d by (simp_all add: demand_post_def)
  have delete: "hist (osa_ok L a0) tr (do { r \<leftarrow> kdelete (k_osagents K) EvOsAgent None a0; orResult 0 r }) (rescheduled L)"
    if "\<not> oaDeleting a0 \<and> d = DemandGone"
    unfolding kdelete_def orResult_def using that evidence by (auto split: sum.split intro!: hist_bind hist_ask hist_ret)
  have retain: "hist (osa_ok L a0) tr (do { (a, r) \<leftarrow> removeOpenStackFinalizer K L a0; orResult 0 r }) (rescheduled L)"
    if "oaDeleting a0 \<and> ?retain"
    by (rule hist_bind_seq [OF hist_removeFinalizer_written])
      (use that in \<open>auto simp: finalizer_ok_def orResult_def split: sum.split intro!: hist_ret\<close>)
  have provider: "hist (osa_ok L a0) tr (handle (OSA_provider K F a0) (\<lambda>e. report K L (a0, Inl e)) (\<lambda>P. advance K H L P a0 (d \<noteq> DemandGone))) (rescheduled L)"
    if "oaDeleting a0 \<or> d = DemandPresent"
  proof (rule hist_handle_seq [OF hist_OSA_provider])
    show "hist (osa_ok L a0) (tr @ n) (report K L (a0, Inl e)) (rescheduled L)" for e n
      by (rule hist_report [OF _ fin]) (simp add: spec_kept_def)
    show "hist (osa_ok L a0) (tr @ n) (advance K H L P a0 (d \<noteq> DemandGone)) (rescheduled L)"
      if "\<forall>P'. Inr P = Inr P' \<longrightarrow> lawful_client P' \<and> saw (tr @ n) (connected_ev (oc_Scope P'))" for P n
      by (rule hist_advance) (use that \<open>oaDeleting a0 \<or> d = DemandPresent\<close> read evidence fin in \<open>auto simp: oa_read_def\<close>)
  qed
  have rest: "oaDeleting a0 \<or> d = DemandPresent" if "\<not> (\<not> oaDeleting a0 \<and> d = DemandGone)" "\<not> (\<not> oaDeleting a0 \<and> d = DemandDeleting)"
    using that by (cases d) auto
  show ?thesis
    unfolding reconcileDemanded_def ok_result_def
    by (intro hist_if delete retain provider rest hist_ret) simp_all
qed

lemma hist_reconcileOA:
  assumes "oa_read tr a0" and fin: "finalizer_member L"
    and free: "\<not> gl_ContainsFinalizer L (oa_Meta a0) openStackFinalizer \<Longrightarrow> saw tr (settled_ev L)"
  shows "hist (osa_ok L a0) tr (reconcileOA K H L F a0) (rescheduled L)"
proof -
  have "hist (osa_ok L a0) tr (handle (demandPresent K a0) fail_result (reconcileDemanded K H L F a0)) (rescheduled L)"
    if "gl_ContainsFinalizer L (oa_Meta a0) openStackFinalizer"
    using oa_read_append [OF assms(1)]
    by (intro hist_handle_seq [OF hist_demandPresent]) (auto simp: fail_result_def intro!: hist_ret hist_reconcileDemanded fin that)
  then show ?thesis using free by (auto simp: reconcileOA_def ok_result_def rescheduled_def [abs_def] intro!: hist_ret)
qed

lemma osa_ok_event: "oa_read tr a0 \<Longrightarrow> hist (osa_ok L a0) tr m R \<Longrightarrow> hist (osa_event L) tr m R"
  by (erule hist_weaken) (simp add: osa_event_def, meson oa_read_append)

lemma hist_worker:
  assumes laws: "finalizer_laws L" "finalizer_member L" and b: "b = withDefaults a"
  shows "hist (osa_event L) [EvOsAgent (Get Live req (Inr a))] (if oaDeleting b then reconcileOA K H L F b
        else case gl_AddFinalizer L (oa_Meta b) openStackFinalizer of (meta, added) \<Rightarrow>
          if added then handle (kupdate (k_osagents K) EvOsAgent (b\<lparr>oa_Meta := meta\<rparr>)) fail_result (\<lambda>_. ok_result 0)
          else reconcileOA K H L F (b\<lparr>oa_Meta := meta\<rparr>)) (rescheduled L)"
proof -
  let ?tr = "[EvOsAgent (Get Live req (Inr a))]"
  have read: "oa_read ?tr b" using b by (auto simp: oa_read_def)
  have meta: "oa_Meta b = oa_Meta a" using b by (simp add: withDefaults_def)
  have contains: "gl_ContainsFinalizer L meta openStackFinalizer"
    and same: "\<not> added \<longrightarrow> b\<lparr>oa_Meta := meta\<rparr> = b \<and> gl_ContainsFinalizer L (oa_Meta b) openStackFinalizer"
    if "gl_AddFinalizer L (oa_Meta b) openStackFinalizer = (meta, added)" for meta added
  proof -
    show *: "gl_ContainsFinalizer L meta openStackFinalizer" using laws(1) that unfolding finalizer_laws_def by (metis fst_conv)
    have "\<not> added \<longrightarrow> meta = oa_Meta b" using laws(1) that unfolding finalizer_laws_def by (metis fst_conv snd_conv)
    then show "\<not> added \<longrightarrow> b\<lparr>oa_Meta := meta\<rparr> = b \<and> gl_ContainsFinalizer L (oa_Meta b) openStackFinalizer" using * by (cases b) auto
  qed
  have add: "hist (osa_ok L b) ?tr (handle (kupdate (k_osagents K) EvOsAgent (b\<lparr>oa_Meta := meta\<rparr>)) fail_result (\<lambda>_. ok_result 0)) (rescheduled L)"
    if "gl_AddFinalizer L (oa_Meta b) openStackFinalizer = (meta, added)" "\<not> oaDeleting b" for meta added
    unfolding kupdate_def fail_result_def ok_result_def
    using that contains by (auto simp: finalizer_ok_def split: sum.split intro!: hist_handle hist_ask hist_ret)
  have deleting: "hist (osa_ok L b) ?tr (reconcileOA K H L F b) (rescheduled L)" if "oaDeleting b"
    by (rule hist_reconcileOA [OF read laws(2)]) (use that meta in auto)
  have alive: "hist (osa_ok L b) ?tr (reconcileOA K H L F b) (rescheduled L)" if "gl_ContainsFinalizer L (oa_Meta b) openStackFinalizer"
    by (rule hist_reconcileOA [OF read laws(2)]) (use that in auto)
  show ?thesis
    using add deleting alive same by (intro osa_ok_event [OF read]) (auto split: prod.split)
qed

theorem reconcile_guarded:
  assumes laws: "finalizer_laws L" "finalizer_member L"
  shows "hist (osa_event L) [] (OSA_Reconcile K H L F req) (rescheduled L)"
proof -
  have read: "hist (osa_event L) [] (kget (k_osagents K) EvOsAgent Live req) (\<lambda>r tr'. tr' = [EvOsAgent (Get Live req r)])"
    unfolding kget_def by (rule hist_ask) (auto simp: osa_event_def)
  show ?thesis
    unfolding OSA_Reconcile_def Let_def ignore_not_found_def
    by (rule hist_handle_seq [OF read]) (rule hist_ret, simp add: rescheduled_def, simp only: append_Nil, rule hist_worker [OF laws refl])
qed

end

end
