(* ===== verification/OpenStackEndToEnd.thy ===== *)
theory OpenStackEndToEnd
  imports OpenStackReconcile OpenStackPools ClientCache
begin

text \<open>
  The controllers on the client of \<open>client.go\<close>: the clients that \<open>NewCachedFactory\<close> makes satisfy the law the controller
  of an \<open>OpenStackAgent\<close> relies on, so its reconciliations satisfy the specification whatever the OpenStack SDK, the
  API server and the host answer.
\<close>

lemma sdk_step_hist:
  assumes "hist (\<lambda>_ _. True) [] m R" "sdk_step m w = (Inr x, w')"
  shows "\<exists>tr. R (Inr x) tr"
proof -
  obtain r s where run: "run_state m \<lparr>world = w, trace = []\<rparr> = (r, s)" by force
  then have "r = Inr x" using assms(2) by (cases r) (auto simp: sdk_step_def)
  then show ?thesis using assms(1) run by (auto simp: hist_def yields_def wp_def dest!: spec [of _ "\<lparr>world = w, trace = []\<rparr>"])
qed

lemma cloudClient_lawful: "lawful_client (cloudClient S c)"
proof -
  have "rs_Owner r = owner" if "sdk_step (cloud_Get S c k i owner) w = (Inr r, w')" for k i owner w r w'
    using sdk_step_hist [OF hist_cloud_Get that] by (auto simp: got_def seen_owned_def)
  moreover have "rs_Owner r = owner" if "sdk_step (cloud_Find S c k name owner) w = (Inr r, w')" for k name owner w r w'
    using sdk_step_hist [OF hist_cloud_Find that] by (auto simp: found_in_def)
  ultimately show ?thesis by (auto simp: lawful_client_def cloudClient_def)
qed

interpretation cloud: os_provider "cloudFactory S M" for S M
proof
  show "lawful_client P" if "cloudFactory S M cfg secret w = (Inr P, w')" for cfg secret w P w'
    using that cloudClient_lawful
    by (cases "sdk_step (NewCachedFactory S M cfg secret) w"; cases "fst (sdk_step (NewCachedFactory S M cfg secret) w)")
      (auto simp: cloudFactory_def)
qed

lemma sampleLib_member: "finalizer_member sampleLib"
  by (simp add: finalizer_member_def sampleLib_def)



text \<open>C9: No reconciliation of an \<open>OpenStackAgent\<close> forgets its worker, whatever the API server, the OpenStack services and the
host answer: it ends with an error, which is retried, or asks to be repeated after a positive delay, unless the worker does not
exist, had been released before, or was itself written, in which case its watch reports the change.\<close>

theorem openstack_worker_not_forgotten:
  assumes "finalizer_laws L" "finalizer_member L"
  shows "hist (\<lambda>tr e. True) [] (OSA_Reconcile K H L (cloudFactory S M) req) (rescheduled L)"
  by (rule hist_weaken [OF cloud.reconcile_guarded [OF assms]]) simp

lemma openstack_worker_not_forgotten_witness:
  "\<forall>(K :: unit client_cache kube) H req. hist (\<lambda>tr e. True) []
     (OSA_Reconcile K H sampleLib (cloudFactory refusingSdk plainMemory) req) (rescheduled sampleLib)"
  using openstack_worker_not_forgotten [OF sampleLib_finalizers sampleLib_member] by blast

text \<open>C22: A reconciliation of an \<open>OpenStackAgentPool\<close>, whatever the API server answers. The finalizer is added only to a pool
that was read while not being deleted, and removed only from one that is being deleted when the live listing of its namespace holds no worker of it (provided the
listing fits a 32-bit counter). The status that is written has exactly the numbers of ready workers and of matching demand that were listed. Only workers of
a pool in deletion that are not being deleted yet are deleted, and no other object is written.\<close>

theorem ospool_reconcile_guarded:
  assumes "finalizer_laws L"
  shows "hist (ospool_event L) [] (OSP_Reconcile K L req) (\<lambda>r tr. True)"
  by (rule ospool_reconcile_hist [OF assms])

lemma ospool_reconcile_guarded_witness:
  "\<forall>(K :: unit kube) req. hist (ospool_event sampleLib) [] (OSP_Reconcile K sampleLib req) (\<lambda>r tr. True)"
  using ospool_reconcile_guarded [OF sampleLib_finalizers] by blast

section \<open>A ConfigMap without annotations\<close>

text \<open>
  When the ConfigMap of an image has lost its annotations, the last worker that releases the image writes the tombstone
  to an entry of a nil map: the reconciliation panics, and again on every retry, so that neither image nor worker is cleaned up.
\<close>

lemma release_without_annotations_panics:
  assumes "oast_ImageCacheName (oa_Status a) \<noteq> []" "oast_ImageID (oa_Status a) = []"
    and "\<And>w. fst (api_get (k_configmaps K) Live (cacheKey a) w) = Inr cache"
    and "mget (om_Labels (cm_Meta cache)) imageCacheLabel = imageCacheOwnedValue" "om_Annotations (cm_Meta cache) = []"
    and "cm_Data cache = [(oaUID a, reference)]"
  shows "fst (run_state (releaseDiscoveryImage K L P a) s) = Inl (Panic ''assignment to entry in nil map'')"
proof -
  have "mget [] imageCachePhase \<noteq> openStackPhaseDeleting" by (simp add: mget_def)
  moreover have "mdel [(oaUID a, reference)] (oaUID a) = []" by (simp add: mdel_def)
  ultimately have "wp (releaseDiscoveryImage K L P a) (\<lambda>r s'. r = Inl (Panic ''assignment to entry in nil map'')) s"
    using assms(1,2,4-6) assms(3) [of "world s"]
    by (auto simp: releaseDiscoveryImage_def dropReference_def kget_def handle_def wp_bind wp_ask wp_ret split: prod.split)
  then show ?thesis by (simp add: wp_def split: prod.splits)
qed

end
