(* ===== verification/GovcDeadline.thy ===== *)
theory GovcDeadline
  imports GovcEject
begin

text \<open>
  The loop of \<open>disconnectInstallationMedia\<close> (\<open>vsphere_provider.go\<close>) as it is written, without a bound: it waits for the
  background command, for its context or for the ticker, and looks at the VM at every tick. \<open>disconnectLoop\<close> is a partial
  function, \<open>None\<close> when the loop never ends.

  What ends it is the context's deadline. The context is made with a time-out of 30 minutes, and every \<open>govc\<close> command of the loop
  runs under it: \<open>exec.CommandContext\<close> fails when the context has expired. So even when \<open>select\<close> keeps preferring the ticker, the lookup
  after the deadline fails and the loop returns its error. The theorem shows that it returns, and that the bounded
  \<open>awaitDisconnect\<close>, which the rest of the development uses, is this loop.
\<close>

section \<open>Contexts\<close>

text \<open>The deadline of the context that \<open>contextWithDefaultTimeout\<close> returns, given the deadline of its argument.\<close>

definition contextWithDefaultTimeout :: "gotime \<Rightarrow> gotime option \<Rightarrow> duration \<Rightarrow> gotime option" where
  "contextWithDefaultTimeout now ctx timeout = (if ctx \<noteq> None \<or> timeout \<le> 0 then ctx else Some (now + timeout))"

lemma default_timeout_bounds: "0 < timeout \<Longrightarrow> contextWithDefaultTimeout now ctx timeout \<noteq> None"
  by (simp add: contextWithDefaultTimeout_def)

section \<open>The loop\<close>

partial_function (option) disconnectLoop ::
  "'w host \<Rightarrow> govcVMProvider \<Rightarrow> VsphereAgentPool \<Rightarrow> string list \<Rightarrow> 'w checkpoint \<Rightarrow> eject_state \<Rightarrow> ISOEjectionStatus
    \<Rightarrow> ('w, event) sys \<Rightarrow> (((eject_state \<times> ISOEjectionStatus) \<times> unit result) \<times> ('w, event) sys) option" where
  "disconnectLoop H p pool args cp st op s =
     (case run_state (ask (hs_wait H) (\<lambda>r. EvHost (GovcWait r))) s of (w, s1) \<Rightarrow>
        (case w of
           WaitDone answer \<Rightarrow> Some (((st, op), case govc_result args answer of Inl e \<Rightarrow> Inl e | Inr _ \<Rightarrow> Inr ()), s1)
         | WaitExpired err \<Rightarrow> Some (((st, op), Inl (ErrorText err)), s1)
         | WaitTick \<Rightarrow>
             (case run_state (vmDetailsByUUID H p pool (ej_BIOSUUID op)) s1 of (details, s2) \<Rightarrow>
                (case details of
                   Inl e \<Rightarrow> Some (((st, op), Inl e), s2)
                 | Inr d \<Rightarrow>
                     (case run_state (answerPending H p pool (gv_Question d) cp st op) s2 of ((next, r), s3) \<Rightarrow>
                        (case r of
                           Inl e \<Rightarrow> Some ((next, Inl e), s3)
                         | Inr _ \<Rightarrow> disconnectLoop H p pool args cp (fst next) (snd next) s3))))))"

section \<open>Deadlines\<close>

text \<open>
  \<open>left w\<close> is the number of ticks that are left before the context's deadline. A tick uses one up; a command does not add any,
  and fails with the context's error when none is left; and a checkpoint, which writes to the API server, does not add any.
\<close>

definition deadline :: "'w host \<Rightarrow> ('w \<Rightarrow> nat) \<Rightarrow> bool" where
  "deadline H left \<longleftrightarrow>
     (\<forall>w r w'. hs_wait H w = (r, w') \<longrightarrow> left w' \<le> (if r = WaitTick then left w - 1 else left w))
     \<and> (\<forall>p args w r w'. hs_govc H p args w = (r, w') \<longrightarrow> left w' \<le> left w \<and> (left w = 0 \<longrightarrow> (\<exists>err. r = GovcExpired err)))"

definition no_delay :: "('w \<Rightarrow> nat) \<Rightarrow> ('w, 'a) io \<Rightarrow> bool" where
  "no_delay left m \<longleftrightarrow> (\<forall>s. left (world (snd (run_state m s))) \<le> left (world s))"

lemma no_delayD: "no_delay left m \<Longrightarrow> run_state m s = (r, s') \<Longrightarrow> left (world s') \<le> left (world s)"
  unfolding no_delay_def by (metis snd_conv)

lemma no_delay_ret [intro!]: "no_delay left (ret x)"
  by (simp add: no_delay_def ret_def)

lemma no_delay_bind [intro!]:
  assumes "no_delay left m" "\<And>x. no_delay left (f x)" shows "no_delay left (State_Monad.bind m f)"
  using assms unfolding no_delay_def by (auto split: prod.split) (metis le_trans snd_conv)

lemma no_delay_handle [intro!]:
  assumes "no_delay left m" "\<And>e. no_delay left (h e)" "\<And>x. no_delay left (f x)" shows "no_delay left (handle m h f)"
  unfolding handle_def using assms by (auto split: sum.split)

lemma no_delay_attempt [intro!]:
  assumes "no_delay left m" "\<And>x. no_delay left (f x)" shows "no_delay left (attempt m f)"
  unfolding attempt_def using assms by (auto split: sum.split)

lemma no_delay_if [intro!]: "no_delay left m \<Longrightarrow> no_delay left n \<Longrightarrow> no_delay left (if b then m else n)"
  by simp

lemma no_delay_runOutput: "deadline H left \<Longrightarrow> no_delay left (runOutput H p args)"
  unfolding runOutput_def by (auto simp: deadline_def no_delay_def ask_def ret_def split: prod.split)

lemma no_delay_run: "deadline H left \<Longrightarrow> no_delay left (run H p args)"
  unfolding run_def by (auto intro: no_delay_runOutput)

lemma no_delay_details: "deadline H left \<Longrightarrow> no_delay left (vmDetailsByUUID H p pool uuid)"
  unfolding vmDetailsByUUID_def vmDetailsWithSelector_def
  by (auto intro: no_delay_runOutput split: sum.split list.split)

lemma no_delay_answer:
  assumes "deadline H left" and "\<And>st op. no_delay left (cp st op)"
  shows "no_delay left (answerPending H p pool q cp st op)"
  unfolding answerPending_def answerISOLock_def checkpointed_def Let_def
  using assms(1) by (auto intro: no_delay_run assms(2) split: option.split prod.split sum.split)

lemma expired_details:
  assumes "deadline H left" and "left (world s) = 0"
  shows "\<exists>e s'. run_state (vmDetailsByUUID H p pool uuid) s = (Inl e, s')"
proof -
  let ?args = "[''vm.info'', ''-json'', ''-dc'', datacenter pool, ''-vm.uuid'', uuid]"
  obtain r w' where g: "hs_govc H p ?args (world s) = (r, w')" by fastforce
  with assms obtain err where r: "r = GovcExpired err" unfolding deadline_def by meson
  show ?thesis
    by (simp add: vmDetailsByUUID_def vmDetailsWithSelector_def runOutput_def handle_def ask_def ret_def govc_result_def g r)
qed

section \<open>The property\<close>

lemma loop_bounded:
  assumes H: "deadline H left" and cp: "\<And>st op. no_delay left (cp st op)"
  shows "left (world s) < ticks \<Longrightarrow>
    disconnectLoop H p pool args cp st op s = Some (run_state (awaitDisconnect ticks H p pool args cp st op) s)"
proof (induction ticks arbitrary: st op s)
  case (Suc n)
  obtain w w1 where w: "hs_wait H (world s) = (w, w1)" by fastforce
  define s1 where "s1 = \<lparr>world = w1, trace = trace s @ [EvHost (GovcWait w)]\<rparr>"
  have s1: "run_state (ask (hs_wait H) (\<lambda>r. EvHost (GovcWait r))) s = (w, s1)" by (simp add: ask_def w s1_def)
  note unfold = disconnectLoop.simps [of H p pool args cp st op s] awaitDisconnect.simps [of "Suc n" H p pool args cp st op]
  show ?case
  proof (cases w)
    case WaitTick
    have l1: "left (world s1) \<le> left (world s) - 1" using H w unfolding deadline_def WaitTick s1_def by (metis (full_types) sys.select_convs(1))
    obtain details s2 where s2: "run_state (vmDetailsByUUID H p pool (ej_BIOSUUID op)) s1 = (details, s2)" by fastforce
    show ?thesis
    proof (cases details)
      case (Inl e)
      then show ?thesis unfolding unfold by (simp add: s1 s2 WaitTick handle_def ret_def)
    next
      case (Inr d)
      have "left (world s1) \<noteq> 0" using expired_details [OF H, of s1 p pool "ej_BIOSUUID op"] s2 Inr by auto
      then have l: "left (world s1) < n" using l1 Suc.prems by linarith
      obtain st' op' r s3 where s3: "run_state (answerPending H p pool (gv_Question d) cp st op) s2 = (((st', op'), r), s3)"
        by (metis prod.exhaust)
      have "left (world s3) < n"
        using no_delayD [OF no_delay_details [OF H] s2] no_delayD [OF no_delay_answer [OF H cp] s3] l by linarith
      from Suc.IH [OF this, of st' op'] show ?thesis
        unfolding unfold by (cases r) (simp_all add: s1 s2 s3 Inr WaitTick handle_def ret_def)
    qed
  qed (simp_all add: unfold s1 ret_def)
qed simp

text \<open>C11: Waiting for the CD-ROM of an installed VM to be disconnected ends. When the context's deadline leaves at most 1800 ticks of
  a second, when a command fails once the deadline has passed, and when checkpoints give no time back, then the unbounded loop of
  \<open>disconnectInstallationMedia\<close> returns, even if its ticker always wins; and its result, and everything it does, is that of the loop
  bounded by \<open>disconnectTicks\<close> that the properties of the ejection are proved of.\<close>

theorem disconnect_loop_terminates:
  assumes "deadline H left" and "\<And>st op. no_delay left (cp st op)" and "left (world s) \<le> 1800"
  shows "disconnectLoop H p pool args cp st op s = Some (run_state (awaitDisconnect disconnectTicks H p pool args cp st op) s)"
  using loop_bounded [OF assms(1,2), of s disconnectTicks] assms(3) by simp

text \<open>A host on which the command never ends, the ticker always wins, and the deadline is counted down.\<close>

definition tickingHost :: "nat host" where
  "tickingHost = \<lparr>hs_govc = (\<lambda>p args w. (if w = 0 then GovcExpired ''context deadline exceeded'' else GovcOK ''{}'', w)),
     hs_start = (\<lambda>p args w. ((), w)), hs_wait = (\<lambda>w. (WaitTick, w - 1)),
     hs_MkdirTemp = (\<lambda>d w. (Inr ''/tmp/x'', w)), hs_HttpGet = (\<lambda>m u w. (HttpInvalid, w)),
     hs_CreateFile = (\<lambda>f w. (Inr (), w)), hs_CopyFile = (\<lambda>b f w. (None, w)), hs_ReadFile = (\<lambda>f w. (Inr [], w)),
     hs_RemoveAll = (\<lambda>d w. ((), w)), hs_CreateTemp = (\<lambda>d w. (TempFailed [], w)), hs_RemoveFile = (\<lambda>f w. ((), w)),
     hs_now = (\<lambda>w. (0, w)),
     hs_Unmarshal = (\<lambda>out. Inr [\<lparr>gv_UUID = ''u'', gv_Annotation = [], gv_Device = [], gv_Question = None\<rparr>]),
     hs_MapOrder = (\<lambda>m. m), hs_Getenv = (\<lambda>v. [])\<rparr>"

lemma tickingHost_deadline: "deadline tickingHost (\<lambda>w. w)"
  by (simp add: deadline_def tickingHost_def)

lemma quiet_checkpoint: "no_delay (\<lambda>w. w) ((\<lambda>st op. ret (st, Inr ())) st op)"
  by auto

theorem disconnect_loop_terminates_witness:
  "\<forall>p pool args st op. disconnectLoop tickingHost p pool args (\<lambda>st op. ret (st, Inr ())) st op \<lparr>world = 1800, trace = []\<rparr>
     = Some (run_state (awaitDisconnect disconnectTicks tickingHost p pool args (\<lambda>st op. ret (st, Inr ())) st op) \<lparr>world = 1800, trace = []\<rparr>)"
  using disconnect_loop_terminates [OF tickingHost_deadline quiet_checkpoint, of "\<lparr>world = 1800, trace = []\<rparr>"] by simp

end
