(* ===== verification/Rescheduling.thy ===== *)
theory Rescheduling
  imports PoolWatches PoolSafety VsphereAgents OpenStackPools
begin

text \<open>
  No object is forgotten by its controller. A reconciliation that ends without an error and without asking to be run again
  relies on a later event of the object; the theorem says why there is one: the object is gone, there is nothing to do
  until it changes, or the last thing done was to change its finalizers, an update that the controller watches.
  For the OpenStack worker this is \<open>openstack_worker_not_forgotten\<close> of \<open>OpenStackEndToEnd\<close>.

  \<open>always m Q\<close> is a total correctness statement over any starting state; its rules say that only the endings of a
  handler matter, so that nothing is assumed of the operations before them, of the provider in particular.
\<close>

section \<open>Endings\<close>

text \<open>The workqueue runs the object again: after an error with a back-off, or after the given time.\<close>

definition runs_again :: "reconcile_result \<Rightarrow> bool" where
  "runs_again r \<longleftrightarrow> snd r \<noteq> None \<or> fst r > 0"

definition ends_with :: "(event \<Rightarrow> bool) \<Rightarrow> event list \<Rightarrow> bool" where
  "ends_with P tr \<longleftrightarrow> tr \<noteq> [] \<and> P (last tr)"

definition continued :: "(event \<Rightarrow> bool) \<Rightarrow> reconcile_result \<Rightarrow> ('w, event) sys \<Rightarrow> bool" where
  "continued P r s \<longleftrightarrow> runs_again r \<or> ends_with P (trace s)"

fun pool_woken :: "event \<Rightarrow> bool" where
  "pool_woken (EvPool (Get rd k (Inl e))) \<longleftrightarrow> IsNotFound e"
| "pool_woken (EvPool (Patch lock before after (Inr r))) \<longleftrightarrow> before = after \<or> vsphereAgentPoolChangePredicate (Updated before after)"
| "pool_woken _ \<longleftrightarrow> False"

fun worker_woken :: "event \<Rightarrow> bool" where
  "worker_woken (EvVAgent (Get rd k (Inl e))) \<longleftrightarrow> IsNotFound e"
| "worker_woken (EvVAgent (Patch lock before after (Inr r))) \<longleftrightarrow> True"
| "worker_woken _ \<longleftrightarrow> False"

fun demand_settled :: "event \<Rightarrow> bool" where
  "demand_settled (EvAgentMachine (Get rd k (Inl e))) \<longleftrightarrow> IsNotFound e"
| "demand_settled (EvAgentMachine (Get rd k (Inr am))) \<longleftrightarrow>
     om_DeletionTimestamp (am_Meta am) \<noteq> None \<or> \<not> agentMachineWaitingForAgent am"
| "demand_settled _ \<longleftrightarrow> False"

fun ospool_woken :: "event \<Rightarrow> bool" where
  "ospool_woken (EvOsPool (Get rd k (Inl e))) \<longleftrightarrow> IsNotFound e"
| "ospool_woken (EvOsPool (Update p (Inr r))) \<longleftrightarrow> True"
| "ospool_woken (EvOsAgent (Delete pre a (Inl e))) \<longleftrightarrow> IsNotFound e"
| "ospool_woken _ \<longleftrightarrow> False"

section \<open>Rules\<close>

definition always :: "('s, 'a) state \<Rightarrow> ('a \<Rightarrow> 's \<Rightarrow> bool) \<Rightarrow> bool" where
  "always m Q \<longleftrightarrow> (\<forall>s. wp m Q s)"

lemma always_bind [intro!]: "(\<And>a. always (f a) Q) \<Longrightarrow> always (State_Monad.bind m f) Q"
  by (simp add: always_def wp_simps) (simp add: wp_def split: prod.split)

lemma always_handle [intro!]: "(\<And>e. always (h e) Q) \<Longrightarrow> (\<And>x. always (f x) Q) \<Longrightarrow> always (handle m h f) Q"
  unfolding handle_def by (auto split: sum.split)

lemma always_ret [intro!]: "(\<And>s. Q x s) \<Longrightarrow> always (ret x) Q"
  by (simp add: always_def wp_simps)

lemma always_if [intro!]: "(b \<Longrightarrow> always m Q) \<Longrightarrow> (\<not> b \<Longrightarrow> always n Q) \<Longrightarrow> always (if b then m else n) Q"
  by simp

text \<open>A call whose answer decides how the handler ends.\<close>

lemma always_call:
  fixes g :: "'e + 'a \<Rightarrow> event" and c :: "'w \<Rightarrow> ('e + 'a) \<times> 'w"
  assumes "\<And>e s. ends_with (\<lambda>ev. ev = g (Inl e)) (trace s) \<Longrightarrow> wp (h e) Q s"
    and "\<And>x s. ends_with (\<lambda>ev. ev = g (Inr x)) (trace s) \<Longrightarrow> wp (f x) Q s"
  shows "always (handle (ask c g) h f) Q"
  unfolding always_def handle_def wp_bind wp_ask
proof (intro allI)
  fix s :: "('w, event) sys"
  obtain r w where c: "c (world s) = (r, w)" by fastforce
  show "case c (world s) of (r, w') \<Rightarrow> wp (case r of Inl e \<Rightarrow> h e | Inr x \<Rightarrow> f x) Q \<lparr>world = w', trace = trace s @ [g r]\<rparr>"
    using assms by (cases r) (simp_all add: c ends_with_def)
qed

lemma alwaysD: "always m Q \<Longrightarrow> wp m Q s"
  by (simp add: always_def)

lemma always_ok [intro!]: "0 < d \<Longrightarrow> always (ok_result d) (continued P)"
  by (auto simp: ok_result_def continued_def runs_again_def)

lemma always_fail [intro!]: "always (fail_result e) (continued P)"
  by (auto simp: fail_result_def continued_def runs_again_def)

lemma always_timed [intro!]: "0 < d \<Longrightarrow> always (orResult d r) (continued P)"
  by (auto simp: orResult_def continued_def runs_again_def)

lemma ignore_absent:
  assumes "\<And>e. IsNotFound e \<Longrightarrow> P (g (Inl e))" and "ends_with (\<lambda>ev. ev = g (Inl e)) (trace s)"
  shows "wp (ignore_not_found e) (continued P) s"
  using assms by (auto simp: ignore_not_found_def wp_simps continued_def runs_again_def ends_with_def)

text \<open>Changing the finalizer ends with the patch, or with an error.\<close>

lemma patch_ends:
  assumes "\<And>before x. P (ev (Patch False before (upd before) (Inr x)))"
  shows "always (State_Monad.bind (attempt (kget ops ev rd k) (\<lambda>cur. attempt (kpatch ops ev False cur (upd cur)) (\<lambda>_. ret (Inr ()))))
      (orResult 0)) (continued P)"
  using assms unfolding always_def kget_def kpatch_def orResult_def continued_def runs_again_def ends_with_def
  by (auto simp: wp_simps split: prod.split sum.split)

section \<open>The worker of a vSphere pool\<close>

lemma worker_patch_ends: "always (State_Monad.bind (VA_patchFinalizer K L agent) (orResult 0)) (continued worker_woken)"
  unfolding VA_patchFinalizer_def Let_def by (rule patch_ends) simp

lemma worker_status_ends [intro!]:
  "0 < d \<or> err \<noteq> None \<Longrightarrow> always (finishStatus K L agent d err) (continued P)"
  "0 < d \<Longrightarrow> always (returnStatus K L agent d) (continued P)"
  "0 < d \<Longrightarrow> always (failReady K L agent reason message d) (continued P)"
  unfolding finishStatus_def returnStatus_def failReady_def by (auto simp: continued_def runs_again_def)

lemma worker_handlers_end:
  "always (reconcileExistingVM K L F agent pool) (continued P)" "always (adoptVM K L F agent pool) (continued P)"
  "always (provisionWorker K L F agent pool) (continued P)" "always (reconcileEjection K L F agent op pool) (continued P)"
  unfolding reconcileExistingVM_def adoptVM_def provisionWorker_def createWorkerVM_def reconcileEjection_def Let_def
  by (auto split: prod.split sum.split)

lemma worker_known:
  "always (handle (kget (k_pools K) EvPool Live k) (\<lambda>e. if IsNotFound e then poolMissing K L agent else fail_result e)
     (\<lambda>pool. case vast_ISOEjection (va_Status agent) of
        Some op \<Rightarrow> reconcileEjection K L F agent op (applySpecDefaults pool)
      | None \<Rightarrow> reconcileWorker K L F agent (applySpecDefaults pool))) (continued worker_woken)"
  unfolding poolMissing_def reconcileWorker_def VA_reconcileDelete_def Let_def
  by (auto split: option.split prod.split sum.split intro!: worker_handlers_end worker_patch_ends)

lemma worker_continued: "always (VA_Reconcile K L F req) (continued worker_woken)"
  unfolding VA_Reconcile_def kget_def [of "k_vagents K"]
  by (rule always_call, erule ignore_absent [rotated], simp, rule alwaysD, rule worker_known)

section \<open>The vSphere pool\<close>

text \<open>\<open>controllerutil\<close> changes nothing but the finalizers.\<close>

definition finalizers_only :: "golib \<Rightarrow> bool" where
  "finalizers_only L \<longleftrightarrow> (\<forall>m f. (\<exists>fs. fst (gl_AddFinalizer L m f) = m\<lparr>om_Finalizers := fs\<rparr>)
     \<and> (\<exists>fs. fst (gl_RemoveFinalizer L m f) = m\<lparr>om_Finalizers := fs\<rparr>))"

lemma finalizer_change_wakes:
  "pool_woken (EvPool (Patch lock before (before\<lparr>pool_Meta := (pool_Meta before)\<lparr>om_Finalizers := fs\<rparr>\<rparr>) (Inr r)))"
  by (cases "fs = om_Finalizers (pool_Meta before)") auto

lemma pool_patch_ends:
  assumes "finalizers_only L"
  shows "always (State_Monad.bind (Pool_patchFinalizer K L pool) (orResult 0)) (continued pool_woken)"
proof -
  have "\<exists>fs. fst (if b then gl_AddFinalizer L m f else gl_RemoveFinalizer L m f) = m\<lparr>om_Finalizers := fs\<rparr>" for b m f
    using assms by (simp add: finalizers_only_def)
  then show ?thesis unfolding Pool_patchFinalizer_def Let_def by (intro patch_ends) (metis finalizer_change_wakes)
qed

lemma check_interval_positive: "0 < min minute (isoCheckInterval pool)"
  by (simp add: isoCheckInterval_def)

lemma pool_handlers_end:
  "always (reconcileUnavailable K L pool message) (continued P)" "always (reconcileLive K L F pool isoURL) (continued P)"
  unfolding reconcileUnavailable_def reconcileLive_def reconcilePlan_def failWithStatus_def Let_def
  using check_interval_positive by (auto split: prod.split sum.split)

lemma pool_known:
  assumes "finalizers_only L"
  shows "always (let pool = applySpecDefaults pool
     in if om_DeletionTimestamp (pool_Meta pool) \<noteq> None then Pool_reconcileDelete K L pool
        else case gl_AddFinalizer L (pool_Meta pool) finalizerName of (meta, added) \<Rightarrow>
          if added then do { r \<leftarrow> Pool_patchFinalizer K L (pool\<lparr>pool_Meta := meta\<rparr>); orResult 0 r }
          else do { (available, isoURL, message) \<leftarrow> infraEnvAvailable K L (pool\<lparr>pool_Meta := meta\<rparr>);
                    if \<not> available then reconcileUnavailable K L (pool\<lparr>pool_Meta := meta\<rparr>) message
                    else reconcileLive K L F (pool\<lparr>pool_Meta := meta\<rparr>) isoURL }) (continued pool_woken)"
  unfolding Let_def Pool_reconcileDelete_def
  by (auto split: prod.split intro!: pool_handlers_end pool_patch_ends [OF assms])

lemma pool_continued:
  assumes "finalizers_only L" shows "always (Pool_Reconcile K L F req) (continued pool_woken)"
  unfolding Pool_Reconcile_def kget_def [of "k_pools K" EvPool Live req]
  by (rule always_call, erule ignore_absent [rotated], simp, rule alwaysD, rule pool_known [OF assms])

section \<open>Demand\<close>

lemma dispatch_ends: "always (dispatchDemand K L am pools ospools) (continued P)"
  unfolding dispatchDemand_def reconcileVsphereDemand_def by auto

lemma demand_continued: "always (AgentMachine_Reconcile K L req) (continued demand_settled)"
  unfolding AgentMachine_Reconcile_def kget_def
proof (rule always_call)
  show "wp (if om_DeletionTimestamp (am_Meta am) \<noteq> None \<or> \<not> agentMachineWaitingForAgent am then ok_result 0
      else handle (klist (k_pools K) EvPool Cached (MatchingField controlPlaneNamespaceIndex (fst req))) fail_result (\<lambda>items.
           handle (matchingOpenStackPools K am) fail_result (\<lambda>openStackPools.
           dispatchDemand K L am (matchingVspherePools am items) openStackPools))) (continued demand_settled) s"
    if "ends_with (\<lambda>ev. ev = EvAgentMachine (Get Cached req (Inr am))) (trace s)" for am s
  proof (cases "om_DeletionTimestamp (am_Meta am) \<noteq> None \<or> \<not> agentMachineWaitingForAgent am")
    case True
    then show ?thesis using that by (auto simp: ok_result_def wp_simps continued_def ends_with_def)
  next
    case False
    then show ?thesis unfolding if_not_P [OF False] by (intro alwaysD always_handle always_fail dispatch_ends)
  qed
qed (erule ignore_absent [rotated], simp)

section \<open>The OpenStack pool\<close>

text \<open>
  A worker that vanished after it was listed ends the loop over the workers; its deletion is an event of the pool that owns it.
\<close>

lemma handle_error:
  "handle (handle m (\<lambda>e. ret (Inl (g e))) k) ret f = handle m (\<lambda>e. ret (g e)) (\<lambda>x. handle (k x) ret f)"
  unfolding handle_def ret_def
  by (auto intro!: arg_cong2 [where f = State_Monad.bind] split: sum.split simp: fun_eq_iff)

lemma workers_end:
  assumes f: "\<And>x. always (f x) (continued ospool_woken)"
  shows "always (handle (poolWorkers K p children counts) ret f) (continued ospool_woken)"
proof (induction children arbitrary: counts)
  case Nil
  then show ?case using f by (auto simp: always_def handle_def ret_def wp_simps)
next
  case (Cons a children)
  obtain count ready where counts: "counts = (count, ready)" by fastforce
  have delete: "always (handle (kdelete (k_osagents K) EvOsAgent None a) (\<lambda>e. ret (0, if IsNotFound e then None else Some e))
      (\<lambda>x. handle (poolWorkers K p children c) ret f)) (continued ospool_woken)" for c
    unfolding kdelete_def
    by (rule always_call) (auto simp: wp_simps continued_def runs_again_def ends_with_def intro: alwaysD [OF Cons.IH])
  show ?case
    using delete Cons.IH by (simp add: counts Let_def handle_error)
qed

lemma ospool_known: "always (reconcileOsPool K L p) (continued ospool_woken)"
proof -
  have release: "always (releaseOsPool K L p) (continued ospool_woken)"
    unfolding releaseOsPool_def kupdate_def
    by (rule always_call) (auto simp: fail_result_def ok_result_def wp_simps continued_def runs_again_def ends_with_def)
  have report: "always (reportCapacity K L p ready) (continued ospool_woken)" for ready
    unfolding reportCapacity_def Let_def by (auto simp: continued_def runs_again_def)
  show ?thesis
    unfolding reconcileOsPool_def using release report by (auto intro!: workers_end split: prod.split)
qed

lemma ospool_continued: "always (OSP_Reconcile K L req) (continued ospool_woken)"
  unfolding OSP_Reconcile_def kget_def
proof (rule always_call)
  have added: "always (handle (kupdate (k_ospools K) EvOsPool p) fail_result (\<lambda>_. ok_result 0)) (continued ospool_woken)" for p
    unfolding kupdate_def
    by (rule always_call) (auto simp: fail_result_def ok_result_def wp_simps continued_def runs_again_def ends_with_def)
  show "wp (if om_DeletionTimestamp (op_Meta p) \<noteq> None then reconcileOsPool K L p
      else case gl_AddFinalizer L (op_Meta p) openStackFinalizer of (meta, added) \<Rightarrow>
        (let p = p\<lparr>op_Meta := meta\<rparr>
         in if added then handle (kupdate (k_ospools K) EvOsPool p) fail_result (\<lambda>_. ok_result 0)
            else reconcileOsPool K L p)) (continued ospool_woken) s" for p s
    by (auto simp: Let_def split: prod.split intro!: alwaysD [OF added] alwaysD [OF ospool_known])
qed (erule ignore_absent [rotated], simp)

section \<open>The property\<close>

text \<open>C10: No object is forgotten. Whatever the world answers and whatever the provider does, a reconciliation of a vSphere pool, of a vSphere worker, of an
  AgentMachine or of an OpenStack pool ends with an error (and is retried), or asks to be run again after a positive time, or its last
  step shows why neither is needed: the object was not found; or its finalizers were patched, which for a pool is an update that the watch predicate lets
  through unless nothing changed; or the AgentMachine is being deleted or waits for no Agent; or the OpenStack pool was updated, or a worker that
  it owns was found to be gone.\<close>

theorem objects_not_forgotten:
  assumes "finalizers_only L"
  shows "wp (Pool_Reconcile K L F req) (continued pool_woken) s
    \<and> wp (VA_Reconcile K L F req) (continued worker_woken) s
    \<and> wp (AgentMachine_Reconcile K L req) (continued demand_settled) s
    \<and> wp (OSP_Reconcile K L req) (continued ospool_woken) s"
  by (intro conjI alwaysD pool_continued [OF assms] worker_continued demand_continued ospool_continued)

lemma sampleLib_finalizers_only: "finalizers_only sampleLib"
proof -
  have "\<exists>fs. m = m\<lparr>om_Finalizers := fs\<rparr>" for m :: ObjectMeta by (intro exI [of _ "om_Finalizers m"]) simp
  then show ?thesis unfolding finalizers_only_def sampleLib_def by auto
qed

lemma objects_not_forgotten_witness:
  "\<forall>(K :: unit kube) F req s. wp (Pool_Reconcile K sampleLib F req) (continued pool_woken) s
    \<and> wp (VA_Reconcile K sampleLib F req) (continued worker_woken) s"
  using objects_not_forgotten [OF sampleLib_finalizers_only] by blast

end
