(* ===== verification/GoMemory.thy ===== *)
theory GoMemory
  imports GoPrelude
begin

text \<open>
  Memory, for the one place where sharing matters: the deep copies of \<open>zz_generated.deepcopy.go\<close>. Everywhere
  else an object is a value, and \<open>DeepCopy\<close> is the identity; \<open>DeepCopies\<close> proves that this is right.

  A memory is a list of cells, an address an index, and allocation appends. A Go value is a scalar, a struct, or
  nil or a reference to a cell: a pointer to an object, a slice (the cell of its array, its offset and length)
  or a map. \<open>gotype\<close> is the type of a value as its Go declaration gives it.

  \<^item> \<open>conf T h v\<close>: the value \<open>v\<close> has the type \<open>T\<close> in the memory \<open>h\<close>.
  \<^item> \<open>view T h v\<close>: what is read through \<open>v\<close>, all references followed (what \<open>equality.Semantic.DeepEqual\<close> or the
    JSON encoder sees, nil and empty slices kept apart).
  \<^item> \<open>reach T h v\<close>: the addresses that are followed.
  \<^item> \<open>deep c T\<close>: \<open>c\<close> is a deep copy for the type \<open>T\<close>. The building blocks of the generated code are shown to be
    deep copies here, once.
\<close>

section \<open>Values, types and memory\<close>

type_synonym addr = nat

datatype gotype = TString | TInt | TBool | TTime | TMap | TPtr gotype | TSlice gotype | TStruct "(string \<times> gotype) list"

datatype goval = VString string | VInt int | VBool bool | VTime gotime
  | VNil | VPtr addr | VMap addr | VSlice addr nat nat | VStruct "(string \<times> goval) list"

datatype cell = Object goval | Entries strmap | Elems "goval list"

type_synonym mem = "cell list"

datatype tree = LString string | LInt int | LBool bool | LTime gotime
  | LNil | LPtr tree | LMap "string \<Rightarrow> string option" | LSlice "tree list" | LStruct "(string \<times> tree) list"

definition fieldOf :: "string \<Rightarrow> goval \<Rightarrow> goval" where
  "fieldOf f v = (case v of VStruct vs \<Rightarrow> (case map_of vs f of Some w \<Rightarrow> w | None \<Rightarrow> VNil) | _ \<Rightarrow> VNil)"

definition fieldNames :: "goval \<Rightarrow> string list option" where
  "fieldNames v = (case v of VStruct vs \<Rightarrow> Some (map fst vs) | _ \<Rightarrow> None)"

definition setField :: "string \<Rightarrow> goval \<Rightarrow> goval \<Rightarrow> goval" where
  "setField f w v = (case v of VStruct vs \<Rightarrow> VStruct (map (\<lambda>(g, u). (g, if g = f then w else u)) vs) | _ \<Rightarrow> v)"

fun objectAt :: "mem \<Rightarrow> goval \<Rightarrow> goval option" where
  "objectAt h (VPtr a) = (if a < length h then case h ! a of Object w \<Rightarrow> Some w | _ \<Rightarrow> None else None)"
| "objectAt h v = None"

fun entriesAt :: "mem \<Rightarrow> goval \<Rightarrow> strmap option" where
  "entriesAt h (VMap a) = (if a < length h then case h ! a of Entries m \<Rightarrow> Some m | _ \<Rightarrow> None else None)"
| "entriesAt h v = None"

fun elemsAt :: "mem \<Rightarrow> goval \<Rightarrow> goval list option" where
  "elemsAt h (VSlice a i n) = (if a < length h then case h ! a of
      Elems ws \<Rightarrow> if i + n \<le> length ws then Some (take n (drop i ws)) else None | _ \<Rightarrow> None else None)"
| "elemsAt h v = None"

fun addrOf :: "goval \<Rightarrow> addr set" where
  "addrOf (VPtr a) = {a}"
| "addrOf (VMap a) = {a}"
| "addrOf (VSlice a i n) = {a}"
| "addrOf v = {}"

text \<open>The zero value of a type, which \<open>new\<close> and \<open>make\<close> fill memory with.\<close>

fun zeroVal :: "gotype \<Rightarrow> goval" where
  "zeroVal TString = VString []"
| "zeroVal TInt = VInt 0"
| "zeroVal TBool = VBool False"
| "zeroVal TTime = VTime 0"
| "zeroVal TMap = VNil"
| "zeroVal (TPtr T) = VNil"
| "zeroVal (TSlice T) = VNil"
| "zeroVal (TStruct fs) = VStruct (map (\<lambda>(f, T). (f, zeroVal T)) fs)"

text \<open>A type without references: its values are copied by assignment.\<close>

fun flat :: "gotype \<Rightarrow> bool" where
  "flat TMap = False"
| "flat (TPtr T) = False"
| "flat (TSlice T) = False"
| "flat (TStruct fs) = (\<forall>(f, T) \<in> set fs. flat T)"
| "flat T = True"

fun conf :: "gotype \<Rightarrow> mem \<Rightarrow> goval \<Rightarrow> bool" where
  "conf TString h v = (case v of VString s \<Rightarrow> True | _ \<Rightarrow> False)"
| "conf TInt h v = (case v of VInt i \<Rightarrow> True | _ \<Rightarrow> False)"
| "conf TBool h v = (case v of VBool b \<Rightarrow> True | _ \<Rightarrow> False)"
| "conf TTime h v = (case v of VTime t \<Rightarrow> True | _ \<Rightarrow> False)"
| "conf TMap h v = (v = VNil \<or> (case entriesAt h v of Some m \<Rightarrow> distinct (map fst m) | None \<Rightarrow> False))"
| "conf (TPtr T) h v = (v = VNil \<or> (case objectAt h v of Some w \<Rightarrow> conf T h w | None \<Rightarrow> False))"
| "conf (TSlice T) h v = (v = VNil \<or> (case elemsAt h v of Some ws \<Rightarrow> \<forall>w \<in> set ws. conf T h w | None \<Rightarrow> False))"
| "conf (TStruct fs) h v = (distinct (map fst fs) \<and> fieldNames v = Some (map fst fs)
     \<and> (\<forall>(f, T) \<in> set fs. conf T h (fieldOf f v)))"

fun view :: "gotype \<Rightarrow> mem \<Rightarrow> goval \<Rightarrow> tree" where
  "view TString h v = (case v of VString s \<Rightarrow> LString s | _ \<Rightarrow> LNil)"
| "view TInt h v = (case v of VInt i \<Rightarrow> LInt i | _ \<Rightarrow> LNil)"
| "view TBool h v = (case v of VBool b \<Rightarrow> LBool b | _ \<Rightarrow> LNil)"
| "view TTime h v = (case v of VTime t \<Rightarrow> LTime t | _ \<Rightarrow> LNil)"
| "view TMap h v = (case entriesAt h v of Some m \<Rightarrow> LMap (map_of m) | None \<Rightarrow> LNil)"
| "view (TPtr T) h v = (case objectAt h v of Some w \<Rightarrow> LPtr (view T h w) | None \<Rightarrow> LNil)"
| "view (TSlice T) h v = (case elemsAt h v of Some ws \<Rightarrow> LSlice (map (view T h) ws) | None \<Rightarrow> LNil)"
| "view (TStruct fs) h v = LStruct (map (\<lambda>(f, T). (f, view T h (fieldOf f v))) fs)"

fun reach :: "gotype \<Rightarrow> mem \<Rightarrow> goval \<Rightarrow> addr set" where
  "reach TMap h v = addrOf v"
| "reach (TPtr T) h v = addrOf v \<union> (case objectAt h v of Some w \<Rightarrow> reach T h w | None \<Rightarrow> {})"
| "reach (TSlice T) h v = addrOf v \<union> (case elemsAt h v of Some ws \<Rightarrow> (\<Union>w \<in> set ws. reach T h w) | None \<Rightarrow> {})"
| "reach (TStruct fs) h v = (\<Union>(f, T) \<in> set fs. reach T h (fieldOf f v))"
| "reach T h v = {}"


text \<open>A copier takes the memory and the value to copy, and gives the memory afterwards and the copy.\<close>

type_synonym copier = "mem \<Rightarrow> goval \<Rightarrow> mem \<times> goval"

text \<open>\<open>*out = *in\<close>.\<close>

definition assign :: copier where
  "assign h v = (h, v)"

text \<open>
  \<open>*out = *in\<close>, and then, field by field, the copies that the generated function makes of the fields of \<open>in\<close>.
\<close>

fun copyFields :: "(string \<times> copier) list \<Rightarrow> goval \<Rightarrow> copier" where
  "copyFields [] src h out = (h, out)"
| "copyFields ((f, c) # cs) src h out =
     (case c h (fieldOf f src) of (h1, w) \<Rightarrow> copyFields cs src h1 (setField f w out))"

definition copyInto :: "(string \<times> copier) list \<Rightarrow> copier" where
  "copyInto cs h v = copyFields cs v h v"

text \<open>\<open>if in.F != nil { *out = new(T); copy **in into **out }\<close>.\<close>

definition copyPtr :: "gotype \<Rightarrow> copier \<Rightarrow> copier" where
  "copyPtr T c h v =
     (case objectAt h v of
        None \<Rightarrow> (h, v)
      | Some w \<Rightarrow> (case c (h @ [Object (zeroVal T)]) w of (h1, w1) \<Rightarrow> (h1[length h := Object w1], VPtr (length h))))"

text \<open>\<open>if in.F != nil { *out = make(map[string]string, len(*in)); for key, val := range *in { (*out)[key] = val } }\<close>.\<close>

definition copyMap :: copier where
  "copyMap h v =
     (case entriesAt h v of
        None \<Rightarrow> (h, v)
      | Some m \<Rightarrow> (h @ [Entries (fold (\<lambda>(k, x) out. mput out k x) m [])], VMap (length h)))"

text \<open>\<open>if in.F != nil { *out = make([]T, len(*in)); copy(*out, *in) }\<close>.\<close>

definition copySlice :: copier where
  "copySlice h v =
     (case elemsAt h v of
        None \<Rightarrow> (h, v)
      | Some ws \<Rightarrow> (h @ [Elems ws], VSlice (length h) 0 (length ws)))"

text \<open>
  \<open>if in.F != nil { *out = make([]T, len(*in)); for i := range *in { (*in)[i].DeepCopyInto(&(*out)[i]) } }\<close>: the
  array at \<open>b\<close> is filled from index \<open>k\<close> on.
\<close>

definition setElem :: "mem \<Rightarrow> addr \<Rightarrow> nat \<Rightarrow> goval \<Rightarrow> mem" where
  "setElem h b k w = (case h ! b of Elems es \<Rightarrow> h[b := Elems (es[k := w])] | _ \<Rightarrow> h)"

fun fillElems :: "copier \<Rightarrow> addr \<Rightarrow> nat \<Rightarrow> goval list \<Rightarrow> mem \<Rightarrow> mem" where
  "fillElems c b k [] h = h"
| "fillElems c b k (w # ws) h = (case c h w of (h1, w1) \<Rightarrow> fillElems c b (Suc k) ws (setElem h1 b k w1))"

definition copyEach :: "gotype \<Rightarrow> copier \<Rightarrow> copier" where
  "copyEach T c h v =
     (case elemsAt h v of
        None \<Rightarrow> (h, v)
      | Some ws \<Rightarrow> (fillElems c (length h) 0 ws (h @ [Elems (replicate (length ws) (zeroVal T))]),
                   VSlice (length h) 0 (length ws)))"

section \<open>What a deep copy is\<close>

text \<open>
  The copy \<open>v'\<close> in the memory \<open>h'\<close> of the value \<open>v\<close> in \<open>h\<close>: no cell of \<open>h\<close> was written, the copy has the type, it
  reads the same, and everything it refers to was allocated by the copy.
\<close>

definition fresh_copy :: "gotype \<Rightarrow> mem \<Rightarrow> goval \<Rightarrow> mem \<Rightarrow> goval \<Rightarrow> bool" where
  "fresh_copy T h v h' v' \<longleftrightarrow> (\<exists>new. h' = h @ new) \<and> conf T h' v' \<and> view T h' v' = view T h v
     \<and> reach T h' v' \<subseteq> {length h ..< length h'}"

definition deep :: "copier \<Rightarrow> gotype \<Rightarrow> bool" where
  "deep c T \<longleftrightarrow> (\<forall>h v. conf T h v \<longrightarrow> (case c h v of (h', v') \<Rightarrow> fresh_copy T h v h' v'))"

section \<open>Reading depends only on what is reached\<close>

lemma objectAt_agree:
  assumes "objectAt h v = Some w" and "\<forall>a \<in> addrOf v. a < length h' \<and> h' ! a = h ! a"
  shows "objectAt h' v = Some w"
  using assms by (cases v) (auto split: if_splits cell.splits)

lemma entriesAt_agree:
  assumes "entriesAt h v = Some w" and "\<forall>a \<in> addrOf v. a < length h' \<and> h' ! a = h ! a"
  shows "entriesAt h' v = Some w"
  using assms by (cases v) (auto split: if_splits cell.splits)

lemma elemsAt_agree:
  assumes "elemsAt h v = Some w" and "\<forall>a \<in> addrOf v. a < length h' \<and> h' ! a = h ! a"
  shows "elemsAt h' v = Some w"
  using assms by (cases v) (auto split: if_splits cell.splits)

lemma view_agree:
  assumes "conf T h v" and "\<forall>a \<in> reach T h v. a < length h' \<and> h' ! a = h ! a"
  shows "conf T h' v \<and> view T h' v = view T h v \<and> reach T h' v = reach T h v"
  using assms
proof (induction T h v rule: conf.induct)
  case (6 T h v)
  show ?case
  proof (cases "v = VNil")
    case False
    with "6.prems" obtain w where w: "objectAt h v = Some w" "conf T h w" by (auto split: option.splits)
    have w': "objectAt h' v = Some w" by (rule objectAt_agree [OF w(1)]) (use "6.prems"(2) in auto)
    have "conf T h' w \<and> view T h' w = view T h w \<and> reach T h' w = reach T h w"
      by (rule "6.IH" [OF w]) (use "6.prems"(2) w(1) in auto)
    then show ?thesis using w w' by simp
  qed simp
next
  case (7 T h v)
  show ?case
  proof (cases "v = VNil")
    case False
    with "7.prems" obtain ws where ws: "elemsAt h v = Some ws" "\<forall>w \<in> set ws. conf T h w" by (auto split: option.splits)
    have ws': "elemsAt h' v = Some ws" by (rule elemsAt_agree [OF ws(1)]) (use "7.prems"(2) in auto)
    have "conf T h' w \<and> view T h' w = view T h w \<and> reach T h' w = reach T h w" if "w \<in> set ws" for w
      by (rule "7.IH" [OF ws(1) that]) (use "7.prems"(2) ws that in auto)
    then show ?thesis using ws ws' by simp
  qed simp
next
  case (8 fs h v)
  have "conf T h' (fieldOf f v) \<and> view T h' (fieldOf f v) = view T h (fieldOf f v)
     \<and> reach T h' (fieldOf f v) = reach T h (fieldOf f v)" if "(f, T) \<in> set fs" for f T
    by (rule "8.IH" [OF that refl]) (use "8.prems" that in \<open>fastforce+\<close>)
  then show ?case using "8.prems"(1) by (auto intro!: SUP_cong)
qed (auto split: goval.splits option.splits dest: entriesAt_agree)


section \<open>Laws of copies\<close>

lemma conf_reach: "conf T h v \<Longrightarrow> reach T h v \<subseteq> {..< length h}"
proof (induction T h v rule: conf.induct)
  case (6 T h v)
  then show ?case by (cases v) (auto split: if_splits cell.splits option.splits)
next
  case (7 T h v)
  then show ?case by (cases v) (fastforce split: if_splits cell.splits option.splits)+
next
  case (5 h v)
  then show ?case by (cases v) (auto split: if_splits)
next
  case (8 fs h v)
  then have "reach T h (fieldOf f v) \<subseteq> {..< length h}" if "(f, T) \<in> set fs" for f T using that by fastforce
  then show ?case by auto
qed auto

lemma view_extend:
  assumes "conf T h v"
  shows "conf T (h @ new) v \<and> view T (h @ new) v = view T h v \<and> reach T (h @ new) v = reach T h v"
  by (rule view_agree [OF assms]) (use conf_reach [OF assms] in \<open>auto simp: nth_append\<close>)

lemma flat_reach: "flat T \<Longrightarrow> reach T h v = {}"
  by (induction T h v rule: reach.induct) auto

lemma fresh_copy_extend:
  assumes "fresh_copy T h v h1 w" shows "fresh_copy T h v (h1 @ new) w"
  using assms view_extend [of T h1 w new] unfolding fresh_copy_def by auto

lemma fresh_copy_flat:
  assumes "conf T h v" "flat T" shows "fresh_copy T h v (h @ new) v"
  using view_extend [OF assms(1)] flat_reach [OF assms(2)] unfolding fresh_copy_def by auto

lemma fresh_copy_shift:
  assumes "conf T h v" and "fresh_copy T (h @ new) v h1 w" shows "fresh_copy T h v h1 w"
  using assms(2) view_extend [OF assms(1)] unfolding fresh_copy_def by auto

lemma deepD: "deep c T \<Longrightarrow> conf T h v \<Longrightarrow> c h v = (h', v') \<Longrightarrow> fresh_copy T h v h' v'"
  unfolding deep_def by fastforce

lemma deep_extend:
  assumes "deep c T" "conf T h v" "c (h @ new) v = (h1, w)"
  shows "fresh_copy T h v h1 w" and "fresh_copy T (h @ new) v h1 w"
proof -
  show "fresh_copy T (h @ new) v h1 w" using deepD [OF assms(1) _ assms(3)] view_extend [OF assms(2)] by blast
  then show "fresh_copy T h v h1 w" by (rule fresh_copy_shift [OF assms(2)])
qed

section \<open>The generated code's building blocks are deep copies\<close>

lemma deep_assign: "flat T \<Longrightarrow> deep assign T"
  using fresh_copy_flat [where new = "[]"] by (auto simp: deep_def assign_def)

lemma deep_copyMap: "deep copyMap TMap"
proof -
  have put: "map_of (fold (\<lambda>(k, x) out. mput out k x) m out) = map_of out ++ map_of m
      \<and> distinct (map fst (fold (\<lambda>(k, x) out. mput out k x) m out))"
    if "distinct (map fst m)" "distinct (map fst out)" for m out :: strmap
    using that
  proof (induction m arbitrary: out)
    case (Cons p m)
    obtain k x where p: "p = (k, x)" by fastforce
    have "map_of m k = None" using Cons.prems(1) by (simp add: p map_of_eq_None_iff)
    then have "map_of (mput out k x) ++ map_of m = map_of out ++ map_of (p # m)"
      by (auto simp: p mput_def update_conv' map_add_def fun_eq_iff split: option.splits)
    moreover have "distinct (map fst (mput out k x))" using Cons.prems(2) by (simp add: mput_def distinct_update)
    ultimately show ?case using Cons.IH [of "mput out k x"] Cons.prems(1) by (simp add: p fun_upd_def [symmetric] del: map_add_upd)
  qed simp
  show ?thesis unfolding deep_def
  proof (intro allI impI)
    fix h v assume c: "conf TMap h v"
    show "case copyMap h v of (h', v') \<Rightarrow> fresh_copy TMap h v h' v'"
    proof (cases "entriesAt h v")
      case None
      with c show ?thesis by (simp add: copyMap_def fresh_copy_def)
    next
      case (Some m)
      with c put [of m "[]"] show ?thesis by (cases v) (simp_all add: copyMap_def fresh_copy_def nth_append)
    qed
  qed
qed

lemma deep_copySlice:
  assumes "flat T" shows "deep copySlice (TSlice T)"
  unfolding deep_def
proof (intro allI impI)
  fix h v assume c: "conf (TSlice T) h v"
  show "case copySlice h v of (h', v') \<Rightarrow> fresh_copy (TSlice T) h v h' v'"
  proof (cases "elemsAt h v")
    case None
    with c show ?thesis by (simp add: copySlice_def fresh_copy_def)
  next
    case (Some ws)
    then have "\<forall>w \<in> set ws. conf T h w" using c by auto
    then show ?thesis using view_extend [of T h _ "[Elems ws]"] flat_reach [OF assms]
      by (simp add: copySlice_def fresh_copy_def Some nth_append)
  qed
qed

lemma deep_copyPtr:
  assumes "deep c T" shows "deep (copyPtr T c) (TPtr T)"
  unfolding deep_def
proof (intro allI impI)
  fix h v assume cv: "conf (TPtr T) h v"
  show "case copyPtr T c h v of (h', v') \<Rightarrow> fresh_copy (TPtr T) h v h' v'"
  proof (cases "objectAt h v")
    case None
    with cv show ?thesis by (simp add: copyPtr_def fresh_copy_def)
  next
    case (Some w)
    with cv have cw: "conf T h w" by auto
    obtain h1 w1 where c: "c (h @ [Object (zeroVal T)]) w = (h1, w1)" by fastforce
    from deep_extend [OF assms cw c] obtain new where h1: "h1 = h @ Object (zeroVal T) # new"
      and w1: "conf T h1 w1" "view T h1 w1 = view T h w" "reach T h1 w1 \<subseteq> {Suc (length h) ..< length h1}"
      unfolding fresh_copy_def by auto
    have "conf T (h @ Object w1 # new) w1 \<and> view T (h @ Object w1 # new) w1 = view T h1 w1
        \<and> reach T (h @ Object w1 # new) w1 = reach T h1 w1"
      by (rule view_agree [OF w1(1)]) (use w1(3) h1 in \<open>fastforce simp: nth_append nth_Cons'\<close>)
    with w1 h1 show ?thesis by (auto simp: copyPtr_def fresh_copy_def Some c list_update_append nth_append)
  qed
qed


text \<open>
  The loop over a slice, part way: the array at the end of \<open>h\<close> holds the copies \<open>pre\<close> of the elements \<open>us\<close>, and
  \<open>ws\<close> are still to be copied.
\<close>

definition elem_copy :: "gotype \<Rightarrow> mem \<Rightarrow> mem \<Rightarrow> goval \<Rightarrow> goval \<Rightarrow> bool" where
  "elem_copy T h g w w' \<longleftrightarrow> conf T g w' \<and> view T g w' = view T h w \<and> reach T g w' \<subseteq> {Suc (length h) ..< length g}"

lemma elem_copy_keep:
  assumes "elem_copy T h (h @ Elems es # new) w w'"
  shows "elem_copy T h (h @ Elems es' # new @ new') w w'"
proof -
  have "conf T (h @ Elems es' # new @ new') w' \<and> view T (h @ Elems es' # new @ new') w' = view T (h @ Elems es # new) w'
      \<and> reach T (h @ Elems es' # new @ new') w' = reach T (h @ Elems es # new) w'"
    by (rule view_agree) (use assms in \<open>fastforce simp: elem_copy_def nth_append nth_Cons'\<close>)+
  with assms show ?thesis unfolding elem_copy_def by fastforce
qed

lemma fillElems_copies:
  assumes c: "deep c T"
  shows "\<lbrakk>list_all2 (elem_copy T h (h @ Elems (pre @ replicate (length ws) z) # new)) us pre; \<forall>w \<in> set ws. conf T h w\<rbrakk>
    \<Longrightarrow> \<exists>post new'. fillElems c (length h) (length pre) ws (h @ Elems (pre @ replicate (length ws) z) # new)
                    = h @ Elems (pre @ post) # new'
          \<and> length post = length ws
          \<and> list_all2 (elem_copy T h (h @ Elems (pre @ post) # new')) (us @ ws) (pre @ post)"
proof (induction ws arbitrary: pre us new)
  case Nil
  then show ?case by auto
next
  case (Cons w ws)
  let ?g = "h @ Elems (pre @ replicate (length (w # ws)) z) # new"
  obtain h1 w1 where w1: "c ?g w = (h1, w1)" by fastforce
  have cw: "conf T h w" using Cons.prems by simp
  from deep_extend [OF c cw w1] obtain new1 where h1: "h1 = ?g @ new1"
    and f1: "conf T h1 w1" "view T h1 w1 = view T h w" "reach T h1 w1 \<subseteq> {length ?g ..< length h1}"
    unfolding fresh_copy_def by auto
  let ?g1 = "h @ Elems ((pre @ [w1]) @ replicate (length ws) z) # new @ new1"
  have set: "setElem h1 (length h) (length pre) w1 = ?g1"
    by (simp add: h1 setElem_def list_update_append nth_append)
  have "elem_copy T h h1 w w1" unfolding elem_copy_def using f1 h1 by auto
  then have new: "elem_copy T h ?g1 w w1" using elem_copy_keep [of T h _ "new @ new1" w w1 _ "[]"] by (simp add: h1)
  have "list_all2 (elem_copy T h ?g1) us pre"
    by (rule list_all2_mono [OF Cons.prems(1)]) (rule elem_copy_keep)
  with new have "list_all2 (elem_copy T h ?g1) (us @ [w]) (pre @ [w1])" by (simp add: list_all2_appendI)
  from Cons.IH [OF this] Cons.prems(2) obtain post new' where
    "fillElems c (length h) (length (pre @ [w1])) ws ?g1 = h @ Elems ((pre @ [w1]) @ post) # new'"
    "length post = length ws"
    "list_all2 (elem_copy T h (h @ Elems ((pre @ [w1]) @ post) # new')) ((us @ [w]) @ ws) ((pre @ [w1]) @ post)" by auto
  moreover have "fillElems c (length h) (length pre) (w # ws) ?g = fillElems c (length h) (length (pre @ [w1])) ws ?g1"
    unfolding fillElems.simps(2) w1 by (simp only: prod.case set) simp
  ultimately show ?case by (intro exI [of _ "w1 # post"] exI [of _ new']) simp
qed

lemma deep_copyEach:
  assumes "deep c T" shows "deep (copyEach T c) (TSlice T)"
  unfolding deep_def
proof (intro allI impI)
  fix h v assume cv: "conf (TSlice T) h v"
  show "case copyEach T c h v of (h', v') \<Rightarrow> fresh_copy (TSlice T) h v h' v'"
  proof (cases "elemsAt h v")
    case None
    with cv show ?thesis by (simp add: copyEach_def fresh_copy_def)
  next
    case (Some ws)
    then have "\<forall>w \<in> set ws. conf T h w" using cv by auto
    from fillElems_copies [OF assms _ this, of "[]" "zeroVal T" "[]" "[]"] obtain post new where
      h': "fillElems c (length h) 0 ws (h @ [Elems (replicate (length ws) (zeroVal T))]) = h @ Elems post # new"
      and post: "length post = length ws" "list_all2 (elem_copy T h (h @ Elems post # new)) ws post" by auto
    have "\<forall>w' \<in> set post. conf T (h @ Elems post # new) w' \<and> reach T (h @ Elems post # new) w' \<subseteq> {length h ..< length (h @ Elems post # new)}"
      using post(2) by (fastforce simp: elem_copy_def list_all2_conv_all_nth in_set_conv_nth)
    moreover have "map (view T (h @ Elems post # new)) post = map (view T h) ws"
      using post(2) by (auto simp: elem_copy_def list_all2_conv_all_nth intro!: nth_equalityI)
    ultimately show ?thesis by (auto simp: copyEach_def fresh_copy_def Some h' post(1) nth_append)
  qed
qed

section \<open>Structs\<close>

lemma fieldNames_setField [simp]: "fieldNames (setField f w v) = fieldNames v"
  by (auto simp: fieldNames_def setField_def comp_def case_prod_beta split: goval.splits)

lemma fieldOf_setField:
  assumes "fieldNames v = Some fs" "f \<in> set fs"
  shows "fieldOf g (setField f w v) = (if g = f then w else fieldOf g v)"
proof -
  obtain vs where v: "v = VStruct vs" "map fst vs = fs" using assms(1) by (auto simp: fieldNames_def split: goval.splits)
  have "map_of (map (\<lambda>(g, u). (g, if g = f then w else u)) vs) g
      = (if g = f then (if f \<in> fst ` set vs then Some w else None) else map_of vs g)" for g by (induction vs) force+
  then show ?thesis using v assms(2) by (force simp: fieldOf_def setField_def)
qed

text \<open>
  The fields that the generated function does not name stay assigned, so they must be flat; each named field
  must be copied by a deep copy for its declared type.
\<close>

definition copies_fields :: "(string \<times> copier) list \<Rightarrow> (string \<times> gotype) list \<Rightarrow> bool" where
  "copies_fields cs fs \<longleftrightarrow> fst ` set cs \<subseteq> fst ` set fs
     \<and> (\<forall>(f, T) \<in> set fs. case map_of cs f of None \<Rightarrow> flat T | Some c \<Rightarrow> deep c T)"

lemma copyFields_copies:
  assumes v: "conf (TStruct fs) h v"
  shows "\<lbrakk>\<forall>(f, c) \<in> set cs. \<exists>T. (f, T) \<in> set fs \<and> deep c T; fieldNames out = Some (map fst fs);
      \<forall>(f, T) \<in> set fs. f \<in> fst ` set cs \<or> fresh_copy T h (fieldOf f v) (h @ new) (fieldOf f out)\<rbrakk>
    \<Longrightarrow> \<exists>new' out'. copyFields cs v (h @ new) out = (h @ new', out') \<and> fieldNames out' = Some (map fst fs)
         \<and> (\<forall>(f, T) \<in> set fs. fresh_copy T h (fieldOf f v) (h @ new') (fieldOf f out'))"
proof (induction cs arbitrary: new out)
  case Nil
  then show ?case by auto
next
  case (Cons p cs)
  obtain f c where p: "p = (f, c)" by fastforce
  from Cons.prems(1) obtain T where T: "(f, T) \<in> set fs" "deep c T" by (auto simp: p)
  obtain h1 w where w: "c (h @ new) (fieldOf f v) = (h1, w)" by fastforce
  have "conf T h (fieldOf f v)" using v T(1) by auto
  from deep_extend [OF T(2) this w] obtain new1 where h1: "h1 = h @ new @ new1"
    and fw: "fresh_copy T h (fieldOf f v) h1 w" by (auto simp: fresh_copy_def)
  have uniq: "T' = T" if "(f, T') \<in> set fs" for T' using v T(1) that by (auto dest: eq_key_imp_eq_value)
  have f: "f \<in> set (map fst fs)" using T(1) by force
  have step: "fresh_copy T' h (fieldOf g v) (h @ new @ new1) (fieldOf g (setField f w out))"
    if g: "(g, T') \<in> set fs" "g \<notin> fst ` set cs" for g T'
  proof (cases "g = f")
    case True
    then show ?thesis using fw uniq g(1) h1 by (auto simp: fieldOf_setField [OF Cons.prems(2) f])
  next
    case False
    then have "fresh_copy T' h (fieldOf g v) (h @ new) (fieldOf g out)" using Cons.prems(3) g by (fastforce simp: p)
    then show ?thesis using fresh_copy_extend [of T' h _ "h @ new" _ new1] False
      by (simp add: fieldOf_setField [OF Cons.prems(2) f])
  qed
  from Cons.IH [of "setField f w out" "new @ new1"] step Cons.prems(1,2)
  show ?case by (simp add: p w h1) blast
qed

lemma deep_copyInto:
  assumes "copies_fields cs fs" and "distinct (map fst cs)"
  shows "deep (copyInto cs) (TStruct fs)"
  unfolding deep_def
proof (intro allI impI)
  fix h v assume cv: "conf (TStruct fs) h v"
  have "\<exists>T. (f, T) \<in> set fs \<and> deep c T" if fc: "(f, c) \<in> set cs" for f c
  proof -
    from fc assms(1) obtain T where T: "(f, T) \<in> set fs" by (force simp: copies_fields_def)
    moreover have "map_of cs f = Some c" using assms(2) fc by simp
    ultimately show ?thesis using assms(1) by (fastforce simp: copies_fields_def)
  qed
  moreover have "f \<in> fst ` set cs \<or> fresh_copy T h (fieldOf f v) (h @ []) (fieldOf f v)" if "(f, T) \<in> set fs" for f T
  proof (cases "f \<in> fst ` set cs")
    case False
    then have "flat T" using assms(1) that by (fastforce simp: copies_fields_def map_of_eq_None_iff [THEN iffD2])
    then show ?thesis using fresh_copy_flat [of T h "fieldOf f v" "[]"] cv that by fastforce
  qed simp
  ultimately obtain new out where out: "copyFields cs v (h @ []) v = (h @ new, out)" "fieldNames out = Some (map fst fs)"
    "\<forall>(f, T) \<in> set fs. fresh_copy T h (fieldOf f v) (h @ new) (fieldOf f out)"
    using copyFields_copies [OF cv, of cs v "[]"] cv by fastforce
  then show "case copyInto cs h v of (h', v') \<Rightarrow> fresh_copy (TStruct fs) h v h' v'"
    using cv by (fastforce simp: copyInto_def fresh_copy_def)
qed

end
