(* ===== verification/DeepCopies.thy ===== *)
theory DeepCopies
  imports GoMemory
begin

text \<open>
  The generated deep copies of the API types (\<open>api/v1alpha1/zz_generated.deepcopy.go\<close>), over the memory of
  \<open>GoMemory\<close>. The controllers copy an object before they change it, and send the difference to the API server
  as a patch; the copy must therefore keep reading what the object read when it was copied, whatever is written to
  the object afterwards. It must copy every reference that the struct declares, in whatever struct it is nested.

  The Kubernetes packages are the parameter \<open>k8s\<close>: the declarations of the types embedded here, and their own
  deep copies. The locale \<open>k8s_api\<close> states what the generated code relies on: that the types it copies by assignment
  hold no references, and that the copies it calls are deep. It is interpreted on the types' published declarations.
\<close>

named_theorems deep_copies \<open>deep copies and types without references\<close>

record k8s =
  k8s_TypeMeta :: gotype
  k8s_ObjectMeta :: gotype
  k8s_ListMeta :: gotype
  k8s_Condition :: gotype
  k8s_ObjectReference :: gotype
  k8s_Duration :: gotype
  copy_ObjectMeta :: copier
  copy_ListMeta :: copier
  copy_Condition :: copier
  copy_Time :: copier
  copy_TimePtr :: copier

section \<open>The declared types\<close>

definition LocalObjectReferenceT :: gotype where
  "LocalObjectReferenceT = TStruct
    [(''Name'', TString)]"

definition SecretReferenceT :: gotype where
  "SecretReferenceT = TStruct
    [(''Name'', TString), (''Namespace'', TString)]"

definition VspherePlacementSpecT :: gotype where
  "VspherePlacementSpecT = TStruct
    [(''CredentialsSecretRef'', SecretReferenceT), (''Datacenter'', TString),
     (''DatastoreCluster'', TString), (''ISODatastore'', TString), (''ResourcePool'', TString),
     (''Folder'', TString), (''Network'', TString), (''VMTags'', TSlice TString), (''GuestID'', TString),
     (''SCSIType'', TString), (''Firmware'', TString), (''NetworkAdapterType'', TString),
     (''DiskEagerlyScrub'', TBool)]"

definition VMTemplateSpecT :: gotype where
  "VMTemplateSpecT = TStruct
    [(''NamePrefix'', TString), (''NumCPUs'', TInt), (''MemoryMiB'', TInt), (''DiskGiB'', TInt)]"

definition AgentBindingSpecT :: gotype where
  "AgentBindingSpecT = TStruct
    [(''Role'', TString), (''Labels'', TMap), (''Approve'', TPtr TBool)]"

definition ISOCacheSpecT :: "k8s \<Rightarrow> gotype" where
  "ISOCacheSpecT P = TStruct
    [(''EjectAfterInstall'', TBool), (''CheckInterval'', k8s_Duration P), (''RetainVersions'', TInt),
     (''PathPrefix'', TString)]"

definition VsphereAgentPoolSpecT :: "k8s \<Rightarrow> gotype" where
  "VsphereAgentPoolSpecT P = TStruct
    [(''HostedClusterRef'', LocalObjectReferenceT), (''NodePoolRef'', LocalObjectReferenceT),
     (''InfraEnvRef'', LocalObjectReferenceT), (''ControlPlaneNamespace'', TString),
     (''VSphere'', VspherePlacementSpecT), (''Template'', VMTemplateSpecT), (''Agent'', AgentBindingSpecT),
     (''ISO'', ISOCacheSpecT P), (''CleanupPolicy'', TString)]"

definition OwnedVMStatusT :: "k8s \<Rightarrow> gotype" where
  "OwnedVMStatusT P = TStruct
    [(''Name'', TString), (''OwnerUID'', TString), (''Source'', TString), (''BIOSUUID'', TString),
     (''MACAddress'', TString), (''AgentRef'', TPtr (k8s_ObjectReference P)),
     (''MachineRef'', TPtr (k8s_ObjectReference P)), (''Phase'', TString), (''Reason'', TString),
     (''LastTransitionTime'', TTime)]"

definition PlannedActionStatusT :: gotype where
  "PlannedActionStatusT = TStruct
    [(''Type'', TString), (''Name'', TString), (''Reason'', TString)]"

definition ISOCacheHistoryEntryT :: gotype where
  "ISOCacheHistoryEntryT = TStruct
    [(''Path'', TString), (''SHA256'', TString), (''SizeBytes'', TInt), (''UploadedAt'', TTime)]"

definition ISOCacheStatusT :: gotype where
  "ISOCacheStatusT = TStruct
    [(''URL'', TString), (''URLHash'', TString), (''Path'', TString), (''SHA256'', TString),
     (''SizeBytes'', TInt), (''LastModified'', TString), (''CheckedAt'', TTime), (''UploadedAt'', TTime),
     (''ForceRefreshToken'', TString), (''History'', TSlice ISOCacheHistoryEntryT)]"

definition VsphereAgentPoolStatusT :: "k8s \<Rightarrow> gotype" where
  "VsphereAgentPoolStatusT P = TStruct
    [(''ObservedGeneration'', TInt), (''DesiredReplicas'', TInt), (''AgentMachines'', TInt),
     (''WaitingAgentMachines'', TInt), (''UnreadyAgentMachines'', TInt),
     (''AgentMachinesWithoutAgent'', TInt), (''MatchingAgents'', TInt), (''BoundAgents'', TInt),
     (''AvailableAgents'', TInt), (''OwnedVMs'', TSlice (OwnedVMStatusT P)),
     (''PlannedActions'', TSlice PlannedActionStatusT), (''ISO'', ISOCacheStatusT),
     (''Conditions'', TSlice (k8s_Condition P))]"

definition VsphereAgentPoolT :: "k8s \<Rightarrow> gotype" where
  "VsphereAgentPoolT P = TStruct
    [(''TypeMeta'', k8s_TypeMeta P), (''ObjectMeta'', k8s_ObjectMeta P),
     (''Spec'', VsphereAgentPoolSpecT P), (''Status'', VsphereAgentPoolStatusT P)]"

definition VsphereAgentPoolListT :: "k8s \<Rightarrow> gotype" where
  "VsphereAgentPoolListT P = TStruct
    [(''TypeMeta'', k8s_TypeMeta P), (''ListMeta'', k8s_ListMeta P),
     (''Items'', TSlice (VsphereAgentPoolT P))]"

definition VsphereAgentSpecT :: gotype where
  "VsphereAgentSpecT = TStruct
    [(''PoolRef'', LocalObjectReferenceT)]"

definition ISOEjectionStatusT :: gotype where
  "ISOEjectionStatusT = TStruct
    [(''VMName'', TString), (''BIOSUUID'', TString), (''OwnerUID'', TString), (''Datacenter'', TString),
     (''DeviceKey'', TInt), (''ISOPath'', TString), (''StartedAt'', TTime), (''DisconnectStarted'', TBool),
     (''QuestionID'', TString)]"

definition VsphereAgentStatusT :: "k8s \<Rightarrow> gotype" where
  "VsphereAgentStatusT P = TStruct
    [(''ObservedGeneration'', TInt), (''VM'', OwnedVMStatusT P), (''ISOEjection'', TPtr ISOEjectionStatusT),
     (''Conditions'', TSlice (k8s_Condition P))]"

definition VsphereAgentT :: "k8s \<Rightarrow> gotype" where
  "VsphereAgentT P = TStruct
    [(''TypeMeta'', k8s_TypeMeta P), (''ObjectMeta'', k8s_ObjectMeta P), (''Spec'', VsphereAgentSpecT),
     (''Status'', VsphereAgentStatusT P)]"

definition VsphereAgentListT :: "k8s \<Rightarrow> gotype" where
  "VsphereAgentListT P = TStruct
    [(''TypeMeta'', k8s_TypeMeta P), (''ListMeta'', k8s_ListMeta P), (''Items'', TSlice (VsphereAgentT P))]"

definition OpenStackPlacementSpecT :: gotype where
  "OpenStackPlacementSpecT = TStruct
    [(''CredentialsSecretRef'', LocalObjectReferenceT), (''Region'', TString), (''NetworkID'', TString),
     (''NetworkName'', TString), (''FlavorID'', TString), (''FlavorName'', TString),
     (''SubnetID'', TString), (''DHCPEnabled'', TPtr TBool), (''PortSecurityEnabled'', TPtr TBool),
     (''SecurityGroupIDs'', TSlice TString), (''PortTags'', TSlice TString),
     (''AvailabilityZone'', TString), (''APITimeoutSeconds'', TInt)]"

definition OpenStackTemplateSpecT :: gotype where
  "OpenStackTemplateSpecT = TStruct
    [(''DiskGiB'', TInt), (''VolumeType'', TString), (''VolumeAvailabilityZone'', TString),
     (''VolumeMetadata'', TMap), (''DiscoveryVolumeMinGiB'', TInt), (''DiscoveryVolumeType'', TString),
     (''OSDiskBus'', TString), (''DiscoveryDiskBus'', TString), (''InstallationDisk'', TString),
     (''OSVolumePolicy'', TString)]"

definition OpenStackAgentPoolSpecT :: gotype where
  "OpenStackAgentPoolSpecT = TStruct
    [(''HostedClusterRef'', LocalObjectReferenceT), (''NodePoolRef'', LocalObjectReferenceT),
     (''InfraEnvRef'', LocalObjectReferenceT), (''ControlPlaneNamespace'', TString),
     (''OpenStack'', OpenStackPlacementSpecT), (''Template'', OpenStackTemplateSpecT),
     (''Agent'', AgentBindingSpecT), (''CleanupPolicy'', TString), (''DiscoveryTimeoutSeconds'', TInt)]"

definition OpenStackAgentPoolStatusT :: "k8s \<Rightarrow> gotype" where
  "OpenStackAgentPoolStatusT P = TStruct
    [(''ObservedGeneration'', TInt), (''DesiredReplicas'', TInt), (''ReadyReplicas'', TInt),
     (''Conditions'', TSlice (k8s_Condition P))]"

definition OpenStackAgentSpecT :: "k8s \<Rightarrow> gotype" where
  "OpenStackAgentSpecT P = TStruct
    [(''PoolRef'', LocalObjectReferenceT), (''PoolUID'', TString),
     (''AgentMachineRef'', k8s_ObjectReference P), (''MachineRef'', TPtr (k8s_ObjectReference P)),
     (''Configuration'', OpenStackAgentPoolSpecT), (''FixedIPAddress'', TString)]"

definition OpenStackAgentStatusT :: "k8s \<Rightarrow> gotype" where
  "OpenStackAgentStatusT P = TStruct
    [(''ObservedGeneration'', TInt), (''Phase'', TString), (''ScopeHash'', TString),
     (''PendingCreate'', TString), (''PortID'', TString), (''MACAddress'', TString),
     (''OSVolumeID'', TString), (''DiscoveryVolumeID'', TString), (''ImageID'', TString),
     (''ImageCacheName'', TString), (''ISOSHA256'', TString), (''ISOSizeBytes'', TInt),
     (''InfraEnvUID'', TString), (''ServerID'', TString), (''AgentRef'', TPtr (k8s_ObjectReference P)),
     (''InstanceCreatedAt'', TPtr TTime), (''Conditions'', TSlice (k8s_Condition P))]"

definition OpenStackAgentPoolT :: "k8s \<Rightarrow> gotype" where
  "OpenStackAgentPoolT P = TStruct
    [(''TypeMeta'', k8s_TypeMeta P), (''ObjectMeta'', k8s_ObjectMeta P),
     (''Spec'', OpenStackAgentPoolSpecT), (''Status'', OpenStackAgentPoolStatusT P)]"

definition OpenStackAgentPoolListT :: "k8s \<Rightarrow> gotype" where
  "OpenStackAgentPoolListT P = TStruct
    [(''TypeMeta'', k8s_TypeMeta P), (''ListMeta'', k8s_ListMeta P),
     (''Items'', TSlice (OpenStackAgentPoolT P))]"

definition OpenStackAgentT :: "k8s \<Rightarrow> gotype" where
  "OpenStackAgentT P = TStruct
    [(''TypeMeta'', k8s_TypeMeta P), (''ObjectMeta'', k8s_ObjectMeta P), (''Spec'', OpenStackAgentSpecT P),
     (''Status'', OpenStackAgentStatusT P)]"

definition OpenStackAgentListT :: "k8s \<Rightarrow> gotype" where
  "OpenStackAgentListT P = TStruct
    [(''TypeMeta'', k8s_TypeMeta P), (''ListMeta'', k8s_ListMeta P), (''Items'', TSlice (OpenStackAgentT P))]"

section \<open>The generated functions\<close>

text \<open>
  \<open>DeepCopyInto\<close> assigns the struct and then copies the fields it names; \<open>DeepCopy\<close> is nil for nil, and otherwise
  allocates and copies into the new object; \<open>DeepCopyObject\<close> returns the copy as an interface value, which is nil
  (and not an interface holding a nil pointer) for nil.
\<close>

definition asObject :: "mem \<times> goval \<Rightarrow> mem \<times> goval option" where
  "asObject r = (fst r, if snd r = VNil then None else Some (snd r))"

definition LocalObjectReference_DeepCopyInto :: copier where
  "LocalObjectReference_DeepCopyInto = copyInto []"

definition LocalObjectReference_DeepCopy :: copier where
  "LocalObjectReference_DeepCopy = copyPtr LocalObjectReferenceT LocalObjectReference_DeepCopyInto"

definition SecretReference_DeepCopyInto :: copier where
  "SecretReference_DeepCopyInto = copyInto []"

definition SecretReference_DeepCopy :: copier where
  "SecretReference_DeepCopy = copyPtr SecretReferenceT SecretReference_DeepCopyInto"

definition VspherePlacementSpec_DeepCopyInto :: copier where
  "VspherePlacementSpec_DeepCopyInto = copyInto
    [(''CredentialsSecretRef'', assign), (''VMTags'', copySlice)]"

definition VspherePlacementSpec_DeepCopy :: copier where
  "VspherePlacementSpec_DeepCopy = copyPtr VspherePlacementSpecT VspherePlacementSpec_DeepCopyInto"

definition VMTemplateSpec_DeepCopyInto :: copier where
  "VMTemplateSpec_DeepCopyInto = copyInto []"

definition VMTemplateSpec_DeepCopy :: copier where
  "VMTemplateSpec_DeepCopy = copyPtr VMTemplateSpecT VMTemplateSpec_DeepCopyInto"

definition AgentBindingSpec_DeepCopyInto :: copier where
  "AgentBindingSpec_DeepCopyInto = copyInto
    [(''Labels'', copyMap), (''Approve'', copyPtr TBool assign)]"

definition AgentBindingSpec_DeepCopy :: copier where
  "AgentBindingSpec_DeepCopy = copyPtr AgentBindingSpecT AgentBindingSpec_DeepCopyInto"

definition ISOCacheSpec_DeepCopyInto :: copier where
  "ISOCacheSpec_DeepCopyInto = copyInto
    [(''CheckInterval'', assign)]"

definition ISOCacheSpec_DeepCopy :: "k8s \<Rightarrow> copier" where
  "ISOCacheSpec_DeepCopy P = copyPtr (ISOCacheSpecT P) ISOCacheSpec_DeepCopyInto"

definition VsphereAgentPoolSpec_DeepCopyInto :: copier where
  "VsphereAgentPoolSpec_DeepCopyInto = copyInto
    [(''HostedClusterRef'', assign), (''NodePoolRef'', assign), (''InfraEnvRef'', assign),
     (''VSphere'', VspherePlacementSpec_DeepCopyInto), (''Template'', assign),
     (''Agent'', AgentBindingSpec_DeepCopyInto), (''ISO'', assign)]"

definition VsphereAgentPoolSpec_DeepCopy :: "k8s \<Rightarrow> copier" where
  "VsphereAgentPoolSpec_DeepCopy P = copyPtr (VsphereAgentPoolSpecT P) VsphereAgentPoolSpec_DeepCopyInto"

definition OwnedVMStatus_DeepCopyInto :: "k8s \<Rightarrow> copier" where
  "OwnedVMStatus_DeepCopyInto P = copyInto
    [(''AgentRef'', copyPtr (k8s_ObjectReference P) assign),
     (''MachineRef'', copyPtr (k8s_ObjectReference P) assign), (''LastTransitionTime'', copy_Time P)]"

definition OwnedVMStatus_DeepCopy :: "k8s \<Rightarrow> copier" where
  "OwnedVMStatus_DeepCopy P = copyPtr (OwnedVMStatusT P) (OwnedVMStatus_DeepCopyInto P)"

definition PlannedActionStatus_DeepCopyInto :: copier where
  "PlannedActionStatus_DeepCopyInto = copyInto []"

definition PlannedActionStatus_DeepCopy :: copier where
  "PlannedActionStatus_DeepCopy = copyPtr PlannedActionStatusT PlannedActionStatus_DeepCopyInto"

definition ISOCacheHistoryEntry_DeepCopyInto :: "k8s \<Rightarrow> copier" where
  "ISOCacheHistoryEntry_DeepCopyInto P = copyInto
    [(''UploadedAt'', copy_Time P)]"

definition ISOCacheHistoryEntry_DeepCopy :: "k8s \<Rightarrow> copier" where
  "ISOCacheHistoryEntry_DeepCopy P = copyPtr ISOCacheHistoryEntryT (ISOCacheHistoryEntry_DeepCopyInto P)"

definition ISOCacheStatus_DeepCopyInto :: "k8s \<Rightarrow> copier" where
  "ISOCacheStatus_DeepCopyInto P = copyInto
    [(''CheckedAt'', copy_Time P), (''UploadedAt'', copy_Time P),
     (''History'', copyEach ISOCacheHistoryEntryT (ISOCacheHistoryEntry_DeepCopyInto P))]"

definition ISOCacheStatus_DeepCopy :: "k8s \<Rightarrow> copier" where
  "ISOCacheStatus_DeepCopy P = copyPtr ISOCacheStatusT (ISOCacheStatus_DeepCopyInto P)"

definition VsphereAgentPoolStatus_DeepCopyInto :: "k8s \<Rightarrow> copier" where
  "VsphereAgentPoolStatus_DeepCopyInto P = copyInto
    [(''OwnedVMs'', copyEach (OwnedVMStatusT P) (OwnedVMStatus_DeepCopyInto P)),
     (''PlannedActions'', copySlice), (''ISO'', ISOCacheStatus_DeepCopyInto P),
     (''Conditions'', copyEach (k8s_Condition P) (copy_Condition P))]"

definition VsphereAgentPoolStatus_DeepCopy :: "k8s \<Rightarrow> copier" where
  "VsphereAgentPoolStatus_DeepCopy P = copyPtr (VsphereAgentPoolStatusT P) (VsphereAgentPoolStatus_DeepCopyInto P)"

definition VsphereAgentPool_DeepCopyInto :: "k8s \<Rightarrow> copier" where
  "VsphereAgentPool_DeepCopyInto P = copyInto
    [(''TypeMeta'', assign), (''ObjectMeta'', copy_ObjectMeta P),
     (''Spec'', VsphereAgentPoolSpec_DeepCopyInto), (''Status'', VsphereAgentPoolStatus_DeepCopyInto P)]"

definition VsphereAgentPool_DeepCopy :: "k8s \<Rightarrow> copier" where
  "VsphereAgentPool_DeepCopy P = copyPtr (VsphereAgentPoolT P) (VsphereAgentPool_DeepCopyInto P)"

definition VsphereAgentPool_DeepCopyObject :: "k8s \<Rightarrow> mem \<Rightarrow> goval \<Rightarrow> mem \<times> goval option" where
  "VsphereAgentPool_DeepCopyObject P h v = asObject (VsphereAgentPool_DeepCopy P h v)"

definition VsphereAgentPoolList_DeepCopyInto :: "k8s \<Rightarrow> copier" where
  "VsphereAgentPoolList_DeepCopyInto P = copyInto
    [(''TypeMeta'', assign), (''ListMeta'', copy_ListMeta P),
     (''Items'', copyEach (VsphereAgentPoolT P) (VsphereAgentPool_DeepCopyInto P))]"

definition VsphereAgentPoolList_DeepCopy :: "k8s \<Rightarrow> copier" where
  "VsphereAgentPoolList_DeepCopy P = copyPtr (VsphereAgentPoolListT P) (VsphereAgentPoolList_DeepCopyInto P)"

definition VsphereAgentPoolList_DeepCopyObject :: "k8s \<Rightarrow> mem \<Rightarrow> goval \<Rightarrow> mem \<times> goval option" where
  "VsphereAgentPoolList_DeepCopyObject P h v = asObject (VsphereAgentPoolList_DeepCopy P h v)"

definition VsphereAgentSpec_DeepCopyInto :: copier where
  "VsphereAgentSpec_DeepCopyInto = copyInto
    [(''PoolRef'', assign)]"

definition VsphereAgentSpec_DeepCopy :: copier where
  "VsphereAgentSpec_DeepCopy = copyPtr VsphereAgentSpecT VsphereAgentSpec_DeepCopyInto"

definition ISOEjectionStatus_DeepCopyInto :: "k8s \<Rightarrow> copier" where
  "ISOEjectionStatus_DeepCopyInto P = copyInto
    [(''StartedAt'', copy_Time P)]"

definition ISOEjectionStatus_DeepCopy :: "k8s \<Rightarrow> copier" where
  "ISOEjectionStatus_DeepCopy P = copyPtr ISOEjectionStatusT (ISOEjectionStatus_DeepCopyInto P)"

definition VsphereAgentStatus_DeepCopyInto :: "k8s \<Rightarrow> copier" where
  "VsphereAgentStatus_DeepCopyInto P = copyInto
    [(''VM'', OwnedVMStatus_DeepCopyInto P),
     (''ISOEjection'', copyPtr ISOEjectionStatusT (ISOEjectionStatus_DeepCopyInto P)),
     (''Conditions'', copyEach (k8s_Condition P) (copy_Condition P))]"

definition VsphereAgentStatus_DeepCopy :: "k8s \<Rightarrow> copier" where
  "VsphereAgentStatus_DeepCopy P = copyPtr (VsphereAgentStatusT P) (VsphereAgentStatus_DeepCopyInto P)"

definition VsphereAgent_DeepCopyInto :: "k8s \<Rightarrow> copier" where
  "VsphereAgent_DeepCopyInto P = copyInto
    [(''TypeMeta'', assign), (''ObjectMeta'', copy_ObjectMeta P), (''Spec'', assign),
     (''Status'', VsphereAgentStatus_DeepCopyInto P)]"

definition VsphereAgent_DeepCopy :: "k8s \<Rightarrow> copier" where
  "VsphereAgent_DeepCopy P = copyPtr (VsphereAgentT P) (VsphereAgent_DeepCopyInto P)"

definition VsphereAgent_DeepCopyObject :: "k8s \<Rightarrow> mem \<Rightarrow> goval \<Rightarrow> mem \<times> goval option" where
  "VsphereAgent_DeepCopyObject P h v = asObject (VsphereAgent_DeepCopy P h v)"

definition VsphereAgentList_DeepCopyInto :: "k8s \<Rightarrow> copier" where
  "VsphereAgentList_DeepCopyInto P = copyInto
    [(''TypeMeta'', assign), (''ListMeta'', copy_ListMeta P),
     (''Items'', copyEach (VsphereAgentT P) (VsphereAgent_DeepCopyInto P))]"

definition VsphereAgentList_DeepCopy :: "k8s \<Rightarrow> copier" where
  "VsphereAgentList_DeepCopy P = copyPtr (VsphereAgentListT P) (VsphereAgentList_DeepCopyInto P)"

definition VsphereAgentList_DeepCopyObject :: "k8s \<Rightarrow> mem \<Rightarrow> goval \<Rightarrow> mem \<times> goval option" where
  "VsphereAgentList_DeepCopyObject P h v = asObject (VsphereAgentList_DeepCopy P h v)"

definition OpenStackPlacementSpec_DeepCopyInto :: copier where
  "OpenStackPlacementSpec_DeepCopyInto = copyInto
    [(''CredentialsSecretRef'', assign), (''DHCPEnabled'', copyPtr TBool assign),
     (''PortSecurityEnabled'', copyPtr TBool assign), (''SecurityGroupIDs'', copySlice),
     (''PortTags'', copySlice)]"

definition OpenStackPlacementSpec_DeepCopy :: copier where
  "OpenStackPlacementSpec_DeepCopy = copyPtr OpenStackPlacementSpecT OpenStackPlacementSpec_DeepCopyInto"

definition OpenStackTemplateSpec_DeepCopyInto :: copier where
  "OpenStackTemplateSpec_DeepCopyInto = copyInto
    [(''VolumeMetadata'', copyMap)]"

definition OpenStackTemplateSpec_DeepCopy :: copier where
  "OpenStackTemplateSpec_DeepCopy = copyPtr OpenStackTemplateSpecT OpenStackTemplateSpec_DeepCopyInto"

definition OpenStackAgentPoolSpec_DeepCopyInto :: copier where
  "OpenStackAgentPoolSpec_DeepCopyInto = copyInto
    [(''HostedClusterRef'', assign), (''NodePoolRef'', assign), (''InfraEnvRef'', assign),
     (''OpenStack'', OpenStackPlacementSpec_DeepCopyInto),
     (''Template'', OpenStackTemplateSpec_DeepCopyInto), (''Agent'', AgentBindingSpec_DeepCopyInto)]"

definition OpenStackAgentPoolSpec_DeepCopy :: copier where
  "OpenStackAgentPoolSpec_DeepCopy = copyPtr OpenStackAgentPoolSpecT OpenStackAgentPoolSpec_DeepCopyInto"

definition OpenStackAgentPoolStatus_DeepCopyInto :: "k8s \<Rightarrow> copier" where
  "OpenStackAgentPoolStatus_DeepCopyInto P = copyInto
    [(''Conditions'', copyEach (k8s_Condition P) (copy_Condition P))]"

definition OpenStackAgentPoolStatus_DeepCopy :: "k8s \<Rightarrow> copier" where
  "OpenStackAgentPoolStatus_DeepCopy P = copyPtr (OpenStackAgentPoolStatusT P) (OpenStackAgentPoolStatus_DeepCopyInto P)"

definition OpenStackAgentSpec_DeepCopyInto :: "k8s \<Rightarrow> copier" where
  "OpenStackAgentSpec_DeepCopyInto P = copyInto
    [(''PoolRef'', assign), (''AgentMachineRef'', assign),
     (''MachineRef'', copyPtr (k8s_ObjectReference P) assign),
     (''Configuration'', OpenStackAgentPoolSpec_DeepCopyInto)]"

definition OpenStackAgentSpec_DeepCopy :: "k8s \<Rightarrow> copier" where
  "OpenStackAgentSpec_DeepCopy P = copyPtr (OpenStackAgentSpecT P) (OpenStackAgentSpec_DeepCopyInto P)"

definition OpenStackAgentStatus_DeepCopyInto :: "k8s \<Rightarrow> copier" where
  "OpenStackAgentStatus_DeepCopyInto P = copyInto
    [(''AgentRef'', copyPtr (k8s_ObjectReference P) assign), (''InstanceCreatedAt'', copy_TimePtr P),
     (''Conditions'', copyEach (k8s_Condition P) (copy_Condition P))]"

definition OpenStackAgentStatus_DeepCopy :: "k8s \<Rightarrow> copier" where
  "OpenStackAgentStatus_DeepCopy P = copyPtr (OpenStackAgentStatusT P) (OpenStackAgentStatus_DeepCopyInto P)"

definition OpenStackAgentPool_DeepCopyInto :: "k8s \<Rightarrow> copier" where
  "OpenStackAgentPool_DeepCopyInto P = copyInto
    [(''TypeMeta'', assign), (''ObjectMeta'', copy_ObjectMeta P),
     (''Spec'', OpenStackAgentPoolSpec_DeepCopyInto), (''Status'', OpenStackAgentPoolStatus_DeepCopyInto P)]"

definition OpenStackAgentPool_DeepCopy :: "k8s \<Rightarrow> copier" where
  "OpenStackAgentPool_DeepCopy P = copyPtr (OpenStackAgentPoolT P) (OpenStackAgentPool_DeepCopyInto P)"

definition OpenStackAgentPool_DeepCopyObject :: "k8s \<Rightarrow> mem \<Rightarrow> goval \<Rightarrow> mem \<times> goval option" where
  "OpenStackAgentPool_DeepCopyObject P h v = asObject (OpenStackAgentPool_DeepCopy P h v)"

definition OpenStackAgentPoolList_DeepCopyInto :: "k8s \<Rightarrow> copier" where
  "OpenStackAgentPoolList_DeepCopyInto P = copyInto
    [(''TypeMeta'', assign), (''ListMeta'', copy_ListMeta P),
     (''Items'', copyEach (OpenStackAgentPoolT P) (OpenStackAgentPool_DeepCopyInto P))]"

definition OpenStackAgentPoolList_DeepCopy :: "k8s \<Rightarrow> copier" where
  "OpenStackAgentPoolList_DeepCopy P = copyPtr (OpenStackAgentPoolListT P) (OpenStackAgentPoolList_DeepCopyInto P)"

definition OpenStackAgentPoolList_DeepCopyObject :: "k8s \<Rightarrow> mem \<Rightarrow> goval \<Rightarrow> mem \<times> goval option" where
  "OpenStackAgentPoolList_DeepCopyObject P h v = asObject (OpenStackAgentPoolList_DeepCopy P h v)"

definition OpenStackAgent_DeepCopyInto :: "k8s \<Rightarrow> copier" where
  "OpenStackAgent_DeepCopyInto P = copyInto
    [(''TypeMeta'', assign), (''ObjectMeta'', copy_ObjectMeta P),
     (''Spec'', OpenStackAgentSpec_DeepCopyInto P), (''Status'', OpenStackAgentStatus_DeepCopyInto P)]"

definition OpenStackAgent_DeepCopy :: "k8s \<Rightarrow> copier" where
  "OpenStackAgent_DeepCopy P = copyPtr (OpenStackAgentT P) (OpenStackAgent_DeepCopyInto P)"

definition OpenStackAgent_DeepCopyObject :: "k8s \<Rightarrow> mem \<Rightarrow> goval \<Rightarrow> mem \<times> goval option" where
  "OpenStackAgent_DeepCopyObject P h v = asObject (OpenStackAgent_DeepCopy P h v)"

definition OpenStackAgentList_DeepCopyInto :: "k8s \<Rightarrow> copier" where
  "OpenStackAgentList_DeepCopyInto P = copyInto
    [(''TypeMeta'', assign), (''ListMeta'', copy_ListMeta P),
     (''Items'', copyEach (OpenStackAgentT P) (OpenStackAgent_DeepCopyInto P))]"

definition OpenStackAgentList_DeepCopy :: "k8s \<Rightarrow> copier" where
  "OpenStackAgentList_DeepCopy P = copyPtr (OpenStackAgentListT P) (OpenStackAgentList_DeepCopyInto P)"

definition OpenStackAgentList_DeepCopyObject :: "k8s \<Rightarrow> mem \<Rightarrow> goval \<Rightarrow> mem \<times> goval option" where
  "OpenStackAgentList_DeepCopyObject P h v = asObject (OpenStackAgentList_DeepCopy P h v)"

text \<open>Every type of the package with its \<open>DeepCopy\<close>.\<close>

definition generatedCopies :: "k8s \<Rightarrow> (gotype \<times> copier) list" where
  "generatedCopies P =
    [(LocalObjectReferenceT, LocalObjectReference_DeepCopy), (SecretReferenceT, SecretReference_DeepCopy),
     (VspherePlacementSpecT, VspherePlacementSpec_DeepCopy), (VMTemplateSpecT, VMTemplateSpec_DeepCopy),
     (AgentBindingSpecT, AgentBindingSpec_DeepCopy), (ISOCacheSpecT P, ISOCacheSpec_DeepCopy P),
     (VsphereAgentPoolSpecT P, VsphereAgentPoolSpec_DeepCopy P),
     (OwnedVMStatusT P, OwnedVMStatus_DeepCopy P), (PlannedActionStatusT, PlannedActionStatus_DeepCopy),
     (ISOCacheHistoryEntryT, ISOCacheHistoryEntry_DeepCopy P), (ISOCacheStatusT, ISOCacheStatus_DeepCopy P),
     (VsphereAgentPoolStatusT P, VsphereAgentPoolStatus_DeepCopy P),
     (VsphereAgentPoolT P, VsphereAgentPool_DeepCopy P),
     (VsphereAgentPoolListT P, VsphereAgentPoolList_DeepCopy P),
     (VsphereAgentSpecT, VsphereAgentSpec_DeepCopy), (ISOEjectionStatusT, ISOEjectionStatus_DeepCopy P),
     (VsphereAgentStatusT P, VsphereAgentStatus_DeepCopy P), (VsphereAgentT P, VsphereAgent_DeepCopy P),
     (VsphereAgentListT P, VsphereAgentList_DeepCopy P),
     (OpenStackPlacementSpecT, OpenStackPlacementSpec_DeepCopy),
     (OpenStackTemplateSpecT, OpenStackTemplateSpec_DeepCopy),
     (OpenStackAgentPoolSpecT, OpenStackAgentPoolSpec_DeepCopy),
     (OpenStackAgentPoolStatusT P, OpenStackAgentPoolStatus_DeepCopy P),
     (OpenStackAgentSpecT P, OpenStackAgentSpec_DeepCopy P),
     (OpenStackAgentStatusT P, OpenStackAgentStatus_DeepCopy P),
     (OpenStackAgentPoolT P, OpenStackAgentPool_DeepCopy P),
     (OpenStackAgentPoolListT P, OpenStackAgentPoolList_DeepCopy P),
     (OpenStackAgentT P, OpenStackAgent_DeepCopy P), (OpenStackAgentListT P, OpenStackAgentList_DeepCopy P)]"

lemmas deep_copy_defs =
  LocalObjectReference_DeepCopy_def SecretReference_DeepCopy_def VspherePlacementSpec_DeepCopy_def 
  VMTemplateSpec_DeepCopy_def AgentBindingSpec_DeepCopy_def ISOCacheSpec_DeepCopy_def 
  VsphereAgentPoolSpec_DeepCopy_def OwnedVMStatus_DeepCopy_def PlannedActionStatus_DeepCopy_def 
  ISOCacheHistoryEntry_DeepCopy_def ISOCacheStatus_DeepCopy_def VsphereAgentPoolStatus_DeepCopy_def 
  VsphereAgentPool_DeepCopy_def VsphereAgentPoolList_DeepCopy_def VsphereAgentSpec_DeepCopy_def 
  ISOEjectionStatus_DeepCopy_def VsphereAgentStatus_DeepCopy_def VsphereAgent_DeepCopy_def 
  VsphereAgentList_DeepCopy_def OpenStackPlacementSpec_DeepCopy_def OpenStackTemplateSpec_DeepCopy_def 
  OpenStackAgentPoolSpec_DeepCopy_def OpenStackAgentPoolStatus_DeepCopy_def 
  OpenStackAgentSpec_DeepCopy_def OpenStackAgentStatus_DeepCopy_def OpenStackAgentPool_DeepCopy_def 
  OpenStackAgentPoolList_DeepCopy_def OpenStackAgent_DeepCopy_def OpenStackAgentList_DeepCopy_def

section \<open>What the generated code relies on\<close>

declare deep_assign [deep_copies] deep_copyMap [deep_copies] deep_copySlice [deep_copies]
  deep_copyPtr [deep_copies] deep_copyEach [deep_copies]

locale k8s_api =
  fixes P :: k8s
  assumes flat_TypeMeta [deep_copies]: "flat (k8s_TypeMeta P)"
    and flat_ObjectReference [deep_copies]: "flat (k8s_ObjectReference P)"
    and flat_Duration [deep_copies]: "flat (k8s_Duration P)"
    and deep_ObjectMeta [deep_copies]: "deep (copy_ObjectMeta P) (k8s_ObjectMeta P)"
    and deep_ListMeta [deep_copies]: "deep (copy_ListMeta P) (k8s_ListMeta P)"
    and deep_Condition [deep_copies]: "deep (copy_Condition P) (k8s_Condition P)"
    and deep_Time [deep_copies]: "deep (copy_Time P) TTime"
    and deep_TimePtr [deep_copies]: "deep (copy_TimePtr P) (TPtr TTime)"
begin

lemma flat_types1 [deep_copies]:
  shows "flat LocalObjectReferenceT"
    and "flat SecretReferenceT"
    and "flat VMTemplateSpecT"
    and "flat (ISOCacheSpecT P)"
    and "flat PlannedActionStatusT"
    and "flat ISOCacheHistoryEntryT"
    and "flat ISOEjectionStatusT"
  by (simp_all add: LocalObjectReferenceT_def SecretReferenceT_def VMTemplateSpecT_def ISOCacheSpecT_def 
      PlannedActionStatusT_def ISOCacheHistoryEntryT_def ISOEjectionStatusT_def deep_copies)

lemma flat_types2 [deep_copies]:
  shows "flat VsphereAgentSpecT"
  by (simp_all add: VsphereAgentSpecT_def deep_copies)

lemma deep_layer1 [deep_copies]:
  shows "deep LocalObjectReference_DeepCopyInto LocalObjectReferenceT"
    and "deep SecretReference_DeepCopyInto SecretReferenceT"
    and "deep VMTemplateSpec_DeepCopyInto VMTemplateSpecT"
    and "deep AgentBindingSpec_DeepCopyInto AgentBindingSpecT"
    and "deep ISOCacheSpec_DeepCopyInto (ISOCacheSpecT P)"
    and "deep (OwnedVMStatus_DeepCopyInto P) (OwnedVMStatusT P)"
    and "deep PlannedActionStatus_DeepCopyInto PlannedActionStatusT"
    and "deep (ISOCacheHistoryEntry_DeepCopyInto P) ISOCacheHistoryEntryT"
    and "deep (ISOEjectionStatus_DeepCopyInto P) ISOEjectionStatusT"
    and "deep OpenStackTemplateSpec_DeepCopyInto OpenStackTemplateSpecT"
    and "deep (OpenStackAgentPoolStatus_DeepCopyInto P) (OpenStackAgentPoolStatusT P)"
    and "deep (OpenStackAgentStatus_DeepCopyInto P) (OpenStackAgentStatusT P)"
  by (simp_all add: LocalObjectReference_DeepCopyInto_def LocalObjectReferenceT_def SecretReference_DeepCopyInto_def 
      SecretReferenceT_def VMTemplateSpec_DeepCopyInto_def VMTemplateSpecT_def 
      AgentBindingSpec_DeepCopyInto_def AgentBindingSpecT_def ISOCacheSpec_DeepCopyInto_def 
      ISOCacheSpecT_def OwnedVMStatus_DeepCopyInto_def OwnedVMStatusT_def 
      PlannedActionStatus_DeepCopyInto_def PlannedActionStatusT_def ISOCacheHistoryEntry_DeepCopyInto_def 
      ISOCacheHistoryEntryT_def ISOEjectionStatus_DeepCopyInto_def ISOEjectionStatusT_def 
      OpenStackTemplateSpec_DeepCopyInto_def OpenStackTemplateSpecT_def 
      OpenStackAgentPoolStatus_DeepCopyInto_def OpenStackAgentPoolStatusT_def 
      OpenStackAgentStatus_DeepCopyInto_def OpenStackAgentStatusT_def
      deep_copyInto copies_fields_def deep_copies)

lemma deep_layer2 [deep_copies]:
  shows "deep VspherePlacementSpec_DeepCopyInto VspherePlacementSpecT"
    and "deep (ISOCacheStatus_DeepCopyInto P) ISOCacheStatusT"
    and "deep VsphereAgentSpec_DeepCopyInto VsphereAgentSpecT"
    and "deep (VsphereAgentStatus_DeepCopyInto P) (VsphereAgentStatusT P)"
    and "deep OpenStackPlacementSpec_DeepCopyInto OpenStackPlacementSpecT"
  by (simp_all add: VspherePlacementSpec_DeepCopyInto_def VspherePlacementSpecT_def ISOCacheStatus_DeepCopyInto_def 
      ISOCacheStatusT_def VsphereAgentSpec_DeepCopyInto_def VsphereAgentSpecT_def 
      VsphereAgentStatus_DeepCopyInto_def VsphereAgentStatusT_def OpenStackPlacementSpec_DeepCopyInto_def 
      OpenStackPlacementSpecT_def
      deep_copyInto copies_fields_def deep_copies)

lemma deep_layer3 [deep_copies]:
  shows "deep VsphereAgentPoolSpec_DeepCopyInto (VsphereAgentPoolSpecT P)"
    and "deep (VsphereAgentPoolStatus_DeepCopyInto P) (VsphereAgentPoolStatusT P)"
    and "deep (VsphereAgent_DeepCopyInto P) (VsphereAgentT P)"
    and "deep OpenStackAgentPoolSpec_DeepCopyInto OpenStackAgentPoolSpecT"
  by (simp_all add: VsphereAgentPoolSpec_DeepCopyInto_def VsphereAgentPoolSpecT_def 
      VsphereAgentPoolStatus_DeepCopyInto_def VsphereAgentPoolStatusT_def VsphereAgent_DeepCopyInto_def 
      VsphereAgentT_def OpenStackAgentPoolSpec_DeepCopyInto_def OpenStackAgentPoolSpecT_def
      deep_copyInto copies_fields_def deep_copies)

lemma deep_layer4 [deep_copies]:
  shows "deep (VsphereAgentPool_DeepCopyInto P) (VsphereAgentPoolT P)"
    and "deep (VsphereAgentList_DeepCopyInto P) (VsphereAgentListT P)"
    and "deep (OpenStackAgentSpec_DeepCopyInto P) (OpenStackAgentSpecT P)"
    and "deep (OpenStackAgentPool_DeepCopyInto P) (OpenStackAgentPoolT P)"
  by (simp_all add: VsphereAgentPool_DeepCopyInto_def VsphereAgentPoolT_def VsphereAgentList_DeepCopyInto_def 
      VsphereAgentListT_def OpenStackAgentSpec_DeepCopyInto_def OpenStackAgentSpecT_def 
      OpenStackAgentPool_DeepCopyInto_def OpenStackAgentPoolT_def
      deep_copyInto copies_fields_def deep_copies)

lemma deep_layer5 [deep_copies]:
  shows "deep (VsphereAgentPoolList_DeepCopyInto P) (VsphereAgentPoolListT P)"
    and "deep (OpenStackAgentPoolList_DeepCopyInto P) (OpenStackAgentPoolListT P)"
    and "deep (OpenStackAgent_DeepCopyInto P) (OpenStackAgentT P)"
  by (simp_all add: VsphereAgentPoolList_DeepCopyInto_def VsphereAgentPoolListT_def 
      OpenStackAgentPoolList_DeepCopyInto_def OpenStackAgentPoolListT_def OpenStackAgent_DeepCopyInto_def 
      OpenStackAgentT_def
      deep_copyInto copies_fields_def deep_copies)

lemma deep_layer6 [deep_copies]:
  shows "deep (OpenStackAgentList_DeepCopyInto P) (OpenStackAgentListT P)"
  by (simp_all add: OpenStackAgentList_DeepCopyInto_def OpenStackAgentListT_def
      deep_copyInto copies_fields_def deep_copies)

lemma generated_copies_deep:
  assumes "(T, copy) \<in> set (generatedCopies P)" shows "deep copy (TPtr T)"
  using assms by (auto simp: generatedCopies_def deep_copy_defs deep_copies)

end

section \<open>The Kubernetes types\<close>

text \<open>
  The declarations of \<open>k8s.io/apimachinery\<close> and \<open>k8s.io/api\<close>, and deep copies for them of the same form.
\<close>

definition ManagedFieldsEntryT :: gotype where
  "ManagedFieldsEntryT = TStruct
    [(''Manager'', TString), (''Operation'', TString), (''APIVersion'', TString), (''Time'', TPtr TTime),
     (''FieldsType'', TString), (''FieldsV1'', TPtr (TStruct [(''Raw'', TSlice TInt)])), (''Subresource'', TString)]"

definition OwnerReferenceT :: gotype where
  "OwnerReferenceT = TStruct
    [(''APIVersion'', TString), (''Kind'', TString), (''Name'', TString), (''UID'', TString),
     (''Controller'', TPtr TBool), (''BlockOwnerDeletion'', TPtr TBool)]"

definition k8sPublished :: k8s where
  "k8sPublished = \<lparr>
    k8s_TypeMeta = TStruct [(''Kind'', TString), (''APIVersion'', TString)],
    k8s_ObjectMeta = TStruct
      [(''Name'', TString), (''GenerateName'', TString), (''Namespace'', TString), (''SelfLink'', TString),
       (''UID'', TString), (''ResourceVersion'', TString), (''Generation'', TInt), (''CreationTimestamp'', TTime),
       (''DeletionTimestamp'', TPtr TTime), (''DeletionGracePeriodSeconds'', TPtr TInt), (''Labels'', TMap),
       (''Annotations'', TMap), (''OwnerReferences'', TSlice OwnerReferenceT), (''Finalizers'', TSlice TString),
       (''ManagedFields'', TSlice ManagedFieldsEntryT)],
    k8s_ListMeta = TStruct
      [(''SelfLink'', TString), (''ResourceVersion'', TString), (''Continue'', TString), (''RemainingItemCount'', TPtr TInt)],
    k8s_Condition = TStruct
      [(''Type'', TString), (''Status'', TString), (''ObservedGeneration'', TInt), (''LastTransitionTime'', TTime),
       (''Reason'', TString), (''Message'', TString)],
    k8s_ObjectReference = TStruct
      [(''Kind'', TString), (''Namespace'', TString), (''Name'', TString), (''UID'', TString), (''APIVersion'', TString),
       (''ResourceVersion'', TString), (''FieldPath'', TString)],
    k8s_Duration = TStruct [(''Duration'', TInt)],
    copy_ObjectMeta = copyInto
      [(''CreationTimestamp'', assign), (''DeletionTimestamp'', copyPtr TTime assign),
       (''DeletionGracePeriodSeconds'', copyPtr TInt assign), (''Labels'', copyMap), (''Annotations'', copyMap),
       (''OwnerReferences'', copyEach OwnerReferenceT (copyInto
          [(''Controller'', copyPtr TBool assign), (''BlockOwnerDeletion'', copyPtr TBool assign)])),
       (''Finalizers'', copySlice),
       (''ManagedFields'', copyEach ManagedFieldsEntryT (copyInto
          [(''Time'', copyPtr TTime assign),
           (''FieldsV1'', copyPtr (TStruct [(''Raw'', TSlice TInt)]) (copyInto [(''Raw'', copySlice)]))]))],
    copy_ListMeta = copyInto [(''RemainingItemCount'', copyPtr TInt assign)],
    copy_Condition = copyInto [(''LastTransitionTime'', assign)],
    copy_Time = assign,
    copy_TimePtr = copyPtr TTime assign\<rparr>"

interpretation published: k8s_api k8sPublished
  by unfold_locales
    (simp_all add: k8sPublished_def OwnerReferenceT_def ManagedFieldsEntryT_def deep_copyInto copies_fields_def deep_copies)

section \<open>The properties\<close>


text \<open>An AgentBindingSpec with a label and an approval flag, and a pointer to it.\<close>

definition sampleMemory :: mem where
  "sampleMemory =
    [Entries [(''zone'', ''a'')], Object (VBool True),
     Object (VStruct [(''Role'', VString ''worker''), (''Labels'', VMap 0), (''Approve'', VPtr 1)])]"

definition sampleCopied :: mem where
  "sampleCopied = sampleMemory @
    [Object (VStruct [(''Role'', VString ''worker''), (''Labels'', VMap 4), (''Approve'', VPtr 5)]),
     Entries [(''zone'', ''a'')], Object (VBool True)]"

lemma sample_conf: "conf (TPtr AgentBindingSpecT) sampleMemory (VPtr 2)"
  by (simp add: sampleMemory_def AgentBindingSpecT_def fieldNames_def fieldOf_def)

lemma sample_copy: "AgentBindingSpec_DeepCopy sampleMemory (VPtr 2) = (sampleCopied, VPtr 3)"
  by (simp add: sampleMemory_def sampleCopied_def AgentBindingSpec_DeepCopy_def AgentBindingSpec_DeepCopyInto_def
      copyPtr_def copyInto_def copyMap_def assign_def fieldOf_def setField_def mput_def AgentBindingSpecT_def)

lemma sample_generated: "(AgentBindingSpecT, AgentBindingSpec_DeepCopy) \<in> set (generatedCopies k8sPublished)"
  by (simp add: generatedCopies_def)


text \<open>C15: A deep copy of an API object is equal to the object and independent of it. Copying writes to no memory that was in
  use. Whatever is written later to memory that existed before the copy, through the object or otherwise, the copy
  still reads what the object read when it was copied; and whatever is written to the memory of the copy, the object still
  reads the same.\<close>

theorem copies_independent:
  assumes "k8s_api P" and "(T, copy) \<in> set (generatedCopies P)" and "conf (TPtr T) h v" and "copy h v = (h', v')"
  shows "view (TPtr T) h' v' = view (TPtr T) h v
    \<and> (\<forall>a < length h. h' ! a = h ! a)
    \<and> (\<forall>h2. length h' \<le> length h2 \<and> (\<forall>a. length h \<le> a \<and> a < length h' \<longrightarrow> h2 ! a = h' ! a)
         \<longrightarrow> view (TPtr T) h2 v' = view (TPtr T) h v)
    \<and> (\<forall>h2. length h' \<le> length h2 \<and> (\<forall>a < length h. h2 ! a = h' ! a)
         \<longrightarrow> view (TPtr T) h2 v = view (TPtr T) h v)"
proof -
  have "fresh_copy (TPtr T) h v h' v'"
    using k8s_api.generated_copies_deep [OF assms(1,2)] assms(3,4) by (rule deepD)
  then obtain new where c: "h' = h @ new" "conf (TPtr T) h' v'" "view (TPtr T) h' v' = view (TPtr T) h v"
    "reach (TPtr T) h' v' \<subseteq> {length h ..< length h'}" by (auto simp: fresh_copy_def)
  have copy: "view (TPtr T) h2 v' = view (TPtr T) h v"
    if "length h' \<le> length h2" "\<forall>a. length h \<le> a \<and> a < length h' \<longrightarrow> h2 ! a = h' ! a" for h2
    using view_agree [OF c(2), of h2] c(3,4) that by fastforce
  have original: "view (TPtr T) h2 v = view (TPtr T) h v"
    if "length h' \<le> length h2" "\<forall>a < length h. h2 ! a = h' ! a" for h2
    using view_agree [OF assms(3), of h2] conf_reach [OF assms(3)] c(1) that by (fastforce simp: nth_append)
  show ?thesis using copy original c(1,3) by (simp add: nth_append)
qed

text \<open>Relabelling the original after the copy does not relabel the copy.\<close>

theorem copies_independent_witness:
  "view (TPtr AgentBindingSpecT) (sampleCopied[0 := Entries [(''zone'', ''b'')]]) (VPtr 3)
     = view (TPtr AgentBindingSpecT) sampleMemory (VPtr 2)
   \<and> view (TPtr AgentBindingSpecT) (sampleCopied[0 := Entries [(''zone'', ''b'')]]) (VPtr 2)
     \<noteq> view (TPtr AgentBindingSpecT) sampleMemory (VPtr 2)"
proof
  have len: "length sampleMemory = 3" "length sampleCopied = 6" by (simp_all add: sampleMemory_def sampleCopied_def)
  show "view (TPtr AgentBindingSpecT) (sampleCopied[0 := Entries [(''zone'', ''b'')]]) (VPtr 3)
     = view (TPtr AgentBindingSpecT) sampleMemory (VPtr 2)"
    using copies_independent [OF published.k8s_api_axioms sample_generated sample_conf sample_copy] by (simp add: len)
  show "view (TPtr AgentBindingSpecT) (sampleCopied[0 := Entries [(''zone'', ''b'')]]) (VPtr 2)
     \<noteq> view (TPtr AgentBindingSpecT) sampleMemory (VPtr 2)"
    by (simp add: sampleCopied_def sampleMemory_def AgentBindingSpecT_def fieldOf_def fun_eq_iff)
qed

end
