(* ===== verification/Startup.thy ===== *)
theory Startup
  imports AgentMachine PoolWatches VsphereAgents
begin

text \<open>
  The program's entry point (\<open>cmd/main.go\<close>) and the functions \<open>SetupWithManager\<close> of the five controllers: the command line,
  the configuration of the metrics endpoint, the indexes of the manager's cache, and the order in which the manager is
  made, filled and started.

  \<^item> Package \<open>flag\<close> of the standard library is modelled as far as \<open>flag.Parse\<close> uses it on \<open>flag.CommandLine\<close>. The flags that
    the libraries add (\<open>zap-...\<close>, \<open>kubeconfig\<close>) are the parameter \<open>lib_flags\<close>: the name's kind and the values it accepts.
  \<^item> The manager is a parameter, \<open>runtime\<close>: each of its operations fails or not, as the world decides. A trace
    records each operation with its outcome.
\<close>

section \<open>The command line\<close>

record options =
  opt_metricsAddr :: string
  opt_probeAddr :: string
  opt_enableLeaderElection :: bool
  opt_secureMetrics :: bool
  opt_metricsCertPath :: string
  opt_metricsCertName :: string
  opt_metricsCertKey :: string
  opt_enableHTTP2 :: bool

definition defaultOptions :: options where
  "defaultOptions = \<lparr>opt_metricsAddr = ''0'', opt_probeAddr = '':8081'', opt_enableLeaderElection = False,
     opt_secureMetrics = True, opt_metricsCertPath = [], opt_metricsCertName = ''tls.crt'', opt_metricsCertKey = ''tls.key'',
     opt_enableHTTP2 = False\<rparr>"

datatype flag_value = StringFlag "string \<Rightarrow> options \<Rightarrow> options" | BoolFlag "bool \<Rightarrow> options \<Rightarrow> options"
  | LibFlag bool "string \<Rightarrow> bool"

type_synonym lib_flags = "(string \<times> flag_value) list"

definition programFlags :: "(string \<times> flag_value) list" where
  "programFlags =
    [(''metrics-bind-address'', StringFlag (\<lambda>v opts. opts\<lparr>opt_metricsAddr := v\<rparr>)),
     (''health-probe-bind-address'', StringFlag (\<lambda>v opts. opts\<lparr>opt_probeAddr := v\<rparr>)),
     (''leader-elect'', BoolFlag (\<lambda>v opts. opts\<lparr>opt_enableLeaderElection := v\<rparr>)),
     (''metrics-secure'', BoolFlag (\<lambda>v opts. opts\<lparr>opt_secureMetrics := v\<rparr>)),
     (''metrics-cert-path'', StringFlag (\<lambda>v opts. opts\<lparr>opt_metricsCertPath := v\<rparr>)),
     (''metrics-cert-name'', StringFlag (\<lambda>v opts. opts\<lparr>opt_metricsCertName := v\<rparr>)),
     (''metrics-cert-key'', StringFlag (\<lambda>v opts. opts\<lparr>opt_metricsCertKey := v\<rparr>)),
     (''enable-http2'', BoolFlag (\<lambda>v opts. opts\<lparr>opt_enableHTTP2 := v\<rparr>))]"

text \<open>\<open>strconv.ParseBool\<close>.\<close>

definition ParseBool :: "string \<Rightarrow> bool option" where
  "ParseBool s =
     (if s \<in> set [''1'', ''t'', ''T'', ''true'', ''TRUE'', ''True''] then Some True
      else if s \<in> set [''0'', ''f'', ''F'', ''false'', ''FALSE'', ''False''] then Some False else None)"

fun isBoolFlag :: "flag_value \<Rightarrow> bool" where
  "isBoolFlag (StringFlag f) = False"
| "isBoolFlag (BoolFlag f) = True"
| "isBoolFlag (LibFlag b ok) = b"

fun setFlag :: "flag_value \<Rightarrow> string \<Rightarrow> options \<Rightarrow> options option" where
  "setFlag (StringFlag f) v opts = Some (f v opts)"
| "setFlag (BoolFlag f) v opts = (case ParseBool v of None \<Rightarrow> None | Some b \<Rightarrow> Some (f b opts))"
| "setFlag (LibFlag b ok) v opts = (if ok v then Some opts else None)"

datatype parse_result = Parsed options "string list" | HelpRequested | BadFlag string

text \<open>
  \<open>FlagSet.parseOne\<close>: \<open>cut_flag\<close> strips the dashes and splits the name from the value after an equals sign;
  \<open>Inl None\<close> ends the flags and \<open>Inl (Some e)\<close> is a syntax error.
\<close>

definition cut_flag :: "string \<Rightarrow> string option + string \<times> string option" where
  "cut_flag s =
     (if length s < 2 \<or> s ! 0 \<noteq> CHR ''-'' then Inl None
      else let name = (if s ! 1 = CHR ''-'' then drop 2 s else drop 1 s)
      in if name = [] \<or> hd name = CHR ''-'' \<or> hd name = CHR ''='' then Inl (Some (''bad flag syntax: '' @ s))
      else Inr (takeWhile (\<lambda>c. c \<noteq> CHR ''='') name,
                case dropWhile (\<lambda>c. c \<noteq> CHR ''='') name of [] \<Rightarrow> None | e # v \<Rightarrow> Some v))"

fun flagParse :: "lib_flags \<Rightarrow> string list \<Rightarrow> options \<Rightarrow> parse_result" where
  "flagParse lib [] opts = Parsed opts []"
| "flagParse lib (s # args) opts =
     (if s = ''--'' then Parsed opts args
      else case cut_flag s of
        Inl None \<Rightarrow> Parsed opts (s # args)
      | Inl (Some e) \<Rightarrow> BadFlag e
      | Inr (name, value) \<Rightarrow>
          (case map_of (programFlags @ lib) name of
             None \<Rightarrow> (if name = ''help'' \<or> name = ''h'' then HelpRequested
                      else BadFlag (''flag provided but not defined: -'' @ name))
           | Some flag \<Rightarrow>
               if isBoolFlag flag then
                 (case setFlag flag (case value of None \<Rightarrow> ''true'' | Some v \<Rightarrow> v) opts of
                    None \<Rightarrow> BadFlag (''invalid boolean value for -'' @ name)
                  | Some opts2 \<Rightarrow> flagParse lib args opts2)
               else
                 (case (value, args) of
                    (None, []) \<Rightarrow> BadFlag (''flag needs an argument: -'' @ name)
                  | (None, v # args') \<Rightarrow>
                      (case setFlag flag v opts of
                         None \<Rightarrow> BadFlag (''invalid value for flag -'' @ name) | Some opts2 \<Rightarrow> flagParse lib args' opts2)
                  | (Some v, _) \<Rightarrow>
                      (case setFlag flag v opts of
                         None \<Rightarrow> BadFlag (''invalid value for flag -'' @ name) | Some opts2 \<Rightarrow> flagParse lib args opts2))))"

text \<open>The options written as arguments.\<close>

definition showBool :: "bool \<Rightarrow> string" where
  "showBool b = (if b then ''true'' else ''false'')"

definition renderFlags :: "options \<Rightarrow> string list" where
  "renderFlags opts =
    [''--metrics-bind-address='' @ opt_metricsAddr opts, ''--health-probe-bind-address='' @ opt_probeAddr opts,
     ''--leader-elect='' @ showBool (opt_enableLeaderElection opts), ''--metrics-secure='' @ showBool (opt_secureMetrics opts),
     ''--metrics-cert-path='' @ opt_metricsCertPath opts, ''--metrics-cert-name='' @ opt_metricsCertName opts,
     ''--metrics-cert-key='' @ opt_metricsCertKey opts, ''--enable-http2='' @ showBool (opt_enableHTTP2 opts)]"

section \<open>The metrics endpoint\<close>

text \<open>\<open>filepath.Clean\<close> and \<open>filepath.Join\<close>: the stack holds the path's elements, the last one first.\<close>

definition cleanStep :: "bool \<Rightarrow> string \<Rightarrow> string list \<Rightarrow> string list" where
  "cleanStep rooted elem stack =
     (if elem = [] \<or> elem = ''.'' then stack
      else if elem \<noteq> ''..'' then elem # stack
      else case stack of
             [] \<Rightarrow> if rooted then [] else [''..'']
           | prev # rest \<Rightarrow> if prev = ''..'' then ''..'' # stack else rest)"

definition filepathClean :: "string \<Rightarrow> string" where
  "filepathClean p =
     (let rooted = (p \<noteq> [] \<and> hd p = CHR ''/'');
          elems = rev (fold (cleanStep rooted) (go_Split (CHR ''/'') p) []);
          path = go_Join elems ''/''
      in if rooted then ''/'' @ path else if path = [] then ''.'' else path)"

definition filepathJoin :: "string list \<Rightarrow> string" where
  "filepathJoin elems =
     (case filter (\<lambda>e. e \<noteq> []) elems of [] \<Rightarrow> [] | es \<Rightarrow> filepathClean (go_Join es ''/''))"

text \<open>The parts of a \<open>tls.Config\<close> that the program's options change, and the options.\<close>

record tls_config =
  tls_NextProtos :: "string list"
  tls_CertWatcher :: bool

datatype tls_opt = DisableHTTP2 | UseCertWatcher

fun applyTLS :: "tls_opt \<Rightarrow> tls_config \<Rightarrow> tls_config" where
  "applyTLS DisableHTTP2 c = c\<lparr>tls_NextProtos := [''http/1.1'']\<rparr>"
| "applyTLS UseCertWatcher c = c\<lparr>tls_CertWatcher := True\<rparr>"

record metrics_options =
  ms_BindAddress :: string
  ms_SecureServing :: bool
  ms_AuthFilter :: bool
  ms_TLSOpts :: "tls_opt list"

definition metricsServerOptions :: "options \<Rightarrow> metrics_options" where
  "metricsServerOptions opts =
     (let tlsOpts = (if \<not> opt_enableHTTP2 opts then [DisableHTTP2] else []);
          ms = \<lparr>ms_BindAddress = opt_metricsAddr opts, ms_SecureServing = opt_secureMetrics opts, ms_AuthFilter = False,
                ms_TLSOpts = tlsOpts\<rparr>;
          ms = (if opt_secureMetrics opts then ms\<lparr>ms_AuthFilter := True\<rparr> else ms)
      in if opt_metricsCertPath opts \<noteq> [] then ms\<lparr>ms_TLSOpts := ms_TLSOpts ms @ [UseCertWatcher]\<rparr> else ms)"

section \<open>The metrics\<close>

text \<open>
  The metric vectors with their labels, which \<open>init\<close> registers before \<open>main\<close> runs; \<open>MustRegister\<close> panics, here
  \<open>None\<close>, when a name is registered already.
\<close>

definition metricVectors :: "(string \<times> string list) list" where
  "metricVectors =
    [(''agent_forge_vsphere_vm_operations_total'', [''operation'', ''result'']),
     (''agent_forge_iso_operations_total'', [''operation'', ''result'']),
     (''agent_forge_pool_capacity'', [''namespace'', ''pool'', ''state'']),
     (''agent_forge_pool_vm_cpu_cores'', [''namespace'', ''pool'']),
     (''agent_forge_pool_vm_memory_bytes'', [''namespace'', ''pool'']),
     (''agent_forge_pool_vm_disk_bytes'', [''namespace'', ''pool''])]"

fun registerMetrics :: "(string \<times> string list) list \<Rightarrow> (string \<times> string list) list \<Rightarrow> (string \<times> string list) list option" where
  "registerMetrics registry [] = Some registry"
| "registerMetrics registry (v # vs) =
     (if fst v \<in> fst ` set registry then None else registerMetrics (registry @ [v]) vs)"

section \<open>The manager\<close>

record manager_options =
  mg_Metrics :: metrics_options
  mg_HealthProbeBindAddress :: string
  mg_LeaderElection :: bool
  mg_LeaderElectionID :: string

text \<open>
  A controller as it is built: its name, the kind it reconciles, the kinds it owns, the kinds it watches with the function
  that maps an event to requests and the predicate that filters the events (empty for none), and how many objects it
  reconciles at a time.
\<close>

record registration =
  rg_Named :: string
  rg_For :: "string \<times> string"
  rg_Owns :: "string list"
  rg_Watches :: "(string \<times> string \<times> string) list"
  rg_MaxConcurrent :: nat

definition GroupVersion :: "string \<times> string" where
  "GroupVersion = (''agent-forge.containeroo.ch'', ''v1alpha1'')"

text \<open>\<open>addKnownTypes\<close>: the kinds the program adds to the scheme.\<close>

definition knownTypes :: "string list" where
  "knownTypes = [''OpenStackAgent'', ''OpenStackAgentList'', ''OpenStackAgentPool'', ''OpenStackAgentPoolList'',
     ''VsphereAgent'', ''VsphereAgentList'', ''VsphereAgentPool'', ''VsphereAgentPoolList'']"

datatype start_event =
    CertWatcher string string bool
  | LoadConfig bool
  | NewManager manager_options bool
  | GetEventRecorder string
  | IndexField string string bool
  | Complete registration bool
  | AddCertWatcher bool
  | AddHealthzCheck string bool
  | AddReadyzCheck string bool
  | StartManager bool

fun failed :: "start_event \<Rightarrow> bool" where
  "failed (CertWatcher crt key ok) = (\<not> ok)"
| "failed (LoadConfig ok) = (\<not> ok)"
| "failed (NewManager opts ok) = (\<not> ok)"
| "failed (GetEventRecorder n) = False"
| "failed (IndexField kind key ok) = (\<not> ok)"
| "failed (Complete reg ok) = (\<not> ok)"
| "failed (AddCertWatcher ok) = (\<not> ok)"
| "failed (AddHealthzCheck n ok) = (\<not> ok)"
| "failed (AddReadyzCheck n ok) = (\<not> ok)"
| "failed (StartManager ok) = (\<not> ok)"

text \<open>Each operation of the manager answers whether it succeeded.\<close>

type_synonym 'w runtime = "(bool \<Rightarrow> start_event) \<Rightarrow> 'w \<Rightarrow> bool \<times> 'w"
type_synonym 'w step = "(('w, start_event) sys, bool) state"
type_synonym 'w program = "(('w, start_event) sys, nat) state"

definition perform :: "'w runtime \<Rightarrow> (bool \<Rightarrow> start_event) \<Rightarrow> 'w step" where
  "perform R ev = ask (R ev) ev"

text \<open>\<open>if err != nil { os.Exit(1) }\<close>, and \<open>if err != nil { return err }\<close> for a sequence of steps.\<close>

definition orExit :: "'w step \<Rightarrow> 'w program \<Rightarrow> 'w program" where
  "orExit m k = do { ok \<leftarrow> m; if ok then k else ret 1 }"

definition andThen :: "'w step \<Rightarrow> 'w step \<Rightarrow> 'w step" where
  "andThen m k = do { ok \<leftarrow> m; if ok then k else ret False }"

section \<open>Setting up the controllers\<close>

abbreviation poolOwnerFieldIndex :: string where "poolOwnerFieldIndex \<equiv> ''.spec.poolRef.name''"

text \<open>The keys under which the cache files an object.\<close>

definition controlPlaneNamespaceKeys :: "VsphereAgentPool \<Rightarrow> string list" where
  "controlPlaneNamespaceKeys pool =
     (if ps_ControlPlaneNamespace (pool_Spec pool) = [] then [] else [ps_ControlPlaneNamespace (pool_Spec pool)])"

definition infraEnvNameKeys :: "VsphereAgentPool \<Rightarrow> string list" where
  "infraEnvNameKeys pool =
     (if lor_Name (ps_InfraEnvRef (pool_Spec pool)) = [] then [] else [lor_Name (ps_InfraEnvRef (pool_Spec pool))])"

definition poolOwnerKeys :: "VsphereAgent \<Rightarrow> string list" where
  "poolOwnerKeys agent = (if lor_Name (vas_PoolRef (va_Spec agent)) = [] then [] else [lor_Name (vas_PoolRef (va_Spec agent))])"

definition poolController :: registration where
  "poolController = \<lparr>rg_Named = ''vsphereagentpool'', rg_For = (''VsphereAgentPool'', ''vsphereAgentPoolChangePredicate''),
     rg_Owns = [''VsphereAgent''],
     rg_Watches = [(''AgentMachine'', ''requestsForControlPlaneObjectChange'', ''agentMachineChangePredicate''),
       (''Machine'', ''requestsForControlPlaneObjectChange'', ''machineChangePredicate''),
       (''Agent'', ''requestsForAgentChange'', ''agentChangePredicate''),
       (''InfraEnv'', ''requestsForInfraEnvChange'', [])],
     rg_MaxConcurrent = 1\<rparr>"

definition agentMachineController :: registration where
  "agentMachineController = \<lparr>rg_Named = ''agentmachine'', rg_For = (''AgentMachine'', []), rg_Owns = [],
     rg_Watches = [(''VsphereAgent'', ''requestsForVsphereAgent'', [])], rg_MaxConcurrent = 1\<rparr>"

definition workerController :: registration where
  "workerController = \<lparr>rg_Named = ''vsphereagent'', rg_For = (''VsphereAgent'', []), rg_Owns = [],
     rg_Watches = [(''VsphereAgentPool'', ''requestsForPool'', [])], rg_MaxConcurrent = 1\<rparr>"

definition osPoolController :: registration where
  "osPoolController = \<lparr>rg_Named = ''openstackagentpool'', rg_For = (''OpenStackAgentPool'', []),
     rg_Owns = [''OpenStackAgent''], rg_Watches = [], rg_MaxConcurrent = 1\<rparr>"

definition osWorkerController :: registration where
  "osWorkerController = \<lparr>rg_Named = ''openstackagent'', rg_For = (''OpenStackAgent'', []), rg_Owns = [],
     rg_Watches = [], rg_MaxConcurrent = 4\<rparr>"

definition setupPool :: "'w runtime \<Rightarrow> 'w step" where
  "setupPool R =
     do { emit (GetEventRecorder ''vsphereagentpool-controller'');
          andThen (perform R (IndexField ''VsphereAgentPool'' controlPlaneNamespaceIndex))
         (andThen (perform R (IndexField ''VsphereAgentPool'' infraEnvNameIndex))
                  (perform R (Complete poolController))) }"

definition setupAgentMachine :: "'w runtime \<Rightarrow> 'w step" where
  "setupAgentMachine R = perform R (Complete agentMachineController)"

definition setupWorker :: "'w runtime \<Rightarrow> 'w step" where
  "setupWorker R =
     do { emit (GetEventRecorder ''vsphereagent-controller'');
          andThen (perform R (IndexField ''VsphereAgent'' poolOwnerFieldIndex))
                  (perform R (Complete workerController)) }"

definition setupOSPool :: "'w runtime \<Rightarrow> 'w step" where
  "setupOSPool R = perform R (Complete osPoolController)"

definition setupOSWorker :: "'w runtime \<Rightarrow> 'w step" where
  "setupOSWorker R = perform R (Complete osWorkerController)"

section \<open>The program\<close>

definition managerOptions :: "options \<Rightarrow> manager_options" where
  "managerOptions opts = \<lparr>mg_Metrics = metricsServerOptions opts, mg_HealthProbeBindAddress = opt_probeAddr opts,
     mg_LeaderElection = opt_enableLeaderElection opts, mg_LeaderElectionID = ''agent-forge-operator.containeroo.ch''\<rparr>"

definition serve :: "'w runtime \<Rightarrow> options \<Rightarrow> 'w program" where
  "serve R opts =
     (let watched = (opt_metricsCertPath opts \<noteq> []);
          certFile = filepathJoin [opt_metricsCertPath opts, opt_metricsCertName opts];
          keyFile = filepathJoin [opt_metricsCertPath opts, opt_metricsCertKey opts]
      in orExit (if watched then perform R (CertWatcher certFile keyFile) else ret True)
        (orExit (perform R LoadConfig)
        (orExit (perform R (NewManager (managerOptions opts)))
        (orExit (setupPool R)
        (orExit (setupAgentMachine R)
        (orExit (setupWorker R)
        (orExit (setupOSPool R)
        (orExit (setupOSWorker R)
        (orExit (if watched then perform R AddCertWatcher else ret True)
        (orExit (perform R (AddHealthzCheck ''healthz''))
        (orExit (perform R (AddReadyzCheck ''readyz''))
        (orExit (perform R StartManager) (ret 0)))))))))))))"

definition main_go :: "lib_flags \<Rightarrow> 'w runtime \<Rightarrow> string list \<Rightarrow> 'w program" where
  "main_go lib R args =
     (case flagParse lib args defaultOptions of
        BadFlag e \<Rightarrow> ret 2
      | HelpRequested \<Rightarrow> ret 0
      | Parsed opts rest \<Rightarrow> serve R opts)"


section \<open>What a start must do\<close>

text \<open>
  The endpoint: HTTPS asks every client for authentication and authorization; HTTP/2 is off unless it is asked for;
  certificates that are given are used.
\<close>

definition hardened :: "options \<Rightarrow> metrics_options \<Rightarrow> bool" where
  "hardened opts m \<longleftrightarrow> ms_BindAddress m = opt_metricsAddr opts
     \<and> ms_SecureServing m = opt_secureMetrics opts
     \<and> (ms_SecureServing m \<longrightarrow> ms_AuthFilter m)
     \<and> (\<not> opt_enableHTTP2 opts \<longrightarrow> (\<forall>c. tls_NextProtos (fold applyTLS (ms_TLSOpts m) c) = [''http/1.1'']))
     \<and> (opt_metricsCertPath opts \<noteq> [] \<longrightarrow> (\<forall>c. tls_CertWatcher (fold applyTLS (ms_TLSOpts m) c)))"

text \<open>
  The manager: all five controllers are there with the indexes that their listings use (\<open>requestsForControlPlaneObjectChange\<close>,
  \<open>requestsForInfraEnvChange\<close> and the AgentMachine controller list pools by them, \<open>requestsForPool\<close> lists workers), and
  the probes and the certificate watcher are installed.
\<close>

definition ready_to_start :: "options \<Rightarrow> start_event list \<Rightarrow> bool" where
  "ready_to_start opts tr \<longleftrightarrow>
     {Complete poolController True, Complete agentMachineController True, Complete workerController True,
      Complete osPoolController True, Complete osWorkerController True} \<subseteq> set tr
     \<and> {IndexField ''VsphereAgentPool'' controlPlaneNamespaceIndex True, IndexField ''VsphereAgentPool'' infraEnvNameIndex True,
        IndexField ''VsphereAgent'' poolOwnerFieldIndex True} \<subseteq> set tr
     \<and> {AddHealthzCheck ''healthz'' True, AddReadyzCheck ''readyz'' True} \<subseteq> set tr
     \<and> (opt_metricsCertPath opts \<noteq> [] \<longrightarrow> AddCertWatcher True \<in> set tr)"

fun start_event_ok :: "options \<Rightarrow> start_event list \<Rightarrow> start_event \<Rightarrow> bool" where
  "start_event_ok opts tr (NewManager m ok) \<longleftrightarrow> hardened opts (mg_Metrics m) \<and> mg_LeaderElection m = opt_enableLeaderElection opts"
| "start_event_ok opts tr (IndexField kind key ok) \<longleftrightarrow> (\<forall>ok'. IndexField kind key ok' \<notin> set tr)"
| "start_event_ok opts tr (StartManager ok) \<longleftrightarrow> ready_to_start opts tr \<and> (\<forall>ok'. StartManager ok' \<notin> set tr)"
| "start_event_ok opts tr _ \<longleftrightarrow> True"

text \<open>
  A run of the program: nothing happens after a failure, every event is as above for the options of the command
  line, and the program exits with 0 exactly when the manager ran and stopped without an error, or when only help was asked for.
\<close>

definition start_ok :: "parse_result \<Rightarrow> start_event list \<Rightarrow> start_event \<Rightarrow> bool" where
  "start_ok p tr e \<longleftrightarrow> (\<forall>e' \<in> set tr. \<not> failed e') \<and> (case p of Parsed opts rest \<Rightarrow> start_event_ok opts tr e | _ \<Rightarrow> False)"

definition exit_ok :: "parse_result \<Rightarrow> nat \<Rightarrow> start_event list \<Rightarrow> bool" where
  "exit_ok p code tr \<longleftrightarrow>
     (case p of
        Parsed opts rest \<Rightarrow> code = (if StartManager True \<in> set tr then 0 else 1) \<and> (code = 1 \<longleftrightarrow> (\<exists>e \<in> set tr. failed e))
      | HelpRequested \<Rightarrow> code = 0 \<and> tr = []
      | BadFlag e \<Rightarrow> code = 2 \<and> tr = [])"

section \<open>Lemmas\<close>

lemma registerMetrics_Some:
  "fst ` set registry \<inter> fst ` set vs = {} \<Longrightarrow> distinct (map fst vs) \<Longrightarrow> registerMetrics registry vs = Some (registry @ vs)"
  by (induction vs arbitrary: registry) auto

text \<open>The program's metrics are registered without a panic next to metrics of the libraries that have other names.\<close>

lemma metrics_registered:
  "fst ` set registry \<inter> fst ` set metricVectors = {} \<Longrightarrow> registerMetrics registry metricVectors = Some (registry @ metricVectors)"
  by (rule registerMetrics_Some) (auto simp: metricVectors_def)

lemma hist_perform:
  assumes "\<And>ok. P tr (ev ok)" and "Q 1 (tr @ [ev False])" and "hist P (tr @ [ev True]) k Q"
  shows "hist P tr (orExit (perform R ev) k) Q"
  unfolding orExit_def perform_def
  by (rule hist_bind, rule hist_ask) (use assms in \<open>auto intro: hist_ret simp: bool.split_sel\<close>)

lemma orExit_andThen: "orExit (andThen m n) k = orExit m (orExit n k)"
  unfolding orExit_def andThen_def ret_def by (auto intro!: arg_cong2 [where f = State_Monad.bind] simp: fun_eq_iff)

lemma orExit_emit: "orExit (State_Monad.bind (emit e) (\<lambda>_. m)) k = State_Monad.bind (emit e) (\<lambda>_. orExit m k)"
  unfolding orExit_def by simp

lemma orExit_skip: "orExit (ret True) k = k"
  by (simp add: orExit_def ret_def)

lemma hist_emit_bind: "P tr e \<Longrightarrow> hist P (tr @ [e]) k Q \<Longrightarrow> hist P tr (State_Monad.bind (emit e) (\<lambda>_. k)) Q"
  by (rule hist_bind, rule hist_emit)

lemmas setup_steps = orExit_andThen orExit_emit setupPool_def setupAgentMachine_def setupWorker_def setupOSPool_def setupOSWorker_def

lemma metrics_hardened: "hardened opts (metricsServerOptions opts)"
  by (simp add: hardened_def metricsServerOptions_def Let_def)

lemma serve_ok:
  assumes "p = Parsed opts rest"
  shows "hist (start_ok p) [] (serve R opts) (exit_ok p)"
  by (cases "opt_metricsCertPath opts = []";
      simp only: serve_def Let_def simp_thms if_True if_False setup_steps orExit_skip;
      intro hist_perform hist_emit_bind hist_ret;
      simp add: assms start_ok_def exit_ok_def ready_to_start_def managerOptions_def metrics_hardened)

section \<open>The properties\<close>

text \<open>C16: A run of the program for any command line and any outcome of the manager's operations. The manager is started at most once, and only
  when all five controllers, the three cache indexes that their listings use, both probes and a configured certificate
  watcher have been installed without an error; no index is registered twice. The metrics endpoint asks for authentication and authorization when it is
  served over HTTPS, and speaks no HTTP/2 unless that was enabled. Nothing is done after a failure, or when the flags are not accepted.
  The exit code is 0 exactly when the manager ran without an error or help was asked for.\<close>

theorem program_starts_complete:
  "hist (start_ok (flagParse lib args defaultOptions)) [] (main_go lib R args) (exit_ok (flagParse lib args defaultOptions))"
proof (cases "flagParse lib args defaultOptions")
  case (Parsed opts rest)
  then show ?thesis using serve_ok [OF refl, of opts rest R] by (simp add: main_go_def)
qed (auto simp: main_go_def exit_ok_def intro!: hist_ret)

lemma flag_assignment:
  assumes "CHR ''='' \<notin> set name" "name \<noteq> []" "hd name \<noteq> CHR ''-''"
  shows "cut_flag (''--'' @ name @ ''='' @ v) = Inr (name, Some v)"
proof -
  have "hd (name @ CHR ''='' # v) = hd name" using assms(2) by simp
  moreover have "hd name \<noteq> CHR ''=''" using assms(1,2) hd_in_set by metis
  moreover have "takeWhile (\<lambda>c. c \<noteq> CHR ''='') (name @ CHR ''='' # v) = name"
    "dropWhile (\<lambda>c. c \<noteq> CHR ''='') (name @ CHR ''='' # v) = CHR ''='' # v"
    using assms(1) by (auto simp: takeWhile_append dropWhile_append)
  ultimately show ?thesis using assms by (auto simp: cut_flag_def Let_def)
qed

lemma ParseBool_showBool [simp]: "ParseBool (showBool b) = Some b"
  by (cases b) (simp_all add: ParseBool_def showBool_def)

text \<open>C39: The command line is read as it is written: the options printed as flags, with any values, are parsed to the same options,
  whatever the defaults were and whatever flags the libraries add.\<close>

theorem flags_roundtrip:
  "flagParse lib (renderFlags opts) opts0 = Parsed opts []"
  using flag_assignment [of "''metrics-bind-address''" "opt_metricsAddr opts"]
    flag_assignment [of "''health-probe-bind-address''" "opt_probeAddr opts"]
    flag_assignment [of "''leader-elect''" "showBool (opt_enableLeaderElection opts)"]
    flag_assignment [of "''metrics-secure''" "showBool (opt_secureMetrics opts)"]
    flag_assignment [of "''metrics-cert-path''" "opt_metricsCertPath opts"]
    flag_assignment [of "''metrics-cert-name''" "opt_metricsCertName opts"]
    flag_assignment [of "''metrics-cert-key''" "opt_metricsCertKey opts"]
    flag_assignment [of "''enable-http2''" "showBool (opt_enableHTTP2 opts)"]
  by (simp add: renderFlags_def programFlags_def)

end
